(* ===== verification/Mingo_Prelude.thy ===== *)
theory Mingo_Prelude
  imports Main "HOL-Library.Sublist"
begin

text \<open>
  What every component of the development shares: the text and integer operations of
  Rust's standard library that the sources call, the state-and-error composition that stands
  for Rust's \<open>?\<close>, and the generic lemmas about them.

  Text (\<open>str\<close>, \<open>String\<close>) is a \<^typ>\<open>string\<close> holding the UTF-8 bytes, so
  \<^term>\<open>length\<close> is Rust's \<open>len()\<close>.  A Rust \<open>i64\<close> is an \<^typ>\<open>int\<close>, and the
  arithmetic on it is written out with the wrap-around of a release build.
\<close>

named_theorems keeps_rules \<open>rules showing that a computation keeps an invariant\<close>
named_theorems run_defs \<open>the composition operators, to unfold a handler into its branches\<close>

section \<open>Characters and text\<close>

abbreviation byte :: "char \<Rightarrow> nat" where
  "byte c \<equiv> of_char c"

definition is_ascii :: "char \<Rightarrow> bool" where
  "is_ascii c \<longleftrightarrow> byte c < 128"

definition is_ascii_lowercase :: "char \<Rightarrow> bool" where
  "is_ascii_lowercase c \<longleftrightarrow> 97 \<le> byte c \<and> byte c \<le> 122"

definition is_ascii_uppercase :: "char \<Rightarrow> bool" where
  "is_ascii_uppercase c \<longleftrightarrow> 65 \<le> byte c \<and> byte c \<le> 90"

definition is_ascii_digit :: "char \<Rightarrow> bool" where
  "is_ascii_digit c \<longleftrightarrow> 48 \<le> byte c \<and> byte c \<le> 57"

definition is_ascii_alphanumeric :: "char \<Rightarrow> bool" where
  "is_ascii_alphanumeric c \<longleftrightarrow>
     is_ascii_lowercase c \<or> is_ascii_uppercase c \<or> is_ascii_digit c"

definition to_ascii_lowercase :: "char \<Rightarrow> char" where
  "to_ascii_lowercase c = (if is_ascii_uppercase c then char_of (byte c + 32) else c)"

lemmas char_class_defs =
  is_ascii_def is_ascii_lowercase_def is_ascii_uppercase_def is_ascii_digit_def
  is_ascii_alphanumeric_def

text \<open>
  \<open>str::to_lowercase\<close> lowers the ASCII letters of an ASCII text.  For a text with a
  character beyond ASCII it consults the Unicode tables, which are the parameter \<open>U\<close>
  (a function on whole texts, since the mapping of a final sigma depends on its context).
\<close>

definition to_lowercase :: "(string \<Rightarrow> string) \<Rightarrow> string \<Rightarrow> string" where
  "to_lowercase U s = (if list_all is_ascii s then map to_ascii_lowercase s else U s)"

definition eq_ignore_ascii_case :: "string \<Rightarrow> string \<Rightarrow> bool" where
  "eq_ignore_ascii_case a b \<longleftrightarrow> map to_ascii_lowercase a = map to_ascii_lowercase b"

text \<open>
  \<open>str::trim\<close> removes leading and trailing characters with the Unicode property
  \<open>White_Space\<close>.  These are 25 code points, of one, two or three bytes in UTF-8;
  \<open>ws_len\<close> is the length of the one a text starts with (0 when it starts with none), and
  \<open>ws_len_rev\<close> the same on the reversed bytes.
\<close>

definition ascii_ws :: "char \<Rightarrow> bool" where
  "ascii_ws c \<longleftrightarrow> (9 \<le> byte c \<and> byte c \<le> 13) \<or> byte c = 32"

definition ws3 :: "nat \<Rightarrow> nat \<Rightarrow> nat \<Rightarrow> bool" where
  "ws3 a b c \<longleftrightarrow>
     (a = 0xE1 \<and> b = 0x9A \<and> c = 0x80) \<or>
     (a = 0xE2 \<and> b = 0x80 \<and> (0x80 \<le> c \<and> c \<le> 0x8A \<or> c = 0xA8 \<or> c = 0xA9 \<or> c = 0xAF)) \<or>
     (a = 0xE2 \<and> b = 0x81 \<and> c = 0x9F) \<or>
     (a = 0xE3 \<and> b = 0x80 \<and> c = 0x80)"

fun ws_len :: "string \<Rightarrow> nat" where
  "ws_len [] = 0"
| "ws_len (a # r) =
     (if ascii_ws a then 1
      else (case r of
         [] \<Rightarrow> 0
       | b # r' \<Rightarrow>
           if byte a = 0xC2 \<and> (byte b = 0x85 \<or> byte b = 0xA0) then 2
           else (case r' of [] \<Rightarrow> 0
                 | c # _ \<Rightarrow> if ws3 (byte a) (byte b) (byte c) then 3 else 0)))"

fun ws_len_rev :: "string \<Rightarrow> nat" where
  "ws_len_rev [] = 0"
| "ws_len_rev (a # r) =
     (if ascii_ws a then 1
      else (case r of
         [] \<Rightarrow> 0
       | b # r' \<Rightarrow>
           if byte b = 0xC2 \<and> (byte a = 0x85 \<or> byte a = 0xA0) then 2
           else (case r' of [] \<Rightarrow> 0
                 | c # _ \<Rightarrow> if ws3 (byte c) (byte b) (byte a) then 3 else 0)))"

function trim_with :: "(string \<Rightarrow> nat) \<Rightarrow> string \<Rightarrow> string" where
  "trim_with w [] = []"
| "trim_with w (c # cs) =
     (case w (c # cs) of 0 \<Rightarrow> c # cs | Suc n \<Rightarrow> trim_with w (drop n cs))"
  by pat_completeness auto
termination
  by (relation "measure (\<lambda>(w, s). length s)") auto

definition trim_start :: "string \<Rightarrow> string" where
  "trim_start s = trim_with ws_len s"

definition trim_end :: "string \<Rightarrow> string" where
  "trim_end s = rev (trim_with ws_len_rev (rev s))"

definition trim :: "string \<Rightarrow> string" where
  "trim s = trim_end (trim_start s)"

definition strip_prefix :: "string \<Rightarrow> string \<Rightarrow> string option" where
  "strip_prefix p s = (if prefix p s then Some (drop (length p) s) else None)"

definition trim_end_matches :: "char \<Rightarrow> string \<Rightarrow> string" where
  "trim_end_matches c s = rev (dropWhile (\<lambda>x. x = c) (rev s))"

definition split_once :: "char \<Rightarrow> string \<Rightarrow> (string \<times> string) option" where
  "split_once c s =
     (case dropWhile (\<lambda>x. x \<noteq> c) s of
        [] \<Rightarrow> None
      | _ # r \<Rightarrow> Some (takeWhile (\<lambda>x. x \<noteq> c) s, r))"

definition rsplit_once :: "char \<Rightarrow> string \<Rightarrow> (string \<times> string) option" where
  "rsplit_once c s = (case split_once c (rev s) of None \<Rightarrow> None | Some (b, a) \<Rightarrow> Some (rev a, rev b))"

text \<open>\<open>str::split_once\<close> on a string.\<close>

fun split_once_text :: "string \<Rightarrow> string \<Rightarrow> (string \<times> string) option" where
  "split_once_text pat [] = (if pat = [] then Some ([], []) else None)"
| "split_once_text pat (x # xs) =
     (if prefix pat (x # xs) then Some ([], drop (length pat) (x # xs))
      else map_option (\<lambda>(a, b). (x # a, b)) (split_once_text pat xs))"

text \<open>\<open>str::split\<close> on one character: always at least one part.\<close>

fun split_on :: "char \<Rightarrow> string \<Rightarrow> string list" where
  "split_on c [] = [[]]"
| "split_on c (x # xs) =
     (if x = c then [] # split_on c xs
      else (case split_on c xs of [] \<Rightarrow> [[x]] | p # ps \<Rightarrow> (x # p) # ps))"

definition nth_opt :: "'a list \<Rightarrow> nat \<Rightarrow> 'a option" where
  "nth_opt xs i = (if i < length xs then Some (xs ! i) else None)"

fun contains_text :: "string \<Rightarrow> string \<Rightarrow> bool" where
  "contains_text pat [] = (pat = [])"
| "contains_text pat (x # xs) = (prefix pat (x # xs) \<or> contains_text pat xs)"

text \<open>\<open>format!("{}")\<close> of an integer.\<close>

fun nat_digits :: "nat \<Rightarrow> string" where
  "nat_digits n = (if n < 10 then [char_of (48 + n)]
                   else nat_digits (n div 10) @ [char_of (48 + n mod 10)])"

declare nat_digits.simps [simp del]

definition show_int :: "int \<Rightarrow> string" where
  "show_int i = (if i < 0 then ''-'' @ nat_digits (nat (- i)) else nat_digits (nat i))"

section \<open>64-bit integers\<close>

definition wrap64 :: "int \<Rightarrow> int" where
  "wrap64 x = (x + 2 ^ 63) mod 2 ^ 64 - 2 ^ 63"

definition i64_add :: "int \<Rightarrow> int \<Rightarrow> int" where
  "i64_add a b = wrap64 (a + b)"

definition i64_sub :: "int \<Rightarrow> int \<Rightarrow> int" where
  "i64_sub a b = wrap64 (a - b)"

text \<open>Division of \<open>i64\<close>, which truncates toward zero.\<close>

definition i64_quot :: "int \<Rightarrow> int \<Rightarrow> int" where
  "i64_quot a b = sgn a * sgn b * (\<bar>a\<bar> div \<bar>b\<bar>)"

definition in_i64 :: "int \<Rightarrow> bool" where
  "in_i64 x \<longleftrightarrow> - (2 ^ 63) \<le> x \<and> x < 2 ^ 63"

lemma wrap64_id [simp]: "in_i64 x \<Longrightarrow> wrap64 x = x"
  by (simp add: wrap64_def in_i64_def)

lemma in_i64_wrap64 [simp]: "in_i64 (wrap64 x)"
proof -
  have "0 \<le> (x + 2 ^ 63) mod 2 ^ 64" "(x + 2 ^ 63) mod 2 ^ 64 < 2 ^ 64" by simp_all
  then show ?thesis by (simp add: wrap64_def in_i64_def)
qed

section \<open>The environment of a process\<close>

type_synonym env = "string \<rightharpoonup> string"

text \<open>\<open>Path::join\<close> with a relative second part.\<close>

definition path_join :: "string \<Rightarrow> string \<Rightarrow> string" where
  "path_join p q = (if p = [] \<or> last p = CHR ''/'' then p @ q else p @ CHR ''/'' # q)"

section \<open>Results, and computations over a state that can fail\<close>

type_synonym ('e, 'a) res = "'e + 'a"

definition res_bind :: "('e, 'a) res \<Rightarrow> ('a \<Rightarrow> ('e, 'b) res) \<Rightarrow> ('e, 'b) res" where
  "res_bind r f = (case r of Inl e \<Rightarrow> Inl e | Inr x \<Rightarrow> f x)"

definition ok_or :: "'a option \<Rightarrow> 'e \<Rightarrow> ('e, 'a) res" where
  "ok_or x e = (case x of None \<Rightarrow> Inl e | Some y \<Rightarrow> Inr y)"

definition map_err :: "('e \<Rightarrow> 'f) \<Rightarrow> ('e, 'a) res \<Rightarrow> ('f, 'a) res" where
  "map_err f r = (case r of Inl e \<Rightarrow> Inl (f e) | Inr x \<Rightarrow> Inr x)"

definition bail_if :: "bool \<Rightarrow> 'e \<Rightarrow> ('e, unit) res" where
  "bail_if b e = (if b then Inl e else Inr ())"

text \<open>A \<open>for\<close> loop over an accumulator whose body may leave with an error.\<close>

fun res_fold :: "('s \<Rightarrow> 'a \<Rightarrow> ('e, 's) res) \<Rightarrow> 's \<Rightarrow> 'a list \<Rightarrow> ('e, 's) res" where
  "res_fold f s [] = Inr s"
| "res_fold f s (x # xs) = res_bind (f s x) (\<lambda>s'. res_fold f s' xs)"

text \<open>
  A handler takes the state and returns a result and the state after it.  The changes made
  before an error stay made, as the statements before a Rust \<open>?\<close> do.
\<close>

type_synonym ('s, 'e, 'a) run = "'s \<Rightarrow> ('e, 'a) res \<times> 's"

definition done_with :: "'a \<Rightarrow> ('s, 'e, 'a) run" where
  "done_with x s = (Inr x, s)"

definition fail_with :: "'e \<Rightarrow> ('s, 'e, 'a) run" where
  "fail_with e s = (Inl e, s)"

definition lift :: "('e, 'a) res \<Rightarrow> ('s, 'e, 'a) run" where
  "lift r s = (r, s)"

definition and_then :: "('s, 'e, 'a) run \<Rightarrow> ('a \<Rightarrow> ('s, 'e, 'b) run) \<Rightarrow> ('s, 'e, 'b) run" where
  "and_then m f s = (case m s of (Inl e, s') \<Rightarrow> (Inl e, s') | (Inr x, s') \<Rightarrow> f x s')"

definition attempt :: "('s, 'e, 'a) run \<Rightarrow> (('e, 'a) res \<Rightarrow> ('s, 'f, 'b) run) \<Rightarrow> ('s, 'f, 'b) run"
  where
  "attempt m f s = (case m s of (r, s') \<Rightarrow> f r s')"

declare done_with_def [run_defs] fail_with_def [run_defs] lift_def [run_defs]
  and_then_def [run_defs] attempt_def [run_defs]

lemma and_then_lift: "and_then (lift r) f s = (case r of Inl e \<Rightarrow> (Inl e, s) | Inr x \<Rightarrow> f x s)"
  by (simp add: and_then_def lift_def split: sum.split)

definition keeps :: "('s \<Rightarrow> bool) \<Rightarrow> ('s, 'e, 'a) run \<Rightarrow> bool" where
  "keeps I m \<longleftrightarrow> (\<forall>s. I s \<longrightarrow> I (snd (m s)))"

lemma keepsI [intro?]: "(\<And>s. I s \<Longrightarrow> I (snd (m s))) \<Longrightarrow> keeps I m"
  by (simp add: keeps_def)

lemma keepsD: "keeps I m \<Longrightarrow> I s \<Longrightarrow> I (snd (m s))"
  by (simp add: keeps_def)

lemma keeps_done [keeps_rules]: "keeps I (done_with x)"
  by (simp add: keeps_def done_with_def)

lemma keeps_fail [keeps_rules]: "keeps I (fail_with e)"
  by (simp add: keeps_def fail_with_def)

lemma keeps_lift [keeps_rules]: "keeps I (lift r)"
  by (simp add: keeps_def lift_def)

lemma keeps_and_then [keeps_rules]:
  "keeps I m \<Longrightarrow> (\<And>x. keeps I (f x)) \<Longrightarrow> keeps I (and_then m f)"
  unfolding keeps_def and_then_def
  by (force split: prod.splits sum.splits)

lemma keeps_attempt [keeps_rules]:
  "keeps I m \<Longrightarrow> (\<And>r. keeps I (f r)) \<Longrightarrow> keeps I (attempt m f)"
  unfolding keeps_def attempt_def
  by (force split: prod.splits)

lemma keeps_if [keeps_rules]:
  "(b \<Longrightarrow> keeps I m) \<Longrightarrow> (\<not> b \<Longrightarrow> keeps I m') \<Longrightarrow> keeps I (if b then m else m')"
  by simp

lemma keeps_option [keeps_rules]:
  "(x = None \<Longrightarrow> keeps I m) \<Longrightarrow> (\<And>y. x = Some y \<Longrightarrow> keeps I (f y)) \<Longrightarrow>
   keeps I (case x of None \<Rightarrow> m | Some y \<Rightarrow> f y)"
  by (cases x) auto

lemma keeps_sum [keeps_rules]:
  "(\<And>e. x = Inl e \<Longrightarrow> keeps I (g e)) \<Longrightarrow> (\<And>y. x = Inr y \<Longrightarrow> keeps I (f y)) \<Longrightarrow>
   keeps I (case x of Inl e \<Rightarrow> g e | Inr y \<Rightarrow> f y)"
  by (cases x) auto

lemma keeps_prod [keeps_rules]:
  "(\<And>a b. x = (a, b) \<Longrightarrow> keeps I (f a b)) \<Longrightarrow> keeps I (case x of (a, b) \<Rightarrow> f a b)"
  by (cases x) auto

lemma and_then_Inr:
  "and_then m f s = (Inr y, s') \<longleftrightarrow> (\<exists>x s1. m s = (Inr x, s1) \<and> f x s1 = (Inr y, s'))"
  by (auto simp: and_then_def split: prod.splits sum.splits)

lemma lift_Inr [simp]: "lift r s = (Inr y, s') \<longleftrightarrow> r = Inr y \<and> s' = s"
  by (auto simp: lift_def)

lemma done_with_Inr [simp]: "done_with x s = (Inr y, s') \<longleftrightarrow> x = y \<and> s' = s"
  by (auto simp: done_with_def)

lemma fail_with_Inr [simp]: "fail_with e s \<noteq> (Inr y, s')"
  by (auto simp: fail_with_def)

lemma ok_or_Inr [simp]: "ok_or x e = Inr y \<longleftrightarrow> x = Some y"
  by (cases x) (auto simp: ok_or_def)

lemma map_err_Inr [simp]: "map_err f r = Inr y \<longleftrightarrow> r = Inr y"
  by (cases r) (auto simp: map_err_def)

lemma bail_if_Inr [simp]: "bail_if b e = Inr u \<longleftrightarrow> \<not> b"
  by (simp add: bail_if_def)

lemma res_bind_Inr: "res_bind r f = Inr y \<longleftrightarrow> (\<exists>x. r = Inr x \<and> f x = Inr y)"
  by (auto simp: res_bind_def split: sum.splits)

text \<open>The loops that check each element and that no key comes twice.\<close>

lemma res_fold_distinct:
  assumes step: "\<And>seen x r. f seen x = Inr r \<longleftrightarrow> P x \<and> key x \<notin> set seen \<and> r = key x # seen"
  shows "res_fold f seen xs = Inr r \<longleftrightarrow>
    (\<forall>x\<in>set xs. P x \<and> key x \<notin> set seen) \<and> distinct (map key xs) \<and> r = rev (map key xs) @ seen"
proof (induction xs arbitrary: seen)
  case (Cons x xs)
  show ?case unfolding res_fold.simps res_bind_Inr step
    by (auto simp: Cons image_iff)
qed auto

lemma res_fold_count:
  assumes step: "\<And>n x r. f n x = Inr r \<longleftrightarrow> P x \<and> r = n + 1"
  shows "res_fold f n xs = Inr r \<longleftrightarrow> (\<forall>x\<in>set xs. P x) \<and> r = n + length xs"
  by (induction xs arbitrary: n) (auto simp: res_bind_Inr step)

section \<open>Reachable states and invariants\<close>

text \<open>
  The states a system gets into when operations run one after the other, each in a state
  where it is admissible.
\<close>

inductive reaches :: "('s \<Rightarrow> bool) \<Rightarrow> ('o \<Rightarrow> 's \<Rightarrow> bool) \<Rightarrow> ('o \<Rightarrow> 's \<Rightarrow> 's) \<Rightarrow> 's \<Rightarrow> bool"
  for init :: "'s \<Rightarrow> bool" and ok :: "'o \<Rightarrow> 's \<Rightarrow> bool" and exec :: "'o \<Rightarrow> 's \<Rightarrow> 's"
where
  reaches_init: "init s \<Longrightarrow> reaches init ok exec s"
| reaches_step: "reaches init ok exec s \<Longrightarrow> ok op s \<Longrightarrow> reaches init ok exec (exec op s)"

text \<open>The contract of an inductive invariant: it holds at the start and every admissible
  operation keeps it.\<close>

locale invariant_system =
  fixes init :: "'s \<Rightarrow> bool"
    and ok :: "'o \<Rightarrow> 's \<Rightarrow> bool"
    and exec :: "'o \<Rightarrow> 's \<Rightarrow> 's"
    and inv :: "'s \<Rightarrow> bool"
  assumes init_inv: "init s \<Longrightarrow> inv s"
    and step_inv: "inv s \<Longrightarrow> ok op s \<Longrightarrow> inv (exec op s)"
begin

lemma reaches_inv: "reaches init ok exec s \<Longrightarrow> inv s"
  by (induction rule: reaches.induct) (auto intro: init_inv step_inv)

lemma reaches_from_inv: "reaches (\<lambda>t. t = s) ok exec t \<Longrightarrow> inv s \<Longrightarrow> inv t"
  by (induction rule: reaches.induct) (auto intro: step_inv)

end

text \<open>The contract of a refinement: every step acts on the abstraction as the specification does.\<close>

locale simulation = invariant_system init ok exec inv
  for init :: "'s \<Rightarrow> bool" and ok :: "'o \<Rightarrow> 's \<Rightarrow> bool" and exec :: "'o \<Rightarrow> 's \<Rightarrow> 's" and inv :: "'s \<Rightarrow> bool" +
  fixes abs :: "'s \<Rightarrow> 'a"
    and step :: "'o \<Rightarrow> 'a \<Rightarrow> 'a"
  assumes sim: "inv s \<Longrightarrow> ok op s \<Longrightarrow> abs (exec op s) = step op (abs s)"
begin

lemma reaches_abs:
  "reaches init ok exec s \<Longrightarrow> reaches (\<lambda>a. \<exists>s. init s \<and> a = abs s) (\<lambda>_ _. True) step (abs s)"
proof (induction rule: reaches.induct)
  case (reaches_init s)
  then show ?case by (blast intro: reaches.reaches_init)
next
  case (reaches_step s op)
  then have "abs (exec op s) = step op (abs s)" using reaches_inv sim by blast
  then show ?case using reaches_step.IH by (simp add: reaches.reaches_step)
qed

end

section \<open>Generic lemmas\<close>

lemma find_Some_set: "find P xs = Some x \<Longrightarrow> x \<in> set xs \<and> P x"
  by (induction xs) (auto split: if_splits)

lemma find_None_iff2: "find P xs = None \<longleftrightarrow> (\<forall>x \<in> set xs. \<not> P x)"
  by (induction xs) auto

lemma find_append_None: "find P xs = None \<Longrightarrow> find P (xs @ ys) = find P ys"
  by (induction xs) (auto split: if_splits)

lemma find_unique:
  assumes "distinct (map f xs)" and "x \<in> set xs" and "f x = k"
  shows "find (\<lambda>y. f y = k) xs = Some x"
  using assms by (induction xs) auto

lemma split_once_None: "split_once c s = None \<longleftrightarrow> c \<notin> set s"
proof -
  have "split_once c s = None \<longleftrightarrow> dropWhile (\<lambda>x. x \<noteq> c) s = []"
    by (cases "dropWhile (\<lambda>x. x \<noteq> c) s") (simp_all add: split_once_def del: dropWhile_eq_Nil_conv)
  then show ?thesis by (auto simp: dropWhile_eq_Nil_conv)
qed

lemma split_once_Some: "split_once c s = Some (a, b) \<longleftrightarrow> s = a @ c # b \<and> c \<notin> set a"
proof
  assume *: "split_once c s = Some (a, b)"
  then obtain x r where d: "dropWhile (\<lambda>x. x \<noteq> c) s = x # r" and ab: "a = takeWhile (\<lambda>x. x \<noteq> c) s" "b = r"
    by (auto simp: split_once_def split: list.splits)
  from d have "x = c" by (metis (full_types) hd_dropWhile list.distinct(1) list.sel(1))
  moreover have "s = takeWhile (\<lambda>x. x \<noteq> c) s @ x # r" using d by (metis takeWhile_dropWhile_id)
  moreover have "c \<notin> set (takeWhile (\<lambda>x. x \<noteq> c) s)" by (auto dest: set_takeWhileD)
  ultimately show "s = a @ c # b \<and> c \<notin> set a" using ab by simp
next
  assume *: "s = a @ c # b \<and> c \<notin> set a"
  then have "\<forall>x\<in>set a. x \<noteq> c" by auto
  then have "dropWhile (\<lambda>x. x \<noteq> c) s = c # b" and "takeWhile (\<lambda>x. x \<noteq> c) s = a"
    using * by (simp_all add: dropWhile_append2 takeWhile_append2)
  then show "split_once c s = Some (a, b)" by (simp add: split_once_def)
qed

lemma split_on_not_Nil [simp]: "split_on c s \<noteq> []"
  by (induction s) (auto split: list.splits)

lemma split_on_no_sep: "c \<notin> set s \<Longrightarrow> split_on c s = [s]"
  by (induction s) auto

lemma split_on_append: "c \<notin> set a \<Longrightarrow> split_on c (a @ c # b) = a # split_on c b"
  by (induction a) auto

lemma strip_prefix_Some: "strip_prefix p s = Some r \<longleftrightarrow> s = p @ r"
  by (auto simp: strip_prefix_def prefix_def)

end
