(* ===== verification/Idp_Store.thy ===== *)
theory Idp_Store
  imports Mingo_Prelude "HOL-Library.List_Lexorder" "HOL-Library.Char_ord"
    "HOL-Library.Product_Lexorder"
begin

text \<open>
  The account and session store of the identity provider (\<open>mingo-idp/src/store.rs\<close>): its
  five SQLite tables, and every operation of \<open>impl Store\<close> on them.

  A table is a list of rows in insertion order where several columns are unique or the order
  matters (\<open>accounts\<close>, \<open>agent_identities\<close>), and a map from its primary key where only
  that key matters (\<open>sessions\<close>, \<open>poster_pending\<close>, \<open>poster_warrants\<close>).  A constraint of
  the schema that a statement would break is an error value, as \<open>rusqlite\<close> reports it; a
  failing disk is not modelled.  Every operation holds the connection's mutex from its first
  statement to its last, so one operation is one atomic step.  The clock and the random UUIDs
  are arguments.
\<close>

section \<open>Rows and tables\<close>

record account =
  acc_id :: int
  external_email :: string
  handle :: "string option"
  identity_mode :: "string option"

record account_row = account +
  acc_created_at :: int

record session_row =
  sess_account :: int
  sess_csrf :: string
  sess_created_at :: int

record agent_identity =
  agent_name :: string
  agent_account :: int
  agent_created_at :: int
  agent_revoked_at :: "int option"

record pending_row =
  pr_user_email :: string
  pr_code :: string
  pr_verification_uri :: "string option"
  pr_expires_at :: "int option"
  pr_device_seed :: "string option"
  pr_created_at :: int

record poster_pending =
  pp_user_email :: string
  pp_code :: string
  pp_verification_uri :: "string option"
  pp_expires_at :: int
  pp_device_seed :: "string option"

record poster_warrant =
  pw_user_email :: string
  pw_warrant :: string
  pw_audience :: string
  pw_expires_at :: int
  pw_device_seed :: "string option"
  pw_device_cert :: "string option"
  pw_holder :: "string option"
  pw_idp :: "string option"
  pw_access_mint :: "string option"

record poster_warrant_row = poster_warrant +
  pw_created_at :: int

text \<open>\<open>accounts_seq\<close> is the \<open>AUTOINCREMENT\<close> counter of the accounts table.\<close>

record store =
  accounts :: "account_row list"
  accounts_seq :: int
  sessions :: "string \<rightharpoonup> session_row"
  agent_identities :: "agent_identity list"
  pendings :: "int \<rightharpoonup> pending_row"
  warrants :: "int \<rightharpoonup> poster_warrant_row"

datatype db_error =
    UniqueViolation string
  | QueryReturnedNoRows

type_synonym 'a db = "(store, db_error, 'a) run"

definition SESSION_TTL_SECS :: int where
  "SESSION_TTL_SECS = 30 * 24 * 60 * 60"

definition is_active :: "agent_identity \<Rightarrow> bool" where
  "is_active g \<longleftrightarrow> agent_revoked_at g = None"

text \<open>\<open>Store::open\<close> on a new file and \<open>open_in_memory\<close> both start from the empty schema.\<close>

definition empty_store :: store where
  "empty_store = \<lparr>accounts = [], accounts_seq = 0, sessions = (\<lambda>_. None),
     agent_identities = [], pendings = (\<lambda>_. None), warrants = (\<lambda>_. None)\<rparr>"

definition account_from_row :: "account_row \<Rightarrow> account" where
  "account_from_row r = \<lparr>acc_id = acc_id r, external_email = external_email r,
     handle = handle r, identity_mode = identity_mode r\<rparr>"

definition row_by_email :: "string \<Rightarrow> store \<Rightarrow> account_row option" where
  "row_by_email e st = find (\<lambda>r. external_email r = e) (accounts st)"

definition row_by_id :: "int \<Rightarrow> store \<Rightarrow> account_row option" where
  "row_by_id i st = find (\<lambda>r. acc_id r = i) (accounts st)"

definition row_by_handle :: "string \<Rightarrow> store \<Rightarrow> account_row option" where
  "row_by_handle h st = find (\<lambda>r. handle r = Some h) (accounts st)"

definition agent_by_name :: "string \<Rightarrow> store \<Rightarrow> agent_identity option" where
  "agent_by_name n st = find (\<lambda>g. agent_name g = n) (agent_identities st)"

section \<open>Accounts\<close>

text \<open>\<open>INSERT OR IGNORE INTO accounts\<close>: a row whose email is there is left alone, but the id
  that SQLite has drawn for the ignored row is used up, as the counter is written back.\<close>

definition insert_account :: "string \<Rightarrow> int \<Rightarrow> store \<Rightarrow> store" where
  "insert_account e now st =
     (case row_by_email e st of
        Some _ \<Rightarrow> st\<lparr>accounts_seq := accounts_seq st + 1\<rparr>
      | None \<Rightarrow>
          st\<lparr>accounts := accounts st @
                [\<lparr>acc_id = accounts_seq st + 1, external_email = e, handle = None,
                  identity_mode = None, acc_created_at = now\<rparr>],
             accounts_seq := accounts_seq st + 1\<rparr>)"

definition find_or_create_account :: "(string \<Rightarrow> string) \<Rightarrow> string \<Rightarrow> int \<Rightarrow> account db" where
  "find_or_create_account U external now st =
     (let email = to_lowercase U external;
          st' = insert_account email now st
      in case row_by_email email st' of
           None \<Rightarrow> (Inl QueryReturnedNoRows, st')
         | Some r \<Rightarrow> (Inr (account_from_row r), st'))"

definition get_account :: "int \<Rightarrow> account option db" where
  "get_account i st = (Inr (map_option account_from_row (row_by_id i st)), st)"

definition set_identity_mode :: "int \<Rightarrow> string \<Rightarrow> unit db" where
  "set_identity_mode i mode st =
     (Inr (), st\<lparr>accounts := map (\<lambda>r. if acc_id r = i then r\<lparr>identity_mode := Some mode\<rparr> else r)
                                 (accounts st)\<rparr>)"

definition account_id_for_handle :: "(string \<Rightarrow> string) \<Rightarrow> string \<Rightarrow> int option db" where
  "account_id_for_handle U h st = (Inr (map_option acc_id (row_by_handle (to_lowercase U h) st)), st)"

text \<open>\<open>UPDATE accounts SET handle = ?1 WHERE id = ?2\<close>, under the \<open>UNIQUE\<close> constraint.\<close>

definition update_handle :: "int \<Rightarrow> string \<Rightarrow> unit db" where
  "update_handle i h st =
     (if (\<exists>r \<in> set (accounts st). acc_id r = i) \<and>
         (\<exists>r \<in> set (accounts st). handle r = Some h \<and> acc_id r \<noteq> i)
      then (Inl (UniqueViolation ''accounts.handle''), st)
      else (Inr (), st\<lparr>accounts := map (\<lambda>r. if acc_id r = i then r\<lparr>handle := Some h\<rparr> else r)
                                       (accounts st)\<rparr>))"

definition set_handle :: "(string \<Rightarrow> string) \<Rightarrow> int \<Rightarrow> string \<Rightarrow> bool db" where
  "set_handle U i raw st =
     (let h = to_lowercase U raw in
      case agent_by_name h st of
        Some _ \<Rightarrow> (Inr False, st)
      | None \<Rightarrow>
         (case row_by_handle h st of
            Some r \<Rightarrow> (Inr (acc_id r = i), st)
          | None \<Rightarrow> and_then (update_handle i h) (\<lambda>_. done_with True) st))"

definition delete_account :: "(string \<Rightarrow> string) \<Rightarrow> string \<Rightarrow> nat db" where
  "delete_account U external st =
     (let email = to_lowercase U external;
          st' = (case row_by_email email st of
                   Some r \<Rightarrow> st\<lparr>sessions := (\<lambda>s. case sessions st s of None \<Rightarrow> None
                               | Some x \<Rightarrow> if sess_account x = acc_id r then None else Some x)\<rparr>
                 | None \<Rightarrow> st)
      in (Inr (length (filter (\<lambda>r. external_email r = email) (accounts st'))),
          st'\<lparr>accounts := filter (\<lambda>r. external_email r \<noteq> email) (accounts st')\<rparr>))"

section \<open>Sessions\<close>

definition create_session :: "int \<Rightarrow> string \<Rightarrow> string \<Rightarrow> int \<Rightarrow> (string \<times> string) db" where
  "create_session i sid csrf now st =
     (case sessions st sid of
        Some _ \<Rightarrow> (Inl (UniqueViolation ''sessions.id''), st)
      | None \<Rightarrow> (Inr (sid, csrf),
          st\<lparr>sessions := (sessions st)(sid \<mapsto>
               \<lparr>sess_account = i, sess_csrf = csrf, sess_created_at = now\<rparr>)\<rparr>))"

definition delete_session :: "string \<Rightarrow> unit db" where
  "delete_session sid st = (Inr (), st\<lparr>sessions := (sessions st)(sid := None)\<rparr>)"

definition delete_account_sessions :: "int \<Rightarrow> unit db" where
  "delete_account_sessions i st =
     (Inr (), st\<lparr>sessions := (\<lambda>s. case sessions st s of None \<Rightarrow> None
                  | Some x \<Rightarrow> if sess_account x = i then None else Some x)\<rparr>)"

definition account_for_session :: "string \<Rightarrow> int \<Rightarrow> int option db" where
  "account_for_session sid now st =
     (case sessions st sid of
        None \<Rightarrow> (Inr None, st)
      | Some x \<Rightarrow>
          if i64_sub now (sess_created_at x) \<le> SESSION_TTL_SECS
          then (Inr (Some (sess_account x)), st)
          else and_then (delete_session sid) (\<lambda>_. done_with None) st)"

definition session_csrf :: "string \<Rightarrow> string option db" where
  "session_csrf sid st = (Inr (map_option sess_csrf (sessions st sid)), st)"

section \<open>Agent identities\<close>

definition create_agent_identity :: "(string \<Rightarrow> string) \<Rightarrow> int \<Rightarrow> string \<Rightarrow> int \<Rightarrow> bool db" where
  "create_agent_identity U i raw now st =
     (let n = to_lowercase U raw in
      case row_by_handle n st of
        Some _ \<Rightarrow> (Inr False, st)
      | None \<Rightarrow>
         (case agent_by_name n st of
            Some _ \<Rightarrow> (Inr False, st)
          | None \<Rightarrow> (Inr True,
              st\<lparr>agent_identities := agent_identities st @
                   [\<lparr>agent_name = n, agent_account = i, agent_created_at = now,
                     agent_revoked_at = None\<rparr>]\<rparr>)))"

definition get_agent_identity :: "(string \<Rightarrow> string) \<Rightarrow> string \<Rightarrow> agent_identity option db" where
  "get_agent_identity U n st = (Inr (agent_by_name (to_lowercase U n) st), st)"

definition list_agent_identities :: "int \<Rightarrow> agent_identity list db" where
  "list_agent_identities i st =
     (Inr (sort_key (\<lambda>g. (agent_created_at g, agent_name g))
             (filter (\<lambda>g. agent_account g = i) (agent_identities st))), st)"

definition count_active_agent_identities :: "int \<Rightarrow> nat db" where
  "count_active_agent_identities i st =
     (Inr (length (filter (\<lambda>g. agent_account g = i \<and> agent_revoked_at g = None)
                          (agent_identities st))), st)"

text \<open>\<open>SET revoked_at = COALESCE(revoked_at, ?1)\<close>.\<close>

definition revoke_agent_identity :: "(string \<Rightarrow> string) \<Rightarrow> string \<Rightarrow> int \<Rightarrow> unit db" where
  "revoke_agent_identity U n now st =
     (Inr (), st\<lparr>agent_identities :=
        map (\<lambda>g. if agent_name g = to_lowercase U n
                 then g\<lparr>agent_revoked_at :=
                        Some (case agent_revoked_at g of None \<Rightarrow> now | Some t \<Rightarrow> t)\<rparr>
                 else g)
            (agent_identities st)\<rparr>)"

section \<open>The poster's pending requests and warrants\<close>

definition set_poster_pending ::
  "int \<Rightarrow> string \<Rightarrow> string \<Rightarrow> string \<Rightarrow> int \<Rightarrow> string \<Rightarrow> int \<Rightarrow> unit db" where
  "set_poster_pending i user_email code uri expires_at seed now st =
     (Inr (), st\<lparr>pendings := (pendings st)(i \<mapsto>
        \<lparr>pr_user_email = user_email, pr_code = code, pr_verification_uri = Some uri,
         pr_expires_at = Some expires_at, pr_device_seed = Some seed, pr_created_at = now\<rparr>)\<rparr>)"

definition pending_from_row :: "pending_row \<Rightarrow> poster_pending" where
  "pending_from_row r = \<lparr>pp_user_email = pr_user_email r, pp_code = pr_code r,
     pp_verification_uri = pr_verification_uri r,
     pp_expires_at = (case pr_expires_at r of None \<Rightarrow> 0 | Some t \<Rightarrow> t),
     pp_device_seed = pr_device_seed r\<rparr>"

definition get_poster_pending :: "int \<Rightarrow> poster_pending option db" where
  "get_poster_pending i st = (Inr (map_option pending_from_row (pendings st i)), st)"

definition clear_poster_pending :: "int \<Rightarrow> unit db" where
  "clear_poster_pending i st = (Inr (), st\<lparr>pendings := (pendings st)(i := None)\<rparr>)"

definition set_poster_warrant ::
  "int \<Rightarrow> string \<Rightarrow> string \<Rightarrow> string \<Rightarrow> int \<Rightarrow> string \<Rightarrow> string \<Rightarrow> string \<Rightarrow> string \<Rightarrow>
   string option \<Rightarrow> int \<Rightarrow> unit db" where
  "set_poster_warrant i user_email warrant audience expires_at seed cert hold idp mint now st =
     (Inr (), st\<lparr>warrants := (warrants st)(i \<mapsto>
        \<lparr>pw_user_email = user_email, pw_warrant = warrant, pw_audience = audience,
         pw_expires_at = expires_at, pw_device_seed = Some seed, pw_device_cert = Some cert,
         pw_holder = Some hold, pw_idp = Some idp, pw_access_mint = mint,
         pw_created_at = now\<rparr>)\<rparr>)"

definition warrant_from_row :: "poster_warrant_row \<Rightarrow> poster_warrant" where
  "warrant_from_row r = poster_warrant.truncate r"

definition get_poster_warrant :: "int \<Rightarrow> poster_warrant option db" where
  "get_poster_warrant i st = (Inr (map_option warrant_from_row (warrants st i)), st)"

definition delete_poster_warrant :: "int \<Rightarrow> unit db" where
  "delete_poster_warrant i st = (Inr (), st\<lparr>warrants := (warrants st)(i := None)\<rparr>)"

lemmas store_op_defs =
  find_or_create_account_def insert_account_def get_account_def set_identity_mode_def
  account_id_for_handle_def update_handle_def set_handle_def delete_account_def
  create_session_def delete_session_def delete_account_sessions_def account_for_session_def
  session_csrf_def create_agent_identity_def get_agent_identity_def list_agent_identities_def
  count_active_agent_identities_def revoke_agent_identity_def set_poster_pending_def
  get_poster_pending_def clear_poster_pending_def set_poster_warrant_def get_poster_warrant_def
  delete_poster_warrant_def

lemmas store_lookup_defs =
  row_by_email_def row_by_id_def row_by_handle_def agent_by_name_def

end
