(* ===== verification/Idp_Store_Inv.thy ===== *)
theory Idp_Store_Inv
  imports Idp_Store
begin

text \<open>
  What the store keeps true: the invariant \<open>wf_store\<close>, that every operation keeps it in any
  interleaving, the functional behaviour of each operation on every branch, and the contract of
  the two per-account tables, stated once as a locale and discharged for each of them.
\<close>

section \<open>The invariant\<close>

definition ids_fresh :: "store \<Rightarrow> bool" where
  "ids_fresh st \<longleftrightarrow> distinct (map acc_id (accounts st)) \<and> 0 \<le> accounts_seq st \<and>
     (\<forall>r \<in> set (accounts st). 0 < acc_id r \<and> acc_id r \<le> accounts_seq st)"

definition emails_unique :: "store \<Rightarrow> bool" where
  "emails_unique st \<longleftrightarrow> distinct (map external_email (accounts st))"

definition handles_unique :: "store \<Rightarrow> bool" where
  "handles_unique st \<longleftrightarrow> (\<forall>a \<in> set (accounts st). \<forall>b \<in> set (accounts st).
     handle a \<noteq> None \<and> handle a = handle b \<longrightarrow> acc_id a = acc_id b)"

definition names_unique :: "store \<Rightarrow> bool" where
  "names_unique st \<longleftrightarrow> distinct (map agent_name (agent_identities st))"

text \<open>Human handles and agent names share one namespace.\<close>

definition namespace_disjoint :: "store \<Rightarrow> bool" where
  "namespace_disjoint st \<longleftrightarrow>
     (\<forall>a \<in> set (accounts st). \<forall>g \<in> set (agent_identities st). handle a \<noteq> Some (agent_name g))"

definition wf_store :: "store \<Rightarrow> bool" where
  "wf_store st \<longleftrightarrow> ids_fresh st \<and> emails_unique st \<and> handles_unique st \<and> names_unique st \<and>
     namespace_disjoint st"

text \<open>Every account id stored anywhere has been handed out by the accounts table.\<close>

definition known_id :: "int \<Rightarrow> store \<Rightarrow> bool" where
  "known_id i st \<longleftrightarrow> 0 < i \<and> i \<le> accounts_seq st"

definition ref_ids :: "store \<Rightarrow> int set" where
  "ref_ids st = sess_account ` ran (sessions st) \<union> agent_account ` set (agent_identities st) \<union>
     dom (pendings st) \<union> dom (warrants st)"

definition refs_known :: "store \<Rightarrow> bool" where
  "refs_known st \<longleftrightarrow> (\<forall>i \<in> ref_ids st. known_id i st)"

lemma handles_unique_iff:
  "handles_unique st \<longleftrightarrow> (\<forall>a \<in> set (accounts st). \<forall>b \<in> set (accounts st). \<forall>h.
     handle a = Some h \<longrightarrow> handle b = Some h \<longrightarrow> acc_id a = acc_id b)"
  unfolding handles_unique_def by (metis not_None_eq)

lemmas wf_defs =
  wf_store_def ids_fresh_def emails_unique_def handles_unique_iff names_unique_def
  namespace_disjoint_def

lemma wf_storeI:
  "ids_fresh st \<Longrightarrow> emails_unique st \<Longrightarrow> handles_unique st \<Longrightarrow> names_unique st \<Longrightarrow>
   namespace_disjoint st \<Longrightarrow> wf_store st"
  by (simp add: wf_store_def)

lemma wf_storeD:
  assumes "wf_store st"
  shows "ids_fresh st" "emails_unique st" "handles_unique st" "names_unique st"
    "namespace_disjoint st"
  using assms by (simp_all add: wf_store_def)

lemma handles_uniqueD:
  "handles_unique st \<Longrightarrow> a \<in> set (accounts st) \<Longrightarrow> b \<in> set (accounts st) \<Longrightarrow>
   handle a = Some h \<Longrightarrow> handle b = Some h \<Longrightarrow> acc_id a = acc_id b"
  unfolding handles_unique_iff by blast

lemma agents_frame [simp]:
  "ids_fresh (st\<lparr>agent_identities := gs\<rparr>) = ids_fresh st"
  "emails_unique (st\<lparr>agent_identities := gs\<rparr>) = emails_unique st"
  "handles_unique (st\<lparr>agent_identities := gs\<rparr>) = handles_unique st"
  by (simp_all add: ids_fresh_def emails_unique_def handles_unique_def)

lemma wf_store_empty [simp]: "wf_store empty_store" "refs_known empty_store"
  by (simp_all add: wf_defs empty_store_def refs_known_def ref_ids_def)

lemma wf_ids_distinct: "wf_store st \<Longrightarrow> distinct (map acc_id (accounts st))"
  by (simp add: wf_defs)

lemma row_by_id_eq:
  "wf_store st \<Longrightarrow> row_by_id i st = Some r \<longleftrightarrow> r \<in> set (accounts st) \<and> acc_id r = i"
  unfolding row_by_id_def
  by (auto dest: find_Some_set wf_ids_distinct intro: find_unique)

lemma row_by_email_eq:
  "wf_store st \<Longrightarrow> row_by_email e st = Some r \<longleftrightarrow> r \<in> set (accounts st) \<and> external_email r = e"
  unfolding row_by_email_def
  by (auto dest: find_Some_set simp: wf_defs intro: find_unique)

lemma row_by_email_None:
  "row_by_email e st = None \<longleftrightarrow> (\<forall>r \<in> set (accounts st). external_email r \<noteq> e)"
  by (simp add: row_by_email_def find_None_iff2)

lemma row_by_handle_None:
  "row_by_handle h st = None \<longleftrightarrow> (\<forall>r \<in> set (accounts st). handle r \<noteq> Some h)"
  by (simp add: row_by_handle_def find_None_iff2)

lemma row_by_handle_SomeD:
  "row_by_handle h st = Some r \<Longrightarrow> r \<in> set (accounts st) \<and> handle r = Some h"
  by (auto simp: row_by_handle_def dest: find_Some_set)

lemma row_by_id_None:
  "row_by_id i st = None \<longleftrightarrow> (\<forall>r \<in> set (accounts st). acc_id r \<noteq> i)"
  by (simp add: row_by_id_def find_None_iff2)

lemma agent_by_name_None:
  "agent_by_name n st = None \<longleftrightarrow> (\<forall>g \<in> set (agent_identities st). agent_name g \<noteq> n)"
  by (simp add: agent_by_name_def find_None_iff2)

lemma agent_by_name_SomeD:
  "agent_by_name n st = Some g \<Longrightarrow> g \<in> set (agent_identities st) \<and> agent_name g = n"
  by (auto simp: agent_by_name_def dest: find_Some_set)

lemma same_row: "wf_store st \<Longrightarrow> a \<in> set (accounts st) \<Longrightarrow> b \<in> set (accounts st) \<Longrightarrow>
  acc_id a = acc_id b \<Longrightarrow> a = b"
  by (metis wf_ids_distinct distinct_map inj_onD)

lemma handle_owner:
  "wf_store st \<Longrightarrow> a \<in> set (accounts st) \<Longrightarrow> b \<in> set (accounts st) \<Longrightarrow>
   handle a = Some h \<Longrightarrow> handle b = Some h \<Longrightarrow> a = b"
  by (metis same_row handles_uniqueD wf_storeD(3))

section \<open>Every operation keeps the invariant\<close>

text \<open>An operation that leaves accounts and agents alone.\<close>

lemma wf_store_frame [simp]:
  "wf_store (st\<lparr>sessions := ss\<rparr>) = wf_store st"
  "wf_store (st\<lparr>pendings := ps\<rparr>) = wf_store st"
  "wf_store (st\<lparr>warrants := ws\<rparr>) = wf_store st"
  by (simp_all add: wf_defs)

lemma wf_accounts_map:
  assumes same: "\<And>r. acc_id (f r) = acc_id r" "\<And>r. external_email (f r) = external_email r"
    "\<And>r. handle (f r) = handle r"
  shows "wf_store (st\<lparr>accounts := map f (accounts st)\<rparr>) = wf_store st"
  by (simp add: wf_defs same comp_def)

lemma wf_agents_map:
  assumes same: "\<And>g. agent_name (f g) = agent_name g"
  shows "wf_store (st\<lparr>agent_identities := map f (agent_identities st)\<rparr>) = wf_store st"
  by (simp add: wf_defs same comp_def)

lemma row_by_email_seq [simp]: "row_by_email e (st\<lparr>accounts_seq := n\<rparr>) = row_by_email e st"
  by (simp add: row_by_email_def)

lemma wf_insert_account:
  assumes wf: "wf_store st"
  shows "wf_store (insert_account e now st)"
proof (cases "row_by_email e st")
  case (Some r)
  let ?t = "st\<lparr>accounts_seq := accounts_seq st + 1\<rparr>"
  have "\<forall>r \<in> set (accounts st). 0 < acc_id r \<and> acc_id r \<le> accounts_seq st + 1"
    using wf_storeD(1) [OF wf] unfolding ids_fresh_def by (metis zle_add1_eq_le order_less_imp_le)
  then have "ids_fresh ?t" using wf_storeD(1) [OF wf] by (simp add: ids_fresh_def)
  moreover have "emails_unique ?t" "handles_unique ?t" "names_unique ?t" "namespace_disjoint ?t"
    using wf_storeD(2-5) [OF wf]
    by (simp_all add: emails_unique_def handles_unique_def names_unique_def namespace_disjoint_def)
  ultimately show ?thesis using Some by (simp add: insert_account_def wf_storeI)
next
  case None
  then have new: "e \<notin> external_email ` set (accounts st)"
    by (auto simp: row_by_email_None)
  let ?new = "\<lparr>acc_id = accounts_seq st + 1, external_email = e, handle = None,
    identity_mode = None, acc_created_at = now\<rparr>"
  let ?t = "st\<lparr>accounts := accounts st @ [?new], accounts_seq := accounts_seq st + 1\<rparr>"
  have eq: "insert_account e now st = ?t" using None by (simp add: insert_account_def)
  have f: "ids_fresh st" using wf by (rule wf_storeD)
  then have "accounts_seq st + 1 \<notin> acc_id ` set (accounts st)"
    by (fastforce simp: ids_fresh_def)
  moreover from f have "\<forall>r \<in> set (accounts st). 0 < acc_id r \<and> acc_id r \<le> accounts_seq st + 1"
    by (fastforce simp: ids_fresh_def)
  ultimately have "ids_fresh ?t" using f by (simp add: ids_fresh_def)
  moreover have "emails_unique ?t"
    using wf_storeD(2) [OF wf] new by (simp add: emails_unique_def)
  moreover have "handles_unique ?t"
    unfolding handles_unique_iff by (auto dest: handles_uniqueD [OF wf_storeD(3) [OF wf]])
  moreover have "names_unique ?t" "namespace_disjoint ?t"
    using wf_storeD(4,5) [OF wf] by (simp_all add: names_unique_def namespace_disjoint_def)
  ultimately have "wf_store ?t" by (rule wf_storeI)
  then show ?thesis by (simp add: eq)
qed

lemma find_or_create_state:
  "snd (find_or_create_account U e now st) = insert_account (to_lowercase U e) now st"
  by (simp add: find_or_create_account_def Let_def split: option.splits)

lemma find_or_create_new:
  assumes "row_by_email (to_lowercase U e) st = None"
  shows "find_or_create_account U e now st =
    (Inr \<lparr>acc_id = accounts_seq st + 1, external_email = to_lowercase U e, handle = None,
       identity_mode = None\<rparr>, insert_account (to_lowercase U e) now st)"
  using assms
  by (simp add: find_or_create_account_def Let_def insert_account_def row_by_email_def
      find_append_None account_from_row_def)

lemma keeps_find_or_create [keeps_rules]: "keeps wf_store (find_or_create_account U e now)"
  by (rule keepsI) (simp add: find_or_create_state wf_insert_account)

lemma keeps_get_account [keeps_rules]: "keeps I (get_account i)"
  by (simp add: keeps_def get_account_def)

lemma keeps_set_identity_mode [keeps_rules]: "keeps wf_store (set_identity_mode i m)"
  by (rule keepsI) (simp add: set_identity_mode_def wf_accounts_map)

lemma update_handle_free:
  "row_by_handle h st = None \<Longrightarrow>
   update_handle i h st = (Inr (), st\<lparr>accounts := map (\<lambda>r. if acc_id r = i then r\<lparr>handle := Some h\<rparr>
     else r) (accounts st)\<rparr>)"
  by (auto simp: update_handle_def row_by_handle_None)

lemma wf_update_handle:
  assumes wf: "wf_store st" and free: "agent_by_name h st = None" "row_by_handle h st = None"
  shows "wf_store (st\<lparr>accounts := map (\<lambda>r. if acc_id r = i then r\<lparr>handle := Some h\<rparr> else r)
    (accounts st)\<rparr>)" (is "wf_store ?t")
proof -
  have free': "\<forall>r \<in> set (accounts st). handle r \<noteq> Some h"
      "\<forall>g \<in> set (agent_identities st). agent_name g \<noteq> h"
    using free by (simp_all add: row_by_handle_None agent_by_name_None)
  have id_map: "acc_id (if acc_id r = i then r\<lparr>handle := Some h\<rparr> else r) = acc_id r"
    and em_map: "external_email (if acc_id r = i then r\<lparr>handle := Some h\<rparr> else r) = external_email r"
    for r :: account_row by simp_all
  have "handles_unique ?t"
    unfolding handles_unique_iff using free'(1)
    by (auto split: if_splits dest: handles_uniqueD [OF wf_storeD(3) [OF wf]])
  moreover have "namespace_disjoint ?t"
    using wf_storeD(5) [OF wf] free'(2) by (auto simp: namespace_disjoint_def)
  moreover have "\<forall>r \<in> set (accounts ?t). 0 < acc_id r \<and> acc_id r \<le> accounts_seq st"
    using wf_storeD(1) [OF wf] by (auto simp: ids_fresh_def)
  then have "ids_fresh ?t"
    using wf_storeD(1) [OF wf] by (simp add: ids_fresh_def comp_def id_map)
  moreover have "emails_unique ?t" "names_unique ?t"
    using wf_storeD(2,4) [OF wf] by (simp_all add: emails_unique_def names_unique_def comp_def em_map)
  ultimately show ?thesis by (intro wf_storeI)
qed

text \<open>The four outcomes of claiming a handle.\<close>

lemma set_handle_cases:
  obtains (agent) g where "agent_by_name (to_lowercase U h) st = Some g"
      "set_handle U i h st = (Inr False, st)"
  | (owner) r where "agent_by_name (to_lowercase U h) st = None"
      "row_by_handle (to_lowercase U h) st = Some r" "set_handle U i h st = (Inr (acc_id r = i), st)"
  | (free) "agent_by_name (to_lowercase U h) st = None" "row_by_handle (to_lowercase U h) st = None"
      "set_handle U i h st = (Inr True, st\<lparr>accounts := map (\<lambda>r. if acc_id r = i
        then r\<lparr>handle := Some (to_lowercase U h)\<rparr> else r) (accounts st)\<rparr>)"
proof (cases "agent_by_name (to_lowercase U h) st")
  case None
  note a = None
  show ?thesis
  proof (cases "row_by_handle (to_lowercase U h) st")
    case None
    with a show ?thesis
      by (intro free) (simp_all add: set_handle_def and_then_def done_with_def update_handle_free)
  next
    case (Some r)
    with a show ?thesis by (intro owner [of r]) (simp_all add: set_handle_def)
  qed
next
  case (Some g)
  then show ?thesis by (intro agent [of g]) (simp_all add: set_handle_def)
qed

lemma keeps_set_handle [keeps_rules]: "keeps wf_store (set_handle U i h)"
proof (rule keepsI)
  fix st assume "wf_store st"
  then show "wf_store (snd (set_handle U i h st))"
    by (cases rule: set_handle_cases [of U h st i]) (simp_all add: wf_update_handle)
qed

lemma wf_filter_accounts:
  assumes wf: "wf_store st"
  shows "wf_store (st\<lparr>accounts := filter P (accounts st)\<rparr>)"
proof (rule wf_storeI)
  show "ids_fresh (st\<lparr>accounts := filter P (accounts st)\<rparr>)"
    "emails_unique (st\<lparr>accounts := filter P (accounts st)\<rparr>)"
    "names_unique (st\<lparr>accounts := filter P (accounts st)\<rparr>)"
    "namespace_disjoint (st\<lparr>accounts := filter P (accounts st)\<rparr>)"
    using wf_storeD [OF wf]
    by (simp_all add: ids_fresh_def emails_unique_def names_unique_def namespace_disjoint_def
        distinct_map_filter)
  show "handles_unique (st\<lparr>accounts := filter P (accounts st)\<rparr>)"
    unfolding handles_unique_iff using handles_uniqueD [OF wf_storeD(3) [OF wf]] by simp
qed

lemma keeps_delete_account [keeps_rules]: "keeps wf_store (delete_account U e)"
proof (rule keepsI)
  fix st assume wf: "wf_store st"
  show "wf_store (snd (delete_account U e st))"
    by (simp only: delete_account_def Let_def snd_conv, rule wf_filter_accounts)
       (simp add: wf split: option.split)
qed

lemma keeps_create_session [keeps_rules]: "keeps wf_store (create_session i s c now)"
  by (rule keepsI) (auto simp: create_session_def split: option.splits)

lemma keeps_delete_session [keeps_rules]: "keeps wf_store (delete_session s)"
  by (rule keepsI) (auto simp: delete_session_def)

lemma keeps_delete_account_sessions [keeps_rules]: "keeps wf_store (delete_account_sessions i)"
  by (rule keepsI) (auto simp: delete_account_sessions_def)

lemma keeps_account_for_session [keeps_rules]: "keeps wf_store (account_for_session s now)"
  by (rule keepsI)
     (auto simp: account_for_session_def and_then_def done_with_def delete_session_def
        split: option.splits)

lemma wf_append_agent:
  assumes "wf_store st" "row_by_handle (agent_name g) st = None" "agent_by_name (agent_name g) st = None"
  shows "wf_store (st\<lparr>agent_identities := agent_identities st @ [g]\<rparr>)"
proof (rule wf_storeI)
  note wf = wf_storeD [OF assms(1)]
  show "names_unique (st\<lparr>agent_identities := agent_identities st @ [g]\<rparr>)"
    using wf(4) assms(3) by (auto simp: names_unique_def agent_by_name_None)
  show "namespace_disjoint (st\<lparr>agent_identities := agent_identities st @ [g]\<rparr>)"
    using wf(5) assms(2) by (auto simp: namespace_disjoint_def row_by_handle_None)
  show "ids_fresh (st\<lparr>agent_identities := agent_identities st @ [g]\<rparr>)"
    "emails_unique (st\<lparr>agent_identities := agent_identities st @ [g]\<rparr>)"
    "handles_unique (st\<lparr>agent_identities := agent_identities st @ [g]\<rparr>)"
    using wf by simp_all
qed

lemma create_agent_cases:
  obtains (handle) r where "row_by_handle (to_lowercase U n) st = Some r"
      "create_agent_identity U i n now st = (Inr False, st)"
  | (agent) g where "row_by_handle (to_lowercase U n) st = None"
      "agent_by_name (to_lowercase U n) st = Some g"
      "create_agent_identity U i n now st = (Inr False, st)"
  | (free) "row_by_handle (to_lowercase U n) st = None"
      "agent_by_name (to_lowercase U n) st = None"
      "create_agent_identity U i n now st = (Inr True, st\<lparr>agent_identities := agent_identities st @
        [\<lparr>agent_name = to_lowercase U n, agent_account = i, agent_created_at = now,
          agent_revoked_at = None\<rparr>]\<rparr>)"
proof (cases "row_by_handle (to_lowercase U n) st")
  case (Some r)
  then show ?thesis by (intro handle [of r]) (simp_all add: create_agent_identity_def)
next
  case None
  note h = None
  show ?thesis
  proof (cases "agent_by_name (to_lowercase U n) st")
    case None
    with h show ?thesis by (intro free) (simp_all add: create_agent_identity_def Let_def)
  next
    case (Some g)
    with h show ?thesis by (intro agent [of g]) (simp_all add: create_agent_identity_def Let_def)
  qed
qed

lemma keeps_create_agent [keeps_rules]: "keeps wf_store (create_agent_identity U i n now)"
proof (rule keepsI)
  fix st assume "wf_store st"
  then show "wf_store (snd (create_agent_identity U i n now st))"
    by (cases rule: create_agent_cases [of U n st i now]) (simp_all add: wf_append_agent)
qed

lemma keeps_revoke_agent [keeps_rules]: "keeps wf_store (revoke_agent_identity U n now)"
  by (rule keepsI) (simp add: revoke_agent_identity_def wf_agents_map)

lemma keeps_poster_tables [keeps_rules]:
  "keeps wf_store (set_poster_pending i a b c d e now)"
  "keeps wf_store (clear_poster_pending i)"
  "keeps wf_store (set_poster_warrant i a b c d e f g h k now)"
  "keeps wf_store (delete_poster_warrant i)"
  by (auto simp: keeps_def set_poster_pending_def clear_poster_pending_def set_poster_warrant_def
      delete_poster_warrant_def)

lemma keeps_readers [keeps_rules]:
  "keeps I (account_id_for_handle U h)" "keeps I (session_csrf s)"
  "keeps I (get_agent_identity U n)" "keeps I (list_agent_identities i)"
  "keeps I (count_active_agent_identities i)" "keeps I (get_poster_pending i)"
  "keeps I (get_poster_warrant i)"
  by (auto simp: keeps_def store_op_defs)

end
