(* ===== verification/Idp_Store_Props.thy ===== *)
theory Idp_Store_Props
  imports Idp_Store_Inv
begin

text \<open>
  The store as a system: its operations run one after the other in any order, and what holds in
  every state they lead to.  A request handler is a sequence of these operations with other
  requests' operations in between, so a property of every reachable store holds at every point
  of every interleaving of requests.
\<close>

section \<open>Operations as steps\<close>

datatype db_op =
    FindOrCreate string int
  | SetIdentityMode int string
  | SetHandle int string
  | DeleteAccount string
  | CreateSession int string string int
  | DeleteSession string
  | DeleteAccountSessions int
  | AccountForSession string int
  | CreateAgent int string int
  | RevokeAgent string int
  | SetPending int string string string int string int
  | ClearPending int
  | SetWarrant int string string string int string string string string "string option" int
  | DeleteWarrant int

fun exec :: "(string \<Rightarrow> string) \<Rightarrow> db_op \<Rightarrow> store \<Rightarrow> store" where
  "exec U (FindOrCreate e now) st = snd (find_or_create_account U e now st)"
| "exec U (SetIdentityMode i m) st = snd (set_identity_mode i m st)"
| "exec U (SetHandle i h) st = snd (set_handle U i h st)"
| "exec U (DeleteAccount e) st = snd (delete_account U e st)"
| "exec U (CreateSession i s c now) st = snd (create_session i s c now st)"
| "exec U (DeleteSession s) st = snd (delete_session s st)"
| "exec U (DeleteAccountSessions i) st = snd (delete_account_sessions i st)"
| "exec U (AccountForSession s now) st = snd (account_for_session s now st)"
| "exec U (CreateAgent i n now) st = snd (create_agent_identity U i n now st)"
| "exec U (RevokeAgent n now) st = snd (revoke_agent_identity U n now st)"
| "exec U (SetPending i e c u x s now) st = snd (set_poster_pending i e c u x s now st)"
| "exec U (ClearPending i) st = snd (clear_poster_pending i st)"
| "exec U (SetWarrant i e w a x s c h d m now) st =
     snd (set_poster_warrant i e w a x s c h d m now st)"
| "exec U (DeleteWarrant i) st = snd (delete_poster_warrant i st)"

text \<open>
  The handlers only store rows for an account id they got from the accounts table.  The account
  may be gone by then, so the id is known rather than present.
\<close>

fun admissible :: "db_op \<Rightarrow> store \<Rightarrow> bool" where
  "admissible (CreateSession i s c now) st = known_id i st"
| "admissible (CreateAgent i n now) st = known_id i st"
| "admissible (SetPending i e c u x s now) st = known_id i st"
| "admissible (SetWarrant i e w a x s c h d m now) st = known_id i st"
| "admissible _ st = True"

abbreviation store_reaches :: "(string \<Rightarrow> string) \<Rightarrow> store \<Rightarrow> bool" where
  "store_reaches U \<equiv> reaches (\<lambda>st. st = empty_store) admissible (exec U)"

abbreviation store_reaches_from :: "(string \<Rightarrow> string) \<Rightarrow> store \<Rightarrow> store \<Rightarrow> bool" where
  "store_reaches_from U st \<equiv> reaches (\<lambda>t. t = st) admissible (exec U)"

lemma exec_keeps_wf: "wf_store st \<Longrightarrow> wf_store (exec U op st)"
  by (cases op) (simp_all add: keepsD keeps_rules)

text \<open>The account counter only grows, so a known id stays known.\<close>

lemma update_handle_seq [simp]: "accounts_seq (snd (update_handle i h st)) = accounts_seq st"
  by (simp add: update_handle_def)

lemma set_handle_seq [simp]: "accounts_seq (snd (set_handle U i h st)) = accounts_seq st"
  by (cases rule: set_handle_cases [of U h st i]) simp_all

lemma create_agent_seq [simp]:
  "accounts_seq (snd (create_agent_identity U i n now st)) = accounts_seq st"
  by (cases rule: create_agent_cases [of U n st i now]) simp_all

lemma insert_account_seq: "accounts_seq st \<le> accounts_seq (insert_account e now st)"
  by (simp add: insert_account_def split: option.split)

lemma exec_seq: "accounts_seq st \<le> accounts_seq (exec U op st)"
  by (cases op)
     (simp_all add: find_or_create_state insert_account_seq set_identity_mode_def
       delete_account_def Let_def create_session_def delete_session_def
       delete_account_sessions_def account_for_session_def and_then_def done_with_def
       revoke_agent_identity_def set_poster_pending_def clear_poster_pending_def
       set_poster_warrant_def delete_poster_warrant_def split: option.split)

lemma exec_known: "known_id i st \<Longrightarrow> known_id i (exec U op st)"
  using exec_seq [of st U op] by (simp add: known_id_def)

text \<open>The account ids an operation can leave behind are those of the store and its own.\<close>

fun op_ids :: "db_op \<Rightarrow> int set" where
  "op_ids (CreateSession i s c now) = {i}"
| "op_ids (CreateAgent i n now) = {i}"
| "op_ids (SetPending i e c u x s now) = {i}"
| "op_ids (SetWarrant i e w a x s c h d m now) = {i}"
| "op_ids _ = {}"

lemma ref_ids_drop_sessions:
  "ref_ids (st\<lparr>sessions := (\<lambda>s. case sessions st s of None \<Rightarrow> None
     | Some x \<Rightarrow> if P x then None else Some x)\<rparr>) \<subseteq> ref_ids st"
  by (auto simp: ref_ids_def ran_def split: option.splits if_splits)

lemma ref_ids_agents_map:
  assumes "\<And>g. agent_account (f g) = agent_account g"
  shows "ref_ids (st\<lparr>agent_identities := map f (agent_identities st)\<rparr>) = ref_ids st"
  by (simp add: ref_ids_def image_image assms)

lemma ref_ids_frame [simp]:
  "ref_ids (st\<lparr>accounts := as\<rparr>) = ref_ids st"
  "ref_ids (st\<lparr>accounts_seq := n\<rparr>) = ref_ids st"
  by (simp_all add: ref_ids_def)

lemma ref_ids_drop_one:
  "ref_ids (st\<lparr>sessions := (sessions st)(s := None)\<rparr>) \<subseteq> ref_ids st"
  by (auto simp: ref_ids_def ran_def split: if_splits)

lemma ref_ids_exec: "ref_ids (exec U op st) \<subseteq> ref_ids st \<union> op_ids op"
proof (cases op)
  case (FindOrCreate e now)
  then show ?thesis by (simp add: find_or_create_state insert_account_def split: option.split)
next
  case (SetHandle i h)
  then show ?thesis by (cases rule: set_handle_cases [of U h st i]) simp_all
next
  case (DeleteAccount e)
  then show ?thesis
    by (simp add: delete_account_def Let_def ref_ids_drop_sessions split: option.split)
next
  case (CreateSession i s c now)
  then show ?thesis
    by (auto simp: create_session_def ref_ids_def ran_def split: option.splits if_splits)
next
  case (AccountForSession s now)
  then show ?thesis
    by (simp add: account_for_session_def and_then_def done_with_def delete_session_def
        ref_ids_drop_one split: option.split)
next
  case (CreateAgent i n now)
  then show ?thesis
    by (cases rule: create_agent_cases [of U n st i now]) (auto simp: ref_ids_def)
next
  case (RevokeAgent n now)
  then show ?thesis by (simp add: revoke_agent_identity_def ref_ids_agents_map)
next
  case (SetIdentityMode i m)
  then show ?thesis by (simp add: set_identity_mode_def)
next
  case (DeleteSession s)
  then show ?thesis by (simp add: delete_session_def ref_ids_drop_one)
next
  case (DeleteAccountSessions i)
  then show ?thesis by (simp add: delete_account_sessions_def ref_ids_drop_sessions)
qed (auto simp: ref_ids_def set_poster_pending_def clear_poster_pending_def
    set_poster_warrant_def delete_poster_warrant_def)

lemma admissible_known: "admissible op st \<Longrightarrow> i \<in> op_ids op \<Longrightarrow> known_id i st"
  by (cases op) simp_all

lemma exec_keeps_refs:
  assumes "refs_known st" "admissible op st"
  shows "refs_known (exec U op st)"
  unfolding refs_known_def
proof
  fix i assume "i \<in> ref_ids (exec U op st)"
  then have "i \<in> ref_ids st \<or> i \<in> op_ids op" using ref_ids_exec by blast
  then have "known_id i st"
    using assms admissible_known by (auto simp: refs_known_def)
  then show "known_id i (exec U op st)" by (rule exec_known)
qed

interpretation store_sys: invariant_system "\<lambda>st. st = empty_store" admissible "exec U"
    "\<lambda>st. wf_store st \<and> refs_known st"
  for U
  by unfold_locales (auto simp: exec_keeps_wf exec_keeps_refs)

section \<open>The per-account tables\<close>

text \<open>
  The contract of a table with one row per account, written by an upsert and cleared by key:
  what is read is what the last write left.
\<close>

datatype 'a table_op = Put int 'a | Clear int

fun apply_table_op ::
  "(int \<Rightarrow> 'a \<Rightarrow> 's \<Rightarrow> 's) \<Rightarrow> (int \<Rightarrow> 's \<Rightarrow> 's) \<Rightarrow> 'a table_op \<Rightarrow> 's \<Rightarrow> 's" where
  "apply_table_op put clear (Put i a) s = put i a s"
| "apply_table_op put clear (Clear i) s = clear i s"

fun last_write :: "('a \<Rightarrow> 'v) \<Rightarrow> int \<Rightarrow> 'a table_op list \<Rightarrow> 'v option \<Rightarrow> 'v option" where
  "last_write stored i [] v = v"
| "last_write stored i (Put j a # ops) v =
     last_write stored i ops (if i = j then Some (stored a) else v)"
| "last_write stored i (Clear j # ops) v = last_write stored i ops (if i = j then None else v)"

locale keyed_table =
  fixes look :: "int \<Rightarrow> 's \<Rightarrow> 'v option"
    and put :: "int \<Rightarrow> 'a \<Rightarrow> 's \<Rightarrow> 's"
    and clear :: "int \<Rightarrow> 's \<Rightarrow> 's"
    and stored :: "'a \<Rightarrow> 'v"
  assumes look_put: "look i (put j a s) = (if i = j then Some (stored a) else look i s)"
    and look_clear: "look i (clear j s) = (if i = j then None else look i s)"
begin

lemma look_fold:
  "look i (fold (apply_table_op put clear) ops s) = last_write stored i ops (look i s)"
proof (induction ops arbitrary: s)
  case (Cons op ops)
  then show ?case by (cases op) (simp_all add: look_put look_clear)
qed simp

end

text \<open>The arguments \<open>set_poster_pending\<close> and \<open>set_poster_warrant\<close> are called with.\<close>

type_synonym pending_args = "string \<times> string \<times> string \<times> int \<times> string \<times> int"

type_synonym warrant_args =
  "string \<times> string \<times> string \<times> int \<times> string \<times> string \<times> string \<times> string \<times> string option \<times> int"

definition pending_at :: "int \<Rightarrow> store \<Rightarrow> poster_pending option" where
  "pending_at i st = map_option pending_from_row (pendings st i)"

definition put_pending :: "int \<Rightarrow> pending_args \<Rightarrow> store \<Rightarrow> store" where
  "put_pending i = (\<lambda>(e, c, u, x, s, now) st. snd (set_poster_pending i e c u x s now st))"

definition clear_pending :: "int \<Rightarrow> store \<Rightarrow> store" where
  "clear_pending i st = snd (clear_poster_pending i st)"

definition pending_of_args :: "pending_args \<Rightarrow> poster_pending" where
  "pending_of_args = (\<lambda>(e, c, u, x, s, now). \<lparr>pp_user_email = e, pp_code = c,
     pp_verification_uri = Some u, pp_expires_at = x, pp_device_seed = Some s\<rparr>)"

definition warrant_at :: "int \<Rightarrow> store \<Rightarrow> poster_warrant option" where
  "warrant_at i st = map_option warrant_from_row (warrants st i)"

definition put_warrant :: "int \<Rightarrow> warrant_args \<Rightarrow> store \<Rightarrow> store" where
  "put_warrant i = (\<lambda>(e, w, a, x, s, c, h, d, m, now) st.
     snd (set_poster_warrant i e w a x s c h d m now st))"

definition clear_warrant :: "int \<Rightarrow> store \<Rightarrow> store" where
  "clear_warrant i st = snd (delete_poster_warrant i st)"

definition warrant_of_args :: "warrant_args \<Rightarrow> poster_warrant" where
  "warrant_of_args = (\<lambda>(e, w, a, x, s, c, h, d, m, now). \<lparr>pw_user_email = e, pw_warrant = w,
     pw_audience = a, pw_expires_at = x, pw_device_seed = Some s, pw_device_cert = Some c,
     pw_holder = Some h, pw_idp = Some d, pw_access_mint = m\<rparr>)"

interpretation pending_table: keyed_table pending_at put_pending clear_pending pending_of_args
  by unfold_locales
     (auto simp: pending_at_def put_pending_def clear_pending_def pending_of_args_def
       set_poster_pending_def clear_poster_pending_def pending_from_row_def)

interpretation warrant_table: keyed_table warrant_at put_warrant clear_warrant warrant_of_args
  by unfold_locales
     (auto simp: warrant_at_def put_warrant_def clear_warrant_def warrant_of_args_def
       set_poster_warrant_def delete_poster_warrant_def warrant_from_row_def
       poster_warrant.truncate_def)

section \<open>Agent names are taken for ever\<close>

definition agent_owner :: "string \<Rightarrow> store \<Rightarrow> int option" where
  "agent_owner n st = map_option agent_account (agent_by_name n st)"

lemma agent_owner_iff:
  "wf_store st \<Longrightarrow> agent_owner n st = Some i \<longleftrightarrow>
   (\<exists>g \<in> set (agent_identities st). agent_name g = n \<and> agent_account g = i)"
  unfolding agent_owner_def agent_by_name_def
  by (auto dest: find_Some_set wf_storeD(4) simp: names_unique_def find_unique)

lemma image_set_map_same: "(\<And>x. k (f x) = k x) \<Longrightarrow> k ` set (map f xs) = k ` set xs"
  by (simp only: set_map image_image)

lemma agent_identity_frame: "agent_identities (st\<lparr>agent_identities := gs\<rparr>) = gs"
  by simp

text \<open>The registration of a name, without its revocation time, is never changed or removed.\<close>

lemma agents_grow:
  "(\<lambda>g. (agent_name g, agent_account g)) ` set (agent_identities st) \<subseteq>
   (\<lambda>g. (agent_name g, agent_account g)) ` set (agent_identities (exec U op st))"
proof (cases op)
  case (FindOrCreate e now)
  then show ?thesis by (simp add: find_or_create_state insert_account_def split: option.split)
next
  case (SetHandle i h)
  then show ?thesis by (cases rule: set_handle_cases [of U h st i]) simp_all
next
  case (CreateAgent i n now)
  then show ?thesis by (cases rule: create_agent_cases [of U n st i now]) auto
next
  case (RevokeAgent n now)
  then show ?thesis
    unfolding RevokeAgent exec.simps revoke_agent_identity_def snd_conv
    by (simp only: agent_identity_frame, subst image_set_map_same) simp_all
qed (simp_all add: set_identity_mode_def delete_account_def Let_def create_session_def
      delete_session_def delete_account_sessions_def account_for_session_def and_then_def
      done_with_def set_poster_pending_def clear_poster_pending_def set_poster_warrant_def
      delete_poster_warrant_def split: option.split)

lemma exec_keeps_owner:
  assumes "wf_store st" "agent_owner n st = Some i"
  shows "agent_owner n (exec U op st) = Some i"
proof -
  have "(n, i) \<in> (\<lambda>g. (agent_name g, agent_account g)) ` set (agent_identities st)"
    using assms by (auto simp: agent_owner_iff)
  then have "(n, i) \<in> (\<lambda>g. (agent_name g, agent_account g)) ` set (agent_identities (exec U op st))"
    using agents_grow by blast
  then show ?thesis
    using agent_owner_iff [OF exec_keeps_wf [OF assms(1)]] by auto
qed

text \<open>Named by its owner: the invariant of the states after a name was registered.\<close>

interpretation owned: invariant_system "\<lambda>t. t = st" admissible "exec U"
    "\<lambda>t. (wf_store st \<longrightarrow> wf_store t) \<and>
         (wf_store st \<and> agent_owner n st = Some i \<longrightarrow> agent_owner n t = Some i)"
  for U st n i
  by unfold_locales (auto simp: exec_keeps_wf exec_keeps_owner)

section \<open>Claiming a handle\<close>

lemma row_by_id_update_other:
  assumes "j \<noteq> i" and same: "\<And>r. acc_id (f r) = acc_id r"
  shows "row_by_id j (st\<lparr>accounts := map (\<lambda>r. if acc_id r = i then f r else r) (accounts st)\<rparr>) =
    row_by_id j st"
proof -
  have "find (\<lambda>r. acc_id r = j) (map (\<lambda>r. if acc_id r = i then f r else r) xs) =
      find (\<lambda>r. acc_id r = j) xs" for xs
    using assms by (induction xs) auto
  then show ?thesis by (simp add: row_by_id_def)
qed

lemma row_by_handle_claimed:
  assumes wf: "wf_store st" and free: "agent_by_name h st = None" "row_by_handle h st = None"
    and r0: "row_by_id i st = Some r0"
  obtains r where "row_by_handle h (st\<lparr>accounts := map (\<lambda>r. if acc_id r = i
      then r\<lparr>handle := Some h\<rparr> else r) (accounts st)\<rparr>) = Some r" "acc_id r = i"
proof -
  let ?t = "st\<lparr>accounts := map (\<lambda>r. if acc_id r = i then r\<lparr>handle := Some h\<rparr> else r) (accounts st)\<rparr>"
  have m: "r0 \<in> set (accounts st)" "acc_id r0 = i" using r0 wf by (simp_all add: row_by_id_eq)
  then have "r0\<lparr>handle := Some h\<rparr> \<in> set (accounts ?t)" by (auto simp: image_iff)
  then have "row_by_handle h ?t \<noteq> None" unfolding row_by_handle_None by fastforce
  then obtain r where r: "row_by_handle h ?t = Some r" by blast
  then have "r \<in> set (accounts ?t)" "handle r = Some h" by (auto dest: row_by_handle_SomeD)
  moreover have "\<forall>r \<in> set (accounts st). handle r \<noteq> Some h" using free by (simp add: row_by_handle_None)
  ultimately have "acc_id r = i" by (auto split: if_splits)
  with r show ?thesis by (rule that)
qed

lemma set_handle_outcome:
  assumes h_def: "h = to_lowercase U raw" and "wf_store st" "row_by_id i st = Some r0" "set_handle U i raw st = (res, st')"
  shows "(res = Inr True \<or> res = Inr False \<and> st' = st) \<and>
    (res = Inr True \<longleftrightarrow> agent_by_name h st = None \<and>
       (\<forall>r \<in> set (accounts st). handle r = Some h \<longrightarrow> acc_id r = i)) \<and>
    (res = Inr True \<longrightarrow> account_id_for_handle U raw st' = (Inr (Some i), st')) \<and>
    (\<forall>j. j \<noteq> i \<longrightarrow> row_by_id j st' = row_by_id j st)"
proof (cases rule: set_handle_cases [of U raw st i])
  case (agent g)
  then show ?thesis using assms by auto
next
  case (owner r)
  then have r: "r \<in> set (accounts st)" "handle r = Some h"
    by (auto simp: h_def dest: row_by_handle_SomeD)
  then have "acc_id r = i \<longleftrightarrow> (\<forall>r \<in> set (accounts st). handle r = Some h \<longrightarrow> acc_id r = i)"
    using handle_owner [OF assms(2)] by blast
  then show ?thesis using owner assms(4) by (auto simp: h_def account_id_for_handle_def)
next
  case free
  then obtain r where r: "row_by_handle h st' = Some r" "acc_id r = i"
    using row_by_handle_claimed [OF assms(2) free(1,2) assms(3)] assms(4) by (auto simp: h_def)
  moreover have "row_by_id j st' = row_by_id j st" if "j \<noteq> i" for j
    using free assms(4) row_by_id_update_other [OF that] by auto
  moreover have "\<forall>r \<in> set (accounts st). handle r \<noteq> Some h"
    using free(2) by (simp add: row_by_handle_None h_def)
  ultimately show ?thesis
    using free assms(4) by (simp add: h_def account_id_for_handle_def)
qed

lemma set_handle_rules:
  assumes "to_lowercase U h = h" "wf_store st" "row_by_id i st = Some r0"
    and "set_handle U i h st = (Inr True, st')"
  shows "agent_by_name h st = None"
    and "\<forall>r \<in> set (accounts st). handle r = Some h \<longrightarrow> acc_id r = i"
    and "account_id_for_handle U h st' = (Inr (Some i), st')"
    and "j \<noteq> i \<Longrightarrow> row_by_id j st' = row_by_id j st"
  using set_handle_outcome [OF assms(1) [symmetric] assms(2-4)] by simp_all

section \<open>Properties\<close>

text \<open>C1: In every store that any sequence of operations leads to, starting from an empty
  database, account ids and emails are unique, no two accounts have the same handle, no two agent
  identities the same name, no account's handle is an agent's name, and every account id that a
  session, an agent identity, a pending request or a warrant refers to was handed out by the
  accounts table.\<close>

theorem store_reachable_wf: "store_reaches U st \<Longrightarrow> wf_store st \<and> refs_known st"
  by (rule store_sys.reaches_inv)

theorem store_reachable_wf_witness:
  "\<exists>st. store_reaches id st \<and> accounts st \<noteq> [] \<and> sessions st ''s'' \<noteq> None \<and> wf_store st"
proof -
  let ?st = "exec id (CreateSession 1 ''s'' ''c'' 6) (exec id (FindOrCreate ''a@x'' 5) empty_store)"
  have "store_reaches id ?st"
    by (intro reaches.intros refl)
       (simp_all add: find_or_create_state insert_account_def row_by_email_def empty_store_def
         known_id_def)
  then have "store_reaches id ?st \<and> wf_store ?st" using store_reachable_wf by blast
  moreover have "accounts ?st \<noteq> [] \<and> sessions ?st ''s'' \<noteq> None"
    by (simp add: find_or_create_state insert_account_def row_by_email_def empty_store_def
        create_session_def)
  ultimately show ?thesis by blast
qed

text \<open>C2: Claiming a handle for an existing account never runs into the unique constraint of the
  accounts table.  It answers yes exactly when no agent has the name and no other account has it,
  then the handle resolves to the claiming account, and no other account's handle has changed; on
  no, nothing has changed.\<close>

theorem set_handle_correct:
  assumes h_def: "h = to_lowercase U raw" and "wf_store st" "row_by_id i st = Some r0" "set_handle U i raw st = (res, st')"
  shows "(res = Inr True \<or> res = Inr False \<and> st' = st) \<and>
    (res = Inr True \<longleftrightarrow> agent_by_name h st = None \<and>
       (\<forall>r \<in> set (accounts st). handle r = Some h \<longrightarrow> acc_id r = i)) \<and>
    (res = Inr True \<longrightarrow> account_id_for_handle U raw st' = (Inr (Some i), st')) \<and>
    (\<forall>j. j \<noteq> i \<longrightarrow> row_by_id j st' = row_by_id j st)"
  using set_handle_outcome [OF assms] .

theorem set_handle_correct_witness:
  "set_handle id 1 ''kim'' (insert_account ''a@x'' 5 empty_store) =
     (Inr True, snd (set_handle id 1 ''kim'' (insert_account ''a@x'' 5 empty_store))) \<and>
   account_id_for_handle id ''kim'' (snd (set_handle id 1 ''kim'' (insert_account ''a@x'' 5 empty_store)))
     = (Inr (Some 1), snd (set_handle id 1 ''kim'' (insert_account ''a@x'' 5 empty_store)))"
proof -
  let ?st = "insert_account ''a@x'' 5 empty_store"
  have acc: "accounts ?st = [\<lparr>acc_id = 1, external_email = ''a@x'', handle = None,
      identity_mode = None, acc_created_at = 5\<rparr>]" "agent_identities ?st = []"
    by (simp_all add: insert_account_def row_by_email_def empty_store_def)
  then have ex: "agent_by_name h ?st = None" "row_by_handle h ?st = None" for h
    by (simp_all add: agent_by_name_def row_by_handle_def)
  have "\<exists>r. row_by_id 1 ?st = Some r" using acc by (simp add: row_by_id_def)
  then obtain r where "row_by_id 1 ?st = Some r" ..
  moreover obtain res st' where e: "set_handle id 1 ''kim'' ?st = (res, st')" by fastforce
  moreover have "wf_store ?st" by (simp add: wf_insert_account)
  moreover have "\<forall>r \<in> set (accounts ?st). handle r \<noteq> Some h" for h using acc by simp
  ultimately have "res = Inr True \<and> account_id_for_handle id ''kim'' st' = (Inr (Some 1), st')"
    using set_handle_correct [of "to_lowercase id ''kim''" id "''kim''" ?st 1 r res st'] ex by blast
  then show ?thesis using e by simp
qed

text \<open>A name registered for an agent stays with its account whatever operations run
  afterwards, revocation and deletion of the account included: no account can take it as a
  handle and nobody can register it again.\<close>

theorem agent_name_permanent:
  assumes "wf_store st" "agent_owner (to_lowercase U n) st = Some i" "store_reaches_from U st t"
  shows "agent_owner (to_lowercase U n) t = Some i \<and>
    set_handle U j n t = (Inr False, t) \<and> create_agent_identity U j n now t = (Inr False, t)"
proof -
  have o: "agent_owner (to_lowercase U n) t = Some i"
    using owned.reaches_from_inv [OF assms(3)] assms(1,2) by blast
  then obtain g where g: "agent_by_name (to_lowercase U n) t = Some g"
    by (auto simp: agent_owner_def)
  then have "set_handle U j n t = (Inr False, t)" by (simp add: set_handle_def)
  moreover have "create_agent_identity U j n now t = (Inr False, t)"
    by (cases rule: create_agent_cases [of U n t j now]) (use g in simp_all)
  ultimately show ?thesis using o by blast
qed

theorem agent_name_permanent_witness:
  "\<exists>t. set_handle id 7 ''bot'' t = (Inr False, t) \<and> accounts t = []"
proof -
  let ?st = "exec id (CreateAgent 1 ''bot'' 6) (insert_account ''a@x'' 5 empty_store)"
  let ?t = "exec id (DeleteAccount ''a@x'') (exec id (RevokeAgent ''bot'' 8) ?st)"
  have acc: "accounts (insert_account ''a@x'' 5 empty_store) = [\<lparr>acc_id = 1,
      external_email = ''a@x'', handle = None, identity_mode = None, acc_created_at = 5\<rparr>]"
      "agent_identities (insert_account ''a@x'' 5 empty_store) = []"
    by (simp_all add: insert_account_def row_by_email_def empty_store_def)
  have low: "to_lowercase id s = s" if "list_all (\<lambda>c. \<not> is_ascii_uppercase c) s" for s
    using that by (auto simp: to_lowercase_def list_all_iff to_ascii_lowercase_def map_idI)
  have bot: "to_lowercase id ''bot'' = ''bot''" "to_lowercase id ''a@x'' = ''a@x''"
    by (rule low, code_simp)+
  have "agent_owner (to_lowercase id ''bot'') ?st = Some 1"
    using acc by (simp add: create_agent_identity_def row_by_handle_def agent_by_name_def
        agent_owner_def Let_def)
  moreover have "wf_store ?st" by (intro exec_keeps_wf wf_insert_account wf_store_empty(1))
  moreover have "store_reaches_from id ?st ?t"
    by (intro reaches.intros refl) simp_all
  ultimately have "set_handle id 7 ''bot'' ?t = (Inr False, ?t)"
    using agent_name_permanent by blast
  moreover have "accounts ?t = []"
    using acc bot by (simp add: create_agent_identity_def row_by_handle_def agent_by_name_def
        Let_def revoke_agent_identity_def delete_account_def row_by_email_def)
  ultimately show ?thesis by blast
qed

text \<open>A new session resolves to its account until its age, as 64-bit arithmetic computes it,
  exceeds 30 days; the first lookup after that answers nobody and removes exactly that row.
  Deleting the session, or all of the account's sessions, ends it at once.\<close>

theorem session_lifecycle:
  assumes "create_session i sid csrf t0 st = (Inr tok, st1)"
  shows "account_for_session sid t st1 =
      (if i64_sub t t0 \<le> SESSION_TTL_SECS then (Inr (Some i), st1) else (Inr None, st)) \<and>
    account_for_session sid t (snd (delete_session sid st1)) = (Inr None, st) \<and>
    fst (account_for_session sid t (snd (delete_account_sessions i st1))) = Inr None"
proof -
  have none: "sessions st sid = None" and st1: "st1 = st\<lparr>sessions := (sessions st)(sid \<mapsto>
      \<lparr>sess_account = i, sess_csrf = csrf, sess_created_at = t0\<rparr>)\<rparr>"
    using assms by (auto simp: create_session_def split: option.splits)
  from none have gone: "(sessions st)(sid := None) = sessions st" by auto
  show ?thesis
    by (simp add: st1 none gone account_for_session_def and_then_def done_with_def
        delete_session_def delete_account_sessions_def)
qed

theorem session_lifecycle_witness:
  "account_for_session ''s'' (100 + SESSION_TTL_SECS) (snd (create_session 4 ''s'' ''c'' 100 empty_store))
     = (Inr (Some 4), snd (create_session 4 ''s'' ''c'' 100 empty_store)) \<and>
   account_for_session ''s'' (101 + SESSION_TTL_SECS) (snd (create_session 4 ''s'' ''c'' 100 empty_store))
     = (Inr None, empty_store)"
proof -
  have "create_session 4 ''s'' ''c'' 100 empty_store =
      (Inr (''s'', ''c''), snd (create_session 4 ''s'' ''c'' 100 empty_store))"
    by (simp add: create_session_def empty_store_def)
  from session_lifecycle [OF this, of "100 + SESSION_TTL_SECS"]
    session_lifecycle [OF this, of "101 + SESSION_TTL_SECS"]
  show ?thesis by (simp add: SESSION_TTL_SECS_def i64_sub_def wrap64_def)
qed

text \<open>An account made by a sign-in starts clean in every reachable store: its id is new, it has
  no handle, and no session, agent identity, pending request or warrant of an earlier (for
  instance deleted) account belongs to it.\<close>

theorem fresh_account_inherits_nothing:
  assumes "store_reaches U st" "row_by_email (to_lowercase U e) st = None"
    and "find_or_create_account U e now st = (Inr a, st')"
  shows "handle a = None \<and> external_email a = to_lowercase U e \<and> \<not> known_id (acc_id a) st \<and>
    acc_id a \<notin> ref_ids st' \<and> get_poster_warrant (acc_id a) st' = (Inr None, st') \<and>
    get_poster_pending (acc_id a) st' = (Inr None, st') \<and>
    list_agent_identities (acc_id a) st' = (Inr [], st')"
proof -
  have inv: "wf_store st" "refs_known st" using store_sys.reaches_inv [OF assms(1)] by blast+
  let ?i = "accounts_seq st + 1"
  have a: "a = \<lparr>acc_id = ?i, external_email = to_lowercase U e, handle = None, identity_mode = None\<rparr>"
    and st': "st' = insert_account (to_lowercase U e) now st"
    using assms(3) find_or_create_new [OF assms(2)] by simp_all
  then have same: "ref_ids st' = ref_ids st" "agent_identities st' = agent_identities st"
    "warrants st' = warrants st" "pendings st' = pendings st"
    using assms(2) by (simp_all add: insert_account_def)
  have new: "\<not> known_id ?i st" by (simp add: known_id_def)
  with inv(2) have no_refs: "?i \<notin> ref_ids st" by (auto simp: refs_known_def)
  then have no_agents: "filter (\<lambda>g. agent_account g = ?i) (agent_identities st) = []"
    by (force simp: ref_ids_def filter_empty_conv)
  have "warrants st ?i = None" "pendings st ?i = None" using no_refs by (auto simp: ref_ids_def)
  then show ?thesis using new no_refs
    by (simp add: a same no_agents get_poster_warrant_def get_poster_pending_def
        list_agent_identities_def)
qed

theorem fresh_account_inherits_nothing_witness:
  "\<exists>a st'. find_or_create_account id ''b@x'' 9 (exec id (SetWarrant 1 ''a'' ''w'' ''u'' 3 ''s'' ''c''
       ''h'' ''d'' None 8) (exec id (FindOrCreate ''a@x'' 5) empty_store)) = (Inr a, st') \<and>
     get_poster_warrant (acc_id a) st' = (Inr None, st') \<and> warrants st' 1 \<noteq> None"
proof -
  let ?st = "exec id (SetWarrant 1 ''a'' ''w'' ''u'' 3 ''s'' ''c'' ''h'' ''d'' None 8)
    (exec id (FindOrCreate ''a@x'' 5) empty_store)"
  have low: "to_lowercase id ''a@x'' = ''a@x''" "to_lowercase id ''b@x'' = ''b@x''" by code_simp+
  have r: "store_reaches id ?st"
    by (intro reaches.intros refl)
       (simp_all add: find_or_create_state insert_account_def row_by_email_def empty_store_def
         known_id_def)
  have st: "accounts ?st = [\<lparr>acc_id = 1, external_email = ''a@x'', handle = None,
      identity_mode = None, acc_created_at = 5\<rparr>]"
    by (simp add: find_or_create_state insert_account_def row_by_email_def empty_store_def
        set_poster_warrant_def low)
  then have n: "row_by_email (to_lowercase id ''b@x'') ?st = None"
    by (simp add: row_by_email_def low)
  obtain a st' where e: "find_or_create_account id ''b@x'' 9 ?st = (Inr a, st')"
    using find_or_create_new [OF n] by blast
  have "warrants st' = warrants ?st"
    using e find_or_create_state [of id "''b@x''" 9 ?st] n by (simp add: insert_account_def)
  then have "warrants st' 1 \<noteq> None" by (simp add: set_poster_warrant_def)
  with fresh_account_inherits_nothing [OF r n e] e show ?thesis by blast
qed

text \<open>The poster's two tables hold, for each account, what the last write for that account
  left there, after any sequence of upserts and deletions for any accounts.\<close>

theorem poster_tables_last_write:
  "get_poster_warrant i (fold (apply_table_op put_warrant clear_warrant) ws st) =
     (Inr (last_write warrant_of_args i ws (warrant_at i st)),
      fold (apply_table_op put_warrant clear_warrant) ws st) \<and>
   get_poster_pending i (fold (apply_table_op put_pending clear_pending) ps st) =
     (Inr (last_write pending_of_args i ps (pending_at i st)),
      fold (apply_table_op put_pending clear_pending) ps st)"
  using warrant_table.look_fold [of i ws st] pending_table.look_fold [of i ps st]
  by (simp add: get_poster_warrant_def get_poster_pending_def warrant_at_def pending_at_def)

text \<open>Registering an agent name adds exactly one active identity to its account and none to
  any other; revoking it takes it off the active ones again, keeps the row, and a second
  revocation, at whatever time, changes nothing.\<close>

theorem agent_identity_lifecycle:
  assumes "create_agent_identity U i n t0 st = (Inr True, st1)"
    and "revoke_agent_identity U n t1 st1 = (Inr (), st2)"
  shows "fst (count_active_agent_identities j st1) =
      Inr (length (filter (\<lambda>g. agent_account g = j \<and> is_active g) (agent_identities st))
           + (if j = i then 1 else 0)) \<and>
    fst (count_active_agent_identities j st2) = fst (count_active_agent_identities j st) \<and>
    get_agent_identity U n st2 = (Inr (Some \<lparr>agent_name = to_lowercase U n, agent_account = i,
      agent_created_at = t0, agent_revoked_at = Some t1\<rparr>), st2) \<and>
    revoke_agent_identity U n t2 st2 = (Inr (), st2)"
proof (cases rule: create_agent_cases [of U n st i t0])
  case free
  let ?n = "to_lowercase U n"
  let ?g = "\<lparr>agent_name = ?n, agent_account = i, agent_created_at = t0, agent_revoked_at = None\<rparr>"
  have st1: "st1 = st\<lparr>agent_identities := agent_identities st @ [?g]\<rparr>" using free assms by simp
  have other: "\<forall>g \<in> set (agent_identities st). agent_name g \<noteq> ?n"
    using free by (simp add: agent_by_name_None)
  have keep: "map (\<lambda>g. if agent_name g = ?n then f g else g) (agent_identities st) = agent_identities st"
    for f using other by (simp add: map_idI)
  have st2: "st2 = st\<lparr>agent_identities := agent_identities st @ [?g\<lparr>agent_revoked_at := Some t1\<rparr>]\<rparr>"
    using assms(2) by (simp add: revoke_agent_identity_def st1 keep)
  have "find (\<lambda>g. agent_name g = ?n) (agent_identities st @ xs) = find (\<lambda>g. agent_name g = ?n) xs" for xs
    using other by (simp add: find_append_None find_None_iff2)
  then show ?thesis
    by (simp add: count_active_agent_identities_def st1 st2 is_active_def get_agent_identity_def
        agent_by_name_def revoke_agent_identity_def keep)
qed (use assms in simp_all)

theorem agent_identity_lifecycle_witness:
  "get_agent_identity id ''bot'' (snd (revoke_agent_identity id ''bot'' 8
      (snd (create_agent_identity id 1 ''bot'' 6 empty_store)))) =
    (Inr (Some \<lparr>agent_name = to_lowercase id ''bot'', agent_account = 1, agent_created_at = 6,
        agent_revoked_at = Some 8\<rparr>),
     snd (revoke_agent_identity id ''bot'' 8 (snd (create_agent_identity id 1 ''bot'' 6 empty_store))))"
proof -
  have "create_agent_identity id 1 ''bot'' 6 empty_store =
      (Inr True, snd (create_agent_identity id 1 ''bot'' 6 empty_store))"
    by (simp add: create_agent_identity_def Let_def row_by_handle_def agent_by_name_def empty_store_def)
  moreover have "revoke_agent_identity id ''bot'' 8 st =
      (Inr (), snd (revoke_agent_identity id ''bot'' 8 st))" for st
    by (simp add: revoke_agent_identity_def)
  ultimately show ?thesis using agent_identity_lifecycle by blast
qed

end
