(* ===== verification/Idp_Registry.thy ===== *)
theory Idp_Registry
  imports Idp_Store_Props
begin

text \<open>
  What the account store promises to the rest of the service, as an abstract registry of people and
  names, and the simulation: every operation of the store (\<open>mingo-idp/src/store.rs\<close>) acts on the
  registry as the specification says, and answers what the specification answers.
\<close>

section \<open>The specification\<close>

text \<open>A name is held by an account as its handle, or for ever by an agent of an account.\<close>

datatype holder = Person int | AgentOf int

record registry =
  reg_people :: "int \<rightharpoonup> string"
  reg_names :: "string \<rightharpoonup> holder"
  reg_last :: int

text \<open>Every enrolment draws a number, also that of a person who is there already.\<close>

definition reg_enrol :: "string \<Rightarrow> registry \<Rightarrow> registry" where
  "reg_enrol e r =
     (if e \<in> ran (reg_people r) then r\<lparr>reg_last := reg_last r + 1\<rparr>
      else r\<lparr>reg_people := (reg_people r)(reg_last r + 1 \<mapsto> e), reg_last := reg_last r + 1\<rparr>)"

text \<open>Who may be told that the name is theirs.\<close>

definition reg_free_for :: "int \<Rightarrow> string \<Rightarrow> registry \<Rightarrow> bool" where
  "reg_free_for i n r \<longleftrightarrow> reg_names r n = None \<or> reg_names r n = Some (Person i)"

text \<open>Taking a name gives up the one the person had.\<close>

definition reg_take :: "int \<Rightarrow> string \<Rightarrow> registry \<Rightarrow> registry" where
  "reg_take i n r =
     (if reg_names r n = None \<and> reg_people r i \<noteq> None
      then r\<lparr>reg_names := (\<lambda>m. if m = n then Some (Person i)
             else if reg_names r m = Some (Person i) then None else reg_names r m)\<rparr>
      else r)"

definition reg_agent :: "int \<Rightarrow> string \<Rightarrow> registry \<Rightarrow> registry" where
  "reg_agent i n r = (if reg_names r n = None then r\<lparr>reg_names := (reg_names r)(n \<mapsto> AgentOf i)\<rparr> else r)"

definition reg_gone :: "string \<Rightarrow> registry \<Rightarrow> int \<Rightarrow> bool" where
  "reg_gone e r i \<longleftrightarrow> reg_people r i = Some e"

definition reg_delete :: "string \<Rightarrow> registry \<Rightarrow> registry" where
  "reg_delete e r =
     r\<lparr>reg_people := (\<lambda>i. if reg_gone e r i then None else reg_people r i),
       reg_names := (\<lambda>n. case reg_names r n of
           Some (Person i) \<Rightarrow> if reg_gone e r i then None else Some (Person i) | w \<Rightarrow> w)\<rparr>"

fun reg_step :: "(string \<Rightarrow> string) \<Rightarrow> db_op \<Rightarrow> registry \<Rightarrow> registry" where
  "reg_step U (FindOrCreate e now) r = reg_enrol (to_lowercase U e) r"
| "reg_step U (SetHandle i h) r = reg_take i (to_lowercase U h) r"
| "reg_step U (DeleteAccount e) r = reg_delete (to_lowercase U e) r"
| "reg_step U (CreateAgent i n now) r = reg_agent i (to_lowercase U n) r"
| "reg_step U _ r = r"

section \<open>The abstraction\<close>

definition registry_of :: "store \<Rightarrow> registry" where
  "registry_of st =
     \<lparr>reg_people = (\<lambda>i. map_option external_email (row_by_id i st)),
      reg_names = (\<lambda>n. case row_by_handle n st of
          Some r \<Rightarrow> Some (Person (acc_id r))
        | None \<Rightarrow> map_option (\<lambda>g. AgentOf (agent_account g)) (agent_by_name n st)),
      reg_last = accounts_seq st\<rparr>"

fun holds :: "store \<Rightarrow> string \<Rightarrow> holder \<Rightarrow> bool" where
  "holds st n (Person i) = (\<exists>r\<in>set (accounts st). handle r = Some n \<and> acc_id r = i)"
| "holds st n (AgentOf i) = (\<exists>g\<in>set (agent_identities st). agent_name g = n \<and> agent_account g = i)"

lemma registry_last [simp]: "reg_last (registry_of st) = accounts_seq st"
  by (simp add: registry_of_def)

lemma registry_people:
  assumes "wf_store st"
  shows "reg_people (registry_of st) i = Some e \<longleftrightarrow>
    (\<exists>r\<in>set (accounts st). acc_id r = i \<and> external_email r = e)"
  by (auto simp: registry_of_def row_by_id_eq [OF assms])

lemma registry_names_handle:
  assumes wf: "wf_store st" and r: "row_by_handle n st = Some r"
  shows "reg_names (registry_of st) n = Some w \<longleftrightarrow> holds st n w"
proof -
  have r': "r \<in> set (accounts st)" "handle r = Some n" using row_by_handle_SomeD [OF r] by blast+
  have one: "acc_id s = acc_id r" if "s \<in> set (accounts st)" "handle s = Some n" for s
    by (rule handles_uniqueD [OF wf_storeD(3) [OF wf] that(1) r'(1) that(2) r'(2)])
  have no: "agent_name g \<noteq> n" if "g \<in> set (agent_identities st)" for g
    using wf_storeD(5) [OF wf] r' that unfolding namespace_disjoint_def by blast
  have eq: "reg_names (registry_of st) n = Some (Person (acc_id r))" by (simp add: registry_of_def r)
  show ?thesis
  proof (cases w)
    case (Person i)
    have "holds st n (Person i) \<longleftrightarrow> acc_id r = i"
    proof
      assume "holds st n (Person i)"
      then obtain s where s: "s \<in> set (accounts st)" "handle s = Some n" "acc_id s = i" by auto
      then show "acc_id r = i" using one [OF s(1,2)] by simp
    next
      assume "acc_id r = i"
      then show "holds st n (Person i)" unfolding holds.simps by (intro bexI [of _ r]) (simp_all add: r')
    qed
    then show ?thesis by (simp add: eq Person)
  next
    case (AgentOf i)
    have "\<not> holds st n (AgentOf i)" unfolding holds.simps using no by blast
    then show ?thesis by (simp add: eq AgentOf)
  qed
qed

lemma registry_names:
  assumes wf: "wf_store st"
  shows "reg_names (registry_of st) n = Some w \<longleftrightarrow> holds st n w"
proof (cases "row_by_handle n st")
  case (Some r)
  then show ?thesis by (rule registry_names_handle [OF wf])
next
  case None
  have d: "distinct (map agent_name (agent_identities st))"
    using wf_storeD(4) [OF wf] by (simp add: names_unique_def)
  have ag: "agent_by_name n st = Some g \<longleftrightarrow> g \<in> set (agent_identities st) \<and> agent_name g = n" for g
    using find_unique [OF d, of g n] agent_by_name_SomeD unfolding agent_by_name_def by blast
  have eq: "reg_names (registry_of st) n = map_option (\<lambda>g. AgentOf (agent_account g)) (agent_by_name n st)"
    by (simp add: registry_of_def None)
  show ?thesis
  proof (cases w)
    case (Person i)
    have "\<not> holds st n (Person i)" unfolding holds.simps using None unfolding row_by_handle_None by blast
    then show ?thesis by (simp add: eq Person)
  next
    case (AgentOf i)
    show ?thesis unfolding eq AgentOf holds.simps map_option_eq_Some ag by blast
  qed
qed

lemma registry_eqI:
  assumes wf: "wf_store st"
    and "\<And>i e. (\<exists>r\<in>set (accounts st). acc_id r = i \<and> external_email r = e) \<longleftrightarrow> reg_people g i = Some e"
    and "\<And>n w. holds st n w \<longleftrightarrow> reg_names g n = Some w"
    and "accounts_seq st = reg_last g"
  shows "registry_of st = (g :: registry)"
proof -
  have "reg_people (registry_of st) i = reg_people g i" for i
    by (rule option.expand) (use assms(2) registry_people [OF wf] in \<open>metis option.distinct(1) option.exhaust option.sel\<close>)+
  moreover have "reg_names (registry_of st) n = reg_names g n" for n
    by (rule option.expand) (use assms(3) registry_names [OF wf] in \<open>metis option.distinct(1) option.exhaust option.sel\<close>)+
  ultimately show ?thesis using assms(4) by (simp add: registry.equality fun_eq_iff)
qed

section \<open>The simulation\<close>

lemma registry_names_None:
  assumes "wf_store st"
  shows "reg_names (registry_of st) n = None \<longleftrightarrow> agent_by_name n st = None \<and> row_by_handle n st = None"
  by (auto simp: registry_of_def split: option.splits)

lemma find_through:
  assumes "map h xs = map h' ys" and "\<And>x. f x = k (h x) \<and> P x = Q (h x)" and "\<And>y. f' y = k (h' y) \<and> P' y = Q (h' y)"
  shows "map_option f (find P xs) = map_option f' (find P' ys)"
proof -
  have "map_option k (find Q (map h xs)) = map_option f (find P xs)" using assms(2) by (induction xs) auto
  moreover have "map_option k (find Q (map h' ys)) = map_option f' (find P' ys)" using assms(3) by (induction ys) auto
  ultimately show ?thesis using assms(1) by simp
qed

lemma registry_same:
  assumes "accounts_seq t = accounts_seq st"
    and "map (\<lambda>r. (acc_id r, external_email r, handle r)) (accounts t) =
         map (\<lambda>r. (acc_id r, external_email r, handle r)) (accounts st)"
    and "map (\<lambda>g. (agent_name g, agent_account g)) (agent_identities t) =
         map (\<lambda>g. (agent_name g, agent_account g)) (agent_identities st)"
  shows "registry_of t = registry_of st"
proof -
  have "map_option external_email (row_by_id i t) = map_option external_email (row_by_id i st)" for i
    unfolding row_by_id_def
    by (rule find_through [where k = "\<lambda>(a, e, h). e" and Q = "\<lambda>(a, e, h). a = i", OF assms(2)]) simp_all
  moreover have h: "map_option acc_id (row_by_handle n t) = map_option acc_id (row_by_handle n st)" for n
    unfolding row_by_handle_def
    by (rule find_through [where k = "\<lambda>(a, e, h). a" and Q = "\<lambda>(a, e, h). h = Some n", OF assms(2)]) simp_all
  moreover have g: "map_option (\<lambda>g. AgentOf (agent_account g)) (agent_by_name n t) =
      map_option (\<lambda>g. AgentOf (agent_account g)) (agent_by_name n st)" for n
    unfolding agent_by_name_def
    by (rule find_through [where k = "\<lambda>(a, c). AgentOf c" and Q = "\<lambda>(a, c). a = n", OF assms(3)]) simp_all
  moreover have "reg_names (registry_of t) n = reg_names (registry_of st) n" for n
    using h [of n] g [of n] by (auto simp: registry_of_def split: option.splits)
  ultimately show ?thesis
    by (intro registry.equality) (auto simp: registry_of_def fun_eq_iff assms(1))
qed

lemma registry_enrol:
  assumes wf: "wf_store st"
  shows "registry_of (insert_account e now st) = reg_enrol e (registry_of st)"
proof (cases "row_by_email e st")
  case (Some r)
  then have "r \<in> set (accounts st) \<and> external_email r = e" by (simp add: row_by_email_eq [OF wf])
  then have "e \<in> ran (reg_people (registry_of st))"
    using registry_people [OF wf, of "acc_id r" e] by (auto simp: ran_def)
  moreover have "registry_of (st\<lparr>accounts_seq := n\<rparr>) = (registry_of st)\<lparr>reg_last := n\<rparr>" for n
    by (simp add: registry_of_def row_by_id_def row_by_handle_def agent_by_name_def fun_eq_iff split: option.split)
  ultimately show ?thesis using Some by (simp add: insert_account_def reg_enrol_def)
next
  case None
  then have "\<forall>r\<in>set (accounts st). external_email r \<noteq> e" by (simp add: row_by_email_None)
  then have no: "e \<notin> ran (reg_people (registry_of st))"
    by (auto simp: ran_def registry_people [OF wf])
  have last: "\<forall>r\<in>set (accounts st). acc_id r \<noteq> accounts_seq st + 1"
    using wf_storeD(1) [OF wf] by (auto simp: ids_fresh_def)
  have t: "wf_store (insert_account e now st)" by (rule wf_insert_account [OF wf])
  show ?thesis
  proof (rule registry_eqI [OF t])
    fix i d
    show "(\<exists>r\<in>set (accounts (insert_account e now st)). acc_id r = i \<and> external_email r = d) \<longleftrightarrow>
        reg_people (reg_enrol e (registry_of st)) i = Some d"
      using no None last by (auto simp: insert_account_def reg_enrol_def registry_people [OF wf])
  next
    fix n w
    have "holds (insert_account e now st) n w \<longleftrightarrow> holds st n w"
      using None by (cases w) (auto simp: insert_account_def)
    then show "holds (insert_account e now st) n w \<longleftrightarrow> reg_names (reg_enrol e (registry_of st)) n = Some w"
      by (simp add: reg_enrol_def registry_names [OF wf])
  qed (use None no in \<open>simp add: insert_account_def reg_enrol_def\<close>)
qed

lemma registry_take_free:
  assumes wf: "wf_store st" and free: "agent_by_name n st = None" "row_by_handle n st = None"
  shows "registry_of (st\<lparr>accounts := map (\<lambda>r. if acc_id r = i then r\<lparr>handle := Some n\<rparr> else r) (accounts st)\<rparr>) =
    reg_take i n (registry_of st)" (is "registry_of ?t = _")
proof (cases "reg_people (registry_of st) i = None")
  case True
  then have "\<forall>r\<in>set (accounts st). acc_id r \<noteq> i" by (simp add: registry_of_def row_by_id_None)
  then have "map (\<lambda>r. if acc_id r = i then r\<lparr>handle := Some n\<rparr> else r) (accounts st) = accounts st"
    by (intro map_idI) auto
  then show ?thesis using True by (simp add: reg_take_def)
next
  case False
  then obtain e where e: "reg_people (registry_of st) i = Some e" by blast
  then obtain r0 where r0: "r0 \<in> set (accounts st)" "acc_id r0 = i" by (auto simp: registry_people [OF wf])
  have n: "\<forall>r\<in>set (accounts st). handle r \<noteq> Some n" "\<forall>g\<in>set (agent_identities st). agent_name g \<noteq> n"
    using free by (simp_all add: row_by_handle_None agent_by_name_None)
  have empty: "reg_names (registry_of st) n = None" using registry_names_None [OF wf] free by blast
  have names: "reg_names (reg_take i n (registry_of st)) m = Some w \<longleftrightarrow>
      (if m = n then w = Person i else w \<noteq> Person i \<and> holds st m w)" for m w
    using False empty by (auto simp: reg_take_def registry_names [OF wf, symmetric] simp del: holds.simps)
  show ?thesis
  proof (rule registry_eqI)
    show "wf_store ?t" using wf free by (rule wf_update_handle)
    show "(\<exists>r\<in>set (accounts ?t). acc_id r = j \<and> external_email r = d) \<longleftrightarrow>
        reg_people (reg_take i n (registry_of st)) j = Some d" for j d
    proof -
      have "reg_people (reg_take i n (registry_of st)) j = Some d \<longleftrightarrow>
          (\<exists>r\<in>set (accounts st). acc_id r = j \<and> external_email r = d)"
        by (simp add: reg_take_def registry_people [OF wf])
      then show ?thesis by (simp del: if_image_distrib) (metis (no_types, lifting) account_row.simps)
    qed
    show "holds ?t m w \<longleftrightarrow> reg_names (reg_take i n (registry_of st)) m = Some w" for m w
      unfolding names using n r0 by (cases w) (auto simp del: if_image_distrib)
  qed (simp add: reg_take_def)
qed

lemma registry_delete:
  assumes wf: "wf_store st"
  shows "registry_of (st\<lparr>accounts := filter (\<lambda>r. external_email r \<noteq> e) (accounts st)\<rparr>) =
    reg_delete e (registry_of st)" (is "registry_of ?t = _")
proof (rule registry_eqI)
  show "wf_store ?t" using wf by (rule wf_filter_accounts)
  have d: "distinct (map acc_id (accounts st))" by (rule wf_ids_distinct [OF wf])
  have one: "r = r'" if "r \<in> set (accounts st)" "r' \<in> set (accounts st)" "acc_id r = acc_id r'" for r r'
    using d that by (auto simp: distinct_map inj_on_def)
  have gone: "reg_gone e (registry_of st) (acc_id r) \<longleftrightarrow> external_email r = e" if "r \<in> set (accounts st)" for r
    unfolding reg_gone_def registry_people [OF wf] using one that by auto
  show "(\<exists>r\<in>set (accounts ?t). acc_id r = j \<and> external_email r = x) \<longleftrightarrow>
      reg_people (reg_delete e (registry_of st)) j = Some x" for j x
    using registry_people [OF wf, of j x] registry_people [OF wf, of j e] by (auto simp: reg_delete_def reg_gone_def)
  show "holds ?t m w \<longleftrightarrow> reg_names (reg_delete e (registry_of st)) m = Some w" for m w
  proof (cases w)
    case (Person i)
    have "holds ?t m (Person i) \<longleftrightarrow> holds st m (Person i) \<and> \<not> reg_gone e (registry_of st) i"
      using gone by auto
    then show ?thesis unfolding Person using registry_names [OF wf, of m "Person i"]
      by (auto simp: reg_delete_def simp del: holds.simps split: option.splits holder.splits)
  next
    case (AgentOf i)
    then show ?thesis using registry_names [OF wf, of m w]
      by (auto simp: reg_delete_def split: option.splits holder.splits)
  qed
qed (simp add: reg_delete_def)

lemma registry_agent:
  assumes wf: "wf_store st" and free: "row_by_handle n st = None" "agent_by_name n st = None"
    and g: "agent_name g = n" "agent_account g = i"
  shows "registry_of (st\<lparr>agent_identities := agent_identities st @ [g]\<rparr>) = reg_agent i n (registry_of st)"
    (is "registry_of ?t = _")
proof (rule registry_eqI)
  show "wf_store ?t" using wf free g by (simp add: wf_append_agent)
  have empty: "reg_names (registry_of st) n = None" using registry_names_None [OF wf] free by blast
  show "(\<exists>r\<in>set (accounts ?t). acc_id r = j \<and> external_email r = d) \<longleftrightarrow>
      reg_people (reg_agent i n (registry_of st)) j = Some d" for j d
    by (simp add: reg_agent_def registry_people [OF wf])
  have n: "\<forall>r\<in>set (accounts st). handle r \<noteq> Some n" "\<forall>h\<in>set (agent_identities st). agent_name h \<noteq> n"
    using free by (simp_all add: row_by_handle_None agent_by_name_None)
  have names: "reg_names (reg_agent i n (registry_of st)) m = Some w \<longleftrightarrow>
      (if m = n then w = AgentOf i else holds st m w)" for m w
    using empty by (auto simp: reg_agent_def registry_names [OF wf, symmetric] simp del: holds.simps)
  show "holds ?t m w \<longleftrightarrow> reg_names (reg_agent i n (registry_of st)) m = Some w" for m w
    unfolding names using n g by (cases w) auto
qed (simp add: reg_agent_def)

lemma set_handle_registry:
  assumes wf: "wf_store st"
  shows "registry_of (snd (set_handle U i h st)) = reg_take i (to_lowercase U h) (registry_of st)"
    and "fst (set_handle U i h st) = Inr (reg_free_for i (to_lowercase U h) (registry_of st))"
proof -
  let ?n = "to_lowercase U h"
  have "registry_of (snd (set_handle U i h st)) = reg_take i ?n (registry_of st) \<and>
      fst (set_handle U i h st) = Inr (reg_free_for i ?n (registry_of st))"
  proof (cases rule: set_handle_cases [of U h st i])
    case (agent g)
    then have "row_by_handle ?n st = None"
      using wf_storeD(5) [OF wf] agent_by_name_SomeD [OF agent(1)]
      unfolding namespace_disjoint_def row_by_handle_None by metis
    then have "reg_names (registry_of st) ?n = Some (AgentOf (agent_account g))"
      using agent(1) by (simp add: registry_of_def)
    then show ?thesis using agent(2) by (simp add: reg_take_def reg_free_for_def)
  next
    case (owner r)
    then have "reg_names (registry_of st) ?n = Some (Person (acc_id r))" by (simp add: registry_of_def)
    then show ?thesis using owner(3) by (simp add: reg_take_def reg_free_for_def)
  next
    case free
    then have "reg_names (registry_of st) ?n = None" using registry_names_None [OF wf] by blast
    then show ?thesis using free(3) registry_take_free [OF wf free(1,2), of i] by (simp add: reg_free_for_def)
  qed
  then show "registry_of (snd (set_handle U i h st)) = reg_take i ?n (registry_of st)"
    "fst (set_handle U i h st) = Inr (reg_free_for i ?n (registry_of st))" by blast+
qed

lemma create_agent_registry:
  assumes wf: "wf_store st"
  shows "registry_of (snd (create_agent_identity U i n now st)) = reg_agent i (to_lowercase U n) (registry_of st) \<and>
    fst (create_agent_identity U i n now st) = Inr (reg_names (registry_of st) (to_lowercase U n) = None)"
proof (cases rule: create_agent_cases [of U n st i now])
  case (handle r)
  then have "reg_names (registry_of st) (to_lowercase U n) = Some (Person (acc_id r))" by (simp add: registry_of_def)
  then show ?thesis using handle(2) by (simp add: reg_agent_def)
next
  case (agent g)
  then have "reg_names (registry_of st) (to_lowercase U n) = Some (AgentOf (agent_account g))"
    by (simp add: registry_of_def)
  then show ?thesis using agent(3) by (simp add: reg_agent_def)
next
  case free
  then have "reg_names (registry_of st) (to_lowercase U n) = None" using registry_names_None [OF wf] by blast
  then show ?thesis using free(3) registry_agent [OF wf free(1,2)] by simp
qed

lemma delete_account_registry:
  assumes wf: "wf_store st"
  shows "registry_of (snd (delete_account U e st)) = reg_delete (to_lowercase U e) (registry_of st)"
proof -
  have "registry_of (snd (delete_account U e st)) =
      registry_of (st\<lparr>accounts := filter (\<lambda>r. external_email r \<noteq> to_lowercase U e) (accounts st)\<rparr>)"
    by (rule registry_same) (simp_all add: delete_account_def Let_def split: option.split)
  then show ?thesis using registry_delete [OF wf] by simp
qed

lemma exec_registry:
  assumes wf: "wf_store st"
  shows "registry_of (exec U op st) = reg_step U op (registry_of st)"
proof (cases op)
  case (FindOrCreate e now)
  then show ?thesis using registry_enrol [OF wf] by (simp add: find_or_create_state)
next
  case (SetHandle i h)
  then show ?thesis using set_handle_registry(1) [OF wf] by simp
next
  case (DeleteAccount e)
  then show ?thesis using delete_account_registry [OF wf] by simp
next
  case (CreateAgent i n now)
  then show ?thesis using create_agent_registry [OF wf] by simp
qed (auto intro!: registry_same simp: set_identity_mode_def create_session_def delete_session_def
  delete_account_sessions_def account_for_session_def and_then_def done_with_def revoke_agent_identity_def
  set_poster_pending_def clear_poster_pending_def set_poster_warrant_def delete_poster_warrant_def comp_def
  split: option.splits)

interpretation store_registry: simulation "\<lambda>st. st = empty_store" admissible "exec U"
    "\<lambda>st. wf_store st \<and> refs_known st" registry_of "reg_step U"
  for U
  by unfold_locales (simp add: exec_registry)

definition empty_registry :: registry where
  "empty_registry = \<lparr>reg_people = (\<lambda>_. None), reg_names = (\<lambda>_. None), reg_last = 0\<rparr>"

lemma registry_of_empty [simp]: "registry_of empty_store = empty_registry"
  by (simp add: registry_of_def empty_registry_def empty_store_def row_by_id_def row_by_handle_def
      agent_by_name_def)

fun person_of :: "holder option \<Rightarrow> int option" where
  "person_of (Some (Person i)) = Some i"
| "person_of _ = None"

text \<open>C26: The account store refines the registry of people and names.  The registry of every
  reachable store is one the specification reaches, every operation acts on it as the specification
  says, and the answers of the store (whether a handle or an agent name can be had, and whose a
  handle is) are the answers of the registry.\<close>
theorem store_refines_registry:
  assumes "store_reaches U st"
  shows "reaches (\<lambda>g. g = empty_registry) (\<lambda>_ _. True) (reg_step U) (registry_of st) \<and>
    registry_of (exec U op st) = reg_step U op (registry_of st) \<and>
    fst (set_handle U i h st) = Inr (reg_free_for i (to_lowercase U h) (registry_of st)) \<and>
    fst (create_agent_identity U i h now st) = Inr (reg_names (registry_of st) (to_lowercase U h) = None) \<and>
    fst (account_id_for_handle U h st) = Inr (person_of (reg_names (registry_of st) (to_lowercase U h)))"
proof -
  have wf: "wf_store st" using store_sys.reaches_inv [OF assms] by blast
  have "fst (account_id_for_handle U h st) = Inr (person_of (reg_names (registry_of st) (to_lowercase U h)))"
    by (cases "agent_by_name (to_lowercase U h) st")
       (simp_all add: account_id_for_handle_def registry_of_def split: option.split)
  then show ?thesis
    using store_registry.reaches_abs [OF assms] exec_registry [OF wf] set_handle_registry(2) [OF wf]
      create_agent_registry [OF wf] by simp
qed

lemma store_refines_registry_witness:
  "\<exists>st. store_reaches id st \<and> reg_people (registry_of st) 1 = Some ''a@x'' \<and>
     reg_names (registry_of (exec id (SetHandle 1 ''kim'') st)) ''kim'' = Some (Person 1)"
proof -
  let ?st = "exec id (FindOrCreate ''a@x'' 5) empty_store"
  have r: "store_reaches id ?st" by (intro reaches.intros refl) simp
  have l: "to_lowercase id ''a@x'' = ''a@x''" "to_lowercase id ''kim'' = ''kim''" by code_simp+
  have "registry_of ?st = reg_step id (FindOrCreate ''a@x'' 5) empty_registry"
    using exec_registry [of empty_store id "FindOrCreate ''a@x'' 5"] by (simp del: exec.simps)
  then have g: "registry_of ?st = \<lparr>reg_people = [1 \<mapsto> ''a@x''], reg_names = (\<lambda>_. None), reg_last = 1\<rparr>"
    by (simp add: reg_enrol_def empty_registry_def l)
  then have "reg_names (registry_of (exec id (SetHandle 1 ''kim'') ?st)) ''kim'' = Some (Person 1)"
    using store_refines_registry [OF r, of "SetHandle 1 ''kim''"] by (simp add: reg_take_def l del: exec.simps)
  then show ?thesis using r g by (intro exI [of _ ?st]) simp
qed

section \<open>Who keeps a name\<close>

text \<open>A person who holds a name gives it up by taking another handle or by deleting the account
  (whose email is \<open>e\<close>).  An agent never gives up its name.\<close>

fun gives_up :: "(string \<Rightarrow> string) \<Rightarrow> string \<Rightarrow> string \<Rightarrow> holder \<Rightarrow> db_op \<Rightarrow> bool" where
  "gives_up U e n (Person i) (SetHandle j h) \<longleftrightarrow> j = i \<and> to_lowercase U h \<noteq> n"
| "gives_up U e n (Person i) (DeleteAccount d) \<longleftrightarrow> to_lowercase U d = e"
| "gives_up U e n _ _ \<longleftrightarrow> False"

definition held_by :: "string \<Rightarrow> string \<Rightarrow> holder \<Rightarrow> registry \<Rightarrow> bool" where
  "held_by e n w r \<longleftrightarrow> reg_names r n = Some w \<and>
     (\<forall>i. w = Person i \<longrightarrow> reg_people r i = Some e)"

lemma reg_step_keeps:
  assumes "held_by e n w r" "\<not> gives_up U e n w op" "\<forall>i. reg_people r i \<noteq> None \<longrightarrow> i \<le> reg_last r"
  shows "held_by e n w (reg_step U op r)"
  using assms by (cases op; cases w)
    (auto simp: held_by_def reg_enrol_def reg_take_def reg_delete_def reg_gone_def reg_agent_def)

lemma create_agent_refused:
  "fst (create_agent_identity U i n now st) = Inr False \<Longrightarrow> create_agent_identity U i n now st = (Inr False, st)"
  by (cases rule: create_agent_cases [of U n st i now]) simp_all

lemma registry_people_fresh:
  assumes "wf_store st" "reg_people (registry_of st) i \<noteq> None"
  shows "i \<le> reg_last (registry_of st)"
  using assms wf_storeD(1) [OF assms(1)] by (auto simp: registry_people ids_fresh_def)

interpretation kept: invariant_system "\<lambda>t. t = st" "\<lambda>op t. admissible op t \<and> \<not> gives_up U e n w op" "exec U"
    "\<lambda>t. (wf_store st \<and> held_by e n w (registry_of st)) \<longrightarrow> wf_store t \<and> held_by e n w (registry_of t)"
  for U st e n w
  by unfold_locales
    (use registry_people_fresh in \<open>auto simp: exec_registry simp del: exec.simps intro: exec_keeps_wf reg_step_keeps\<close>)

text \<open>C3: A name stays with its holder.  The handle of a person, under the operations that are
  neither another handle for that person nor the deletion of that person's account, and the name of
  an agent, under every operation (its revocation and the deletion of its account included), is held
  by the same holder in every later state: nobody else can take it as a handle, and nobody can
  register it for an agent.\<close>

theorem names_kept:
  assumes "store_reaches U st" "reg_names (registry_of st) n = Some w"
    and "\<forall>i. w = Person i \<longrightarrow> reg_people (registry_of st) i = Some e"
    and "reaches (\<lambda>t. t = st) (\<lambda>op t. admissible op t \<and> \<not> gives_up U e n w op) (exec U) t"
    and "to_lowercase U h = n"
  shows "reg_names (registry_of t) n = Some w \<and>
    fst (set_handle U j h t) = Inr (w = Person j) \<and>
    create_agent_identity U j h now t = (Inr False, t)"
proof -
  have "wf_store st" using store_sys.reaches_inv [OF assms(1)] by blast
  then have t: "wf_store t" "reg_names (registry_of t) n = Some w"
    using kept.reaches_from_inv [OF assms(4)] assms(2,3) by (auto simp: held_by_def)
  then have "fst (create_agent_identity U j h now t) = Inr False"
    using create_agent_registry [OF t(1), of U j h now] assms(5) by simp
  then show ?thesis
    using t set_handle_registry(2) [OF t(1), of U j h] create_agent_refused assms(5) by (simp add: reg_free_for_def)
qed

theorem names_kept_witness:
  "\<exists>t u. fst (set_handle id 1 ''kim'' t) = Inr True \<and> fst (set_handle id 2 ''kim'' t) = Inr False \<and>
     create_agent_identity id 2 ''kim'' 9 t = (Inr False, t) \<and>
     reg_people (registry_of u) 1 = None \<and> fst (set_handle id 2 ''bot'' u) = Inr False"
proof -
  let ?st = "exec id (CreateAgent 1 ''bot'' 6) (exec id (SetHandle 1 ''kim'') (exec id (FindOrCreate ''a@x'' 5) empty_store))"
  let ?t = "exec id (SetHandle 2 ''kim'') (exec id (FindOrCreate ''b@x'' 7) ?st)"
  let ?u = "exec id (DeleteAccount ''a@x'') (exec id (RevokeAgent ''bot'' 8) ?st)"
  have low: "to_lowercase id ''a@x'' = ''a@x''" "to_lowercase id ''b@x'' = ''b@x''"
      "to_lowercase id ''kim'' = ''kim''" "to_lowercase id ''bot'' = ''bot''" by code_simp+
  note reg = exec_registry [of _ id] exec_keeps_wf [of _ id] low reg_enrol_def reg_take_def reg_agent_def
    reg_delete_def reg_gone_def empty_registry_def
  have st: "registry_of ?st = \<lparr>reg_people = [1 \<mapsto> ''a@x''],
      reg_names = [''kim'' \<mapsto> Person 1, ''bot'' \<mapsto> AgentOf 1], reg_last = 1\<rparr>"
    by (simp add: reg fun_eq_iff del: exec.simps)
  have u: "reg_people (registry_of ?u) 1 = None" by (simp add: st reg del: exec.simps)
  have seq: "accounts_seq ?st = 1" using arg_cong [OF st, of reg_last] by simp
  have known: "known_id 1 (exec id (SetHandle 1 ''kim'') (exec id (FindOrCreate ''a@x'' 5) empty_store))"
    using seq by (simp add: known_id_def)
  have r: "store_reaches id ?st" by (intro reaches.intros refl) (use known in simp_all)
  have t: "reaches (\<lambda>t. t = ?st) (\<lambda>op t. admissible op t \<and> \<not> gives_up id ''a@x'' ''kim'' (Person 1) op) (exec id) ?t"
    by (intro reaches.intros refl) (simp_all add: low)
  have u': "reaches (\<lambda>t. t = ?st) (\<lambda>op t. admissible op t \<and> \<not> gives_up id ''a@x'' ''bot'' (AgentOf 1) op) (exec id) ?u"
    by (intro reaches.intros refl) simp_all
  have kim: "fst (set_handle id j ''kim'' ?t) = Inr (j = 1) \<and> create_agent_identity id j ''kim'' 9 ?t = (Inr False, ?t)" for j
    using names_kept [OF r _ _ t low(3), where j = j and now = 9] by (simp add: st del: exec.simps)
  have bot: "fst (set_handle id 2 ''bot'' ?u) = Inr False"
    using names_kept [OF r _ _ u' low(4), where j = 2] by (simp add: st del: exec.simps)
  show ?thesis using kim [of 1] kim [of 2] u bot
    by (intro exI [of _ ?t] exI [of _ ?u]) (simp del: exec.simps)
qed

end
