(* ===== verification/Idp_Names.thy ===== *)
theory Idp_Names
  imports Mingo_Prelude
begin

text \<open>
  The error type of the identity provider (\<open>mingo-idp/src/error.rs\<close>) and its rules for names
  (\<open>mingo-idp/src/routes.rs\<close>): which texts can become \<open><handle>@<domain>\<close> identities, and
  which emails can sign in.
\<close>

section \<open>Errors\<close>

datatype app_error =
    NotAuthenticated
  | InvalidAssertion string
  | InvalidHandle string
  | HandleTaken
  | Forbidden
  | BadRequest string
  | Internal string

fun app_error_text :: "app_error \<Rightarrow> string" where
  "app_error_text NotAuthenticated = ''not authenticated''"
| "app_error_text (InvalidAssertion m) = ''invalid assertion: '' @ m"
| "app_error_text (InvalidHandle m) = ''invalid handle: '' @ m"
| "app_error_text HandleTaken = ''handle already taken''"
| "app_error_text Forbidden = ''forbidden''"
| "app_error_text (BadRequest m) = ''bad request: '' @ m"
| "app_error_text (Internal m) = ''internal error: '' @ m"

fun app_error_status :: "app_error \<Rightarrow> nat" where
  "app_error_status NotAuthenticated = 401"
| "app_error_status Forbidden = 403"
| "app_error_status HandleTaken = 409"
| "app_error_status (InvalidAssertion m) = 400"
| "app_error_status (InvalidHandle m) = 400"
| "app_error_status (BadRequest m) = 400"
| "app_error_status (Internal m) = 500"

section \<open>Handles and agent names\<close>

definition RESERVED_HANDLES :: "string list" where
  "RESERVED_HANDLES =
     [''admin'', ''administrator'', ''root'', ''superuser'', ''postmaster'', ''hostmaster'',
      ''webmaster'', ''abuse'', ''security'', ''noreply'', ''no-reply'', ''mailer-daemon'', ''daemon'']"

definition handle_is_reserved :: "string \<Rightarrow> bool" where
  "handle_is_reserved h \<longleftrightarrow> h = ''sys'' \<or> prefix ''sys-'' h \<or> h \<in> set RESERVED_HANDLES"

definition name_char :: "bool \<Rightarrow> char \<Rightarrow> bool" where
  "name_char allow_plus c \<longleftrightarrow> is_ascii_alphanumeric c \<or>
     c \<in> {CHR ''.'', CHR ''_'', CHR ''-''} \<or> (allow_plus \<and> c = CHR ''+'')"

definition name_max :: "bool \<Rightarrow> nat" where
  "name_max allow_plus = (if allow_plus then 64 else 31)"

text \<open>The three bytes in the first message are the en dash of the source.\<close>

definition normalize_name ::
  "(string \<Rightarrow> string) \<Rightarrow> string \<Rightarrow> bool \<Rightarrow> (app_error, string) res" where
  "normalize_name U raw allow_plus =
     (let h = to_lowercase U (trim raw) in
      if h = [] \<or> length h > name_max allow_plus
      then Inl (InvalidHandle (''must be 1'' @ [CHR 0xE2, CHR 0x80, CHR 0x93] @
             nat_digits (name_max allow_plus) @ '' chars''))
      else if \<not> is_ascii_alphanumeric (hd h)
      then Inl (InvalidHandle ''must start with a letter or digit'')
      else if \<not> list_all (name_char allow_plus) h
      then Inl (InvalidHandle ''disallowed character in name'')
      else if handle_is_reserved h
      then Inl (InvalidHandle ''this handle is reserved'')
      else Inr h)"

definition normalize_handle :: "(string \<Rightarrow> string) \<Rightarrow> string \<Rightarrow> (app_error, string) res" where
  "normalize_handle U raw = normalize_name U raw False"

definition normalize_agent_name :: "(string \<Rightarrow> string) \<Rightarrow> string \<Rightarrow> (app_error, string) res" where
  "normalize_agent_name U raw = normalize_name U raw True"

text \<open>
  \<open>rsplit('@').next()\<close>: the text after the last at sign, or all of it when there is none.
\<close>

definition after_last_at :: "string \<Rightarrow> string" where
  "after_last_at email = last (split_on CHR ''@'' email)"

definition reject_own_domain :: "string \<Rightarrow> string \<Rightarrow> (app_error, unit) res" where
  "reject_own_domain email domain =
     (if eq_ignore_ascii_case (after_last_at email) domain
      then Inl (BadRequest (email @ '' cannot be used to sign in '' @ [CHR 0xE2, CHR 0x80, CHR 0x94] @
             '' it is a @'' @ domain @ '' identity issued by this '' @
             ''service, not an external email. Sign in with your real email instead.''))
      else Inr ())"

section \<open>What normalized names look like\<close>

definition valid_name :: "bool \<Rightarrow> string \<Rightarrow> bool" where
  "valid_name allow_plus h \<longleftrightarrow> h \<noteq> [] \<and> length h \<le> name_max allow_plus \<and>
     is_ascii_alphanumeric (hd h) \<and> list_all (name_char allow_plus) h \<and>
     list_all (\<lambda>c. \<not> is_ascii_uppercase c) h \<and> \<not> handle_is_reserved h"

lemma not_upper_lowered [simp]: "\<not> is_ascii_uppercase (to_ascii_lowercase c)"
proof (cases "is_ascii_uppercase c")
  case True
  then have "byte (to_ascii_lowercase c) = byte c + 32"
    by (simp add: to_ascii_lowercase_def is_ascii_uppercase_def)
  then show ?thesis using True by (simp add: is_ascii_uppercase_def)
qed (simp add: to_ascii_lowercase_def)

lemma to_lowercase_fixed:
  assumes "list_all is_ascii s" "list_all (\<lambda>c. \<not> is_ascii_uppercase c) s"
  shows "to_lowercase U s = s"
  using assms by (auto simp: to_lowercase_def to_ascii_lowercase_def list_all_iff map_idI)

lemma to_lowercase_no_upper:
  "list_all is_ascii s \<Longrightarrow> list_all (\<lambda>c. \<not> is_ascii_uppercase c) (to_lowercase U s)"
  by (simp add: to_lowercase_def list_all_iff)

lemma name_char_ascii: "name_char p c \<Longrightarrow> is_ascii c"
  by (auto simp: name_char_def char_class_defs)

lemma name_char_not_ws: "name_char p c \<Longrightarrow> \<not> ascii_ws c \<and> byte c < 128"
  by (auto simp: name_char_def char_class_defs ascii_ws_def)

text \<open>The Unicode tables never lower a text to one with an upper-case ASCII letter in it.\<close>

definition lowering :: "(string \<Rightarrow> string) \<Rightarrow> bool" where
  "lowering U \<longleftrightarrow> (\<forall>s. list_all (\<lambda>c. \<not> is_ascii_uppercase c) (U s))"

lemma to_lowercase_lowered:
  "lowering U \<Longrightarrow> list_all (\<lambda>c. \<not> is_ascii_uppercase c) (to_lowercase U s)"
  by (simp add: to_lowercase_def lowering_def list_all_iff)

lemma lowering_ascii: "lowering (map to_ascii_lowercase)"
  by (simp add: lowering_def list_all_iff)

lemma ws3_high: "ws3 a b c \<Longrightarrow> 128 \<le> a \<and> 128 \<le> c"
  unfolding ws3_def by presburger

lemma ws_len_ascii: "\<not> ascii_ws c \<Longrightarrow> byte c < 128 \<Longrightarrow> ws_len (c # cs) = 0"
  using ws3_high [of "byte c"] by (simp split: list.split) fastforce

lemma ws_len_rev_ascii: "\<not> ascii_ws c \<Longrightarrow> byte c < 128 \<Longrightarrow> ws_len_rev (c # cs) = 0"
  using ws3_high [of _ _ "byte c"] by (simp split: list.split) fastforce

lemma trim_with_0: "w s = 0 \<Longrightarrow> trim_with w s = s"
  by (cases s) simp_all

lemma trim_ascii:
  assumes "list_all (\<lambda>c. \<not> ascii_ws c \<and> byte c < 128) s"
  shows "trim s = s"
proof (cases s)
  case (Cons c cs)
  then have "ws_len s = 0" using assms by (metis list.pred_inject(2) ws_len_ascii)
  then have 1: "trim_start s = s" by (simp add: trim_start_def trim_with_0)
  obtain d ds where r: "rev s = d # ds" using Cons by (cases "rev s") auto
  have "list_all (\<lambda>c. \<not> ascii_ws c \<and> byte c < 128) (rev s)" using assms by (simp add: list_all_iff)
  then have "ws_len_rev (rev s) = 0"
    unfolding r by (intro ws_len_rev_ascii) (auto simp: list_all_iff)
  then show ?thesis by (simp add: trim_def trim_end_def 1 trim_with_0)
qed (simp add: trim_def trim_end_def trim_start_def)

lemma valid_name_ascii: "valid_name p h \<Longrightarrow> list_all is_ascii h"
  by (auto simp: valid_name_def list_all_iff dest: name_char_ascii)

lemma valid_name_lower: "valid_name p h \<Longrightarrow> to_lowercase U h = h"
  by (rule to_lowercase_fixed) (auto simp: valid_name_ascii, simp add: valid_name_def)

lemma valid_name_trim: "valid_name p h \<Longrightarrow> trim h = h"
  by (rule trim_ascii) (auto simp: valid_name_def list_all_iff dest: name_char_not_ws)

lemma normalize_name_Inr:
  "lowering U \<Longrightarrow> normalize_name U raw p = Inr h \<longleftrightarrow> h = to_lowercase U (trim raw) \<and> valid_name p h"
  using to_lowercase_lowered [of U "trim raw"]
  by (auto simp: normalize_name_def valid_name_def Let_def)

lemma normalize_name_fixed: "valid_name p h \<Longrightarrow> normalize_name U h p = Inr h"
  by (simp add: normalize_name_def valid_name_lower valid_name_trim)
     (simp add: valid_name_def Let_def)

lemma valid_handle_agent_name: "valid_name False h \<Longrightarrow> valid_name True h"
  by (auto simp: valid_name_def name_max_def name_char_def list_all_iff)

text \<open>A valid name has no at sign, so it is the local part of its address.\<close>

lemma valid_name_no_at: "valid_name p h \<Longrightarrow> CHR ''@'' \<notin> set h"
  by (auto simp: valid_name_def list_all_iff name_char_def char_class_defs)

lemma valid_handle_no_plus: "valid_name False h \<Longrightarrow> CHR ''+'' \<notin> set h"
  by (auto simp: valid_name_def list_all_iff name_char_def char_class_defs)

lemma after_last_at_address:
  "CHR ''@'' \<notin> set d \<Longrightarrow> after_last_at (l @ CHR ''@'' # d) = d"
proof (induction l)
  case Nil
  then show ?case using split_on_append [of "CHR ''@''" "[]" d] by (simp add: after_last_at_def split_on_no_sep)
next
  case (Cons x l)
  have "split_on CHR ''@'' (l @ CHR ''@'' # d) \<noteq> [last (split_on CHR ''@'' (l @ CHR ''@'' # d))]"
    by (induction l) (auto split: list.splits)
  then show ?case using Cons
    by (auto simp: after_last_at_def split: list.splits)
qed

text \<open>C4: A name is accepted exactly when its trimmed, lower-cased form is 1 to 31 bytes long (64
  with plus addressing), starts with a letter or digit, has only letters, digits, dots, underscores
  and hyphens (and plus signs for agents), and is neither \<open>sys\<close>, nor under \<open>sys-\<close>, nor one of the
  reserved addresses; that form is the result, and normalizing it again gives it back.\<close>

theorem normalize_name_correct:
  assumes "lowering U"
  shows "(normalize_name U raw p = Inr h \<longleftrightarrow> h = to_lowercase U (trim raw) \<and> valid_name p h) \<and>
    (normalize_name U raw p = Inr h \<longrightarrow> normalize_name U h p = Inr h \<and>
       h \<noteq> ''sys'' \<and> \<not> prefix ''sys-'' h) \<and>
    (\<forall>e. normalize_name U raw p = Inl e \<longrightarrow> app_error_status e = 400)"
proof (intro conjI impI allI)
  show "normalize_name U raw p = Inr h \<longleftrightarrow> h = to_lowercase U (trim raw) \<and> valid_name p h"
    by (rule normalize_name_Inr [OF assms])
  assume "normalize_name U raw p = Inr h"
  then have v: "valid_name p h" using assms by (auto simp: normalize_name_Inr)
  then show "normalize_name U h p = Inr h" by (rule normalize_name_fixed)
  show "h \<noteq> ''sys''" and "\<not> prefix ''sys-'' h" using v by (simp_all add: valid_name_def handle_is_reserved_def)
next
  fix e assume "normalize_name U raw p = Inl e"
  then show "app_error_status e = 400" by (auto simp: normalize_name_def Let_def split: if_splits)
qed

theorem normalize_name_correct_witness:
  "normalize_name (map to_ascii_lowercase) '' Kim_9 '' False = Inr ''kim_9'' \<and>
   valid_name False ''kim_9'' \<and>
   normalize_name (map to_ascii_lowercase) '' SYS-checkpointer'' True = Inl (InvalidHandle ''this handle is reserved'')"
proof -
  have k: "normalize_name (map to_ascii_lowercase) '' Kim_9 '' False = Inr ''kim_9''" by code_simp
  moreover have "normalize_name (map to_ascii_lowercase) '' SYS-checkpointer'' True =
      Inl (InvalidHandle ''this handle is reserved'')" by code_simp
  moreover have "valid_name False ''kim_9''"
    using normalize_name_correct [OF lowering_ascii] k by blast
  ultimately show ?thesis by blast
qed

end
