(* ===== verification/Idp_Verify.thy ===== *)
theory Idp_Verify
  imports Mingo_Prelude
begin

text \<open>
  Verification of a sign-in presentation (\<open>mingo-idp/src/verify.rs\<close>).

  Parsing a presentation and checking its signatures is \<open>browserid_core\<close>, and reading an
  issuer's key from DNSSEC is \<open>browserid_dnssec\<close>: both are parameters.  The DNS answers may
  change between queries, so the resolver is a function of the number of queries made before
  and of the name asked for, and the computation counts its queries.
\<close>

record verified_external =
  ve_email :: string
  ve_agent :: "string list option"

text \<open>What \<open>AccessPresentation::verify\<close> returns, and the operations on a presentation the
  code calls.\<close>

record verified =
  v_email :: string
  v_issuer :: string
  v_grantee :: string
  v_grantee_issuer :: string
  v_scopes :: "string list"

record ('p, 'k) presentation_api =
  parse_pres :: "string \<Rightarrow> (string, 'p) res"
  access_iss :: "'p \<Rightarrow> string"
  config_iss :: "'p \<Rightarrow> string"
  verify_pres :: "'p \<Rightarrow> string \<Rightarrow> (string \<rightharpoonup> 'k) \<Rightarrow> (string, verified) res"

type_synonym 'k dns = "nat \<Rightarrow> string \<Rightarrow> (string, 'k) res"

definition resolve_idp_key :: "'k dns \<Rightarrow> string \<Rightarrow> (nat, string, 'k) run" where
  "resolve_idp_key dns name n = (dns n name, Suc n)"

fun resolve_issuers :: "'k dns \<Rightarrow> string list \<Rightarrow> (string \<rightharpoonup> 'k) \<Rightarrow> (nat, string, string \<rightharpoonup> 'k) run"
where
  "resolve_issuers dns [] keys = done_with keys"
| "resolve_issuers dns (iss # rest) keys =
     (if iss \<in> dom keys then resolve_issuers dns rest keys
      else attempt (resolve_idp_key dns iss) (\<lambda>r.
             case r of
               Inl e \<Rightarrow> fail_with (''resolve issuer '' @ iss @ '': '' @ e)
             | Inr k \<Rightarrow> resolve_issuers dns rest (keys(iss \<mapsto> k))))"

text \<open>\<open>identity.split('@').nth(1).unwrap_or("")\<close>.\<close>

definition identity_domain :: "string \<Rightarrow> string" where
  "identity_domain identity =
     (case nth_opt (split_on CHR ''@'' identity) 1 of None \<Rightarrow> [] | Some d \<Rightarrow> d)"

fun check_authority :: "'k dns \<Rightarrow> string \<Rightarrow> (string \<times> string) list \<Rightarrow> (nat, string, unit) run" where
  "check_authority dns broker [] = done_with ()"
| "check_authority dns broker ((identity, iss) # rest) =
     attempt (resolve_idp_key dns (identity_domain identity)) (\<lambda>r.
       let authorized = (case r of Inr _ \<Rightarrow> iss = identity_domain identity | Inl _ \<Rightarrow> iss = broker) in
       if \<not> authorized
       then fail_with (''issuer '' @ [CHR 0x27] @ iss @ [CHR 0x27] @ '' not authorized for '' @
              [CHR 0x27] @ identity @ [CHR 0x27])
       else check_authority dns broker rest)"

definition verify_external_presentation ::
  "('p, 'k) presentation_api \<Rightarrow> 'k dns \<Rightarrow> string \<Rightarrow> string \<Rightarrow> string \<Rightarrow>
   (nat, string, verified_external) run" where
  "verify_external_presentation api dns presentation audience trusted_broker =
     and_then (lift (map_err (\<lambda>e. ''parse: '' @ e) (parse_pres api presentation))) (\<lambda>pres.
     and_then (resolve_issuers dns [access_iss api pres, config_iss api pres] Map.empty) (\<lambda>keys.
     and_then (lift (map_err (\<lambda>e. ''presentation invalid: '' @ e)
                       (verify_pres api pres audience keys))) (\<lambda>v.
     and_then (check_authority dns trusted_broker
                 [(v_email v, v_issuer v), (v_grantee v, v_grantee_issuer v)]) (\<lambda>_.
     done_with \<lparr>ve_email = v_email v,
                ve_agent = (if v_scopes v = [] then None else Some (v_scopes v))\<rparr>))))"

section \<open>Who may certify an identity\<close>

text \<open>Some DNS answer made the issuer the identity's authority: the domain has a record and
  is the issuer itself, or has none and the issuer is the fallback broker.\<close>

definition authority_for :: "'k dns \<Rightarrow> string \<Rightarrow> string \<Rightarrow> string \<Rightarrow> bool" where
  "authority_for dns broker identity iss \<longleftrightarrow>
     (\<exists>n k. dns n (identity_domain identity) = Inr k \<and> iss = identity_domain identity) \<or>
     (\<exists>n e. dns n (identity_domain identity) = Inl e \<and> iss = broker)"

definition keys_from_dns :: "'k dns \<Rightarrow> (string \<rightharpoonup> 'k) \<Rightarrow> bool" where
  "keys_from_dns dns keys \<longleftrightarrow> (\<forall>iss k. keys iss = Some k \<longrightarrow> (\<exists>n. dns n iss = Inr k))"

lemma resolve_issuers_keys:
  "resolve_issuers dns isss keys n = (Inr keys', n') \<Longrightarrow> keys_from_dns dns keys \<Longrightarrow>
   keys_from_dns dns keys' \<and> dom keys' = dom keys \<union> set isss"
proof (induction dns isss keys arbitrary: n rule: resolve_issuers.induct)
  case (2 dns iss rest keys)
  show ?case
  proof (cases "iss \<in> dom keys")
    case True
    then show ?thesis using 2 by auto
  next
    case False
    then obtain k where k: "dns n iss = Inr k"
        "resolve_issuers dns rest (keys(iss \<mapsto> k)) (Suc n) = (Inr keys', n')"
      using "2.prems"(1) by (auto simp: attempt_def resolve_idp_key_def fail_with_def split: sum.splits)
    moreover have "keys_from_dns dns (keys(iss \<mapsto> k))"
      using k(1) "2.prems"(2) by (auto simp: keys_from_dns_def)
    ultimately have "keys_from_dns dns keys' \<and> dom keys' = dom (keys(iss \<mapsto> k)) \<union> set rest"
      using "2.IH"(2) [OF False] by blast
    then show ?thesis by auto
  qed
qed auto

lemma check_authority_sound:
  "check_authority dns broker xs n = (Inr u, n') \<Longrightarrow>
   (identity, iss) \<in> set xs \<Longrightarrow> authority_for dns broker identity iss"
proof (induction dns broker xs arbitrary: n rule: check_authority.induct)
  case (2 dns broker i iss' rest)
  have ok: "case dns n (identity_domain i) of Inr _ \<Rightarrow> iss' = identity_domain i | Inl _ \<Rightarrow> iss' = broker"
    and rest: "check_authority dns broker rest (Suc n) = (Inr u, n')"
    using "2.prems"(1)
    by (auto simp: attempt_def resolve_idp_key_def fail_with_def Let_def split: sum.splits if_splits)
  from ok have "authority_for dns broker i iss'"
    by (auto simp: authority_for_def split: sum.splits)
  moreover have "authority_for dns broker identity iss" if "(identity, iss) \<in> set rest"
    using "2.IH" [OF refl] rest that ok by fastforce
  ultimately show ?case using "2.prems"(2) by auto
qed auto

text \<open>C5: A presentation signs a user in only when it parses, its signatures verify for this
  audience under keys that the authenticated DNS record of each of its issuers gave, and both the
  attributed identity and the actor are certified by their own domain, or by the trusted broker
  when their domain has no record.\<close>

theorem verify_external_sound:
  assumes "verify_external_presentation api dns presentation audience broker n = (Inr ve, n')"
  shows "\<exists>pres keys v. parse_pres api presentation = Inr pres \<and>
    verify_pres api pres audience keys = Inr v \<and> keys_from_dns dns keys \<and>
    dom keys = {access_iss api pres, config_iss api pres} \<and> ve_email ve = v_email v \<and>
    authority_for dns broker (v_email v) (v_issuer v) \<and>
    authority_for dns broker (v_grantee v) (v_grantee_issuer v)"
proof -
  obtain pres keys v n1 where
      p: "parse_pres api presentation = Inr pres"
    and k: "resolve_issuers dns [access_iss api pres, config_iss api pres] Map.empty n = (Inr keys, n1)"
    and v: "verify_pres api pres audience keys = Inr v"
    and c: "check_authority dns broker
              [(v_email v, v_issuer v), (v_grantee v, v_grantee_issuer v)] n1 = (Inr (), n')"
    and e: "ve_email ve = v_email v"
    using assms by (auto simp: verify_external_presentation_def and_then_Inr simp del: resolve_issuers.simps check_authority.simps)
  have "keys_from_dns dns keys \<and> dom keys = {access_iss api pres, config_iss api pres}"
    using resolve_issuers_keys [OF k] by (simp add: keys_from_dns_def)
  moreover have "authority_for dns broker (v_email v) (v_issuer v)"
      "authority_for dns broker (v_grantee v) (v_grantee_issuer v)"
    using check_authority_sound [OF c] by simp_all
  ultimately show ?thesis using p v e by blast
qed

text \<open>A presentation of the user themselves, certified by the broker for a domain with no
  record of its own.\<close>

definition example_api :: "(string, string) presentation_api" where
  "example_api = \<lparr>parse_pres = Inr, access_iss = (\<lambda>_. ''b''), config_iss = (\<lambda>_. ''b''),
     verify_pres = (\<lambda>p a keys. if keys ''b'' = Some ''key''
       then Inr \<lparr>v_email = p, v_issuer = ''b'', v_grantee = p, v_grantee_issuer = ''b'', v_scopes = []\<rparr>
       else Inl ''bad'')\<rparr>"

definition example_dns :: "string dns" where
  "example_dns n d = (if d = ''b'' then Inr ''key'' else Inl ''no record'')"

lemma example_verify:
  "verify_external_presentation example_api example_dns ''kim@x'' ''https://app'' ''b'' 0 =
     (Inr \<lparr>ve_email = ''kim@x'', ve_agent = None\<rparr>, 3)"
  by code_simp

theorem verify_external_sound_witness:
  "authority_for example_dns ''b'' ''kim@x'' ''b'' \<and>
   fst (verify_external_presentation example_api example_dns ''kim@x'' ''https://app'' ''c'' 0) \<noteq>
     Inr \<lparr>ve_email = ''kim@x'', ve_agent = None\<rparr>"
proof
  show "authority_for example_dns ''b'' ''kim@x'' ''b''"
    using verify_external_sound [OF example_verify]
    by (auto simp: example_api_def split: if_splits)
  show "fst (verify_external_presentation example_api example_dns ''kim@x'' ''https://app'' ''c'' 0) \<noteq>
     Inr \<lparr>ve_email = ''kim@x'', ve_agent = None\<rparr>"
    by code_simp
qed

end
