(* ===== verification/Json_Value.thy ===== *)
theory Json_Value
  imports Mingo_Prelude "HOL-Library.List_Lexorder" "HOL-Library.Char_ord"
begin

text \<open>
  JSON values as \<open>serde_json::Value\<close> has them (with the default \<open>BTreeMap\<close> objects, whose
  keys are distinct and sorted), and the accessors and updates the sources use.  Turning a value
  into text and back is the serializer of \<open>serde_json\<close>, a parameter where it is used.
\<close>

datatype json =
    JNull
  | JBool bool
  | JNum int
  | JFloat string
  | JStr string
  | JArr "json list"
  | JObj "(string \<times> json) list"

text \<open>A number that is not an integer is kept as its text: the sources never compute with one.\<close>

text \<open>
  \<open>Map::insert\<close>, and \<open>BTreeMap::insert\<close> on any ordered keys: replace the value of a key, or put the
  key in its place.
\<close>

fun obj_insert :: "'k::linorder \<Rightarrow> 'a \<Rightarrow> ('k \<times> 'a) list \<Rightarrow> ('k \<times> 'a) list" where
  "obj_insert k v [] = [(k, v)]"
| "obj_insert k v ((k', v') # kvs) =
     (if k = k' then (k, v) # kvs
      else if k < k' then (k, v) # (k', v') # kvs
      else (k', v') # obj_insert k v kvs)"

definition obj_remove :: "'k \<Rightarrow> ('k \<times> 'a) list \<Rightarrow> ('k \<times> 'a) list" where
  "obj_remove k kvs = filter (\<lambda>(k', _). k' \<noteq> k) kvs"

text \<open>\<open>json!({..})\<close> on fields given in the order of the source.\<close>

definition mk_obj :: "(string \<times> json) list \<Rightarrow> json" where
  "mk_obj kvs = JObj (fold (\<lambda>(k, v). obj_insert k v) kvs [])"

fun jget :: "string \<Rightarrow> json \<Rightarrow> json option" where
  "jget k (JObj kvs) = map_of kvs k"
| "jget k _ = None"

fun as_str :: "json \<Rightarrow> string option" where
  "as_str (JStr s) = Some s"
| "as_str _ = None"

fun as_arr :: "json \<Rightarrow> json list option" where
  "as_arr (JArr xs) = Some xs"
| "as_arr _ = None"

fun as_bool :: "json \<Rightarrow> bool option" where
  "as_bool (JBool b) = Some b"
| "as_bool _ = None"

fun as_i64 :: "json \<Rightarrow> int option" where
  "as_i64 (JNum n) = (if in_i64 n then Some n else None)"
| "as_i64 _ = None"

fun as_object :: "json \<Rightarrow> (string \<times> json) list option" where
  "as_object (JObj kvs) = Some kvs"
| "as_object _ = None"

definition str_field :: "string \<Rightarrow> json \<Rightarrow> string option" where
  "str_field k v = Option.bind (jget k v) as_str"

definition opt_str :: "string option \<Rightarrow> json" where
  "opt_str x = (case x of None \<Rightarrow> JNull | Some s \<Rightarrow> JStr s)"

definition sorted_keys :: "('k::linorder \<times> 'a) list \<Rightarrow> bool" where
  "sorted_keys kvs \<longleftrightarrow> sorted_wrt (<) (map fst kvs)"

lemma obj_insert_get [simp]:
  "map_of (obj_insert k v kvs) k' = (if k = k' then Some v else map_of kvs k')"
  by (induction kvs) auto

lemma obj_insert_keys: "set (map fst (obj_insert k v kvs)) = insert k (set (map fst kvs))"
  by (induction k v kvs rule: obj_insert.induct) auto

lemma obj_insert_sorted: "sorted_keys kvs \<Longrightarrow> sorted_keys (obj_insert k v kvs)"
proof (induction k v kvs rule: obj_insert.induct)
  case (2 k v k' v' kvs)
  show ?case
  proof (cases "k = k' \<or> k < k'")
    case True
    then show ?thesis using 2 by (auto simp: sorted_keys_def)
  next
    case False
    then have "k' < k" by auto
    then show ?thesis using 2 obj_insert_keys [of k v kvs]
      by (auto simp: sorted_keys_def)
  qed
qed (simp add: sorted_keys_def)

lemma mk_obj_get_fold:
  "map_of (fold (\<lambda>(k, v). obj_insert k v) kvs acc) k =
   (case map_of (rev kvs) k of None \<Rightarrow> map_of acc k | Some v \<Rightarrow> Some v)"
  by (induction kvs arbitrary: acc) (auto simp: map_add_def split: option.splits)

lemma jget_mk_obj [simp]: "jget k (mk_obj kvs) = map_of (rev kvs) k"
  by (simp add: mk_obj_def mk_obj_get_fold split: option.split)

lemma obj_remove_get [simp]:
  "map_of (obj_remove k kvs) k' = (if k' = k then None else map_of kvs k')"
  by (induction kvs) (auto simp: obj_remove_def)

lemma obj_remove_insert [simp]: "obj_remove k (obj_insert k v kvs) = obj_remove k kvs"
  by (induction k v kvs rule: obj_insert.induct) (auto simp: obj_remove_def)

lemma obj_remove_comm: "obj_remove k (obj_remove k' kvs) = obj_remove k' (obj_remove k kvs)"
  by (simp add: obj_remove_def conj_commute)

lemma obj_insert_again [simp]: "obj_insert k v (obj_insert k w kvs) = obj_insert k v kvs"
  by (induction k v kvs rule: obj_insert.induct) auto

lemma obj_insert_same: "sorted_keys kvs \<Longrightarrow> map_of kvs k = Some v \<Longrightarrow> obj_insert k v kvs = kvs"
  by (induction k v kvs rule: obj_insert.induct)
     (auto simp: sorted_keys_def split: if_splits dest!: map_of_SomeD)

definition obj_sorted :: "json \<Rightarrow> bool" where
  "obj_sorted v = (case v of JObj kvs \<Rightarrow> sorted_keys kvs | _ \<Rightarrow> True)"

lemma obj_sorted_JObj [simp]: "obj_sorted (JObj kvs) = sorted_keys kvs"
  by (simp add: obj_sorted_def)

lemma as_object_Some [simp]: "as_object v = Some kvs \<longleftrightarrow> v = JObj kvs"
  by (cases v) auto

lemma as_arr_Some [simp]: "as_arr v = Some xs \<longleftrightarrow> v = JArr xs"
  by (cases v) auto

lemma as_str_Some [simp]: "as_str v = Some s \<longleftrightarrow> v = JStr s"
  by (cases v) auto

end
