(* ===== verification/Idp_Config.thy ===== *)
theory Idp_Config
  imports Json_Value
begin

text \<open>
  The configuration of the identity provider (\<open>mingo-idp/src/config.rs\<close>): the settings read
  from the environment with their defaults, and the loading of a signing key, which is made and
  stored when there is none.  The environment is a map, the file system a map from paths to
  contents; base64, JSON text and the key type are parameters.
\<close>

record config =
  bind :: string
  domain :: string
  app_origin :: string
  broker_domain :: string
  key_file :: string
  poster_key_file :: string
  sbo_db_audience :: string
  daemon_url :: string
  db_path :: string
  static_dir :: string
  spa_dir :: string
  admin_token :: "string option"
  allow_http_verify :: bool
  agent_provisioning :: bool
  agent_quota :: nat

section \<open>Settings\<close>

definition env_or :: "env \<Rightarrow> string \<Rightarrow> string \<Rightarrow> string" where
  "env_or env key def = (case env key of Some v \<Rightarrow> v | None \<Rightarrow> def)"

definition home :: "env \<Rightarrow> string" where
  "home env = env_or env ''HOME'' ''.''"

definition env_flag :: "env \<Rightarrow> string \<Rightarrow> bool" where
  "env_flag env key =
     (case env key of Some v \<Rightarrow> v = ''1'' \<or> eq_ignore_ascii_case v ''true'' | None \<Rightarrow> False)"

text \<open>\<open>str::parse::<usize>\<close> on a 64-bit target: an optional plus sign and decimal digits.\<close>

definition digits_value :: "string \<Rightarrow> nat" where
  "digits_value s = foldl (\<lambda>n c. 10 * n + (byte c - 48)) 0 s"

definition parse_usize :: "string \<Rightarrow> nat option" where
  "parse_usize s =
     (let d = (case strip_prefix ''+'' s of Some r \<Rightarrow> r | None \<Rightarrow> s) in
      if d \<noteq> [] \<and> list_all is_ascii_digit d \<and> digits_value d < 2 ^ 64
      then Some (digits_value d) else None)"

definition from_env :: "env \<Rightarrow> config" where
  "from_env env =
     (let sbo = path_join (home env) ''.sbo'' in
      \<lparr>bind = env_or env ''MINGO_IDP_BIND'' ''0.0.0.0:7891'',
       domain = env_or env ''MINGO_IDP_DOMAIN'' ''mingo.place'',
       app_origin = env_or env ''MINGO_APP_ORIGIN'' ''https://mingo.place'',
       broker_domain = env_or env ''MINGO_BROKER_DOMAIN'' ''browserid.me'',
       key_file = env_or env ''MINGO_IDP_KEY_FILE'' (path_join sbo ''mingo-idp-key.json''),
       poster_key_file = env_or env ''MINGO_POSTER_KEY_FILE'' (path_join sbo ''mingo-poster-key.json''),
       sbo_db_audience = env_or env ''MINGO_SBO_DB_AUDIENCE'' ''sbo+raw://avail:turing:506/'',
       daemon_url = env_or env ''MINGO_DAEMON_URL'' ''https://da.sandmill.org'',
       db_path = env_or env ''MINGO_IDP_DB'' (path_join sbo ''mingo-idp.sqlite''),
       static_dir = env_or env ''MINGO_IDP_STATIC'' ''static'',
       spa_dir = env_or env ''MINGO_SPA_DIR'' ''../mingo-web'',
       admin_token = (case env ''MINGO_ADMIN_TOKEN'' of
                        Some s \<Rightarrow> if s = [] then None else Some s | None \<Rightarrow> None),
       allow_http_verify = env_flag env ''MINGO_ALLOW_HTTP'',
       agent_provisioning = env_flag env ''MINGO_AGENT_PROVISIONING'',
       agent_quota = (case Option.bind (env ''MINGO_AGENT_QUOTA'') parse_usize of
                        Some n \<Rightarrow> n | None \<Rightarrow> 5)\<rparr>)"

lemma from_env_admin_token: "admin_token (from_env env) \<noteq> Some []"
  by (simp add: from_env_def Let_def split: option.split)

section \<open>Keys\<close>

type_synonym files = "string \<rightharpoonup> string"

record 'k key_codec =
  b64_decode :: "string \<Rightarrow> (string, string) res"
  b64_encode :: "string \<Rightarrow> string"
  json_parse :: "string \<Rightarrow> (string, json) res"
  json_pretty :: "json \<Rightarrow> string"
  key_from_seed :: "string \<Rightarrow> (string, 'k) res"
  key_secret :: "'k \<Rightarrow> string"

definition key_of_secret :: "'k key_codec \<Rightarrow> string \<Rightarrow> (string, 'k) res" where
  "key_of_secret cd secret =
     res_bind (b64_decode cd secret) (\<lambda>seed.
     map_err (\<lambda>e. ''invalid key seed: '' @ e) (key_from_seed cd seed))"

definition key_of_json :: "'k key_codec \<Rightarrow> string \<Rightarrow> string \<Rightarrow> (string, 'k) res" where
  "key_of_json cd missing txt =
     res_bind (json_parse cd txt) (\<lambda>v.
     res_bind (ok_or (str_field ''secret_key'' v) missing) (key_of_secret cd))"

text \<open>
  \<open>fresh\<close> is the key that would be generated, \<open>writes\<close> whether the file can be written
  (when not, the error of the write).
\<close>

definition load_or_generate_named_keypair ::
  "'k key_codec \<Rightarrow> env \<Rightarrow> 'k \<Rightarrow> (string, unit) res \<Rightarrow> string \<Rightarrow> string \<Rightarrow> string \<Rightarrow>
   (files, string, 'k) run" where
  "load_or_generate_named_keypair cd env fresh writes secret_env json_env path fs =
     (case env secret_env of
        Some secret \<Rightarrow> (key_of_secret cd (trim secret), fs)
      | None \<Rightarrow>
     (case env json_env of
        Some txt \<Rightarrow> (key_of_json cd (json_env @ '' missing secret_key'') txt, fs)
      | None \<Rightarrow>
     (case fs path of
        Some contents \<Rightarrow> (key_of_json cd ''key file missing secret_key'' contents, fs)
      | None \<Rightarrow>
         (case writes of
            Inl e \<Rightarrow> (Inl e, fs)
          | Inr _ \<Rightarrow> (Inr fresh, fs(path \<mapsto>
              json_pretty cd (mk_obj [(''secret_key'', JStr (b64_encode cd (key_secret cd fresh)))])))))))"

definition load_or_generate_keypair ::
  "'k key_codec \<Rightarrow> env \<Rightarrow> 'k \<Rightarrow> (string, unit) res \<Rightarrow> string \<Rightarrow> (files, string, 'k) run" where
  "load_or_generate_keypair cd env fresh writes path =
     load_or_generate_named_keypair cd env fresh writes ''MINGO_IDP_SECRET'' ''MINGO_IDP_KEY_JSON'' path"

text \<open>What the parameters are documented to do: decoding undoes encoding.\<close>

definition codec_ok :: "'k key_codec \<Rightarrow> bool" where
  "codec_ok cd \<longleftrightarrow> (\<forall>s. b64_decode cd (b64_encode cd s) = Inr s) \<and>
     (\<forall>s. json_parse cd (json_pretty cd (mk_obj [(''secret_key'', JStr s)])) =
        Inr (mk_obj [(''secret_key'', JStr s)])) \<and>
     (\<forall>k. key_from_seed cd (key_secret cd k) = Inr k)"

text \<open>The key a start without configured key generates is the key every later start loads,
  whatever fresh key that start could have made; and a key configured in the environment is used
  without touching the file.\<close>

theorem keypair_stable:
  assumes "codec_ok cd" "load_or_generate_keypair cd env fresh writes path fs = (Inr k, fs')"
  shows "load_or_generate_keypair cd env fresh' writes' path fs' = (Inr k, fs') \<and>
    (env ''MINGO_IDP_SECRET'' \<noteq> None \<or> env ''MINGO_IDP_KEY_JSON'' \<noteq> None \<or> fs path \<noteq> None \<longrightarrow> fs' = fs) \<and>
    (\<forall>p. p \<noteq> path \<longrightarrow> fs' p = fs p)"
  using assms
  by (auto simp: load_or_generate_keypair_def load_or_generate_named_keypair_def codec_ok_def
      key_of_json_def key_of_secret_def res_bind_def str_field_def map_err_def ok_or_def
      split: option.splits sum.splits)

text \<open>A codec that keeps everything as it is.\<close>

definition plain_codec :: "string key_codec" where
  "plain_codec = \<lparr>b64_decode = Inr, b64_encode = (\<lambda>s. s),
     json_parse = (\<lambda>s. Inr (mk_obj [(''secret_key'', JStr s)])),
     json_pretty = (\<lambda>j. case str_field ''secret_key'' j of None \<Rightarrow> [] | Some s \<Rightarrow> s),
     key_from_seed = Inr, key_secret = (\<lambda>k. k)\<rparr>"

theorem keypair_stable_witness:
  "fst (load_or_generate_keypair plain_codec Map.empty ''k2'' (Inr ()) ''f''
     (snd (load_or_generate_keypair plain_codec Map.empty ''k1'' (Inr ()) ''f'' Map.empty))) = Inr ''k1''"
proof -
  have "codec_ok plain_codec"
    by (simp add: codec_ok_def plain_codec_def str_field_def)
  moreover have "load_or_generate_keypair plain_codec Map.empty ''k1'' (Inr ()) ''f'' Map.empty =
      (Inr ''k1'', snd (load_or_generate_keypair plain_codec Map.empty ''k1'' (Inr ()) ''f'' Map.empty))"
    by (simp add: load_or_generate_keypair_def load_or_generate_named_keypair_def)
  ultimately show ?thesis using keypair_stable by (metis fst_conv)
qed

end
