(* ===== verification/Idp_Routes.thy ===== *)
theory Idp_Routes
  imports Idp_Store_Props Idp_Names Idp_Verify Idp_Config
begin

text \<open>
  The account handlers of the identity provider (\<open>mingo-idp/src/routes.rs\<close>): sign-in, handle
  claiming, the admin endpoints and sign-out.  A handler runs on the world of its request: the
  store, which outlives it, the cookies of its response, and the number of DNS queries made.
  The clock is an argument, once per place that reads it, and so are the random session
  and csrf ids.
\<close>

section \<open>The world of a handler\<close>

datatype same_site = Lax | SameSiteNone

record cookie =
  ck_name :: string
  ck_value :: string
  ck_path :: string
  ck_http_only :: bool
  ck_max_age :: int
  ck_same_site :: same_site
  ck_secure :: bool

record world =
  db :: store
  set_cookies :: "cookie list"
  dns_queries :: nat

text \<open>\<open>From<rusqlite::Error> for AppError\<close>.\<close>

fun db_error_text :: "db_error \<Rightarrow> string" where
  "db_error_text (UniqueViolation c) = ''UNIQUE constraint failed: '' @ c"
| "db_error_text QueryReturnedNoRows = ''Query returned no rows''"

definition from_db_error :: "db_error \<Rightarrow> app_error" where
  "from_db_error e = Internal (''db: '' @ db_error_text e)"

definition on_db :: "'a db \<Rightarrow> ('w world_scheme, app_error, 'a) run" where
  "on_db m w = (case m (db w) of (r, st) \<Rightarrow> (map_err from_db_error r, w\<lparr>db := st\<rparr>))"

definition on_dns :: "(string \<Rightarrow> app_error) \<Rightarrow> (nat, string, 'a) run \<Rightarrow>
    ('w world_scheme, app_error, 'a) run" where
  "on_dns f m w = (case m (dns_queries w) of (r, n) \<Rightarrow> (map_err f r, w\<lparr>dns_queries := n\<rparr>))"

section \<open>Sessions and cookies\<close>

definition SESSION_COOKIE :: string where
  "SESSION_COOKIE = ''mingo_session''"

definition session_cookie :: "string \<Rightarrow> int \<Rightarrow> bool \<Rightarrow> cookie" where
  "session_cookie v age dev_insecure =
     \<lparr>ck_name = SESSION_COOKIE, ck_value = v, ck_path = ''/'', ck_http_only = True,
      ck_max_age = age, ck_same_site = (if dev_insecure then Lax else SameSiteNone),
      ck_secure = (\<not> dev_insecure)\<rparr>"

definition set_session_cookie :: "string \<Rightarrow> bool \<Rightarrow> ('w world_scheme, app_error, unit) run" where
  "set_session_cookie sid dev_insecure w =
     (Inr (), w\<lparr>set_cookies := set_cookies w @ [session_cookie sid (30 * 24 * 60 * 60) dev_insecure]\<rparr>)"

definition clear_session_cookie :: "bool \<Rightarrow> ('w world_scheme, app_error, unit) run" where
  "clear_session_cookie dev_insecure w =
     (Inr (), w\<lparr>set_cookies := set_cookies w @ [session_cookie [] 0 dev_insecure]\<rparr>)"

text \<open>\<open>jar\<close> is the value of the request's session cookie, when it has one.\<close>

definition require_session :: "string option \<Rightarrow> int \<Rightarrow> ('w world_scheme, app_error, int) run" where
  "require_session jar now =
     and_then (lift (ok_or jar NotAuthenticated)) (\<lambda>sid.
     and_then (on_db (account_for_session sid now)) (\<lambda>a.
     lift (ok_or a NotAuthenticated)))"

section \<open>Sign-in\<close>

record session_resp =
  sr_handle :: "string option"
  sr_email :: string
  sr_identity_mode :: "string option"
  sr_csrf :: string

text \<open>\<open>fetcher\<close> is the outcome of setting up the DNS client; \<open>t0\<close> and \<open>t1\<close> are the times at
  which the account and the session row are written.\<close>

definition session_from_presentation ::
  "(string \<Rightarrow> string) \<Rightarrow> config \<Rightarrow> ('p, 'k) presentation_api \<Rightarrow> (string, 'k dns) res \<Rightarrow>
   string \<Rightarrow> string \<Rightarrow> string \<Rightarrow> int \<Rightarrow> int \<Rightarrow> ('w world_scheme, app_error, session_resp) run" where
  "session_from_presentation U cfg api fetcher presentation sid csrf t0 t1 =
     and_then (lift (map_err (\<lambda>e. Internal (''dns resolver: '' @ e)) fetcher)) (\<lambda>dns.
     and_then (on_dns InvalidAssertion
         (verify_external_presentation api dns presentation (app_origin cfg) (broker_domain cfg)))
       (\<lambda>v.
     and_then (lift (reject_own_domain (ve_email v) (domain cfg))) (\<lambda>_.
     and_then (on_db (find_or_create_account U (ve_email v) t0)) (\<lambda>account.
     and_then (on_db (create_session (acc_id account) sid csrf t1)) (\<lambda>(sid', csrf').
     and_then (set_session_cookie sid' (allow_http_verify cfg)) (\<lambda>_.
     done_with \<lparr>sr_handle = handle account, sr_email = external_email account,
                sr_identity_mode = identity_mode account, sr_csrf = csrf'\<rparr>))))))"

definition use_external :: "string option \<Rightarrow> int \<Rightarrow> ('w world_scheme, app_error, string) run" where
  "use_external jar now =
     and_then (require_session jar now) (\<lambda>account_id.
     and_then (on_db (set_identity_mode account_id ''email'')) (\<lambda>_.
     and_then (on_db (get_account account_id)) (\<lambda>a.
     lift (ok_or (map_option external_email a) NotAuthenticated))))"

record who_am_i =
  authenticated :: bool
  who_handle :: "string option"

definition whoami :: "string option \<Rightarrow> int \<Rightarrow> ('w world_scheme, app_error, who_am_i) run" where
  "whoami jar now =
     attempt (require_session jar now) (\<lambda>r. case r of
       Inr account_id \<Rightarrow>
         attempt (on_db (get_account account_id)) (\<lambda>a.
           done_with \<lparr>authenticated = True,
             who_handle = (case a of Inr (Some x) \<Rightarrow> handle x | _ \<Rightarrow> None)\<rparr>)
     | Inl _ \<Rightarrow> done_with \<lparr>authenticated = False, who_handle = None\<rparr>)"

section \<open>Handles\<close>

definition address :: "string \<Rightarrow> string \<Rightarrow> string" where
  "address h d = h @ CHR ''@'' # d"

definition claim_handle ::
  "(string \<Rightarrow> string) \<Rightarrow> config \<Rightarrow> string option \<Rightarrow> int \<Rightarrow> string \<Rightarrow>
   ('w world_scheme, app_error, string) run" where
  "claim_handle U cfg jar now raw =
     and_then (require_session jar now) (\<lambda>account_id.
     and_then (lift (normalize_handle U raw)) (\<lambda>h.
     and_then (on_db (set_handle U account_id h)) (\<lambda>ok.
     if \<not> ok then fail_with HandleTaken
     else and_then (on_db (set_identity_mode account_id ''handle'')) (\<lambda>_.
       done_with (address h (domain cfg))))))"

section \<open>Administration\<close>

text \<open>\<open>hdr\<close> is the \<open>X-Admin-Token\<close> header, when the request has one that is visible ASCII.\<close>

definition require_admin :: "config \<Rightarrow> string option \<Rightarrow> (app_error, unit) res" where
  "require_admin cfg hdr =
     res_bind (ok_or (admin_token cfg) Forbidden) (\<lambda>expected.
       if (case hdr of None \<Rightarrow> [] | Some v \<Rightarrow> v) \<noteq> expected then Inl Forbidden else Inr ())"

definition admin_seed ::
  "(string \<Rightarrow> string) \<Rightarrow> config \<Rightarrow> string option \<Rightarrow> string \<Rightarrow> string \<Rightarrow> int \<Rightarrow>
   ('w world_scheme, app_error, string) run" where
  "admin_seed U cfg hdr external raw now =
     and_then (lift (require_admin cfg hdr)) (\<lambda>_.
     and_then (lift (normalize_handle U raw)) (\<lambda>h.
     and_then (lift (reject_own_domain external (domain cfg))) (\<lambda>_.
     and_then (on_db (find_or_create_account U external now)) (\<lambda>account.
     and_then (on_db (set_handle U (acc_id account) h)) (\<lambda>ok.
     if \<not> ok then fail_with HandleTaken
     else done_with (address h (domain cfg)))))))"

text \<open>The source repeats the token check here instead of calling \<open>require_admin\<close>.\<close>

definition admin_delete_account ::
  "(string \<Rightarrow> string) \<Rightarrow> config \<Rightarrow> string option \<Rightarrow> string \<Rightarrow>
   ('w world_scheme, app_error, nat) run" where
  "admin_delete_account U cfg hdr external =
     and_then (lift (ok_or (admin_token cfg) Forbidden)) (\<lambda>expected.
     if (case hdr of None \<Rightarrow> [] | Some v \<Rightarrow> v) \<noteq> expected then fail_with Forbidden
     else on_db (delete_account U external))"

section \<open>Sign-out\<close>

definition logout ::
  "config \<Rightarrow> string option \<Rightarrow> int \<Rightarrow> ('w world_scheme, app_error, unit) run" where
  "logout cfg jar now =
     and_then (case jar of
         None \<Rightarrow> done_with ()
       | Some sid \<Rightarrow>
           and_then (on_db (account_for_session sid now)) (\<lambda>a. case a of
             Some account_id \<Rightarrow> on_db (delete_account_sessions account_id)
           | None \<Rightarrow> on_db (delete_session sid)))
       (\<lambda>_. clear_session_cookie (allow_http_verify cfg))"

section \<open>Discovery\<close>

text \<open>
  The support document of \<open>browserid_core::discovery\<close>, which is made by adding the paths of its
  endpoints one by one and then turned into JSON.
\<close>

record 'd support_api =
  support_new :: 'd
  with_device_cert :: "string \<Rightarrow> 'd \<Rightarrow> 'd"
  with_access_cert :: "string \<Rightarrow> 'd \<Rightarrow> 'd"
  with_device_authorization :: "string \<Rightarrow> 'd \<Rightarrow> 'd"
  support_json :: "'d \<Rightarrow> (string, json) res"

definition DEVICE_CERT_PATH :: string where
  "DEVICE_CERT_PATH = ''/device_cert''"

definition ACCESS_CERT_PATH :: string where
  "ACCESS_CERT_PATH = ''/access/mint''"

definition DEVICE_AUTHORIZATION_PATH :: string where
  "DEVICE_AUTHORIZATION_PATH = ''/device-authorize''"

definition well_known :: "'d support_api \<Rightarrow> json" where
  "well_known api =
     (let doc = with_device_authorization api DEVICE_AUTHORIZATION_PATH
         (with_access_cert api ACCESS_CERT_PATH
           (with_device_cert api DEVICE_CERT_PATH (support_new api)))
      in case support_json api doc of Inr v \<Rightarrow> v | Inl _ \<Rightarrow> mk_obj [])"

end
