(* ===== verification/Idp_Routes_Props.thy ===== *)
theory Idp_Routes_Props
  imports Idp_Routes
begin

text \<open>
  What the account handlers do on every branch: who is let in, what a successful call has
  changed, and that a refused one has changed nothing but an expired session.
\<close>

section \<open>Database steps inside a handler\<close>

lemma on_db_Inr:
  "on_db m w = (Inr x, w') \<longleftrightarrow> (\<exists>st. m (db w) = (Inr x, st) \<and> w' = w\<lparr>db := st\<rparr>)"
  by (auto simp: on_db_def split: prod.splits)

lemma on_dns_Inr:
  "on_dns f m w = (Inr x, w') \<longleftrightarrow> (\<exists>n. m (dns_queries w) = (Inr x, n) \<and> w' = w\<lparr>dns_queries := n\<rparr>)"
  by (auto simp: on_dns_def split: prod.splits)

lemma set_session_cookie_Inr:
  "set_session_cookie sid d w = (Inr u, w') \<longleftrightarrow>
   w' = w\<lparr>set_cookies := set_cookies w @ [session_cookie sid (30 * 24 * 60 * 60) d]\<rparr>"
  by (auto simp: set_session_cookie_def)

lemma create_session_Inr:
  "create_session i sid csrf t st = (Inr tok, st') \<longleftrightarrow> tok = (sid, csrf) \<and> sessions st sid = None \<and>
   st' = st\<lparr>sessions := (sessions st)(sid \<mapsto>
     \<lparr>sess_account = i, sess_csrf = csrf, sess_created_at = t\<rparr>)\<rparr>"
  by (auto simp: create_session_def split: option.splits)

lemma on_db_state [simp]: "db (snd (on_db m w)) = snd (m (db w))"
  by (simp add: on_db_def split: prod.splits)

lemma keeps_on_db [keeps_rules]: "keeps I m \<Longrightarrow> keeps (\<lambda>w. I (db w)) (on_db m)"
  by (rule keepsI) (simp add: keepsD)

lemma keeps_on_dns [keeps_rules]: "keeps (\<lambda>w. I (db w)) (on_dns f m)"
  by (rule keepsI) (simp add: on_dns_def split: prod.splits)

lemma keeps_cookies [keeps_rules]:
  "keeps (\<lambda>w. I (db w)) (set_session_cookie s d)"
  "keeps (\<lambda>w. I (db w)) (clear_session_cookie d)"
  by (auto simp: keeps_def set_session_cookie_def clear_session_cookie_def)

lemma keeps_require_session [keeps_rules]:
  "(\<And>sid. keeps I (account_for_session sid now)) \<Longrightarrow> keeps (\<lambda>w. I (db w)) (require_session jar now)"
  unfolding require_session_def by (intro keeps_rules)

section \<open>Sessions\<close>

text \<open>The contract between the handlers and the session table: a lookup names the owner and leaves
  the store alone, and ending an owner's sessions leaves none that names them.\<close>

locale session_store =
  fixes owner_at :: "'sid \<Rightarrow> int \<Rightarrow> 's \<Rightarrow> int option"
    and lookup :: "'sid \<Rightarrow> int \<Rightarrow> 's \<Rightarrow> int option \<times> 's"
    and end_all :: "int \<Rightarrow> 's \<Rightarrow> 's"
  assumes lookup_owner: "fst (lookup sid t s) = owner_at sid t s"
    and lookup_pure: "owner_at sid t s = Some i \<Longrightarrow> snd (lookup sid t s) = s"
    and ended: "owner_at sid t (end_all i s) = (if owner_at sid t s = Some i then None else owner_at sid t s)"
begin

lemma end_after_lookup:
  assumes "lookup sid t s = (Some i, s')"
  shows "s' = s \<and> owner_at sid t s = Some i \<and> (\<forall>sid' t'. owner_at sid' t' (end_all i s') \<noteq> Some i)"
proof -
  have "owner_at sid t s = Some i" using lookup_owner [of sid t s] assms by simp
  moreover have "s' = s" using lookup_pure [OF calculation] assms by simp
  ultimately show ?thesis by (auto simp: ended)
qed

lemma others_stay: "owner_at sid t s = Some j \<Longrightarrow> j \<noteq> i \<Longrightarrow> owner_at sid t (end_all i s) = Some j"
  by (simp add: ended)

end

definition session_owner :: "string \<Rightarrow> int \<Rightarrow> store \<Rightarrow> int option" where
  "session_owner sid now st =
     (case sessions st sid of
        None \<Rightarrow> None
      | Some x \<Rightarrow> if i64_sub now (sess_created_at x) \<le> SESSION_TTL_SECS
                  then Some (sess_account x) else None)"

definition session_lookup :: "string \<Rightarrow> int \<Rightarrow> store \<Rightarrow> int option \<times> store" where
  "session_lookup sid now st =
     (case account_for_session sid now st of (r, st') \<Rightarrow> (case r of Inl _ \<Rightarrow> None | Inr a \<Rightarrow> a, st'))"

lemma account_for_session_eq:
  "account_for_session sid now st = (Inr (session_owner sid now st), snd (session_lookup sid now st))"
  by (simp add: account_for_session_def session_owner_def session_lookup_def and_then_def
      done_with_def delete_session_def split: option.split)

interpretation session_table: session_store session_owner session_lookup
    "\<lambda>i st. snd (delete_account_sessions i st)"
  by unfold_locales
     (auto simp: session_owner_def session_lookup_def account_for_session_def and_then_def
       done_with_def delete_session_def delete_account_sessions_def split: option.splits if_splits)

lemma on_db_session:
  "on_db (account_for_session sid now) w =
   (Inr (session_owner sid now (db w)), w\<lparr>db := snd (session_lookup sid now (db w))\<rparr>)"
  by (simp add: on_db_def account_for_session_eq map_err_def)

lemma require_session_Inr:
  "require_session jar now w = (Inr i, w') \<longleftrightarrow>
   (\<exists>sid. jar = Some sid \<and> session_owner sid now (db w) = Some i \<and> w' = w)"
proof (cases jar)
  case (Some sid)
  show ?thesis
  proof (cases "session_owner sid now (db w)")
    case (Some j)
    then show ?thesis using \<open>jar = Some sid\<close> session_table.lookup_pure [OF Some]
      by (auto simp: require_session_def and_then_def lift_def ok_or_def on_db_session)
  qed (simp add: Some require_session_def and_then_def lift_def ok_or_def on_db_session)
qed (simp add: require_session_def and_then_def lift_def ok_or_def)

lemma session_lookup_accounts [simp]: "accounts (snd (session_lookup sid now st)) = accounts st"
  by (simp add: session_lookup_def account_for_session_def and_then_def done_with_def
      delete_session_def split: option.split)

lemma require_session_Inl:
  "require_session jar now w = (Inl e, w') \<Longrightarrow>
   e = NotAuthenticated \<and> accounts (db w') = accounts (db w)"
  by (cases jar)
     (auto simp: require_session_def and_then_def lift_def ok_or_def on_db_session
       split: option.splits)

section \<open>An example world\<close>

text \<open>One account with a session, no handle yet.\<close>

definition example_config :: config where
  "example_config = \<lparr>bind = [], domain = ''m.p'', app_origin = ''https://m.p'', broker_domain = ''b'',
     key_file = [], poster_key_file = [], sbo_db_audience = ''sbo+raw://a/'',
     daemon_url = ''https://d'', db_path = [], static_dir = [], spa_dir = [],
     admin_token = Some ''tok'', allow_http_verify = False, agent_provisioning = False,
     agent_quota = 5\<rparr>"

definition example_store :: store where
  "example_store = \<lparr>accounts = [\<lparr>acc_id = 1, external_email = ''a@x'', handle = None,
       identity_mode = None, acc_created_at = 5\<rparr>], accounts_seq = 1,
     sessions = [''s'' \<mapsto> \<lparr>sess_account = 1, sess_csrf = ''c'', sess_created_at = 100\<rparr>],
     agent_identities = [], pendings = Map.empty, warrants = Map.empty\<rparr>"

definition example_world :: world where
  "example_world = \<lparr>db = example_store, set_cookies = [], dns_queries = 0\<rparr>"

lemma example_store_wf: "wf_store example_store" "refs_known example_store"
  by (simp_all add: wf_store_def ids_fresh_def emails_unique_def handles_unique_def
      names_unique_def namespace_disjoint_def example_store_def refs_known_def ref_ids_def known_id_def)

lemma example_session: "session_owner ''s'' 200 example_store = Some 1"
  by (simp add: session_owner_def example_store_def SESSION_TTL_SECS_def i64_sub_def wrap64_def)

lemma example_row: "\<exists>r. row_by_id 1 example_store = Some r"
  by (simp add: row_by_id_def example_store_def)

section \<open>Properties\<close>

lemma lift_map_err [simp]: "lift (map_err f (Inr x)) = done_with x"
  by (rule ext) (simp add: lift_def done_with_def map_err_def)

lemma set_identity_mode_rows:
  "row_by_handle h (snd (set_identity_mode i m st)) = map_option
     (\<lambda>r. if acc_id r = i then r\<lparr>identity_mode := Some m\<rparr> else r) (row_by_handle h st)"
proof -
  have "find (\<lambda>r. handle r = Some h) (map (\<lambda>r. if acc_id r = i then r\<lparr>identity_mode := Some m\<rparr> else r) xs) =
    map_option (\<lambda>r. if acc_id r = i then r\<lparr>identity_mode := Some m\<rparr> else r)
      (find (\<lambda>r. handle r = Some h) xs)" for xs
    by (induction xs) auto
  then show ?thesis by (simp add: set_identity_mode_def row_by_handle_def)
qed

text \<open>C6: Claiming a handle succeeds only for the account of a live session, with a valid name that
  no agent has and no other account has.  The reply is that name's address, the name then
  resolves to the session's account, and every other account is as before.\<close>

theorem claim_handle_correct:
  assumes "lowering U" "wf_store (db w)" "claim_handle U cfg jar now raw w = (Inr email, w')"
    and owner: "jar = Some sid" "session_owner sid now (db w) = Some i"
    and r0: "row_by_id i (db w) = Some r0"
  shows "\<exists>h. normalize_handle U raw = Inr h \<and> valid_name False h \<and>
    email = address h (domain cfg) \<and> agent_by_name h (db w) = None \<and>
    (\<forall>r \<in> set (accounts (db w)). handle r = Some h \<longrightarrow> acc_id r = i) \<and>
    account_id_for_handle U h (db w') = (Inr (Some i), db w') \<and>
    (\<forall>j. j \<noteq> i \<longrightarrow> row_by_id j (db w') = row_by_id j (db w))"
proof -
  obtain h st1 st2 where
      h: "normalize_handle U raw = Inr h" and
      s: "set_handle U i h (db w) = (Inr True, st1)" and
      m: "set_identity_mode i ''handle'' st1 = (Inr (), st2)" and
      w': "w' = w\<lparr>db := st2\<rparr>" and e: "email = address h (domain cfg)"
    using assms(3) owner
    by (auto simp: claim_handle_def and_then_Inr require_session_Inr on_db_Inr split: if_splits)
  have v: "valid_name False h"
    using h normalize_name_Inr [OF assms(1)] by (auto simp: normalize_handle_def)
  then have low: "to_lowercase U h = h" by (rule valid_name_lower)
  note sh = set_handle_rules [OF low assms(2) r0 s]
  have st2: "st2 = snd (set_identity_mode i ''handle'' st1)" using m by simp
  have "\<exists>r. row_by_handle h st1 = Some r \<and> acc_id r = i"
    using sh(3) by (auto simp: account_id_for_handle_def low)
  then have "account_id_for_handle U h st2 = (Inr (Some i), st2)"
    by (auto simp: account_id_for_handle_def low st2 set_identity_mode_rows)
  moreover have "row_by_id j st2 = row_by_id j (db w)" if "j \<noteq> i" for j
    using sh(4) [OF that] that
    by (simp add: st2 set_identity_mode_def row_by_id_update_other)
  ultimately show ?thesis using h v e w' sh(1,2) by auto
qed

lemma example_normalize: "normalize_handle (map to_ascii_lowercase) ''Kim'' = Inr ''kim''"
  by code_simp

lemma example_claim:
  "fst (claim_handle (map to_ascii_lowercase) example_config (Some ''s'') 200 ''Kim'' example_world) =
    Inr ''kim@m.p''"
proof -
  have low: "to_lowercase (map to_ascii_lowercase) ''kim'' = ''kim''" by code_simp
  have "require_session (Some ''s'') 200 example_world = (Inr 1, example_world)"
    using example_session by (simp add: require_session_Inr example_world_def)
  then show ?thesis
    by (simp add: claim_handle_def and_then_def lift_def example_normalize on_db_def set_handle_def
        low Let_def agent_by_name_def row_by_handle_def example_world_def example_store_def
        update_handle_def done_with_def map_err_def set_identity_mode_def address_def
        example_config_def)
qed

theorem claim_handle_correct_witness:
  "\<exists>w'. claim_handle (map to_ascii_lowercase) example_config (Some ''s'') 200 ''Kim'' example_world =
     (Inr ''kim@m.p'', w') \<and>
   account_id_for_handle (map to_ascii_lowercase) ''kim'' (db w') = (Inr (Some 1), db w')"
proof -
  obtain w' where e: "claim_handle (map to_ascii_lowercase) example_config (Some ''s'') 200 ''Kim''
      example_world = (Inr ''kim@m.p'', w')"
    using example_claim by (metis prod.collapse)
  obtain r where r: "row_by_id 1 (db example_world) = Some r"
    using example_row by (auto simp: example_world_def)
  have "wf_store (db example_world)" "session_owner ''s'' 200 (db example_world) = Some 1"
    using example_store_wf example_session by (simp_all add: example_world_def)
  from claim_handle_correct [OF lowering_ascii this(1) e refl this(2) r]
  have "account_id_for_handle (map to_ascii_lowercase) ''kim'' (db w') = (Inr (Some 1), db w')"
    using example_normalize by auto
  then show ?thesis using e by blast
qed

text \<open>Signing out with a live session ends every session of its account and no other's, whatever
  time a session is looked up at, and the reply expires the cookie with the attributes it was
  set with.\<close>

theorem logout_ends_all_sessions:
  assumes "session_owner sid now (db w) = Some i" "logout cfg (Some sid) now w = (r, w')"
  shows "r = Inr () \<and> (\<forall>sid' t. session_owner sid' t (db w') \<noteq> Some i) \<and>
    (\<forall>sid' t j. j \<noteq> i \<longrightarrow> session_owner sid' t (db w) = Some j \<longrightarrow> session_owner sid' t (db w') = Some j) \<and>
    set_cookies w' = set_cookies w @ [session_cookie [] 0 (allow_http_verify cfg)]"
proof -
  have look: "on_db (account_for_session sid now) w = (Inr (Some i), w)"
    using assms(1) session_table.lookup_pure [OF assms(1)] by (simp add: on_db_session)
  have "r = Inr ()" "db w' = snd (delete_account_sessions i (db w))"
      "set_cookies w' = set_cookies w @ [session_cookie [] 0 (allow_http_verify cfg)]"
    using assms(2) look
    by (auto simp: logout_def and_then_def on_db_def delete_account_sessions_def map_err_def
        clear_session_cookie_def)
  then show ?thesis
    using session_table.others_stay session_table.ended by auto
qed

theorem logout_ends_all_sessions_witness:
  "session_owner ''s'' 200 (db example_world) = Some 1 \<and>
   session_owner ''s'' 200 (db (snd (logout example_config (Some ''s'') 200 example_world))) = None"
proof -
  let ?r = "logout example_config (Some ''s'') 200 example_world"
  have s: "session_owner ''s'' 200 (db example_world) = Some 1"
    using example_session by (simp add: example_world_def)
  have "?r = (fst ?r, snd ?r)" by simp
  note * = logout_ends_all_sessions [OF s this]
  have "session_owner ''s'' 200 (db (snd ?r)) \<in> {None, Some 1}"
  proof -
    have "db (snd ?r) = snd (delete_account_sessions 1 (db example_world))"
      using s session_table.lookup_pure [OF s]
      by (simp add: logout_def and_then_def on_db_session) (simp add: on_db_def
          delete_account_sessions_def map_err_def clear_session_cookie_def)
    then show ?thesis using s by (simp add: session_table.ended)
  qed
  then show ?thesis using s * by blast
qed

section \<open>Sign-in and administration\<close>

lemma find_or_create_Inr:
  assumes "wf_store st" "find_or_create_account U e now st = (Inr a, st')"
  shows "wf_store st' \<and> external_email a = to_lowercase U e \<and>
    (\<exists>r. row_by_email (to_lowercase U e) st' = Some r \<and> acc_id r = acc_id a) \<and>
    (\<forall>r. row_by_email (to_lowercase U e) st = Some r \<longrightarrow>
       st' = st\<lparr>accounts_seq := accounts_seq st + 1\<rparr> \<and> a = account_from_row r) \<and>
    sessions st' = sessions st"
proof -
  have st': "st' = insert_account (to_lowercase U e) now st"
    using assms(2) find_or_create_state [of U e now st] by simp
  then have wf: "wf_store st'" using assms(1) by (simp add: wf_insert_account)
  obtain r where r: "row_by_email (to_lowercase U e) st' = Some r" "a = account_from_row r"
    using assms(2) st' by (auto simp: find_or_create_account_def Let_def split: option.splits)
  then have "external_email r = to_lowercase U e" using wf by (simp add: row_by_email_eq)
  then show ?thesis using wf r st'
    by (auto simp: account_from_row_def insert_account_def split: option.splits)
qed

text \<open>C7: A sign-in succeeds only for a verified presentation whose email is not an address of this
  service's own domain.  It finds or makes the one account of the lower-cased email, opens a
  session of that account, sets its id as a 30 day cookie and nothing else; a refused sign-in sets
  no cookie and opens no session.\<close>

theorem session_from_presentation_correct:
  assumes "wf_store (db w)"
    and "session_from_presentation U cfg api fetcher presentation sid csrf t0 t1 w = (r, w')"
  shows "(\<forall>resp. r = Inr resp \<longrightarrow>
      (\<exists>dns ve n a. fetcher = Inr dns \<and>
        verify_external_presentation api dns presentation (app_origin cfg) (broker_domain cfg)
          (dns_queries w) = (Inr ve, n) \<and>
        \<not> eq_ignore_ascii_case (after_last_at (ve_email ve)) (domain cfg) \<and>
        row_by_email (to_lowercase U (ve_email ve)) (db w') = Some a \<and>
        session_owner sid t1 (db w') = Some (acc_id a) \<and>
        sr_email resp = to_lowercase U (ve_email ve) \<and> sr_csrf resp = csrf) \<and>
      set_cookies w' = set_cookies w @ [session_cookie sid (30 * 24 * 60 * 60) (allow_http_verify cfg)]) \<and>
    (\<forall>e. r = Inl e \<longrightarrow> set_cookies w' = set_cookies w \<and> sessions (db w') = sessions (db w))"
proof (cases r)
  case (Inr resp)
  obtain dns ve n a st1 st2 where
      f: "fetcher = Inr dns" and
      v: "verify_external_presentation api dns presentation (app_origin cfg) (broker_domain cfg)
            (dns_queries w) = (Inr ve, n)" and
      d: "reject_own_domain (ve_email ve) (domain cfg) = Inr ()" and
      a: "find_or_create_account U (ve_email ve) t0 (db w) = (Inr a, st1)" and
      s: "create_session (acc_id a) sid csrf t1 st1 = (Inr (sid, csrf), st2)" and
      w': "w' = w\<lparr>dns_queries := n, db := st2,
        set_cookies := set_cookies w @ [session_cookie sid (30 * 24 * 60 * 60) (allow_http_verify cfg)]\<rparr>" and
      e: "sr_email resp = external_email a" "sr_csrf resp = csrf"
    using assms(2) Inr
    by (auto simp: session_from_presentation_def and_then_Inr on_db_Inr on_dns_Inr
        set_session_cookie_Inr create_session_Inr)
  note fc = find_or_create_Inr [OF assms(1) a]
  have st2: "st2 = st1\<lparr>sessions := (sessions st1)(sid \<mapsto>
      \<lparr>sess_account = acc_id a, sess_csrf = csrf, sess_created_at = t1\<rparr>)\<rparr>"
    using s by (simp add: create_session_Inr)
  have "session_owner sid t1 st2 = Some (acc_id a)"
    by (simp add: session_owner_def st2 i64_sub_def wrap64_def SESSION_TTL_SECS_def)
  moreover have "row_by_email x st2 = row_by_email x st1" for x by (simp add: st2 row_by_email_def)
  moreover have "\<not> eq_ignore_ascii_case (after_last_at (ve_email ve)) (domain cfg)"
    using d by (auto simp: reject_own_domain_def split: if_splits)
  ultimately show ?thesis using Inr f v w' e fc by auto
next
  case (Inl e)
  then have "set_cookies w' = set_cookies w" "sessions (db w') = sessions (db w)"
    using assms(2)
    by (auto simp: session_from_presentation_def and_then_def lift_def on_db_def on_dns_def
        done_with_def map_err_def find_or_create_account_def insert_account_def Let_def
        create_session_def set_session_cookie_def split: prod.splits sum.splits option.splits)
  then show ?thesis using Inl by simp
qed

lemma example_verify_world:
  "verify_external_presentation example_api example_dns ''kim@x'' (app_origin example_config)
     (broker_domain example_config) 0 = (Inr \<lparr>ve_email = ''kim@x'', ve_agent = None\<rparr>, 3)"
  by code_simp

lemma example_not_own: "reject_own_domain ''kim@x'' (domain example_config) = Inr ()"
  by code_simp

lemma example_sign_in:
  "fst (session_from_presentation (map to_ascii_lowercase) example_config example_api (Inr example_dns)
      ''kim@x'' ''s2'' ''c2'' 200 201 example_world) =
    Inr \<lparr>sr_handle = None, sr_email = ''kim@x'', sr_identity_mode = None, sr_csrf = ''c2''\<rparr>"
proof -
  have low: "to_lowercase (map to_ascii_lowercase) ''kim@x'' = ''kim@x''" by code_simp
  have n: "row_by_email (to_lowercase (map to_ascii_lowercase) ''kim@x'') example_store = None"
    by (simp add: low row_by_email_def example_store_def)
  have w: "dns_queries example_world = 0" "db example_world = example_store"
    by (simp_all add: example_world_def)
  have seq: "accounts_seq example_store = 1" by (simp add: example_store_def)
  have "sessions (insert_account ''kim@x'' 200 example_store) ''s2'' = None"
    by (simp add: insert_account_def row_by_email_def example_store_def)
  then obtain st2 where cs: "create_session 2 ''s2'' ''c2'' 201 (insert_account ''kim@x'' 200 example_store) =
      (Inr (''s2'', ''c2''), st2)"
    by (simp add: create_session_def)
  show ?thesis
    using find_or_create_new [OF n, of 200]
    by (simp add: session_from_presentation_def and_then_def lift_def map_err_def on_dns_def w
        example_verify_world example_not_own on_db_def low seq cs set_session_cookie_def done_with_def)
qed

theorem session_from_presentation_correct_witness:
  "\<exists>w'. session_from_presentation (map to_ascii_lowercase) example_config example_api (Inr example_dns)
      ''kim@x'' ''s2'' ''c2'' 200 201 example_world =
        (Inr \<lparr>sr_handle = None, sr_email = ''kim@x'', sr_identity_mode = None, sr_csrf = ''c2''\<rparr>, w') \<and>
    set_cookies w' = [session_cookie ''s2'' (30 * 24 * 60 * 60) False]"
proof -
  let ?run = "session_from_presentation (map to_ascii_lowercase) example_config example_api
    (Inr example_dns) ''kim@x'' ''s2'' ''c2'' 200 201 example_world"
  have "wf_store (db example_world)" using example_store_wf by (simp add: example_world_def)
  moreover have e: "?run = (Inr \<lparr>sr_handle = None, sr_email = ''kim@x'', sr_identity_mode = None,
      sr_csrf = ''c2''\<rparr>, snd ?run)"
    using example_sign_in by (metis prod.collapse)
  ultimately have "set_cookies (snd ?run) = set_cookies example_world @
      [session_cookie ''s2'' (30 * 24 * 60 * 60) (allow_http_verify example_config)]"
    using session_from_presentation_correct by blast
  then show ?thesis using e by (auto simp: example_world_def example_config_def)
qed

text \<open>C8: With the configuration read from any environment, the admin endpoints refuse every request
  whose token header is missing or is not the configured token, and everything when no token
  is configured, with status 403 and nothing changed; the deletion endpoint with the right token
  leaves no account of the email and no session of the account it removed.\<close>

theorem admin_gate:
  assumes "cfg = from_env env"
  shows "(hdr = None \<or> hdr \<noteq> admin_token cfg \<longrightarrow>
      admin_seed U cfg hdr external raw now w = (Inl Forbidden, w) \<and>
      admin_delete_account U cfg hdr external w = (Inl Forbidden, w) \<and>
      app_error_status Forbidden = 403) \<and>
    (\<forall>n w'. admin_delete_account U cfg hdr external w = (Inr n, w') \<longrightarrow>
      admin_token cfg = hdr \<and> row_by_email (to_lowercase U external) (db w') = None \<and>
      (\<forall>r sid t. row_by_email (to_lowercase U external) (db w) = Some r \<longrightarrow>
         session_owner sid t (db w') \<noteq> Some (acc_id r)))"
proof (intro conjI impI allI)
  assume no: "hdr = None \<or> hdr \<noteq> admin_token cfg"
  have ne: "admin_token cfg \<noteq> Some []" using assms from_env_admin_token by simp
  show "admin_seed U cfg hdr external raw now w = (Inl Forbidden, w)"
    using no ne
    by (auto simp: admin_seed_def require_admin_def res_bind_def ok_or_def and_then_def lift_def
        split: option.splits)
  show "admin_delete_account U cfg hdr external w = (Inl Forbidden, w)"
    using no ne
    by (auto simp: admin_delete_account_def ok_or_def and_then_def lift_def fail_with_def
        split: option.splits)
  show "app_error_status Forbidden = 403" by simp
next
  fix n w' assume r: "admin_delete_account U cfg hdr external w = (Inr n, w')"
  have ne: "admin_token cfg \<noteq> Some []" using assms from_env_admin_token by simp
  have t: "(case hdr of None \<Rightarrow> [] | Some v \<Rightarrow> v) = the (admin_token cfg)" "admin_token cfg \<noteq> None"
    and d: "db w' = snd (delete_account U external (db w))"
    using r by (auto simp: admin_delete_account_def and_then_Inr on_db_Inr split: if_splits)
  from t ne show "admin_token cfg = hdr" by (cases hdr) auto
  show "row_by_email (to_lowercase U external) (db w') = None"
    by (simp add: d delete_account_def Let_def row_by_email_None)
  fix row sid t0 assume "row_by_email (to_lowercase U external) (db w) = Some row"
  then show "session_owner sid t0 (db w') \<noteq> Some (acc_id row)"
    by (simp add: d delete_account_def Let_def session_owner_def split: option.split)
qed

theorem admin_gate_witness:
  "admin_delete_account id (from_env Map.empty) (Some ''x'') ''a@x'' example_world =
     (Inl Forbidden, example_world) \<and>
   fst (admin_delete_account id (from_env [''MINGO_ADMIN_TOKEN'' \<mapsto> ''tok'']) (Some ''tok'') ''a@x'' example_world) =
     Inr 1"
proof
  have "admin_token (from_env Map.empty) = None" by (simp add: from_env_def Let_def)
  then show "admin_delete_account id (from_env Map.empty) (Some ''x'') ''a@x'' example_world =
     (Inl Forbidden, example_world)"
    using admin_gate [OF refl, where env = Map.empty and hdr = "Some ''x''" and U = id and
        w = example_world] by simp
  have low: "to_lowercase id ''a@x'' = ''a@x''" by code_simp
  show "fst (admin_delete_account id (from_env [''MINGO_ADMIN_TOKEN'' \<mapsto> ''tok'']) (Some ''tok'') ''a@x''
      example_world) = Inr 1"
    by (simp add: admin_delete_account_def from_env_def Let_def ok_or_def and_then_def lift_def
        on_db_def delete_account_def low example_world_def example_store_def row_by_email_def map_err_def)
qed

end
