(* ===== verification/Idp_Device.thy ===== *)
theory Idp_Device
  imports Idp_Routes_Props
begin

text \<open>
  Certificate issuance (\<open>mingo-idp/src/device.rs\<close>): the two user device certs of a session, the
  agent device cert of a sub-address, and the headless mint of access certs.

  Keys, certificates and signatures are \<open>browserid_core::device\<close>: the record below holds the
  functions of it the code calls.  The type \<open>'c\<close> of an encoded certificate is opaque, since
  only those functions make and read one.
\<close>

section \<open>The certificate library\<close>

datatype purpose = Authentication | Authorization

record ('pk, 'h) device_claims =
  dcl_iss :: string
  dcl_key :: 'pk
  dcl_purpose :: purpose
  dcl_holder :: 'h
  dcl_identities :: "string list"
  dcl_validity_days :: int

record ('pk, 'h) access_claims =
  acl_iss :: string
  acl_identity :: string
  acl_holder :: 'h
  acl_key :: 'pk
  acl_validity_hours :: int

record ('pk, 'h) request_claims =
  ar_domain :: string
  ar_identity :: string
  ar_holder :: 'h
  ar_access_key :: 'pk

record ('kp, 'pk, 'h, 'c, 'dc, 'ar) device_api =
  pk_from_base64 :: "string \<Rightarrow> (string, 'pk) res"
  pk_to_base64 :: "'pk \<Rightarrow> string"
  kp_public :: "'kp \<Rightarrow> 'pk"
  holder_new :: "string \<Rightarrow> (string, 'h) res"
  dc_create :: "('pk, 'h) device_claims \<Rightarrow> 'kp \<Rightarrow> int \<Rightarrow> (string, 'c) res"
  dc_parse :: "'c \<Rightarrow> (string, 'dc) res"
  dc_verify :: "'dc \<Rightarrow> 'pk \<Rightarrow> bool"
  dc_claims :: "'dc \<Rightarrow> ('pk, 'h) device_claims"
  dc_is_expired :: "'dc \<Rightarrow> int \<Rightarrow> bool"
  dc_authorizes :: "'dc \<Rightarrow> string \<Rightarrow> bool"
  ar_parse :: "'c \<Rightarrow> (string, 'ar) res"
  ar_verify :: "'ar \<Rightarrow> 'pk \<Rightarrow> bool"
  ar_claims :: "'ar \<Rightarrow> ('pk, 'h) request_claims"
  ar_is_expired :: "'ar \<Rightarrow> int \<Rightarrow> bool"
  ac_create :: "('pk, 'h) access_claims \<Rightarrow> 'kp \<Rightarrow> int \<Rightarrow> (string, 'c) res"
  DEVICE_CERT_VALIDITY_DAYS :: int
  ACCESS_CERT_VALIDITY_HOURS :: int

record pub_key_json =
  algorithm :: string
  public_key :: string

section \<open>Holders and keys\<close>

definition holder_for_device ::
  "('kp, 'pk, 'h, 'c, 'dc, 'ar) device_api \<Rightarrow> 'pk \<Rightarrow> string" where
  "holder_for_device api pk =
     (let clean = map to_ascii_lowercase (filter is_ascii_alphanumeric (pk_to_base64 api pk))
      in ''br'' @ take 6 clean @ ''.'' @ drop 6 (take 16 clean))"

definition parse_pubkey ::
  "('kp, 'pk, 'h, 'c, 'dc, 'ar) device_api \<Rightarrow> pub_key_json \<Rightarrow> (app_error, 'pk) res" where
  "parse_pubkey api p =
     (if algorithm p \<noteq> ''Ed25519''
      then Inl (BadRequest (''unsupported algorithm: '' @ algorithm p))
      else map_err (\<lambda>e. BadRequest (''invalid public key: '' @ e)) (pk_from_base64 api (public_key p)))"

section \<open>POST /device_cert\<close>

record device_cert_req =
  dq_device_pubkey :: pub_key_json
  dq_config_pubkey :: pub_key_json
  dq_holder :: "string option"

record 'c device_cert_resp =
  dr_device_cert :: 'c
  dr_config_cert :: 'c
  dr_identity :: string

definition claim_first :: "string \<Rightarrow> app_error" where
  "claim_first what = BadRequest (''claim a handle before issuing '' @ what @ '' certs'')"

definition device_cert ::
  "config \<Rightarrow> ('kp, 'pk, 'h, 'c, 'dc, 'ar) device_api \<Rightarrow> 'kp \<Rightarrow> string option \<Rightarrow> int \<Rightarrow>
   device_cert_req \<Rightarrow> ('w world_scheme, app_error, 'c device_cert_resp) run" where
  "device_cert cfg api kp jar now req =
     and_then (require_session jar now) (\<lambda>account_id.
     and_then (on_db (get_account account_id)) (\<lambda>a.
     and_then (lift (ok_or a (claim_first ''device''))) (\<lambda>account.
     and_then (lift (ok_or (handle account) (claim_first ''device''))) (\<lambda>h.
     let identity = address h (domain cfg) in
     and_then (lift (parse_pubkey api (dq_device_pubkey req))) (\<lambda>device_pub.
     and_then (lift (parse_pubkey api (dq_config_pubkey req))) (\<lambda>config_pub.
     let holder_str = (case dq_holder req of
           None \<Rightarrow> holder_for_device api device_pub
         | Some s \<Rightarrow> if s = [] then holder_for_device api device_pub else s) in
     and_then (lift (map_err (\<lambda>e. Internal (''holder: '' @ e)) (holder_new api holder_str))) (\<lambda>hold.
     and_then (lift (map_err (\<lambda>e. Internal (''device cert: '' @ e))
         (dc_create api \<lparr>dcl_iss = domain cfg, dcl_key = device_pub, dcl_purpose = Authentication,
            dcl_holder = hold, dcl_identities = [identity],
            dcl_validity_days = DEVICE_CERT_VALIDITY_DAYS api\<rparr> kp now))) (\<lambda>dc.
     and_then (lift (map_err (\<lambda>e. Internal (''config cert: '' @ e))
         (dc_create api \<lparr>dcl_iss = domain cfg, dcl_key = config_pub, dcl_purpose = Authorization,
            dcl_holder = hold, dcl_identities = [identity, address (h @ ''+*'') (domain cfg)],
            dcl_validity_days = DEVICE_CERT_VALIDITY_DAYS api\<rparr> kp now))) (\<lambda>cc.
     done_with \<lparr>dr_device_cert = dc, dr_config_cert = cc, dr_identity = identity\<rparr>)))))))))"

section \<open>POST /agent\_device\_cert\<close>

record agent_cert_req =
  aq_agent_pubkey :: pub_key_json
  aq_agent_email :: string
  aq_holder :: string

definition agent_device_cert ::
  "(string \<Rightarrow> string) \<Rightarrow> config \<Rightarrow> ('kp, 'pk, 'h, 'c, 'dc, 'ar) device_api \<Rightarrow> 'kp \<Rightarrow>
   string option \<Rightarrow> int \<Rightarrow> agent_cert_req \<Rightarrow> ('w world_scheme, app_error, 'c \<times> string) run" where
  "agent_device_cert U cfg api kp jar now req =
     and_then (require_session jar now) (\<lambda>account_id.
     and_then (on_db (get_account account_id)) (\<lambda>a.
     and_then (lift (ok_or (Option.bind a handle) (claim_first ''agent''))) (\<lambda>h.
     let agent_email = to_lowercase U (trim (aq_agent_email req)) in
     and_then (lift (ok_or (split_once CHR ''@'' agent_email)
         (BadRequest ''agent_email must be an email''))) (\<lambda>(local, dom_part).
     if dom_part \<noteq> domain cfg
     then fail_with (BadRequest (''agent_email must be @'' @ domain cfg))
     else
       let own = to_lowercase U h;
           pre = own @ ''+'';
           is_self = (local = own);
           is_subaddress = (prefix pre local \<and> length local > length pre)
       in if \<not> is_self \<and> \<not> is_subaddress then fail_with Forbidden
       else
         and_then (lift (normalize_agent_name U local)) (\<lambda>n.
         if n \<noteq> local then fail_with (BadRequest ''agent name is not normalized'')
         else
           and_then (lift (parse_pubkey api (aq_agent_pubkey req))) (\<lambda>agent_pub.
           if trim (aq_holder req) = [] then fail_with (BadRequest ''holder required'')
           else
             and_then (lift (map_err (\<lambda>e. BadRequest (''holder: '' @ e))
                 (holder_new api (trim (aq_holder req))))) (\<lambda>hold.
             and_then (lift (map_err (\<lambda>e. Internal (''agent device cert: '' @ e))
                 (dc_create api \<lparr>dcl_iss = domain cfg, dcl_key = agent_pub,
                    dcl_purpose = Authentication, dcl_holder = hold, dcl_identities = [agent_email],
                    dcl_validity_days = DEVICE_CERT_VALIDITY_DAYS api\<rparr> kp now))) (\<lambda>dc.
             done_with (dc, agent_email)))))))))"

section \<open>POST /access/mint\<close>

text \<open>No session and no state: the device cert is the credential.\<close>

definition access_mint ::
  "config \<Rightarrow> ('kp, 'pk, 'h, 'c, 'dc, 'ar) device_api \<Rightarrow> 'kp \<Rightarrow> int \<Rightarrow> 'c \<Rightarrow> 'c \<Rightarrow> (app_error, 'c) res"
where
  "access_mint cfg api kp now cert request =
     res_bind (map_err (\<lambda>e. BadRequest (''device cert: '' @ e)) (dc_parse api cert)) (\<lambda>dc.
     if \<not> dc_verify api dc (kp_public api kp)
     then Inl (BadRequest ''device cert: bad signature'')
     else if dcl_iss (dc_claims api dc) \<noteq> domain cfg
     then Inl (BadRequest ''device cert: wrong issuer'')
     else if dcl_purpose (dc_claims api dc) \<noteq> Authentication
     then Inl (BadRequest ''device cert: not an authentication cert'')
     else if dc_is_expired api dc now
     then Inl (BadRequest ''device cert: expired'')
     else res_bind (map_err (\<lambda>e. BadRequest (''access request: '' @ e)) (ar_parse api request)) (\<lambda>ar.
     if \<not> ar_verify api ar (dcl_key (dc_claims api dc))
     then Inl (BadRequest ''access request: bad signature'')
     else if ar_is_expired api ar now
     then Inl (BadRequest ''access request: expired'')
     else if ar_domain (ar_claims api ar) \<noteq> domain cfg
     then Inl (BadRequest ''access request: wrong domain'')
     else if \<not> dc_authorizes api dc (ar_identity (ar_claims api ar))
     then Inl Forbidden
     else if ar_holder (ar_claims api ar) \<noteq> dcl_holder (dc_claims api dc)
     then Inl (BadRequest ''access request: holder mismatch'')
     else map_err (\<lambda>e. Internal (''access cert: '' @ e))
       (ac_create api \<lparr>acl_iss = domain cfg, acl_identity = ar_identity (ar_claims api ar),
          acl_holder = dcl_holder (dc_claims api dc), acl_key = ar_access_key (ar_claims api ar),
          acl_validity_hours = ACCESS_CERT_VALIDITY_HOURS api\<rparr> kp now)))"

end
