(* ===== verification/Idp_Device_Props.thy ===== *)
theory Idp_Device_Props
  imports Idp_Device
begin

text \<open>
  What the issuance endpoints sign: for whom a certificate is made, that two accounts can never
  get one for the same identity, and that the mint gives out exactly what the device cert carries.
\<close>

definition handles_valid :: "store \<Rightarrow> bool" where
  "handles_valid st \<longleftrightarrow> (\<forall>r \<in> set (accounts st). \<forall>h. handle r = Some h \<longrightarrow> valid_name False h)"

lemma get_account_Inr:
  "get_account i st = (Inr a, st') \<longleftrightarrow> a = map_option account_from_row (row_by_id i st) \<and> st' = st"
  by (auto simp: get_account_def)

lemma on_db_get_account:
  "on_db (get_account i) w = (Inr a, w') \<longleftrightarrow>
   a = map_option account_from_row (row_by_id i (db w)) \<and> w' = w"
  by (auto simp: on_db_Inr get_account_Inr)

lemma account_from_row_handle [simp]: "handle (account_from_row r) = handle r"
  by (simp add: account_from_row_def)

section \<open>Agent certificates\<close>

text \<open>The identities an account with handle \<open>h\<close> can have agents certified for.\<close>

definition agent_of :: "string \<Rightarrow> string \<Rightarrow> bool" where
  "agent_of h local \<longleftrightarrow> local = h \<or> (\<exists>tag. tag \<noteq> [] \<and> local = h @ CHR ''+'' # tag)"

lemma agent_of_owner:
  assumes "valid_name False h" "agent_of h local"
  shows "takeWhile (\<lambda>c. c \<noteq> CHR ''+'') local = h"
proof -
  have all: "\<forall>x \<in> set h. x \<noteq> CHR ''+''" using valid_handle_no_plus [OF assms(1)] by auto
  then have "takeWhile (\<lambda>c. c \<noteq> CHR ''+'') (h @ CHR ''+'' # tag) = h" for tag
    using takeWhile_append2 [of h "\<lambda>c. c \<noteq> CHR ''+''"] by simp
  moreover have "takeWhile (\<lambda>c. c \<noteq> CHR ''+'') h = h"
    by (subst takeWhile_eq_all_conv) (rule all)
  ultimately show ?thesis using assms(2) unfolding agent_of_def by blast
qed

lemma agent_of_iff:
  "agent_of h local \<longleftrightarrow> local = h \<or> prefix (h @ ''+'') local \<and> length (h @ ''+'') < length local"
proof
  assume "agent_of h local"
  then show "local = h \<or> prefix (h @ ''+'') local \<and> length (h @ ''+'') < length local"
    unfolding agent_of_def
  proof (elim disjE exE conjE)
    fix tag assume "tag \<noteq> []" "local = h @ CHR ''+'' # tag"
    then have "local = (h @ ''+'') @ tag" "tag \<noteq> []" by simp_all
    then show ?thesis by simp
  qed simp
next
  assume "local = h \<or> prefix (h @ ''+'') local \<and> length (h @ ''+'') < length local"
  then show "agent_of h local"
  proof (elim disjE conjE)
    assume "prefix (h @ ''+'') local" and len: "length (h @ ''+'') < length local"
    then obtain tag where t: "local = (h @ ''+'') @ tag" by (elim prefixE)
    with len have "tag \<noteq> []" by auto
    then show ?thesis using t by (auto simp: agent_of_def)
  qed (simp add: agent_of_def)
qed

lemma agent_device_cert_shape:
  assumes "lowering U" "wf_store (db w)" "handles_valid (db w)"
    and "agent_device_cert U cfg api kp jar now req w = (Inr (c, email), w')"
  obtains sid i r h local pk hold where "jar = Some sid" "session_owner sid now (db w) = Some i"
    "r \<in> set (accounts (db w))" "acc_id r = i" "handle r = Some h" "valid_name False h"
    "agent_of h local" "valid_name True local" "email = address local (domain cfg)"
    "dc_create api \<lparr>dcl_iss = domain cfg, dcl_key = pk, dcl_purpose = Authentication,
       dcl_holder = hold, dcl_identities = [email],
       dcl_validity_days = DEVICE_CERT_VALIDITY_DAYS api\<rparr> kp now = Inr c" "w' = w"
proof -
  let ?e = "to_lowercase U (trim (aq_agent_email req))"
  obtain sid i r h local pk hold n where
      j: "jar = Some sid" "session_owner sid now (db w) = Some i" "row_by_id i (db w) = Some r"
      "handle r = Some h" and
      sp: "split_once CHR ''@'' ?e = Some (local, domain cfg)" and
      ag: "local = to_lowercase U h \<or>
           prefix (to_lowercase U h @ ''+'') local \<and> length (to_lowercase U h @ ''+'') < length local" and
      nm: "normalize_agent_name U local = Inr local" and
      dc: "dc_create api \<lparr>dcl_iss = domain cfg, dcl_key = pk, dcl_purpose = Authentication,
           dcl_holder = hold, dcl_identities = [?e],
           dcl_validity_days = DEVICE_CERT_VALIDITY_DAYS api\<rparr> kp now = Inr c" and
      e: "email = ?e" "w' = w"
    using assms(4)
    by (auto simp: agent_device_cert_def and_then_Inr require_session_Inr on_db_get_account Let_def
        bind_eq_Some_conv split: if_splits prod.splits)
  have r: "r \<in> set (accounts (db w))" "acc_id r = i" using j(3) assms(2) by (simp_all add: row_by_id_eq)
  then have v: "valid_name False h" using assms(3) j(4) by (simp add: handles_valid_def)
  then have low: "to_lowercase U h = h" by (rule valid_name_lower)
  have "?e = address local (domain cfg)" using sp by (simp add: split_once_Some address_def)
  moreover have "valid_name True local"
    using nm normalize_name_Inr [OF assms(1)] by (auto simp: normalize_agent_name_def)
  moreover have "agent_of h local" using ag by (simp add: agent_of_iff low)
  ultimately show ?thesis using that j r v dc e by metis
qed

text \<open>C9: An agent certificate is issued only to a live session, over the session account's own
  handle or a plus sub-address of it under the service's domain, always as an authentication cert.
  No two accounts can get a certificate for the same agent identity.\<close>

theorem agent_certs_disjoint:
  assumes "lowering U" "wf_store (db w)" "handles_valid (db w)"
    and "agent_device_cert U cfg api kp jar1 now1 req1 w = (Inr (c1, email1), w1)"
    and "agent_device_cert U cfg api kp jar2 now2 req2 w = (Inr (c2, email2), w2)"
  shows "\<exists>sid1 sid2 i1 i2 h. jar1 = Some sid1 \<and> jar2 = Some sid2 \<and>
    session_owner sid1 now1 (db w) = Some i1 \<and> session_owner sid2 now2 (db w) = Some i2 \<and>
    (\<exists>r \<in> set (accounts (db w)). acc_id r = i1 \<and> handle r = Some h) \<and>
    (\<exists>local. agent_of h local \<and> valid_name True local \<and> email1 = address local (domain cfg)) \<and>
    (\<exists>pk hold. dc_create api \<lparr>dcl_iss = domain cfg, dcl_key = pk, dcl_purpose = Authentication,
       dcl_holder = hold, dcl_identities = [email1],
       dcl_validity_days = DEVICE_CERT_VALIDITY_DAYS api\<rparr> kp now1 = Inr c1) \<and>
    (email1 = email2 \<longrightarrow> i1 = i2)"
proof -
  note wf = assms(2) and hv = assms(3)
  obtain s1 i1 r1 h1 l1 p1 o1 where 1: "jar1 = Some s1" "session_owner s1 now1 (db w) = Some i1"
      "r1 \<in> set (accounts (db w))" "acc_id r1 = i1" "handle r1 = Some h1" "valid_name False h1"
      "agent_of h1 l1" "valid_name True l1" "email1 = address l1 (domain cfg)"
      "dc_create api \<lparr>dcl_iss = domain cfg, dcl_key = p1, dcl_purpose = Authentication,
       dcl_holder = o1, dcl_identities = [email1],
       dcl_validity_days = DEVICE_CERT_VALIDITY_DAYS api\<rparr> kp now1 = Inr c1"
    by (rule agent_device_cert_shape [OF assms(1) wf hv assms(4)])
  obtain s2 i2 r2 h2 l2 where 2: "jar2 = Some s2" "session_owner s2 now2 (db w) = Some i2"
      "r2 \<in> set (accounts (db w))" "acc_id r2 = i2" "handle r2 = Some h2" "valid_name False h2"
      "agent_of h2 l2" "email2 = address l2 (domain cfg)"
    by (rule agent_device_cert_shape [OF assms(1) wf hv assms(5)])
  have "i1 = i2" if "email1 = email2"
  proof -
    have "l1 = l2" using that 1(9) 2(8) by (simp add: address_def)
    then have "h1 = h2" using agent_of_owner [OF 1(6,7)] agent_of_owner [OF 2(6,7)] by simp
    then show ?thesis using handle_owner [OF wf 1(3) 2(3)] 1 2 by auto
  qed
  then show ?thesis using 1 2 by blast
qed

section \<open>User certificates\<close>

text \<open>A successful batch issuance signs, for the account of the live session, exactly two certs
  with one and the same holder: an authentication cert for the account's handle address alone,
  and an authorization cert for that address and its plus sub-addresses; the store is unchanged.\<close>

theorem device_cert_pair:
  assumes "device_cert cfg api kp jar now req w = (Inr resp, w')"
  shows "\<exists>sid i r h dpk cpk hold. jar = Some sid \<and> session_owner sid now (db w) = Some i \<and>
    row_by_id i (db w) = Some r \<and> handle r = Some h \<and> w' = w \<and>
    dr_identity resp = address h (domain cfg) \<and>
    parse_pubkey api (dq_device_pubkey req) = Inr dpk \<and>
    parse_pubkey api (dq_config_pubkey req) = Inr cpk \<and>
    dc_create api \<lparr>dcl_iss = domain cfg, dcl_key = dpk, dcl_purpose = Authentication,
      dcl_holder = hold, dcl_identities = [address h (domain cfg)],
      dcl_validity_days = DEVICE_CERT_VALIDITY_DAYS api\<rparr> kp now = Inr (dr_device_cert resp) \<and>
    dc_create api \<lparr>dcl_iss = domain cfg, dcl_key = cpk, dcl_purpose = Authorization,
      dcl_holder = hold, dcl_identities = [address h (domain cfg), address (h @ ''+*'') (domain cfg)],
      dcl_validity_days = DEVICE_CERT_VALIDITY_DAYS api\<rparr> kp now = Inr (dr_config_cert resp)"
  using assms
  by (auto simp: device_cert_def and_then_Inr require_session_Inr on_db_get_account Let_def
      split: prod.splits)

section \<open>The mint\<close>

definition mintable ::
  "config \<Rightarrow> ('kp, 'pk, 'h, 'c, 'dc, 'ar) device_api \<Rightarrow> 'kp \<Rightarrow> int \<Rightarrow> 'dc \<Rightarrow> 'ar \<Rightarrow> bool" where
  "mintable cfg api kp now dc ar \<longleftrightarrow> dc_verify api dc (kp_public api kp) \<and>
     dcl_iss (dc_claims api dc) = domain cfg \<and> dcl_purpose (dc_claims api dc) = Authentication \<and>
     \<not> dc_is_expired api dc now \<and> ar_verify api ar (dcl_key (dc_claims api dc)) \<and>
     \<not> ar_is_expired api ar now \<and> ar_domain (ar_claims api ar) = domain cfg \<and>
     dc_authorizes api dc (ar_identity (ar_claims api ar)) \<and>
     ar_holder (ar_claims api ar) = dcl_holder (dc_claims api dc)"

text \<open>The mint gives an access cert exactly when both texts parse, the device cert is an unexpired
  authentication cert that this service signed for its own domain, the request is unexpired, for
  this domain and signed by the device key, its identity is one the cert authorizes and its holder
  is the cert's; the access cert is for that identity, the fresh key of the request and the device
  cert's own holder.\<close>

theorem access_mint_iff:
  "access_mint cfg api kp now cert request = Inr ac \<longleftrightarrow>
   (\<exists>dc ar. dc_parse api cert = Inr dc \<and> ar_parse api request = Inr ar \<and> mintable cfg api kp now dc ar \<and>
      ac_create api \<lparr>acl_iss = domain cfg, acl_identity = ar_identity (ar_claims api ar),
        acl_holder = dcl_holder (dc_claims api dc), acl_key = ar_access_key (ar_claims api ar),
        acl_validity_hours = ACCESS_CERT_VALIDITY_HOURS api\<rparr> kp now = Inr ac)"
  by (cases "dc_parse api cert"; cases "ar_parse api request")
     (auto simp: access_mint_def res_bind_def mintable_def map_err_def split: sum.splits)

section \<open>From issuance to minting\<close>

text \<open>What the certificate library is documented to do: a cert it made parses to its claims,
  verifies under the key pair's public key, authorizes each identity it lists, and expires after
  its validity.\<close>

definition cert_laws :: "('kp, 'pk, 'h, 'c, 'dc, 'ar) device_api \<Rightarrow> bool" where
  "cert_laws api \<longleftrightarrow> (\<forall>c kp now enc. dc_create api c kp now = Inr enc \<longrightarrow>
     (\<exists>dc. dc_parse api enc = Inr dc \<and> dc_claims api dc = c \<and> dc_verify api dc (kp_public api kp) \<and>
        (\<forall>e \<in> set (dcl_identities c). dc_authorizes api dc e) \<and>
        (\<forall>t. dc_is_expired api dc t \<longleftrightarrow> now + dcl_validity_days c * 86400 < t)))"

text \<open>C10: The device cert of a batch mints access certs for the session's handle address, under the
  cert's holder and until it expires, to a request signed by the certified device key; the config
  cert of the same batch can never mint.\<close>

theorem issued_certs_mint:
  assumes "cert_laws api" "device_cert cfg api kp jar now req w = (Inr resp, w')"
    and "parse_pubkey api (dq_device_pubkey req) = Inr dpk"
  shows "\<exists>hold. (\<forall>t request ar. t \<le> now + DEVICE_CERT_VALIDITY_DAYS api * 86400 \<longrightarrow>
      ar_parse api request = Inr ar \<longrightarrow> ar_verify api ar dpk \<longrightarrow> \<not> ar_is_expired api ar t \<longrightarrow>
      ar_claims api ar = \<lparr>ar_domain = domain cfg, ar_identity = dr_identity resp, ar_holder = hold,
        ar_access_key = ak\<rparr> \<longrightarrow>
      access_mint cfg api kp t (dr_device_cert resp) request =
        map_err (\<lambda>e. Internal (''access cert: '' @ e)) (ac_create api \<lparr>acl_iss = domain cfg,
          acl_identity = dr_identity resp, acl_holder = hold, acl_key = ak,
          acl_validity_hours = ACCESS_CERT_VALIDITY_HOURS api\<rparr> kp t)) \<and>
    (\<forall>t request. access_mint cfg api kp t (dr_config_cert resp) request =
      Inl (BadRequest ''device cert: not an authentication cert''))"
proof -
  obtain h cpk hold where id: "dr_identity resp = address h (domain cfg)"
    and d: "dc_create api \<lparr>dcl_iss = domain cfg, dcl_key = dpk, dcl_purpose = Authentication,
      dcl_holder = hold, dcl_identities = [address h (domain cfg)],
      dcl_validity_days = DEVICE_CERT_VALIDITY_DAYS api\<rparr> kp now = Inr (dr_device_cert resp)"
    and c: "dc_create api \<lparr>dcl_iss = domain cfg, dcl_key = cpk, dcl_purpose = Authorization,
      dcl_holder = hold, dcl_identities = [address h (domain cfg), address (h @ ''+*'') (domain cfg)],
      dcl_validity_days = DEVICE_CERT_VALIDITY_DAYS api\<rparr> kp now = Inr (dr_config_cert resp)"
    using assms(2,3)
    by (auto simp: device_cert_def and_then_Inr require_session_Inr on_db_get_account Let_def
        split: prod.splits)
  note law = assms(1) [unfolded cert_laws_def, rule_format]
  obtain dc where dc: "dc_parse api (dr_device_cert resp) = Inr dc" "dc_claims api dc =
      \<lparr>dcl_iss = domain cfg, dcl_key = dpk, dcl_purpose = Authentication, dcl_holder = hold,
       dcl_identities = [dr_identity resp], dcl_validity_days = DEVICE_CERT_VALIDITY_DAYS api\<rparr>"
      "dc_verify api dc (kp_public api kp)" "dc_authorizes api dc (dr_identity resp)"
      "\<And>t. dc_is_expired api dc t \<longleftrightarrow> now + DEVICE_CERT_VALIDITY_DAYS api * 86400 < t"
    using law [OF d] id by auto
  obtain cc where cc: "dc_parse api (dr_config_cert resp) = Inr cc"
      "dcl_iss (dc_claims api cc) = domain cfg" "dcl_purpose (dc_claims api cc) = Authorization"
      "dc_verify api cc (kp_public api kp)"
    using law [OF c] by auto
  have "access_mint cfg api kp t (dr_config_cert resp) request =
      Inl (BadRequest ''device cert: not an authentication cert'')" for t request
    by (simp add: access_mint_def cc res_bind_def map_err_def)
  then show ?thesis
    by (intro exI [of _ hold]) (auto simp: access_mint_def dc res_bind_def map_err_def)
qed

section \<open>A concrete certificate library\<close>

text \<open>Certificates are their own claims with the time of issue, and requests theirs with the key
  that signed them; the key pair's public key is the text \<open>idp\<close>.\<close>

datatype demo_cert =
    DemoDevice "(string, string) device_claims" int
  | DemoAccess "(string, string) access_claims"
  | DemoRequest "(string, string) request_claims" string

type_synonym demo_api = "(unit, string, string, demo_cert, (string, string) device_claims \<times> int,
  (string, string) request_claims \<times> string) device_api"

fun demo_dc_parse :: "demo_cert \<Rightarrow> (string, (string, string) device_claims \<times> int) res" where
  "demo_dc_parse (DemoDevice c t) = Inr (c, t)"
| "demo_dc_parse _ = Inl ''no device cert''"

fun demo_ar_parse :: "demo_cert \<Rightarrow> (string, (string, string) request_claims \<times> string) res" where
  "demo_ar_parse (DemoRequest c k) = Inr (c, k)"
| "demo_ar_parse _ = Inl ''no request''"

definition demo_certs :: demo_api where
  "demo_certs = \<lparr>pk_from_base64 = Inr, pk_to_base64 = (\<lambda>k. k), kp_public = (\<lambda>_. ''idp''),
     holder_new = Inr, dc_create = (\<lambda>c _ now. Inr (DemoDevice c now)), dc_parse = demo_dc_parse,
     dc_verify = (\<lambda>_ pk. pk = ''idp''), dc_claims = fst,
     dc_is_expired = (\<lambda>(c, now) t. now + dcl_validity_days c * 86400 < t),
     dc_authorizes = (\<lambda>(c, now) e. e \<in> set (dcl_identities c)),
     ar_parse = demo_ar_parse, ar_verify = (\<lambda>(c, k) pk. k = pk), ar_claims = fst,
     ar_is_expired = (\<lambda>_ _. False), ac_create = (\<lambda>c _ _. Inr (DemoAccess c)),
     DEVICE_CERT_VALIDITY_DAYS = 90, ACCESS_CERT_VALIDITY_HOURS = 24\<rparr>"

lemma demo_cert_laws: "cert_laws demo_certs"
  by (simp add: cert_laws_def demo_certs_def)

text \<open>The example account, with the handle \<open>kim\<close>.\<close>

definition kim_world :: world where
  "kim_world = example_world\<lparr>db := example_store\<lparr>accounts := [\<lparr>acc_id = 1, external_email = ''a@x'',
     handle = Some ''kim'', identity_mode = None, acc_created_at = 5\<rparr>]\<rparr>\<rparr>"

definition demo_key :: "string \<Rightarrow> pub_key_json" where
  "demo_key k = \<lparr>algorithm = ''Ed25519'', public_key = k\<rparr>"

lemma kim_world_wf: "wf_store (db kim_world)" "handles_valid (db kim_world)"
proof -
  show "wf_store (db kim_world)"
    by (simp add: wf_store_def ids_fresh_def emails_unique_def handles_unique_def names_unique_def
        namespace_disjoint_def kim_world_def example_store_def)
  have "valid_name False ''kim''" by code_simp
  then show "handles_valid (db kim_world)" by (simp add: handles_valid_def kim_world_def)
qed

lemma kim_session: "require_session (Some ''s'') 200 kim_world = (Inr 1, kim_world)"
  using example_session
  by (simp add: require_session_Inr kim_world_def session_owner_def example_store_def)

lemma kim_account: "on_db (get_account 1) kim_world = (Inr (Some \<lparr>acc_id = 1,
    external_email = ''a@x'', handle = Some ''kim'', identity_mode = None\<rparr>), kim_world)"
  by (simp add: on_db_get_account row_by_id_def account_from_row_def kim_world_def example_store_def)

definition kim_request :: agent_cert_req where
  "kim_request = \<lparr>aq_agent_pubkey = demo_key ''pk'', aq_agent_email = '' Kim+bot@m.p'',
     aq_holder = ''h.1''\<rparr>"

lemma kim_agent_cert:
  "\<exists>c. agent_device_cert (map to_ascii_lowercase) example_config demo_certs () (Some ''s'') 200 kim_request
     kim_world = (Inr (c, ''kim+bot@m.p''), kim_world)"
proof -
  have "to_lowercase (map to_ascii_lowercase) (trim '' Kim+bot@m.p'') = ''kim+bot@m.p''"
    "split_once CHR ''@'' ''kim+bot@m.p'' = Some (''kim+bot'', ''m.p'')"
    "to_lowercase (map to_ascii_lowercase) ''kim'' = ''kim''" "prefix ''kim+'' ''kim+bot''"
    "normalize_agent_name (map to_ascii_lowercase) ''kim+bot'' = Inr ''kim+bot''" "trim ''h.1'' = ''h.1''"
    by code_simp+
  then show ?thesis
    by (simp add: agent_device_cert_def and_then_def kim_session kim_account lift_def ok_or_def
        kim_request_def example_config_def parse_pubkey_def demo_key_def demo_certs_def map_err_def
        done_with_def Let_def)
qed

theorem agent_certs_disjoint_witness:
  "\<exists>c. agent_device_cert (map to_ascii_lowercase) example_config demo_certs () (Some ''s'') 200 kim_request
     kim_world = (Inr (c, ''kim+bot@m.p''), kim_world) \<and>
   (\<exists>local. agent_of ''kim'' local \<and> ''kim+bot@m.p'' = address local ''m.p'')"
proof -
  obtain c where c: "agent_device_cert (map to_ascii_lowercase) example_config demo_certs () (Some ''s'') 200
      kim_request kim_world = (Inr (c, ''kim+bot@m.p''), kim_world)" using kim_agent_cert by blast
  have "\<forall>r \<in> set (accounts (db kim_world)). handle r = Some ''kim''" by (simp add: kim_world_def)
  then have "\<exists>local. agent_of ''kim'' local \<and> ''kim+bot@m.p'' = address local (domain example_config)"
    using agent_certs_disjoint [OF lowering_ascii kim_world_wf c c] by force
  then show ?thesis using c by (auto simp: example_config_def)
qed

definition kim_batch :: device_cert_req where
  "kim_batch = \<lparr>dq_device_pubkey = demo_key ''dk'', dq_config_pubkey = demo_key ''ck'',
     dq_holder = Some ''h.1''\<rparr>"

lemma kim_device_cert:
  "\<exists>resp. device_cert example_config demo_certs () (Some ''s'') 200 kim_batch kim_world = (Inr resp, kim_world)"
  by (simp add: device_cert_def and_then_def kim_session kim_account lift_def ok_or_def
      kim_batch_def parse_pubkey_def demo_key_def demo_certs_def map_err_def done_with_def Let_def)

theorem device_cert_pair_witness:
  "\<exists>resp. device_cert example_config demo_certs () (Some ''s'') 200 kim_batch kim_world =
     (Inr resp, kim_world) \<and> dr_identity resp = ''kim@m.p''"
proof -
  obtain resp where r: "device_cert example_config demo_certs () (Some ''s'') 200 kim_batch kim_world =
      (Inr resp, kim_world)" using kim_device_cert by blast
  have "dr_identity resp = ''kim@m.p''"
    using device_cert_pair [OF r]
    by (auto simp: kim_world_def row_by_id_def example_config_def address_def session_owner_def
        example_store_def split: if_splits)
  then show ?thesis using r by blast
qed

theorem issued_certs_mint_witness:
  "\<exists>resp. device_cert example_config demo_certs () (Some ''s'') 200 kim_batch kim_world =
     (Inr resp, kim_world) \<and>
   access_mint example_config demo_certs () 300 (dr_config_cert resp) (DemoRequest
     \<lparr>ar_domain = ''m.p'', ar_identity = ''kim@m.p'', ar_holder = ''h.1'', ar_access_key = ''ak''\<rparr> ''ck'') =
     Inl (BadRequest ''device cert: not an authentication cert'')"
proof -
  obtain resp where r: "device_cert example_config demo_certs () (Some ''s'') 200 kim_batch kim_world =
      (Inr resp, kim_world)" using kim_device_cert by blast
  have "parse_pubkey demo_certs (dq_device_pubkey kim_batch) = Inr ''dk''"
    by (simp add: parse_pubkey_def kim_batch_def demo_key_def demo_certs_def map_err_def)
  from issued_certs_mint [OF demo_cert_laws r this] show ?thesis using r by blast
qed

end
