(* ===== verification/Sbo_Wire.thy ===== *)
theory Sbo_Wire
  imports Json_Value
begin

text \<open>
  The vocabulary of \<open>sbo_core\<close> as the sources use it: the fields of a \<open>Message\<close>, and the
  functions on keys, paths, ids and wires the code calls.  That crate is not part of the
  repository, so its functions are the fields of a record the definitions take as an argument.
  HTTP is a function from the calls made so far and the next call to its reply, so that what was
  sent, and in which order, is part of the state.
\<close>

section \<open>HTTP\<close>

text \<open>\<open>PostAdmin\<close> is a \<open>PostJson\<close> with the \<open>X-Admin-Token\<close> header, the second argument.\<close>

datatype http_call =
    PostJson string json
  | PostAdmin string string json
  | PostWire string string
  | HttpGet string

datatype http_reply =
    NoClient string
  | NoReply string
  | NoTask string
  | Replied nat string

type_synonym net = "http_call list \<Rightarrow> http_call \<Rightarrow> http_reply"

text \<open>A library that uses the network itself: from what was sent before, its result and the calls it
  makes.\<close>

type_synonym 'a net_lib = "http_call list \<Rightarrow> (string, 'a) res \<times> http_call list"

definition is_success :: "nat \<Rightarrow> bool" where
  "is_success status \<longleftrightarrow> 200 \<le> status \<and> status < 300"

section \<open>Messages\<close>

datatype action = Post | Delete

record ('pk, 'sig) message =
  m_action :: action
  m_path :: string
  m_id :: string
  m_signing_key :: 'pk
  m_signature :: 'sig
  m_content_type :: "string option"
  m_content_hash :: "string option"
  m_payload :: "string option"
  m_owner :: "string option"
  m_creator :: "string option"
  m_content_encoding :: "string option"
  m_content_schema :: "string option"
  m_policy_ref :: "string option"
  m_related :: "string option"
  m_hlc :: "string option"
  m_prev :: "string option"
  m_auth_cert :: "string option"
  m_auth_evidence :: "string option"
  m_auth_warrant :: "string option"

record ('sk, 'pk, 'sig) sbo_api =
  key_of_bytes :: "string \<Rightarrow> 'sk"
  key_public :: "'sk \<Rightarrow> 'pk"
  placeholder_sig :: 'sig
  signature_of :: "'sk \<Rightarrow> ('pk, 'sig) message \<Rightarrow> 'sig"
  wire_serialize :: "('pk, 'sig) message \<Rightarrow> string"
  sha256 :: "string \<Rightarrow> string"
  path_parse :: "string \<Rightarrow> (string, string) res"
  id_new :: "string \<Rightarrow> (string, string) res"
  set_dnssec :: "'sk \<Rightarrow> string \<Rightarrow> string \<Rightarrow> string"
  send :: net
  status_text :: "nat \<Rightarrow> string"
  parse_json :: "string \<Rightarrow> (string, json) res"

text \<open>\<open>Message::sign\<close>, which fills in the signature.\<close>

definition sign_with :: "('sk, 'pk, 'sig, 'm) sbo_api_scheme \<Rightarrow> 'sk \<Rightarrow> ('pk, 'sig) message \<Rightarrow>
    ('pk, 'sig) message" where
  "sign_with api key msg = msg\<lparr>m_signature := signature_of api key msg\<rparr>"

text \<open>The credential of a headless device, of \<open>browserid_agent\<close>.\<close>

record device_credential =
  cr_device_key :: string
  cr_device_cert :: string
  cr_idp :: string
  cr_access_mint :: "string option"
  cr_identity :: "string option"

section \<open>Percent-encoding\<close>

text \<open>\<open>format!("{b:02X}")\<close> and the percent-encoding of a query component.\<close>

definition hex_digit :: "nat \<Rightarrow> char" where
  "hex_digit n = (if n < 10 then char_of (48 + n) else char_of (55 + n))"

definition url_unreserved :: "char \<Rightarrow> bool" where
  "url_unreserved c \<longleftrightarrow> is_ascii_alphanumeric c \<or> c \<in> {CHR ''-'', CHR ''.'', CHR ''_'', CHR ''~''}"

definition urlencode_byte :: "char \<Rightarrow> string" where
  "urlencode_byte c =
     (if url_unreserved c then [c]
      else [CHR ''%'', hex_digit (byte c div 16), hex_digit (byte c mod 16)])"

definition urlencoding :: "string \<Rightarrow> string" where
  "urlencoding s = concat (map urlencode_byte s)"

text \<open>Reading it back, for the proof that nothing is lost.\<close>

definition hex_value :: "char \<Rightarrow> nat" where
  "hex_value c = (if byte c < 58 then byte c - 48 else byte c - 55)"

fun urldecode :: "string \<Rightarrow> string" where
  "urldecode (c # a # b # r) =
     (if c = CHR ''%'' then char_of (16 * hex_value a + hex_value b) # urldecode r
      else c # urldecode (a # b # r))"
| "urldecode r = r"

lemma hex_value_digit: "n < 16 \<Longrightarrow> hex_value (hex_digit n) = n"
  by (auto simp: hex_value_def hex_digit_def)

lemma urldecode_plain: "c \<noteq> CHR ''%'' \<Longrightarrow> urldecode (c # r) = c # urldecode r"
  by (cases r rule: urldecode.cases) auto

lemma unreserved_not_percent: "url_unreserved c \<Longrightarrow> c \<noteq> CHR ''%''"
  by (auto simp: url_unreserved_def char_class_defs)

lemma urldecode_byte: "urldecode (urlencode_byte c @ r) = c # urldecode r"
proof (cases "url_unreserved c")
  case True
  then show ?thesis using urldecode_plain [OF unreserved_not_percent] by (simp add: urlencode_byte_def)
next
  case False
  have "byte c < 256" by simp
  then have "byte c div 16 < 16" "byte c mod 16 < 16"
    using less_mult_imp_div_less [of "byte c" 16 16] by simp_all
  then have "char_of (16 * hex_value (hex_digit (byte c div 16)) + hex_value (hex_digit (byte c mod 16))) = c"
    by (simp add: hex_value_digit)
  then show ?thesis using False by (simp add: urlencode_byte_def)
qed

lemma urldecode_urlencoding: "urldecode (urlencoding s) = s"
  by (induction s) (simp_all add: urlencoding_def urldecode_byte)

end
