(* ===== verification/Idp_Poster.thy ===== *)
theory Idp_Poster
  imports Idp_Device_Props Sbo_Wire
begin

text \<open>
  The server-side signer (\<open>mingo-idp/src/poster.rs\<close>): it holds a warrant a user approved and
  signs posts on the user's behalf.  A handler runs on the world of the account handlers with the
  log of the HTTP calls it has made.

  The presentation library, the daemon, the broker and the JSON decoders are not part of the
  repository: they are the record \<open>poster_api\<close>.
\<close>

section \<open>The world and the libraries\<close>

record poster_world = world +
  calls :: "http_call list"

type_synonym 'a handler = "(poster_world, app_error, 'a) run"

record warrant_claims =
  wc_grantor :: string
  wc_grantee :: string
  wc_audience :: string
  wc_exp :: int

record provision_resp =
  pv_code :: string
  pv_uri :: string
  pv_expires_in :: int

record dnssec_info =
  needs_refresh :: bool
  proof_b64 :: "string option"

record ('sk, 'pk, 'sig, 'agent) poster_api = "('sk, 'pk, 'sig) sbo_api" +
  decode_provision :: "string \<Rightarrow> (string, provision_resp) res"
  decode_dnssec :: "string \<Rightarrow> (string, dnssec_info) res"
  b64url_encode :: "string \<Rightarrow> string"
  b64url_decode :: "string \<Rightarrow> (string, string) res"
  warrant_parse :: "string \<Rightarrow> (string, warrant_claims) res"
  access_cert_iss :: "string \<Rightarrow> (string, string) res"
  device_cert_iss :: "string \<Rightarrow> (string, string) res"
  agent_new :: "device_credential \<Rightarrow> (string, 'agent) res"
  agent_add_grant :: "'agent \<Rightarrow> string \<Rightarrow> string \<Rightarrow> (string, 'agent) res"
  agent_assertion :: "'agent \<Rightarrow> string \<Rightarrow> (string \<times> string) net_lib"

text \<open>
  The two key pairs of \<open>AppState\<close> and the certificate library of the previous component, whose
  encoded certificates are stored as text here.
\<close>

record ('kp, 'pk, 'h, 'dc, 'ar) poster_keys =
  certs :: "('kp, 'pk, 'h, string, 'dc, 'ar) device_api"
  idp_key :: 'kp
  poster_key :: 'kp
  secret_bytes :: "'kp \<Rightarrow> string"

definition http_send ::
  "('sk, 'pk, 'sig, 'agent) poster_api \<Rightarrow> http_call \<Rightarrow> (poster_world, 'e, http_reply) run" where
  "http_send api c w = (Inr (send api (calls w) c), w\<lparr>calls := calls w @ [c]\<rparr>)"

section \<open>Identities and scopes\<close>

definition default_scopes :: "string \<Rightarrow> string list" where
  "default_scopes user_email =
     [''as:'' @ user_email, ''action:post'', ''action:delete'', ''schema:post.v1'',
      ''schema:comment.v1'', ''schema:reaction.v1'', ''schema:attestation.v1'',
      ''path:/communities/**'', ''path:/u/'' @ user_email @ ''/**'']"

definition public_identity :: "account \<Rightarrow> string \<Rightarrow> string" where
  "public_identity a dmn =
     (case handle a of Some h \<Rightarrow> address h dmn | None \<Rightarrow> external_email a)"

definition poster_identity :: "string \<Rightarrow> string" where
  "poster_identity dmn = address ''mingo-poster'' dmn"

definition POSTER_HOLDER :: string where
  "POSTER_HOLDER = ''svc.mingo-poster''"

definition poster_device_cert ::
  "config \<Rightarrow> ('kp, 'pk, 'h, 'dc, 'ar) poster_keys \<Rightarrow> int \<Rightarrow> (app_error, string) res" where
  "poster_device_cert cfg ks now =
     res_bind (map_err (\<lambda>e. Internal (''holder: '' @ e)) (holder_new (certs ks) POSTER_HOLDER)) (\<lambda>hold.
     map_err (\<lambda>e. Internal (''poster device cert: '' @ e))
       (dc_create (certs ks) \<lparr>dcl_iss = domain cfg, dcl_key = kp_public (certs ks) (poster_key ks),
          dcl_purpose = Authentication, dcl_holder = hold,
          dcl_identities = [poster_identity (domain cfg)], dcl_validity_days = 90\<rparr>
          (idp_key ks) now))"

definition origin_for :: "string \<Rightarrow> string" where
  "origin_for dmn =
     (if prefix ''localhost'' dmn \<or> prefix ''127.'' dmn then ''http://'' @ dmn else ''https://'' @ dmn)"

section \<open>Talking to the broker and the daemon\<close>

definition post_json ::
  "('sk, 'pk, 'sig, 'agent) poster_api \<Rightarrow> (string \<Rightarrow> (string, 'a) res) \<Rightarrow> string \<Rightarrow> json \<Rightarrow> 'a handler"
where
  "post_json api decode url body =
     and_then (http_send api (PostJson url body)) (\<lambda>reply. lift (case reply of
       NoTask e \<Rightarrow> Inl (Internal (''http task: '' @ e))
     | NoClient e \<Rightarrow> Inl (Internal (''http client: '' @ e))
     | NoReply e \<Rightarrow> Inl (Internal (''POST '' @ url @ '': '' @ e))
     | Replied status txt \<Rightarrow>
         if \<not> is_success status
         then Inl (BadRequest (url @ '' -> '' @ status_text api status @ '': '' @ txt))
         else map_err (\<lambda>e. Internal (''decode '' @ url @ '': '' @ e @ ''; body='' @ txt)) (decode txt)))"

definition json_or_raw :: "('sk, 'pk, 'sig, 'agent) poster_api \<Rightarrow> string \<Rightarrow> json" where
  "json_or_raw api txt = (case parse_json api txt of Inr v \<Rightarrow> v | Inl _ \<Rightarrow> mk_obj [(''raw'', JStr txt)])"

definition post_json_raw ::
  "('sk, 'pk, 'sig, 'agent) poster_api \<Rightarrow> string \<Rightarrow> json \<Rightarrow> (nat \<times> json) handler" where
  "post_json_raw api url body =
     and_then (http_send api (PostJson url body)) (\<lambda>reply. lift (case reply of
       NoTask e \<Rightarrow> Inl (Internal (''http task: '' @ e))
     | NoClient e \<Rightarrow> Inl (Internal (''http client: '' @ e))
     | NoReply e \<Rightarrow> Inl (Internal (''POST '' @ url @ '': '' @ e))
     | Replied status txt \<Rightarrow> Inr (status, json_or_raw api txt)))"

definition submit_wire :: "('sk, 'pk, 'sig, 'agent) poster_api \<Rightarrow> string \<Rightarrow> string \<Rightarrow> json handler" where
  "submit_wire api daemon wire =
     and_then (http_send api (PostWire (daemon @ ''/v1/submit'') wire)) (\<lambda>reply. lift (case reply of
       NoTask e \<Rightarrow> Inl (Internal (''submit task: '' @ e))
     | NoClient e \<Rightarrow> Inl (Internal (''http client: '' @ e))
     | NoReply e \<Rightarrow> Inl (Internal (''daemon submit: '' @ e))
     | Replied status txt \<Rightarrow>
         if \<not> is_success status
         then Inl (BadRequest (''daemon submit '' @ status_text api status @ '': '' @ txt))
         else Inr (json_or_raw api txt)))"

section \<open>The attribution proof\<close>

definition DNSSEC_MARGIN_SECS :: int where
  "DNSSEC_MARGIN_SECS = 3600"

definition dnssec_url :: "string \<Rightarrow> string \<Rightarrow> int \<Rightarrow> string" where
  "dnssec_url daemon dmn needed_by =
     daemon @ ''/v1/dnssec?domain='' @ urlencoding dmn @ ''&needed_by='' @ show_int needed_by @
     ''&margin='' @ show_int DNSSEC_MARGIN_SECS"

definition get_dnssec ::
  "('sk, 'pk, 'sig, 'agent) poster_api \<Rightarrow> string \<Rightarrow> string \<Rightarrow> int \<Rightarrow> dnssec_info handler" where
  "get_dnssec api daemon dmn needed_by =
     (let url = dnssec_url daemon dmn needed_by in
      and_then (http_send api (HttpGet url)) (\<lambda>reply. lift (case reply of
        NoTask e \<Rightarrow> Inl (Internal (''dnssec task: '' @ e))
      | NoClient e \<Rightarrow> Inl (Internal (''http client: '' @ e))
      | NoReply e \<Rightarrow> Inl (Internal (''GET '' @ url @ '': '' @ e))
      | Replied status txt \<Rightarrow>
          if \<not> is_success status
          then Inl (Internal (''dnssec check '' @ status_text api status @ '': '' @ txt))
          else map_err (\<lambda>e. Internal (''decode dnssec: '' @ e @ ''; body='' @ txt))
                 (decode_dnssec api txt))))"

definition quoted :: "string \<Rightarrow> string" where
  "quoted s = [CHR 0x27] @ s @ [CHR 0x27]"

definition on_your_behalf :: string where
  "on_your_behalf = '' (required before mingo can post on your behalf) '' @
     [CHR 0xE2, CHR 0x80, CHR 0x94] @ '' please retry''"

text \<open>\<open>ephemeral\<close> is the throwaway key the code generates.\<close>

definition ensure_dnssec_fresh ::
  "('sk, 'pk, 'sig, 'agent) poster_api \<Rightarrow> 'sk \<Rightarrow> string \<Rightarrow> int \<Rightarrow> string \<Rightarrow> unit handler" where
  "ensure_dnssec_fresh api ephemeral daemon now dmn =
     attempt (get_dnssec api daemon dmn now) (\<lambda>r.
     and_then (lift (map_err (\<lambda>e. Internal (''could not confirm the DNSSEC attribution proof for '' @
         quoted dmn @ '' is fresh'' @ on_your_behalf @ '': '' @ app_error_text e)) r)) (\<lambda>info.
     if \<not> needs_refresh info then done_with ()
     else case proof_b64 info of
       None \<Rightarrow> fail_with (Internal (''the DNSSEC attribution proof for '' @ quoted dmn @
                 '' is stale and could not be refreshed'' @ on_your_behalf))
     | Some p \<Rightarrow>
         and_then (lift (map_err (\<lambda>e. Internal (''decode dnssec proof for '' @ dmn @ '': '' @ e))
                     (b64url_decode api (trim p)))) (\<lambda>prf.
         attempt (submit_wire api daemon (set_dnssec api ephemeral dmn prf)) (\<lambda>r.
         and_then (lift (map_err (\<lambda>e. Internal (
             ''could not refresh the DNSSEC attribution proof for '' @ quoted dmn @
             on_your_behalf @ '': '' @ app_error_text e)) r)) (\<lambda>_. done_with ())))))"

section \<open>POST /poster/enable\<close>

definition provision_body ::
  "config \<Rightarrow> ('kp, 'pk, 'h, 'dc, 'ar) poster_keys \<Rightarrow> string \<Rightarrow> json" where
  "provision_body cfg ks user_email = mk_obj
     [(''provisioning_pubkey'', mk_obj [(''algorithm'', JStr ''Ed25519''),
         (''publicKey'', JStr (pk_to_base64 (certs ks) (kp_public (certs ks) (poster_key ks))))]),
      (''grantor'', JStr user_email),
      (''grantee'', JStr (poster_identity (domain cfg))),
      (''grantee_holder'', JStr POSTER_HOLDER),
      (''grants'', JArr [mk_obj [(''audience'', JStr (sbo_db_audience cfg)),
         (''scopes'', JArr (map JStr (default_scopes user_email)))]]),
      (''label'', JStr ''mingo poster''),
      (''message'', JStr (''mingo posts for you server-side, so posting works without signing popups.''))]"

text \<open>The live pending request of the same identity that is handed out again.\<close>

definition reusable :: "poster_pending \<Rightarrow> string \<Rightarrow> int \<Rightarrow> string option" where
  "reusable p user_email now =
     (case (pp_verification_uri p, pp_device_seed p) of
        (Some uri, Some _) \<Rightarrow>
          if pp_user_email p = user_email \<and> i64_add now 60 < pp_expires_at p then Some uri else None
      | _ \<Rightarrow> None)"

text \<open>\<open>now\<close> is the time of the session lookup, \<open>now1\<close> the one the handler reads, \<open>now2\<close> that of
  the written row.\<close>

definition enable ::
  "config \<Rightarrow> ('sk, 'spk, 'sig, 'agent) poster_api \<Rightarrow> ('kp, 'pk, 'h, 'dc, 'ar) poster_keys \<Rightarrow>
   string option \<Rightarrow> int \<Rightarrow> int \<Rightarrow> int \<Rightarrow> string handler" where
  "enable cfg api ks jar now now1 now2 =
     and_then (require_session jar now) (\<lambda>account_id.
     and_then (on_db (get_account account_id)) (\<lambda>a.
     and_then (lift (ok_or a NotAuthenticated)) (\<lambda>account.
     let user_email = public_identity account (domain cfg) in
     and_then (on_db (get_poster_pending account_id)) (\<lambda>pend.
     case Option.bind pend (\<lambda>p. reusable p user_email now1) of
       Some uri \<Rightarrow> done_with uri
     | None \<Rightarrow>
         and_then (post_json api (decode_provision api)
             (origin_for (broker_domain cfg) @ ''/agent-provision/request'')
             (provision_body cfg ks user_email)) (\<lambda>resp.
         and_then (on_db (set_poster_pending account_id user_email (pv_code resp) (pv_uri resp)
             (i64_add now1 (pv_expires_in resp)) (b64url_encode api (secret_bytes ks (poster_key ks)))
             now2)) (\<lambda>_.
         done_with (pv_uri resp)))))))"

section \<open>POST /poster/poll\<close>

text \<open>Indexing a \<open>Value\<close>: null where there is nothing.\<close>

definition jindex :: "string \<Rightarrow> json \<Rightarrow> json" where
  "jindex k v = (case jget k v of Some x \<Rightarrow> x | None \<Rightarrow> JNull)"

definition jat :: "nat \<Rightarrow> json \<Rightarrow> json" where
  "jat i v = (case Option.bind (as_arr v) (\<lambda>xs. nth_opt xs i) of Some x \<Rightarrow> x | None \<Rightarrow> JNull)"

datatype poll_result =
    PollStatus string
  | PollMismatch string string

definition mint_url :: "config \<Rightarrow> string" where
  "mint_url cfg = origin_for (domain cfg) @ ''/access/mint''"

definition completed_tail :: "json \<Rightarrow> (app_error, string) res" where
  "completed_tail body =
     ok_or (as_str (jindex ''warrant'' (jat 0 (jindex ''grants'' body))))
       (Internal ''completed poll carried no warrant'')"

text \<open>The approval of a request for \<open>user_email\<close>: what is kept of it.\<close>

definition poll_completed ::
  "config \<Rightarrow> ('sk, 'spk, 'sig, 'agent) poster_api \<Rightarrow> ('kp, 'pk, 'h, 'dc, 'ar) poster_keys \<Rightarrow>
   int \<Rightarrow> int \<Rightarrow> int \<Rightarrow> string \<Rightarrow> string \<Rightarrow> json \<Rightarrow> poll_result handler" where
  "poll_completed cfg api ks account_id now1 now2 user_email seed body =
     and_then (lift (completed_tail body)) (\<lambda>tail.
     and_then (lift (map_err (\<lambda>e. Internal (''broker returned a bad warrant: '' @ e))
         (warrant_parse api (hd (split_on CHR ''~'' tail))))) (\<lambda>wc.
     if \<not> eq_ignore_ascii_case (wc_grantor wc) user_email \<or>
        wc_grantee wc \<noteq> poster_identity (domain cfg)
     then and_then (on_db (clear_poster_pending account_id)) (\<lambda>_.
            done_with (PollMismatch user_email (wc_grantor wc)))
     else
       and_then (lift (poster_device_cert cfg ks now1)) (\<lambda>cert.
       and_then (on_db (set_poster_warrant account_id user_email tail (wc_audience wc) (wc_exp wc)
           seed cert POSTER_HOLDER (origin_for (domain cfg)) (Some (mint_url cfg)) now2)) (\<lambda>_.
       and_then (on_db (clear_poster_pending account_id)) (\<lambda>_.
       done_with (PollStatus ''approved''))))))"

definition poll ::
  "config \<Rightarrow> ('sk, 'spk, 'sig, 'agent) poster_api \<Rightarrow> ('kp, 'pk, 'h, 'dc, 'ar) poster_keys \<Rightarrow>
   string option \<Rightarrow> int \<Rightarrow> int \<Rightarrow> int \<Rightarrow> poll_result handler" where
  "poll cfg api ks jar now now1 now2 =
     and_then (require_session jar now) (\<lambda>account_id.
     and_then (on_db (get_poster_pending account_id)) (\<lambda>pend.
     case pend of
       None \<Rightarrow> done_with (PollStatus ''none'')
     | Some p \<Rightarrow>
     (case pp_device_seed p of
       None \<Rightarrow> and_then (on_db (clear_poster_pending account_id)) (\<lambda>_. done_with (PollStatus ''expired''))
     | Some seed \<Rightarrow>
         and_then (post_json_raw api (origin_for (broker_domain cfg) @ ''/agent-provision/poll'')
             (mk_obj [(''code'', JStr (pp_code p))])) (\<lambda>(http_status, body).
         if http_status = 429 then done_with (PollStatus ''pending'')
         else
           let status = (case as_str (jindex ''status'' body) of Some s \<Rightarrow> s | None \<Rightarrow> []) in
           if status = ''pending'' then done_with (PollStatus ''pending'')
           else if status = ''completed''
           then poll_completed cfg api ks account_id now1 now2 (pp_user_email p) seed body
           else and_then (on_db (clear_poster_pending account_id)) (\<lambda>_.
                  done_with (PollStatus (if status = [] then ''expired'' else status)))))))"

section \<open>GET /poster/status and POST /poster/disable\<close>

text \<open>A scope is a bare text or an object with a \<open>scope\<close>.\<close>

definition scope_text :: "json \<Rightarrow> string option" where
  "scope_text e = (case as_str e of Some s \<Rightarrow> Some s | None \<Rightarrow> str_field ''scope'' e)"

definition warrant_payload ::
  "('sk, 'pk, 'sig, 'agent) poster_api \<Rightarrow> string \<Rightarrow> json option" where
  "warrant_payload api stored =
     Option.bind (split_once CHR ''~'' stored) (\<lambda>(warrant_jws, _).
     Option.bind (nth_opt (split_on CHR ''.'' warrant_jws) 1) (\<lambda>payload.
     case b64url_decode api payload of
       Inl _ \<Rightarrow> None
     | Inr bytes \<Rightarrow> (case parse_json api bytes of Inl _ \<Rightarrow> None | Inr v \<Rightarrow> Some v)))"

definition warrant_authors_as ::
  "('sk, 'pk, 'sig, 'agent) poster_api \<Rightarrow> string \<Rightarrow> string \<Rightarrow> bool" where
  "warrant_authors_as api stored user_email =
     (case Option.bind (Option.bind (warrant_payload api stored) (jget ''scopes'')) as_arr of
        None \<Rightarrow> False
      | Some scopes \<Rightarrow> list_ex (\<lambda>e. scope_text e = Some (''as:'' @ user_email)) scopes)"

record poster_status =
  ps_enabled :: bool
  ps_expires_at :: "int option"

definition status ::
  "config \<Rightarrow> ('sk, 'pk, 'sig, 'agent) poster_api \<Rightarrow> string option \<Rightarrow> int \<Rightarrow> int \<Rightarrow> poster_status handler"
where
  "status cfg api jar now now1 =
     and_then (require_session jar now) (\<lambda>account_id.
     and_then (on_db (get_account account_id)) (\<lambda>a.
     and_then (lift (ok_or a NotAuthenticated)) (\<lambda>account.
     let user_email = public_identity account (domain cfg) in
     and_then (on_db (get_poster_warrant account_id)) (\<lambda>w.
     done_with \<lparr>ps_enabled = (case w of None \<Rightarrow> False | Some x \<Rightarrow> now1 < pw_expires_at x \<and>
                  pw_device_seed x \<noteq> None \<and> warrant_authors_as api (pw_warrant x) user_email),
                ps_expires_at = map_option pw_expires_at w\<rparr>))))"

definition disable :: "string option \<Rightarrow> int \<Rightarrow> unit handler" where
  "disable jar now =
     and_then (require_session jar now) (\<lambda>account_id.
     and_then (on_db (delete_poster_warrant account_id)) (\<lambda>_.
     on_db (clear_poster_pending account_id)))"

section \<open>POST /poster/submit\<close>

record submit_req =
  sb_action :: "string option"
  sb_path :: string
  sb_id :: string
  sb_schema :: string
  sb_content_type :: "string option"
  sb_payload :: string
  sb_hlc :: "string option"
  sb_prev :: "string option"

definition agent_cert_of :: "string \<Rightarrow> (app_error, string) res" where
  "agent_cert_of presentation =
     ok_or (nth_opt (split_on CHR ''~'' presentation) 3)
       (Internal ''presentation is not 4 ~-joined objects'')"

definition presentation_issuers ::
  "('sk, 'pk, 'sig, 'agent) poster_api \<Rightarrow> string \<Rightarrow> (app_error, string list) res" where
  "presentation_issuers api presentation =
     res_bind (map_err (\<lambda>e. Internal (''presentation access cert: '' @ e))
       (access_cert_iss api (hd (split_on CHR ''~'' presentation)))) (\<lambda>access.
     res_bind (agent_cert_of presentation) (\<lambda>cc.
     res_bind (map_err (\<lambda>e. Internal (''presentation config cert: '' @ e))
       (device_cert_iss api cc)) (\<lambda>conf.
     Inr (if conf = access then [access] else [access, conf]))))"

text \<open>Each issuer has its own throwaway key and its own reading of the clock.\<close>

fun ensure_all ::
  "('sk, 'pk, 'sig, 'agent) poster_api \<Rightarrow> (string \<Rightarrow> 'sk) \<Rightarrow> string \<Rightarrow> (string \<Rightarrow> int) \<Rightarrow>
   string list \<Rightarrow> unit handler" where
  "ensure_all api ephemeral daemon now [] = done_with ()"
| "ensure_all api ephemeral daemon now (d # ds) =
     and_then (ensure_dnssec_fresh api (ephemeral d) daemon (now d) d) (\<lambda>_. ensure_all api ephemeral daemon now ds)"

definition signable_action :: "string option \<Rightarrow> (app_error, action) res" where
  "signable_action a =
     (case a of
        None \<Rightarrow> Inr Post
      | Some s \<Rightarrow> if s = [] \<or> s = ''post'' then Inr Post
                  else if s = ''delete'' then Inr Delete
                  else Inl (BadRequest (''poster cannot sign action '' @ quoted s @
                              '' (only post or delete)'')))"

text \<open>The envelope, before and after signing.\<close>

definition poster_message ::
  "('sk, 'pk, 'sig, 'agent) poster_api \<Rightarrow> 'sk \<Rightarrow> action \<Rightarrow> submit_req \<Rightarrow> string \<Rightarrow> string \<Rightarrow> int \<Rightarrow>
   (app_error, ('pk, 'sig) message) res" where
  "poster_message api key act req owner presentation millis =
     res_bind (map_err (\<lambda>e. BadRequest (''bad path '' @ quoted (sb_path req) @ '': '' @ e))
       (path_parse api (sb_path req))) (\<lambda>path.
     res_bind (map_err (\<lambda>e. BadRequest (''bad id '' @ quoted (sb_id req) @ '': '' @ e))
       (id_new api (sb_id req))) (\<lambda>i.
     res_bind (map_err (\<lambda>e. Internal (''bad owner '' @ quoted owner @ '': '' @ e))
       (id_new api owner)) (\<lambda>own.
     Inr (sign_with api key \<lparr>m_action = act, m_path = path, m_id = i,
       m_signing_key = key_public api key, m_signature = placeholder_sig api,
       m_content_type = Some (case sb_content_type req of Some t \<Rightarrow> t | None \<Rightarrow> ''application/json''),
       m_content_hash = Some (sha256 api (sb_payload req)), m_payload = Some (sb_payload req),
       m_owner = Some own, m_creator = None, m_content_encoding = None,
       m_content_schema = Some (sb_schema req), m_policy_ref = None, m_related = None,
       m_hlc = Some (case sb_hlc req of Some h \<Rightarrow> h | None \<Rightarrow> show_int millis @ ''.0''),
       m_prev = sb_prev req, m_auth_cert = Some presentation, m_auth_evidence = None,
       m_auth_warrant = None\<rparr>))))"

definition revoked_text :: string where
  "revoked_text = ''mingo-poster'' @ [CHR 0x27] @ ''s stored authorization was revoked '' @
     [CHR 0xE2, CHR 0x80, CHR 0x94] @ '' server-side posting'' @ replicate 22 CHR 0x20 @
     ''disabled; this write will use in-browser signing (re-enable the poster'' @
     replicate 22 CHR 0x20 @ ''to re-approve)''"

text \<open>
  \<open>format!("{e:?}")\<close>: the name of the variant and its text, quoted and escaped.  The bytes of other
  characters than ASCII are kept.
\<close>

definition hex_digit :: "nat \<Rightarrow> char" where
  "hex_digit n = ''0123456789abcdef'' ! (n mod 16)"

definition debug_char :: "char \<Rightarrow> string" where
  "debug_char c =
     (let n = of_char c :: nat; esc = CHR 0x5C in
      if n = 0 then [esc, CHR ''0'']
      else if n = 9 then [esc, CHR ''t'']
      else if n = 10 then [esc, CHR ''n'']
      else if n = 13 then [esc, CHR ''r'']
      else if c = CHR 0x22 \<or> c = esc then [esc, c]
      else if n < 16 then [esc] @ ''u{'' @ [hex_digit n] @ ''}''
      else if n < 32 \<or> n = 127 then [esc] @ ''u{'' @ [hex_digit (n div 16), hex_digit n] @ ''}''
      else [c])"

definition debug_string :: "string \<Rightarrow> string" where
  "debug_string s = [CHR 0x22] @ concat (map debug_char s) @ [CHR 0x22]"

fun error_debug :: "app_error \<Rightarrow> string" where
  "error_debug NotAuthenticated = ''NotAuthenticated''"
| "error_debug (InvalidAssertion m) = ''InvalidAssertion('' @ debug_string m @ '')''"
| "error_debug (InvalidHandle m) = ''InvalidHandle('' @ debug_string m @ '')''"
| "error_debug HandleTaken = ''HandleTaken''"
| "error_debug Forbidden = ''Forbidden''"
| "error_debug (BadRequest m) = ''BadRequest('' @ debug_string m @ '')''"
| "error_debug (Internal m) = ''Internal('' @ debug_string m @ '')''"

definition forward ::
  "('sk, 'pk, 'sig, 'agent) poster_api \<Rightarrow> string \<Rightarrow> int \<Rightarrow> string \<Rightarrow> json handler" where
  "forward api daemon account_id wire =
     attempt (submit_wire api daemon wire) (\<lambda>r. case r of
       Inr v \<Rightarrow> done_with v
     | Inl e \<Rightarrow>
         if contains_text ''revocation:'' (error_debug e)
         then attempt (on_db (delete_poster_warrant account_id)) (\<lambda>_ :: (app_error, unit) res.
                fail_with (BadRequest revoked_text))
         else fail_with e)"

definition checked_warrant ::
  "config \<Rightarrow> ('sk, 'pk, 'sig, 'agent) poster_api \<Rightarrow> int \<Rightarrow> int \<Rightarrow>
   (poster_warrant \<times> device_credential) handler" where
  "checked_warrant cfg api account_id now1 =
     and_then (on_db (get_poster_warrant account_id)) (\<lambda>ow.
     and_then (lift (ok_or ow (BadRequest ''mingo-poster is not enabled''))) (\<lambda>w.
     if pw_expires_at w \<le> now1
     then fail_with (BadRequest (''mingo-poster authorization expired '' @
            [CHR 0xE2, CHR 0x80, CHR 0x94] @ '' re-enable''))
     else case (pw_device_seed w, pw_device_cert w, pw_idp w) of
       (Some seed, Some cert, Some idp) \<Rightarrow>
         and_then (on_db (get_account account_id)) (\<lambda>a.
         and_then (lift (ok_or a NotAuthenticated)) (\<lambda>account.
         if \<not> warrant_authors_as api (pw_warrant w) (public_identity account (domain cfg))
         then fail_with (BadRequest (''mingo-poster needs re-enabling: its grant predates '' @
                ''on-behalf (as:) attribution''))
         else done_with (w, \<lparr>cr_device_key = seed, cr_device_cert = cert, cr_idp = idp,
                cr_access_mint = pw_access_mint w,
                cr_identity = Some (poster_identity (domain cfg))\<rparr>)))
     | _ \<Rightarrow> fail_with (BadRequest
            ''mingo-poster needs re-enabling on the current authorization model'')))"

text \<open>The presentation the stored warrant gives, and the seed of its access key.\<close>

definition present ::
  "('sk, 'pk, 'sig, 'agent) poster_api \<Rightarrow> poster_warrant \<Rightarrow> device_credential \<Rightarrow>
   (string \<times> string) handler" where
  "present api w cred =
     and_then (lift (map_err (\<lambda>e. Internal (''poster credential: '' @ e)) (agent_new api cred))) (\<lambda>ag.
     and_then (lift (ok_or (split_once CHR ''~'' (pw_warrant w))
         (Internal ''stored grant is not warrant~config_cert''))) (\<lambda>(warrant_jws, config_jws).
     and_then (lift (map_err (\<lambda>e. Internal (''stored grant: '' @ e))
         (agent_add_grant api ag warrant_jws config_jws))) (\<lambda>ag'.
     (\<lambda>st. case agent_assertion api ag' (pw_audience w) (calls st) of (r, minting) \<Rightarrow>
         (map_err (\<lambda>e. Internal (''access mint: '' @ e)) r, st\<lparr>calls := calls st @ minting\<rparr>)))))"

text \<open>\<open>now1\<close> is the clock of the expiry check, \<open>now2\<close> those of the freshness checks and
  \<open>millis\<close> that of the default timestamp.\<close>

definition submit ::
  "config \<Rightarrow> ('sk, 'pk, 'sig, 'agent) poster_api \<Rightarrow> (string \<Rightarrow> 'sk) \<Rightarrow> string option \<Rightarrow> int \<Rightarrow> int \<Rightarrow>
   (string \<Rightarrow> int) \<Rightarrow> int \<Rightarrow> submit_req \<Rightarrow> json handler" where
  "submit cfg api ephemeral jar now now1 now2 millis req =
     and_then (require_session jar now) (\<lambda>account_id.
     and_then (checked_warrant cfg api account_id now1) (\<lambda>(w, cred).
     and_then (present api w cred) (\<lambda>(presentation, access_seed).
     and_then (lift (presentation_issuers api presentation)) (\<lambda>issuers.
     and_then (ensure_all api ephemeral (daemon_url cfg) now2 issuers) (\<lambda>_.
     and_then (lift (signable_action (sb_action req))) (\<lambda>act.
     and_then (lift (poster_message api (key_of_bytes api access_seed) act req (pw_user_email w)
         presentation millis)) (\<lambda>msg.
     forward api (daemon_url cfg) account_id (wire_serialize api msg))))))))"

end
