(* ===== verification/Idp_Schema.thy ===== *)
theory Idp_Schema
  imports Idp_Poster
begin

text \<open>
  Opening the store (\<open>Store::open\<close> in \<open>mingo-idp/src/store.rs\<close>): the schema is applied to whatever
  the file holds, then the columns that later versions added are added to the tables of an older
  file.  Tables are columns with rows of values; \<open>store_of\<close> reads them as the rows of the theory
  \<open>Idp_Store\<close>, column by column as the queries name them.

  The names of tables and columns are lower-case throughout, so they are compared as they are.  An
  index has no effect but that creating it can fail.
\<close>

section \<open>Databases\<close>

datatype sql_value =
    SqlNull
  | SqlInt int
  | SqlText string

text \<open>A column is its name and the rest of its declaration.\<close>

type_synonym column = "string \<times> string"

record table =
  tb_columns :: "column list"
  tb_rows :: "sql_value list list"

text \<open>\<open>db_seq\<close> is the counter that SQLite keeps for the \<open>AUTOINCREMENT\<close> of \<open>accounts\<close>.\<close>

record database =
  db_tables :: "string \<rightharpoonup> table"
  db_indexes :: "string list"
  db_seq :: int

definition empty_database :: database where
  "empty_database = \<lparr>db_tables = Map.empty, db_indexes = [], db_seq = 0\<rparr>"

definition column_names :: "table \<Rightarrow> string list" where
  "column_names t = map fst (tb_columns t)"

section \<open>Statements\<close>

datatype statement =
    CreateTable string "column list"
  | CreateIndex string string string
  | AddColumn string string string

fun exec_stmt :: "statement \<Rightarrow> database \<Rightarrow> (string, database) res" where
  "exec_stmt (CreateTable t cols) d =
     (case db_tables d t of
        Some _ \<Rightarrow> Inr d
      | None \<Rightarrow> Inr (d\<lparr>db_tables := (db_tables d)(t \<mapsto> \<lparr>tb_columns = cols, tb_rows = []\<rparr>)\<rparr>))"
| "exec_stmt (CreateIndex i t c) d =
     (case db_tables d t of
        None \<Rightarrow> Inl (''no such table: '' @ t)
      | Some tb \<Rightarrow>
          if i \<in> set (db_indexes d) then Inr d
          else if c \<notin> set (column_names tb) then Inl (''no such column: '' @ c)
          else Inr (d\<lparr>db_indexes := i # db_indexes d\<rparr>))"
| "exec_stmt (AddColumn t c decl) d =
     (case db_tables d t of
        None \<Rightarrow> Inl (''no such table: '' @ t)
      | Some tb \<Rightarrow>
          if c \<in> set (column_names tb) then Inl (''duplicate column name: '' @ c)
          else Inr (d\<lparr>db_tables := (db_tables d)(t \<mapsto>
             \<lparr>tb_columns = tb_columns tb @ [(c, decl)], tb_rows = map (\<lambda>r. r @ [SqlNull]) (tb_rows tb)\<rparr>)\<rparr>))"

text \<open>A batch stops at the first error and keeps what it has done; a migration goes on, its errors are
  dropped.\<close>

fun execute_batch :: "statement list \<Rightarrow> (database, string, unit) run" where
  "execute_batch [] d = (Inr (), d)"
| "execute_batch (s # ss) d =
     (case exec_stmt s d of Inl e \<Rightarrow> (Inl e, d) | Inr d' \<Rightarrow> execute_batch ss d')"

definition migrate_step :: "statement \<Rightarrow> database \<Rightarrow> database" where
  "migrate_step s d = (case exec_stmt s d of Inr d' \<Rightarrow> d' | Inl e \<Rightarrow> d)"

section \<open>The schema\<close>

definition accounts_columns :: "column list" where
  "accounts_columns = [(''id'', ''INTEGER PRIMARY KEY AUTOINCREMENT''), (''external_email'', ''TEXT NOT NULL UNIQUE''),
     (''handle'', ''TEXT UNIQUE''), (''identity_mode'', ''TEXT''), (''created_at'', ''INTEGER NOT NULL'')]"

definition sessions_columns :: "column list" where
  "sessions_columns = [(''id'', ''TEXT PRIMARY KEY''), (''account_id'', ''INTEGER NOT NULL''),
     (''csrf'', ''TEXT NOT NULL''), (''created_at'', ''INTEGER NOT NULL'')]"

definition agents_columns :: "column list" where
  "agents_columns = [(''name'', ''TEXT PRIMARY KEY''), (''account_id'', ''INTEGER NOT NULL''),
     (''created_at'', ''INTEGER NOT NULL''), (''revoked_at'', ''INTEGER'')]"

definition warrants_columns :: "column list" where
  "warrants_columns = [(''account_id'', ''INTEGER PRIMARY KEY''), (''user_email'', ''TEXT NOT NULL''),
     (''warrant'', ''TEXT NOT NULL''), (''audience'', ''TEXT NOT NULL''), (''expires_at'', ''INTEGER NOT NULL''),
     (''device_seed'', ''TEXT''), (''device_cert'', ''TEXT''), (''holder'', ''TEXT''), (''idp'', ''TEXT''),
     (''access_mint'', ''TEXT''), (''created_at'', ''INTEGER NOT NULL'')]"

definition pending_columns :: "column list" where
  "pending_columns = [(''account_id'', ''INTEGER PRIMARY KEY''), (''user_email'', ''TEXT NOT NULL''),
     (''code'', ''TEXT NOT NULL''), (''verification_uri'', ''TEXT''), (''expires_at'', ''INTEGER''),
     (''device_seed'', ''TEXT''), (''created_at'', ''INTEGER NOT NULL'')]"

definition SCHEMA :: "statement list" where
  "SCHEMA = [CreateTable ''accounts'' accounts_columns, CreateTable ''sessions'' sessions_columns,
     CreateTable ''agent_identities'' agents_columns,
     CreateIndex ''idx_agent_identities_account'' ''agent_identities'' ''account_id'',
     CreateTable ''poster_warrants'' warrants_columns, CreateTable ''poster_pending'' pending_columns]"

definition MIGRATIONS :: "statement list" where
  "MIGRATIONS = [AddColumn ''accounts'' ''identity_mode'' ''TEXT'',
     AddColumn ''poster_pending'' ''verification_uri'' ''TEXT'', AddColumn ''poster_pending'' ''expires_at'' ''INTEGER'',
     AddColumn ''poster_pending'' ''device_seed'' ''TEXT'', AddColumn ''poster_warrants'' ''device_seed'' ''TEXT'',
     AddColumn ''poster_warrants'' ''device_cert'' ''TEXT'', AddColumn ''poster_warrants'' ''holder'' ''TEXT'',
     AddColumn ''poster_warrants'' ''idp'' ''TEXT'', AddColumn ''poster_warrants'' ''access_mint'' ''TEXT'']"

definition store_open :: "(database, string, unit) run" where
  "store_open = and_then (execute_batch SCHEMA) (\<lambda>_ d. (Inr (), fold migrate_step MIGRATIONS d))"

section \<open>Reading the rows\<close>

definition cell :: "table \<Rightarrow> sql_value list \<Rightarrow> string \<Rightarrow> sql_value option" where
  "cell t r c = map_of (zip (column_names t) r) c"

definition get_text :: "table \<Rightarrow> sql_value list \<Rightarrow> string \<Rightarrow> string option" where
  "get_text t r c = (case cell t r c of Some (SqlText s) \<Rightarrow> Some s | _ \<Rightarrow> None)"

definition get_int :: "table \<Rightarrow> sql_value list \<Rightarrow> string \<Rightarrow> int option" where
  "get_int t r c = (case cell t r c of Some (SqlInt n) \<Rightarrow> Some n | _ \<Rightarrow> None)"

definition get_text_opt :: "table \<Rightarrow> sql_value list \<Rightarrow> string \<Rightarrow> string option option" where
  "get_text_opt t r c =
     (case cell t r c of Some (SqlText s) \<Rightarrow> Some (Some s) | Some SqlNull \<Rightarrow> Some None | _ \<Rightarrow> None)"

definition get_int_opt :: "table \<Rightarrow> sql_value list \<Rightarrow> string \<Rightarrow> int option option" where
  "get_int_opt t r c =
     (case cell t r c of Some (SqlInt n) \<Rightarrow> Some (Some n) | Some SqlNull \<Rightarrow> Some None | _ \<Rightarrow> None)"

text \<open>\<open>None\<close> stands for a query that fails: a column that is not there or a value of another type.\<close>

definition read_account :: "table \<Rightarrow> sql_value list \<Rightarrow> account_row option" where
  "read_account t r =
     Option.bind (get_int t r ''id'') (\<lambda>i.
     Option.bind (get_text t r ''external_email'') (\<lambda>e.
     Option.bind (get_text_opt t r ''handle'') (\<lambda>h.
     Option.bind (get_text_opt t r ''identity_mode'') (\<lambda>m.
     Option.bind (get_int t r ''created_at'') (\<lambda>c.
     Some \<lparr>acc_id = i, external_email = e, handle = h, identity_mode = m, acc_created_at = c\<rparr>)))))"

definition read_session :: "table \<Rightarrow> sql_value list \<Rightarrow> (string \<times> session_row) option" where
  "read_session t r =
     Option.bind (get_text t r ''id'') (\<lambda>i.
     Option.bind (get_int t r ''account_id'') (\<lambda>a.
     Option.bind (get_text t r ''csrf'') (\<lambda>x.
     Option.bind (get_int t r ''created_at'') (\<lambda>c.
     Some (i, \<lparr>sess_account = a, sess_csrf = x, sess_created_at = c\<rparr>)))))"

definition read_agent :: "table \<Rightarrow> sql_value list \<Rightarrow> agent_identity option" where
  "read_agent t r =
     Option.bind (get_text t r ''name'') (\<lambda>n.
     Option.bind (get_int t r ''account_id'') (\<lambda>a.
     Option.bind (get_int t r ''created_at'') (\<lambda>c.
     Option.bind (get_int_opt t r ''revoked_at'') (\<lambda>v.
     Some \<lparr>agent_name = n, agent_account = a, agent_created_at = c, agent_revoked_at = v\<rparr>))))"

definition read_pending :: "table \<Rightarrow> sql_value list \<Rightarrow> (int \<times> pending_row) option" where
  "read_pending t r =
     Option.bind (get_int t r ''account_id'') (\<lambda>a.
     Option.bind (get_text t r ''user_email'') (\<lambda>e.
     Option.bind (get_text t r ''code'') (\<lambda>k.
     Option.bind (get_text_opt t r ''verification_uri'') (\<lambda>u.
     Option.bind (get_int_opt t r ''expires_at'') (\<lambda>x.
     Option.bind (get_text_opt t r ''device_seed'') (\<lambda>s.
     Option.bind (get_int t r ''created_at'') (\<lambda>c.
     Some (a, \<lparr>pr_user_email = e, pr_code = k, pr_verification_uri = u, pr_expires_at = x,
       pr_device_seed = s, pr_created_at = c\<rparr>))))))))"

definition read_warrant :: "table \<Rightarrow> sql_value list \<Rightarrow> (int \<times> poster_warrant_row) option" where
  "read_warrant t r =
     Option.bind (get_int t r ''account_id'') (\<lambda>a.
     Option.bind (get_text t r ''user_email'') (\<lambda>e.
     Option.bind (get_text t r ''warrant'') (\<lambda>w.
     Option.bind (get_text t r ''audience'') (\<lambda>u.
     Option.bind (get_int t r ''expires_at'') (\<lambda>x.
     Option.bind (get_text_opt t r ''device_seed'') (\<lambda>s.
     Option.bind (get_text_opt t r ''device_cert'') (\<lambda>d.
     Option.bind (get_text_opt t r ''holder'') (\<lambda>h.
     Option.bind (get_text_opt t r ''idp'') (\<lambda>i.
     Option.bind (get_text_opt t r ''access_mint'') (\<lambda>m.
     Option.bind (get_int t r ''created_at'') (\<lambda>c.
     Some (a, \<lparr>pw_user_email = e, pw_warrant = w, pw_audience = u, pw_expires_at = x, pw_device_seed = s,
       pw_device_cert = d, pw_holder = h, pw_idp = i, pw_access_mint = m, pw_created_at = c\<rparr>))))))))))))"

definition read_table :: "(table \<Rightarrow> sql_value list \<Rightarrow> 'a option) \<Rightarrow> string \<Rightarrow> database \<Rightarrow> 'a list option" where
  "read_table f n d = Option.bind (db_tables d n) (\<lambda>t. those (map (f t) (tb_rows t)))"

definition store_of :: "database \<Rightarrow> store option" where
  "store_of d =
     Option.bind (read_table read_account ''accounts'' d) (\<lambda>as.
     Option.bind (read_table read_session ''sessions'' d) (\<lambda>ss.
     Option.bind (read_table read_agent ''agent_identities'' d) (\<lambda>gs.
     Option.bind (read_table read_pending ''poster_pending'' d) (\<lambda>ps.
     Option.bind (read_table read_warrant ''poster_warrants'' d) (\<lambda>ws.
     Some \<lparr>accounts = as, accounts_seq = db_seq d, sessions = map_of ss, agent_identities = gs,
       pendings = map_of ps, warrants = map_of ws\<rparr>)))))"

end
