(* ===== verification/Idp_Schema_Props.thy ===== *)
theory Idp_Schema_Props
  imports Idp_Schema
begin

text \<open>
  Opening a store loses nothing: every table keeps its columns and rows, new columns are null in the
  old rows, what could be read before reads the same, and a second opening changes nothing.
\<close>

section \<open>Databases grow\<close>

definition grown :: "table \<Rightarrow> table \<Rightarrow> bool" where
  "grown t t' \<longleftrightarrow> (\<exists>cs. tb_columns t' = tb_columns t @ cs \<and>
     tb_rows t' = map (\<lambda>r. r @ replicate (length cs) SqlNull) (tb_rows t))"

definition upgraded :: "database \<Rightarrow> database \<Rightarrow> bool" where
  "upgraded d d' \<longleftrightarrow> db_seq d' = db_seq d \<and> set (db_indexes d) \<subseteq> set (db_indexes d') \<and>
     (\<forall>n t. db_tables d n = Some t \<longrightarrow> (\<exists>t'. db_tables d' n = Some t' \<and> grown t t'))"

lemma grown_refl [simp]: "grown t t"
  unfolding grown_def by (rule exI [of _ "[]"]) simp

lemma grown_trans: "grown t t' \<Longrightarrow> grown t' t'' \<Longrightarrow> grown t t''"
  unfolding grown_def
proof (elim exE conjE)
  fix cs cs'
  assume "tb_columns t' = tb_columns t @ cs" "tb_rows t' = map (\<lambda>r. r @ replicate (length cs) SqlNull) (tb_rows t)"
    "tb_columns t'' = tb_columns t' @ cs'" "tb_rows t'' = map (\<lambda>r. r @ replicate (length cs') SqlNull) (tb_rows t')"
  then show "\<exists>ds. tb_columns t'' = tb_columns t @ ds \<and>
      tb_rows t'' = map (\<lambda>r. r @ replicate (length ds) SqlNull) (tb_rows t)"
    by (intro exI [of _ "cs @ cs'"]) (simp add: replicate_add)
qed

lemma grown_add_column:
  "grown t \<lparr>tb_columns = tb_columns t @ [c], tb_rows = map (\<lambda>r. r @ [SqlNull]) (tb_rows t)\<rparr>"
  unfolding grown_def by (rule exI [of _ "[c]"]) simp

lemma grown_names: "grown t t' \<Longrightarrow> set (column_names t) \<subseteq> set (column_names t')"
  by (auto simp: grown_def column_names_def)

lemma upgraded_refl [simp]: "upgraded d d"
  by (simp add: upgraded_def)

lemma upgraded_trans: "upgraded d d' \<Longrightarrow> upgraded d' d'' \<Longrightarrow> upgraded d d''"
  unfolding upgraded_def by (metis (no_types, lifting) grown_trans subset_trans)

lemma upgradedE:
  assumes "upgraded d d'" "db_tables d n = Some t"
  obtains t' where "db_tables d' n = Some t'" "grown t t'"
  using assms unfolding upgraded_def by blast

lemma upgraded_known: "upgraded d d' \<Longrightarrow> db_tables d n \<noteq> None \<Longrightarrow> db_tables d' n \<noteq> None"
  by (auto elim!: upgradedE)

lemma upgraded_indexes: "upgraded d d' \<Longrightarrow> i \<in> set (db_indexes d) \<Longrightarrow> i \<in> set (db_indexes d')"
  by (auto simp: upgraded_def)

lemma exec_stmt_upgrades: "exec_stmt s d = Inr d' \<Longrightarrow> upgraded d d'"
  by (cases s) (auto simp: upgraded_def grown_add_column split: option.splits if_splits)

lemma migrate_step_upgrades: "upgraded d (migrate_step s d)"
  using exec_stmt_upgrades by (auto simp: migrate_step_def split: sum.split)

lemma execute_batch_upgrades: "upgraded d (snd (execute_batch ss d))"
  by (induction ss arbitrary: d) (auto dest: exec_stmt_upgrades intro: upgraded_trans split: sum.split)

lemma migrations_upgrade: "upgraded d (fold migrate_step ss d)"
  by (induction ss arbitrary: d) (auto intro: upgraded_trans migrate_step_upgrades)

lemma store_open_upgraded: "upgraded d (snd (store_open d))"
  using execute_batch_upgrades [of d SCHEMA] migrations_upgrade upgraded_trans
  by (auto simp: store_open_def and_then_def split: prod.split sum.split)

lemma store_open_Inr: "store_open d = (Inr (), d') \<longleftrightarrow>
    (\<exists>d1. execute_batch SCHEMA d = (Inr (), d1) \<and> d' = fold migrate_step MIGRATIONS d1)"
  by (auto simp: store_open_def and_then_Inr)

section \<open>Opening twice\<close>

text \<open>The effect of a statement is there.\<close>

fun achieved :: "statement \<Rightarrow> database \<Rightarrow> bool" where
  "achieved (CreateTable t cols) d \<longleftrightarrow> db_tables d t \<noteq> None"
| "achieved (CreateIndex i t c) d \<longleftrightarrow> db_tables d t \<noteq> None \<and> i \<in> set (db_indexes d)"
| "achieved (AddColumn t c decl) d \<longleftrightarrow> (\<exists>tb. db_tables d t = Some tb \<and> c \<in> set (column_names tb))"

lemma achieved_upgraded:
  assumes "achieved s d" and u: "upgraded d d'"
  shows "achieved s d'"
proof (cases s)
  case (AddColumn t c decl)
  then obtain tb where "db_tables d t = Some tb" "c \<in> set (column_names tb)" using assms(1) by auto
  then show ?thesis using AddColumn grown_names by (auto elim!: upgradedE [OF u])
qed (use assms upgraded_known [OF u] upgraded_indexes [OF u] in simp_all)

lemma exec_stmt_achieves: "exec_stmt s d = Inr d' \<Longrightarrow> achieved s d'"
  by (cases s) (auto simp: column_names_def split: option.splits if_splits)

lemma achieved_exec: "achieved s d \<Longrightarrow> (\<And>t c x. s \<noteq> AddColumn t c x) \<Longrightarrow> exec_stmt s d = Inr d"
  by (cases s) auto

lemma achieved_migrate: "achieved s d \<Longrightarrow> migrate_step s d = d"
  by (cases s) (auto simp: migrate_step_def)

lemma migrate_step_achieves: "db_tables d t \<noteq> None \<Longrightarrow> achieved (AddColumn t c decl) (migrate_step (AddColumn t c decl) d)"
  by (auto simp: migrate_step_def column_names_def)

lemma execute_batch_achieves: "execute_batch ss d = (Inr (), d') \<Longrightarrow> s \<in> set ss \<Longrightarrow> achieved s d'"
proof (induction ss arbitrary: d)
  case (Cons s0 ss)
  then obtain d1 where d1: "exec_stmt s0 d = Inr d1" "execute_batch ss d1 = (Inr (), d')"
    by (auto split: sum.splits)
  have "upgraded d1 d'" using execute_batch_upgrades [of d1 ss] d1(2) by simp
  then show ?case
    using Cons.prems(2) Cons.IH [OF d1(2)] achieved_upgraded [OF exec_stmt_achieves [OF d1(1)]] by auto
qed simp

lemma migrations_achieve:
  "\<forall>s\<in>set ss. \<exists>t c x. s = AddColumn t c x \<and> db_tables d t \<noteq> None \<Longrightarrow> s \<in> set ss \<Longrightarrow>
   achieved s (fold migrate_step ss d)"
proof (induction ss arbitrary: d)
  case (Cons s0 ss)
  then obtain t c x where s0: "s0 = AddColumn t c x" "db_tables d t \<noteq> None" by auto
  have "achieved s0 (fold migrate_step ss (migrate_step s0 d))"
    unfolding s0(1) by (rule achieved_upgraded [OF migrate_step_achieves [OF s0(2)] migrations_upgrade])
  moreover have "\<forall>s\<in>set ss. \<exists>t c x. s = AddColumn t c x \<and> db_tables (migrate_step s0 d) t \<noteq> None"
    using Cons.prems(1) upgraded_known [OF migrate_step_upgrades [of d s0]] by (meson list.set_intros(2))
  ultimately show ?case using Cons.IH [of "migrate_step s0 d"] Cons.prems(2) by auto
qed simp

definition creates :: "string \<Rightarrow> statement \<Rightarrow> bool" where
  "creates t s \<longleftrightarrow> (case s of CreateTable t' cols \<Rightarrow> t' = t | _ \<Rightarrow> False)"

lemma creates_achieved: "creates t s \<Longrightarrow> achieved s d \<Longrightarrow> db_tables d t \<noteq> None"
  by (cases s) (auto simp: creates_def)

lemma migrations_after_schema:
  "list_all (\<lambda>s. case s of AddColumn t c x \<Rightarrow> list_ex (creates t) SCHEMA | _ \<Rightarrow> False) MIGRATIONS"
  by code_simp

lemma schema_before_migrations:
  assumes "s \<in> set MIGRATIONS"
  obtains t c x s' where "s = AddColumn t c x" "s' \<in> set SCHEMA" "creates t s'"
proof -
  have "case s of AddColumn t c x \<Rightarrow> list_ex (creates t) SCHEMA | _ \<Rightarrow> False"
    using migrations_after_schema assms unfolding list_all_iff by blast
  then show ?thesis using that by (cases s) (auto simp: list_ex_iff)
qed

lemma store_open_achieves:
  assumes "store_open d = (Inr (), d')" "s \<in> set SCHEMA \<union> set MIGRATIONS"
  shows "achieved s d'"
proof -
  obtain d1 where d1: "execute_batch SCHEMA d = (Inr (), d1)" "d' = fold migrate_step MIGRATIONS d1"
    using assms(1) by (auto simp: store_open_Inr)
  show ?thesis
  proof (cases "s \<in> set SCHEMA")
    case True
    from achieved_upgraded [OF execute_batch_achieves [OF d1(1) this] migrations_upgrade]
    show ?thesis unfolding d1(2) .
  next
    case False
    have "\<exists>t c x. s = AddColumn t c x \<and> db_tables d1 t \<noteq> None" if m: "s \<in> set MIGRATIONS" for s
    proof -
      obtain t c x s' where s: "s = AddColumn t c x" and s': "s' \<in> set SCHEMA" "creates t s'"
        using m by (rule schema_before_migrations)
      have "db_tables d1 t \<noteq> None" by (rule creates_achieved [OF s'(2) execute_batch_achieves [OF d1(1) s'(1)]])
      then show ?thesis using s by blast
    qed
    then have "\<forall>s\<in>set MIGRATIONS. \<exists>t c x. s = AddColumn t c x \<and> db_tables d1 t \<noteq> None" by blast
    moreover have "s \<in> set MIGRATIONS" using False assms(2) by blast
    ultimately show ?thesis unfolding d1(2) by (rule migrations_achieve)
  qed
qed

lemma achieved_batch:
  "(\<And>s. s \<in> set ss \<Longrightarrow> achieved s d \<and> (\<forall>t c x. s \<noteq> AddColumn t c x)) \<Longrightarrow> execute_batch ss d = (Inr (), d)"
  by (induction ss) (auto simp: achieved_exec)

lemma achieved_migrations: "(\<And>s. s \<in> set ss \<Longrightarrow> achieved s d) \<Longrightarrow> fold migrate_step ss d = d"
  by (induction ss) (auto simp: achieved_migrate)

lemma store_open_again:
  assumes "store_open d = (Inr (), d')"
  shows "store_open d' = (Inr (), d')"
proof -
  have "list_all (\<lambda>s. case s of AddColumn t c x \<Rightarrow> False | _ \<Rightarrow> True) SCHEMA" by code_simp
  then have "s \<noteq> AddColumn t c x" if "s \<in> set SCHEMA" for s t c x using that by (auto simp: list_all_iff)
  then have "execute_batch SCHEMA d' = (Inr (), d')"
    using store_open_achieves [OF assms] by (meson UnI1 achieved_batch)
  moreover have "fold migrate_step MIGRATIONS d' = d'"
    using store_open_achieves [OF assms] by (meson UnI2 achieved_migrations)
  ultimately show ?thesis by (simp add: store_open_Inr)
qed

section \<open>What is read stays the same\<close>

definition wf_database :: "database \<Rightarrow> bool" where
  "wf_database d \<longleftrightarrow> (\<forall>n t. db_tables d n = Some t \<longrightarrow> (\<forall>r\<in>set (tb_rows t). length r = length (tb_columns t)))"

definition sees :: "table \<Rightarrow> sql_value list \<Rightarrow> table \<Rightarrow> sql_value list \<Rightarrow> bool" where
  "sees t r t' r' \<longleftrightarrow> (\<forall>c v. cell t r c = Some v \<longrightarrow> cell t' r' c = Some v)"

lemma cell_grown:
  assumes c: "tb_columns t' = tb_columns t @ cs" and r: "length r = length (tb_columns t)"
  shows "cell t' (r @ replicate (length cs) SqlNull) c =
    (case cell t r c of Some v \<Rightarrow> Some v | None \<Rightarrow> if c \<in> set (map fst cs) then Some SqlNull else None)"
proof -
  have "map_of (zip ns (replicate (length ns) SqlNull)) c = (if c \<in> set ns then Some SqlNull else None)" for ns
    by (induction ns) auto
  note nulls = this [of "map fst cs"]
  have "cell t' (r @ replicate (length cs) SqlNull) c =
      (map_of (zip (map fst cs) (replicate (length (map fst cs)) SqlNull)) ++ map_of (zip (column_names t) r)) c"
    by (simp add: cell_def column_names_def c r zip_append)
  then show ?thesis unfolding map_add_def nulls by (simp only: cell_def)
qed

lemma sees_grown: "tb_columns t' = tb_columns t @ cs \<Longrightarrow> length r = length (tb_columns t) \<Longrightarrow>
    sees t r t' (r @ replicate (length cs) SqlNull)"
  by (simp add: sees_def cell_grown)

lemma sees_gets:
  assumes "sees t r t' r'"
  shows "get_text t r c = Some s \<Longrightarrow> get_text t' r' c = Some s"
    "get_int t r c = Some n \<Longrightarrow> get_int t' r' c = Some n"
    "get_text_opt t r c = Some so \<Longrightarrow> get_text_opt t' r' c = Some so"
    "get_int_opt t r c = Some no \<Longrightarrow> get_int_opt t' r' c = Some no"
  using assms by (auto simp: sees_def get_text_def get_int_def get_text_opt_def get_int_opt_def
      split: option.splits sql_value.splits)

text \<open>A reader of rows looks at cells only, so a table that has grown reads as before.\<close>

locale row_reader =
  fixes read_row :: "table \<Rightarrow> sql_value list \<Rightarrow> 'a option"
  assumes row_kept: "sees t r t' r' \<Longrightarrow> read_row t r = Some x \<Longrightarrow> read_row t' r' = Some x"
begin

lemma rows_kept:
  assumes "tb_columns t' = tb_columns t @ cs"
  shows "\<forall>r\<in>set rs. length r = length (tb_columns t) \<Longrightarrow> those (map (read_row t) rs) = Some xs \<Longrightarrow>
    those (map (\<lambda>r. read_row t' (r @ replicate (length cs) SqlNull)) rs) = Some xs"
proof (induction rs arbitrary: xs)
  case (Cons r rs)
  then show ?case using row_kept [OF sees_grown [OF assms, of r]]
    by (auto split: option.splits)
qed simp

lemma table_kept:
  assumes u: "upgraded d d'" and wf: "wf_database d" and x: "read_table read_row n d = Some xs"
  shows "read_table read_row n d' = Some xs"
proof -
  obtain t where t: "db_tables d n = Some t" "those (map (read_row t) (tb_rows t)) = Some xs"
    using x by (auto simp: read_table_def bind_eq_Some_conv)
  obtain t' where t': "db_tables d' n = Some t'" "grown t t'" using u t(1) by (rule upgradedE)
  then obtain cs where cs: "tb_columns t' = tb_columns t @ cs"
    "tb_rows t' = map (\<lambda>r. r @ replicate (length cs) SqlNull) (tb_rows t)" by (auto simp: grown_def)
  have "\<forall>r\<in>set (tb_rows t). length r = length (tb_columns t)" using wf t(1) by (auto simp: wf_database_def)
  from rows_kept [OF cs(1) this t(2)] show ?thesis by (simp add: read_table_def t'(1) cs(2) comp_def)
qed

end

interpretation account_rows: row_reader read_account
  by unfold_locales (auto simp: read_account_def bind_eq_Some_conv dest: sees_gets)

interpretation session_rows: row_reader read_session
  by unfold_locales (auto simp: read_session_def bind_eq_Some_conv dest: sees_gets)

interpretation agent_rows: row_reader read_agent
  by unfold_locales (auto simp: read_agent_def bind_eq_Some_conv dest: sees_gets)

interpretation pending_rows: row_reader read_pending
  by unfold_locales (auto simp: read_pending_def bind_eq_Some_conv dest: sees_gets)

interpretation warrant_rows: row_reader read_warrant
  by unfold_locales (auto simp: read_warrant_def bind_eq_Some_conv dest: sees_gets)

lemma store_kept:
  assumes "upgraded d d'" "wf_database d" "store_of d = Some st"
  shows "store_of d' = Some st"
  using assms(3) account_rows.table_kept [OF assms(1,2)] session_rows.table_kept [OF assms(1,2)]
    agent_rows.table_kept [OF assms(1,2)] pending_rows.table_kept [OF assms(1,2)]
    warrant_rows.table_kept [OF assms(1,2)] assms(1)
  by (auto simp: store_of_def bind_eq_Some_conv upgraded_def)

section \<open>Older files\<close>

text \<open>A row of a table without the columns of the reusable consent requests.\<close>

lemma added_is_null:
  assumes "grown t t'" "c \<notin> set (column_names t)" "c \<in> set (column_names t')"
    "\<forall>r\<in>set (tb_rows t). length r = length (tb_columns t)" "r' \<in> set (tb_rows t')"
  shows "cell t' r' c = Some SqlNull"
proof -
  obtain cs where cs: "tb_columns t' = tb_columns t @ cs"
    "tb_rows t' = map (\<lambda>r. r @ replicate (length cs) SqlNull) (tb_rows t)" using assms(1) by (auto simp: grown_def)
  obtain r where r: "r \<in> set (tb_rows t)" "r' = r @ replicate (length cs) SqlNull" using assms(5) cs(2) by auto
  have "cell t r c = None" using assms(2) by (auto simp: cell_def dest!: map_of_SomeD set_zip_leftD split: option.splits
        intro: option.exhaust)
  then show ?thesis using assms(2,3) cs(1) r cell_grown [OF cs(1), of r c] assms(4)
    by (auto simp: column_names_def)
qed

lemma those_member: "those xs = Some ys \<Longrightarrow> y \<in> set ys \<Longrightarrow> Some y \<in> set xs"
  by (induction xs arbitrary: ys) (auto split: option.splits)

lemma old_pending_null:
  assumes open': "store_open d = (Inr (), d')" and wf: "wf_database d" and t: "db_tables d ''poster_pending'' = Some t"
    and old: "''verification_uri'' \<notin> set (column_names t)"
    and st: "store_of d' = Some st" and p: "pendings st i = Some p"
  shows "pr_verification_uri p = None"
proof -
  have u: "upgraded d d'" using store_open_upgraded [of d] open' by simp
  obtain t' where t': "db_tables d' ''poster_pending'' = Some t'" "grown t t'" using u t by (rule upgradedE)
  have "AddColumn ''poster_pending'' ''verification_uri'' ''TEXT'' \<in> set MIGRATIONS" by (simp add: MIGRATIONS_def)
  then have c: "''verification_uri'' \<in> set (column_names t')"
    using store_open_achieves [OF open'] t'(1) by fastforce
  from st obtain ps where ps: "read_table read_pending ''poster_pending'' d' = Some ps" "pendings st = map_of ps"
    by (auto simp: store_of_def bind_eq_Some_conv)
  then have "(i, p) \<in> set ps" using p by (metis map_of_SomeD)
  then obtain r' where r': "r' \<in> set (tb_rows t')" "read_pending t' r' = Some (i, p)"
    using ps(1) t'(1) those_member by (fastforce simp: read_table_def)
  have "\<forall>r\<in>set (tb_rows t). length r = length (tb_columns t)" using wf t by (auto simp: wf_database_def)
  from added_is_null [OF t'(2) old c this r'(1)] have "get_text_opt t' r' ''verification_uri'' = Some None"
    by (simp add: get_text_opt_def)
  then show ?thesis using r'(2) by (auto simp: read_pending_def bind_eq_Some_conv)
qed

section \<open>Properties\<close>

lemma open_fresh: "store_open empty_database = (Inr (), \<lparr>db_tables = [''accounts'' \<mapsto> \<lparr>tb_columns = accounts_columns, tb_rows = []\<rparr>,
      ''sessions'' \<mapsto> \<lparr>tb_columns = sessions_columns, tb_rows = []\<rparr>, ''agent_identities'' \<mapsto> \<lparr>tb_columns = agents_columns, tb_rows = []\<rparr>,
      ''poster_warrants'' \<mapsto> \<lparr>tb_columns = warrants_columns, tb_rows = []\<rparr>, ''poster_pending'' \<mapsto> \<lparr>tb_columns = pending_columns, tb_rows = []\<rparr>],
      db_indexes = [''idx_agent_identities_account''], db_seq = 0\<rparr>)" (is "_ = (_, ?d)")
proof -
  have b: "execute_batch SCHEMA empty_database = (Inr (), ?d)"
    by (simp add: SCHEMA_def empty_database_def column_names_def agents_columns_def)
  have "list_all (\<lambda>s. achieved s ?d) MIGRATIONS"
    by (simp add: MIGRATIONS_def column_names_def accounts_columns_def warrants_columns_def pending_columns_def)
  then have "fold migrate_step MIGRATIONS ?d = ?d" by (intro achieved_migrations) (simp only: list_all_iff)
  then show ?thesis by (simp add: store_open_Inr b)
qed

lemma fresh_store: "\<exists>d. store_open empty_database = (Inr (), d) \<and> store_of d = Some empty_store"
  by (rule exI, rule conjI, rule open_fresh) (simp add: store_of_def read_table_def empty_store_def)

text \<open>C36: Opening a new file gives the empty store.  Opening any other loses nothing: the tables keep
  their columns and rows, a store that could be read is read the same, and opening again changes
  nothing.  A consent request of a file older than the reuse of requests is never handed out again.\<close>
theorem store_open_upgrades:
  assumes wf: "wf_database d" and opened: "store_open d = (r, d')"
  shows "(\<exists>d0. store_open empty_database = (Inr (), d0) \<and> store_of d0 = Some empty_store) \<and>
    upgraded d d' \<and> (\<forall>st. store_of d = Some st \<longrightarrow> store_of d' = Some st) \<and>
    (r = Inr () \<longrightarrow> store_open d' = (Inr (), d')) \<and>
    (\<forall>t st i p e now. r = Inr () \<and> db_tables d ''poster_pending'' = Some t \<and> ''verification_uri'' \<notin> set (column_names t) \<and>
       store_of d' = Some st \<and> pendings st i = Some p \<longrightarrow> reusable (pending_from_row p) e now = None)"
proof (intro conjI allI impI)
  show u: "upgraded d d'" using store_open_upgraded [of d] opened by simp
  show "r = Inr () \<Longrightarrow> store_open d' = (Inr (), d')" using opened store_open_again by blast
  show "store_of d = Some st \<Longrightarrow> store_of d' = Some st" for st using u wf by (rule store_kept)
  fix t st i p e now
  assume "r = Inr () \<and> db_tables d ''poster_pending'' = Some t \<and> ''verification_uri'' \<notin> set (column_names t) \<and>
       store_of d' = Some st \<and> pendings st i = Some p"
  then have "pr_verification_uri p = None" using old_pending_null [OF _ wf] opened by blast
  then show "reusable (pending_from_row p) e now = None" by (simp add: reusable_def pending_from_row_def)
qed (rule fresh_store)

text \<open>A file of the first version with a consent request.\<close>

definition old_database :: database where
  "old_database = \<lparr>db_tables =
     [''poster_pending'' \<mapsto> \<lparr>tb_columns = [(''account_id'', ''INTEGER PRIMARY KEY''), (''user_email'', ''TEXT NOT NULL''),
         (''code'', ''TEXT NOT NULL''), (''created_at'', ''INTEGER NOT NULL'')],
         tb_rows = [[SqlInt 1, SqlText ''kim@x.y'', SqlText ''c'', SqlInt 6]]\<rparr>],
     db_indexes = [], db_seq = 1\<rparr>"

lemma migrate_adds: "db_tables d t = Some tb \<Longrightarrow> c \<notin> set (column_names tb) \<Longrightarrow>
    migrate_step (AddColumn t c x) d = d\<lparr>db_tables := (db_tables d)(t \<mapsto>
      \<lparr>tb_columns = tb_columns tb @ [(c, x)], tb_rows = map (\<lambda>r. r @ [SqlNull]) (tb_rows tb)\<rparr>)\<rparr>"
  by (simp add: migrate_step_def)

lemma open_old: "\<exists>d. store_open old_database = (Inr (), d) \<and> (\<exists>st p. store_of d = Some st \<and> pendings st 1 = Some p)"
proof -
  let ?f = "\<lambda>cols. \<lparr>tb_columns = cols, tb_rows = []\<rparr>"
  let ?d = "\<lambda>t. \<lparr>db_tables = [''poster_pending'' \<mapsto> t, ''accounts'' \<mapsto> ?f accounts_columns, ''sessions'' \<mapsto> ?f sessions_columns,
      ''agent_identities'' \<mapsto> ?f agents_columns, ''poster_warrants'' \<mapsto> ?f warrants_columns],
      db_indexes = [''idx_agent_identities_account''], db_seq = 1\<rparr>"
  let ?old = "[(''account_id'', ''INTEGER PRIMARY KEY''), (''user_email'', ''TEXT NOT NULL''),
         (''code'', ''TEXT NOT NULL''), (''created_at'', ''INTEGER NOT NULL'')]"
  let ?row = "[SqlInt 1, SqlText ''kim@x.y'', SqlText ''c'', SqlInt 6]"
  have b: "execute_batch SCHEMA old_database = (Inr (), ?d \<lparr>tb_columns = ?old, tb_rows = [?row]\<rparr>)"
    by (simp add: SCHEMA_def old_database_def column_names_def agents_columns_def)
  let ?new = "?old @ [(''verification_uri'', ''TEXT''), (''expires_at'', ''INTEGER''), (''device_seed'', ''TEXT'')]"
  have m: "fold migrate_step MIGRATIONS (?d \<lparr>tb_columns = ?old, tb_rows = [?row]\<rparr>) =
     \<lparr>db_tables = [''accounts'' \<mapsto> ?f accounts_columns, ''sessions'' \<mapsto> ?f sessions_columns,
      ''agent_identities'' \<mapsto> ?f agents_columns, ''poster_warrants'' \<mapsto> ?f warrants_columns,
      ''poster_pending'' \<mapsto> \<lparr>tb_columns = ?new, tb_rows = [?row @ [SqlNull, SqlNull, SqlNull]]\<rparr>],
      db_indexes = [''idx_agent_identities_account''], db_seq = 1\<rparr>"
    by (simp add: MIGRATIONS_def achieved_migrate migrate_adds column_names_def accounts_columns_def warrants_columns_def)
  have opened: "store_open old_database = (Inr (), fold migrate_step MIGRATIONS (?d \<lparr>tb_columns = ?old, tb_rows = [?row]\<rparr>))"
    by (simp only: store_open_Inr b) blast
  show ?thesis
    by (rule exI, rule conjI, rule opened [unfolded m])
       (simp add: store_of_def read_table_def read_pending_def get_int_def get_text_def get_text_opt_def get_int_opt_def
          cell_def column_names_def)
qed

lemma store_open_upgrades_witness:
  "\<exists>d st p. store_open old_database = (Inr (), d) \<and> store_of d = Some st \<and> pendings st 1 = Some p \<and>
     reusable (pending_from_row p) ''kim@x.y'' 0 = None"
proof -
  obtain d st p where r: "store_open old_database = (Inr (), d)" "store_of d = Some st" "pendings st 1 = Some p"
    using open_old by blast
  have wf: "wf_database old_database" by (auto simp: wf_database_def old_database_def split: if_splits)
  have "\<exists>t. db_tables old_database ''poster_pending'' = Some t \<and> ''verification_uri'' \<notin> set (column_names t)"
    by (simp add: old_database_def column_names_def)
  then have "reusable (pending_from_row p) ''kim@x.y'' 0 = None"
    using store_open_upgrades [OF wf r(1)] r(2,3) by blast
  then show ?thesis using r by blast
qed

end
