(* ===== verification/Idp_Start.thy ===== *)
theory Idp_Start
  imports Idp_Schema_Props
begin

text \<open>
  The start of the service (\<open>mingo-idp/src/main.rs\<close>): settings, the two signing keys, the store, the
  socket.  The log lines and the serving itself are left out; what is served is the router of the
  theory \<open>Idp_Router\<close> on the state made here.
\<close>

section \<open>State\<close>

text \<open>\<open>AppState\<close>.  Its store is the database at the configured path; its cache of the broker's key is
  set to nothing and never used.\<close>

record 'k idp_state =
  is_keypair :: 'k
  is_poster_key :: 'k
  is_config :: config

text \<open>The disk, with the key files and the databases by path.\<close>

record start_world =
  sw_files :: files
  sw_databases :: "string \<rightharpoonup> database"

text \<open>What a start finds: the keys it would generate, and whether a file can be written, a database
  opened and an address bound.\<close>

record 'k start_lib =
  st_fresh_key :: 'k
  st_fresh_poster_key :: 'k
  st_writes :: "string \<Rightarrow> (string, unit) res"
  st_connect :: "string \<Rightarrow> (string, unit) res"
  st_listen :: "string \<Rightarrow> (string, unit) res"

type_synonym 'a starting = "(start_world, string, 'a) run"

definition on_files :: "(files, string, 'a) run \<Rightarrow> 'a starting" where
  "on_files m w = (case m (sw_files w) of (r, fs) \<Rightarrow> (r, w\<lparr>sw_files := fs\<rparr>))"

definition new_app_state :: "'k \<Rightarrow> 'k \<Rightarrow> config \<Rightarrow> 'k idp_state" where
  "new_app_state keypair poster_pair cfg = \<lparr>is_keypair = keypair, is_poster_key = poster_pair, is_config = cfg\<rparr>"

text \<open>A connection to a file that is not there makes it.\<close>

definition open_store_at :: "'k start_lib \<Rightarrow> string \<Rightarrow> unit starting" where
  "open_store_at lib path =
     and_then (lift (st_connect lib path)) (\<lambda>_ w.
       case store_open (case sw_databases w path of Some d \<Rightarrow> d | None \<Rightarrow> empty_database) of
         (r, d) \<Rightarrow> (r, w\<lparr>sw_databases := (sw_databases w)(path \<mapsto> d)\<rparr>))"

section \<open>The start\<close>

definition idp_start :: "'k key_codec \<Rightarrow> 'k start_lib \<Rightarrow> env \<Rightarrow> 'k idp_state starting" where
  "idp_start cd lib env =
     (let cfg = from_env env in
      and_then (on_files (load_or_generate_keypair cd env (st_fresh_key lib) (st_writes lib (key_file cfg))
          (key_file cfg))) (\<lambda>keypair.
      and_then (on_files (load_or_generate_named_keypair cd env (st_fresh_poster_key lib)
          (st_writes lib (poster_key_file cfg)) ''MINGO_POSTER_SECRET'' ''MINGO_POSTER_KEY_JSON''
          (poster_key_file cfg))) (\<lambda>poster_pair.
      and_then (open_store_at lib (db_path cfg)) (\<lambda>_.
      and_then (lift (st_listen lib (bind cfg))) (\<lambda>_.
      done_with (new_app_state keypair poster_pair cfg))))))"

section \<open>Starting again\<close>

lemma named_keypair_again:
  assumes "codec_ok cd"
    and "load_or_generate_named_keypair cd env fresh writes se je path fs = (Inr k, fs1)"
    and "\<And>p. fs1 p \<noteq> None \<Longrightarrow> fs2 p = fs1 p"
  shows "load_or_generate_named_keypair cd env fresh' writes' se je path fs2 = (Inr k, fs2)"
  using assms
  by (auto simp: load_or_generate_named_keypair_def codec_ok_def
      key_of_json_def key_of_secret_def res_bind_def str_field_def map_err_def ok_or_def
      split: option.splits sum.splits)

lemma named_keypair_files:
  assumes "load_or_generate_named_keypair cd env fresh writes se je path fs = (r, fs1)" "fs p \<noteq> None"
  shows "fs1 p = fs p"
  using assms by (auto simp: load_or_generate_named_keypair_def split: option.splits sum.splits)

lemma keypair_again:
  assumes "codec_ok cd" "load_or_generate_keypair cd env fresh writes path fs = (Inr k, fs1)"
    and "\<And>p. fs1 p \<noteq> None \<Longrightarrow> fs2 p = fs1 p"
  shows "load_or_generate_keypair cd env fresh' writes' path fs2 = (Inr k, fs2)"
  unfolding load_or_generate_keypair_def
  by (rule named_keypair_again [OF assms(1) assms(2) [unfolded load_or_generate_keypair_def] assms(3)])

lemma open_store_at_Inr:
  assumes "open_store_at lib path w = (Inr u, w1)"
  shows "st_connect lib path = Inr () \<and> sw_files w1 = sw_files w \<and> (\<exists>d. sw_databases w1 path = Some d \<and>
    store_open d = (Inr (), d)) \<and> (\<forall>p. p \<noteq> path \<longrightarrow> sw_databases w1 p = sw_databases w p)"
  using assms store_open_again
  by (auto simp: open_store_at_def and_then_Inr split: prod.splits)

lemma open_store_again:
  assumes "sw_databases w path = Some d" "store_open d = (Inr (), d)" "st_connect lib path = Inr ()"
  shows "open_store_at lib path w = (Inr (), w)"
proof -
  have "(sw_databases w)(path \<mapsto> d) = sw_databases w" using assms(1) by (rule map_upd_triv)
  then show ?thesis by (simp add: open_store_at_def and_then_def lift_def assms)
qed

lemma idp_start_Inr:
  assumes "idp_start cd lib env w = (Inr s, w1)"
  obtains k pk fs1 fs2 where
    "load_or_generate_keypair cd env (st_fresh_key lib) (st_writes lib (key_file (from_env env)))
       (key_file (from_env env)) (sw_files w) = (Inr k, fs1)"
    "load_or_generate_named_keypair cd env (st_fresh_poster_key lib)
       (st_writes lib (poster_key_file (from_env env))) ''MINGO_POSTER_SECRET'' ''MINGO_POSTER_KEY_JSON''
       (poster_key_file (from_env env)) fs1 = (Inr pk, fs2)"
    "open_store_at lib (db_path (from_env env)) (w\<lparr>sw_files := fs2\<rparr>) = (Inr (), w1)"
    "st_listen lib (bind (from_env env)) = Inr ()" "s = new_app_state k pk (from_env env)"
  using assms
  by (auto simp: idp_start_def Let_def and_then_Inr on_files_def split: prod.splits)

text \<open>C37: Once a start has succeeded, every later start in the same environment that can reach the
  database and bind the address succeeds, whatever it could generate or write: with the same two
  keys and settings, and with every file and the database as they were.\<close>
theorem restart_same_state:
  assumes codec: "codec_ok cd" and first: "idp_start cd lib env w = (Inr s, w1)"
    and again: "st_connect lib' (db_path (from_env env)) = Inr ()" "st_listen lib' (bind (from_env env)) = Inr ()"
  shows "idp_start cd lib' env w1 = (Inr s, w1)"
proof -
  from first obtain k pk fs1 fs2 where
    k: "load_or_generate_keypair cd env (st_fresh_key lib) (st_writes lib (key_file (from_env env)))
       (key_file (from_env env)) (sw_files w) = (Inr k, fs1)" and
    pk: "load_or_generate_named_keypair cd env (st_fresh_poster_key lib)
       (st_writes lib (poster_key_file (from_env env))) ''MINGO_POSTER_SECRET'' ''MINGO_POSTER_KEY_JSON''
       (poster_key_file (from_env env)) fs1 = (Inr pk, fs2)" and
    w2: "open_store_at lib (db_path (from_env env)) (w\<lparr>sw_files := fs2\<rparr>) = (Inr (), w1)" and
    s: "s = new_app_state k pk (from_env env)"
    by (rule idp_start_Inr)
  from open_store_at_Inr [OF w2] obtain d where d: "sw_databases w1 (db_path (from_env env)) = Some d"
    "store_open d = (Inr (), d)" and fs: "sw_files w1 = fs2" by auto
  have "load_or_generate_keypair cd env f x (key_file (from_env env)) fs2 = (Inr k, fs2)" for f x
    by (rule keypair_again [OF codec k named_keypair_files [OF pk]])
  moreover have "load_or_generate_named_keypair cd env f x ''MINGO_POSTER_SECRET'' ''MINGO_POSTER_KEY_JSON''
      (poster_key_file (from_env env)) fs2 = (Inr pk, fs2)" for f x
    by (rule named_keypair_again [OF codec pk]) simp
  ultimately show ?thesis
    by (simp add: idp_start_def Let_def and_then_def on_files_def fs [symmetric] open_store_again [OF d again(1)]
        lift_def again(2) done_with_def s)
qed

text \<open>A machine with nothing on it, and the same with nothing writable.\<close>

definition demo_machine :: "string start_lib" where
  "demo_machine = \<lparr>st_fresh_key = ''k1'', st_fresh_poster_key = ''k2'', st_writes = (\<lambda>p. Inr ()),
     st_connect = (\<lambda>p. Inr ()), st_listen = (\<lambda>a. Inr ())\<rparr>"

definition demo_machine_later :: "string start_lib" where
  "demo_machine_later = demo_machine\<lparr>st_fresh_key := ''k3'', st_fresh_poster_key := ''k4'', st_writes := Inl\<rparr>"

lemma restart_same_state_witness:
  "\<exists>s w. idp_start plain_codec demo_machine Map.empty \<lparr>sw_files = Map.empty, sw_databases = Map.empty\<rparr> = (Inr s, w) \<and>
     is_keypair s = ''k1'' \<and> is_poster_key s = ''k2'' \<and>
     idp_start plain_codec demo_machine_later Map.empty w = (Inr s, w)"
proof -
  let ?w = "\<lparr>sw_files = Map.empty, sw_databases = Map.empty\<rparr> :: start_world"
  let ?cfg = "from_env Map.empty"
  have paths: "key_file ?cfg \<noteq> poster_key_file ?cfg" by code_simp
  obtain d where d: "store_open empty_database = (Inr (), d)" using fresh_store by blast
  have "\<exists>w1. idp_start plain_codec demo_machine Map.empty ?w = (Inr (new_app_state ''k1'' ''k2'' ?cfg), w1)"
    using paths d
    by (simp add: idp_start_def Let_def and_then_def on_files_def load_or_generate_keypair_def
        load_or_generate_named_keypair_def open_store_at_def lift_def done_with_def demo_machine_def)
  then obtain w1 where r: "idp_start plain_codec demo_machine Map.empty ?w = (Inr (new_app_state ''k1'' ''k2'' ?cfg), w1)"
    by blast
  have "codec_ok plain_codec" by (simp add: codec_ok_def plain_codec_def str_field_def)
  from restart_same_state [OF this r, of demo_machine_later]
  have "idp_start plain_codec demo_machine_later Map.empty w1 = (Inr (new_app_state ''k1'' ''k2'' ?cfg), w1)"
    by (simp add: demo_machine_later_def demo_machine_def)
  then show ?thesis using r by (intro exI conjI) (simp_all add: new_app_state_def)
qed

end
