(* ===== verification/Float64.thy ===== *)
theory Float64
  imports Mingo_Prelude Complex_Main "HOL-Library.Log_Nat"
begin

text \<open>
  Rust's \<open>f64\<close> as the seeder uses it.  A finite value is a rational; arithmetic is exact
  arithmetic followed by rounding to the nearest value with a mantissa of 53 bits, ties to even.
  The ages the code computes with stay far from the limits of the exponent, so overflow,
  subnormal values, infinities and NaN (which JSON cannot give) are left out.
\<close>

type_synonym f64 = rat

section \<open>Rounding\<close>

text \<open>The exponent of a positive value: \<open>2 powi expo x \<le> x < 2 powi (expo x + 1)\<close>.\<close>

definition expo :: "rat \<Rightarrow> int" where
  "expo x = (case quotient_of x of (p, q) \<Rightarrow>
     let k = bitlen p - bitlen q in if 2 powi k \<le> x then k else k - 1)"

definition round_even :: "rat \<Rightarrow> int" where
  "round_even y = (let f = \<lfloor>y\<rfloor>; d = y - of_int f in
     if d < 1 / 2 then f else if 1 / 2 < d then f + 1 else if even f then f else f + 1)"

definition round_pos :: "rat \<Rightarrow> rat" where
  "round_pos x = of_int (round_even (x / 2 powi (expo x - 52))) * 2 powi (expo x - 52)"

definition f64_of :: "rat \<Rightarrow> f64" where
  "f64_of x = (if x = 0 then 0 else if 0 < x then round_pos x else - round_pos (- x))"

definition f64_add :: "f64 \<Rightarrow> f64 \<Rightarrow> f64" where
  "f64_add a b = f64_of (a + b)"

definition f64_sub :: "f64 \<Rightarrow> f64 \<Rightarrow> f64" where
  "f64_sub a b = f64_of (a - b)"

definition f64_mul :: "f64 \<Rightarrow> f64 \<Rightarrow> f64" where
  "f64_mul a b = f64_of (a * b)"

definition f64_div :: "f64 \<Rightarrow> f64 \<Rightarrow> f64" where
  "f64_div a b = f64_of (a / b)"

text \<open>\<open>as i64\<close> truncates toward zero and saturates.\<close>

definition i64_sat :: "int \<Rightarrow> int" where
  "i64_sat n = (if n < - (2 ^ 63) then - (2 ^ 63) else if 2 ^ 63 - 1 < n then 2 ^ 63 - 1 else n)"

definition f64_to_i64 :: "f64 \<Rightarrow> int" where
  "f64_to_i64 x = i64_sat (if 0 \<le> x then \<lfloor>x\<rfloor> else \<lceil>x\<rceil>)"

section \<open>The exponent\<close>

lemma powi_pos: "0 < (2 powi n :: rat)"
  by simp

lemma powi_mono: "a \<le> b \<Longrightarrow> (2 powi a :: rat) \<le> 2 powi b"
  by (rule power_int_increasing) simp_all

lemma expo_bounds:
  assumes "0 < x"
  shows "2 powi expo x \<le> x" and "x < 2 powi (expo x + 1)"
proof -
  obtain p q where pq: "quotient_of x = (p, q)" by (cases "quotient_of x")
  have q: "0 < q" using quotient_of_denom_pos [OF pq] .
  have x: "x = of_int p / of_int q" using quotient_of_div [OF pq] .
  have p: "0 < p" using assms q by (simp add: x zero_less_divide_iff)
  have pow: "(2 ^ nat (bitlen n - 1) :: int) \<le> n \<and> n < 2 ^ nat (bitlen n) \<and> 1 \<le> bitlen n" if "0 < n" for n
    using bitlen_bounds [OF that] bitlen_ge_iff_power [of 1 n] that by simp
  have up: "(of_int n :: rat) < 2 powi bitlen n" if "0 < n" for n
  proof -
    have "(of_int n :: rat) < of_int (2 ^ nat (bitlen n))" using pow [OF that] by (simp only: of_int_less_iff)
    also have "(of_int (2 ^ nat (bitlen n)) :: rat) = 2 powi bitlen n" using pow [OF that] by (simp add: power_int_def)
    finally show ?thesis .
  qed
  have lo: "(2 powi (bitlen n - 1) :: rat) \<le> of_int n" if "0 < n" for n
  proof -
    have "(2 powi (bitlen n - 1) :: rat) = of_int (2 ^ nat (bitlen n - 1))"
      using pow [OF that] by (simp add: power_int_def)
    also have "\<dots> \<le> of_int n" using pow [OF that] by (simp only: of_int_le_iff)
    finally show ?thesis .
  qed
  let ?k = "bitlen p - bitlen q"
  have low: "2 powi (?k - 1) \<le> x"
  proof -
    have "(2 powi (?k - 1) :: rat) * of_int q \<le> 2 powi (?k - 1) * 2 powi bitlen q"
      using up [OF q] by (simp add: mult_left_mono)
    also have "\<dots> = 2 powi (bitlen p - 1)" by (simp flip: power_int_add add: algebra_simps)
    also have "\<dots> \<le> of_int p" by (rule lo [OF p])
    finally show ?thesis using q by (simp add: x pos_le_divide_eq)
  qed
  have high: "x < 2 powi (?k + 1)"
  proof -
    have "(of_int p :: rat) < 2 powi bitlen p" by (rule up [OF p])
    also have "\<dots> = 2 powi (?k + 1) * 2 powi (bitlen q - 1)" by (simp flip: power_int_add add: algebra_simps)
    also have "\<dots> \<le> 2 powi (?k + 1) * of_int q" using lo [OF q] by (simp add: mult_left_mono)
    finally show ?thesis using q by (simp add: x pos_divide_less_eq)
  qed
  show "2 powi expo x \<le> x" using low by (simp add: expo_def pq Let_def)
  show "x < 2 powi (expo x + 1)" using high by (simp add: expo_def pq Let_def not_le)
qed

lemma expo_unique:
  assumes "2 powi k \<le> x" and "x < 2 powi (k + 1)"
  shows "expo x = k"
proof -
  have "0 < x" using assms(1) powi_pos [of k] by linarith
  note b = expo_bounds [OF this]
  have "k < expo x + 1"
  proof (rule ccontr)
    assume "\<not> k < expo x + 1"
    then have "(2 powi (expo x + 1) :: rat) \<le> 2 powi k" by (intro powi_mono) simp
    then show False using assms(1) b(2) by linarith
  qed
  moreover have "expo x < k + 1"
  proof (rule ccontr)
    assume "\<not> expo x < k + 1"
    then have "(2 powi (k + 1) :: rat) \<le> 2 powi expo x" by (intro powi_mono) simp
    then show False using assms(2) b(1) by linarith
  qed
  ultimately show ?thesis by simp
qed

lemma expo_mono: "0 < x \<Longrightarrow> x \<le> y \<Longrightarrow> expo x \<le> expo y"
proof (rule ccontr)
  assume x: "0 < x" "x \<le> y" and "\<not> expo x \<le> expo y"
  then have "(2 powi (expo y + 1) :: rat) \<le> 2 powi expo x" by (intro powi_mono) simp
  moreover have "2 powi expo x \<le> x" "y < 2 powi (expo y + 1)" using expo_bounds [of x] expo_bounds [of y] x by simp_all
  ultimately show False using x(2) by linarith
qed

lemma expo_scale: "0 < x \<Longrightarrow> expo (2 powi k * x) = k + expo x"
  by (rule expo_unique) (use expo_bounds [of x] in \<open>simp_all add: power_int_add\<close>)

section \<open>Rounding keeps the order, powers of two and small integers\<close>

lemma round_even_range: "\<lfloor>y\<rfloor> \<le> round_even y \<and> round_even y \<le> \<lfloor>y\<rfloor> + 1"
  by (simp add: round_even_def Let_def)

lemma round_even_int [simp]: "round_even (of_int n) = n"
  by (simp add: round_even_def)

lemma round_even_mono: "y \<le> z \<Longrightarrow> round_even y \<le> round_even z"
proof (cases "\<lfloor>y\<rfloor> = \<lfloor>z\<rfloor>")
  case True
  assume "y \<le> z"
  then show ?thesis using True by (auto simp: round_even_def Let_def)
next
  case False
  assume "y \<le> z"
  then have "\<lfloor>y\<rfloor> \<le> \<lfloor>z\<rfloor>" by (rule floor_mono)
  then have "\<lfloor>y\<rfloor> + 1 \<le> \<lfloor>z\<rfloor>" using False by simp
  then show ?thesis using round_even_range [of y] round_even_range [of z] by linarith
qed

lemma round_even_le: "y \<le> of_int n \<Longrightarrow> round_even y \<le> n"
  using round_even_mono [of y "of_int n"] by simp

lemma round_even_ge: "of_int n \<le> y \<Longrightarrow> n \<le> round_even y"
  using round_even_mono [of "of_int n" y] by simp

lemma round_pos_bounds:
  assumes "0 < x"
  shows "2 powi expo x \<le> round_pos x" and "round_pos x \<le> 2 powi (expo x + 1)"
proof -
  let ?u = "2 powi (expo x - 52) :: rat"
  have u: "0 < ?u" by simp
  have l: "of_int (2 ^ 52) \<le> x / ?u"
    using expo_bounds(1) [OF assms] by (simp add: pos_le_divide_eq power_int_diff)
  have r: "x / ?u \<le> of_int (2 ^ 53)"
    using expo_bounds(2) [OF assms] by (simp add: pos_divide_le_eq power_int_diff power_int_add)
  have "(of_int (2 ^ 52) :: rat) \<le> of_int (round_even (x / ?u))" using round_even_ge [OF l] by (simp only: of_int_le_iff)
  then have "of_int (2 ^ 52) * ?u \<le> round_pos x" unfolding round_pos_def using u by (intro mult_right_mono) simp_all
  moreover have "of_int (2 ^ 52) * ?u = 2 powi expo x" by (simp add: power_int_diff)
  ultimately show "2 powi expo x \<le> round_pos x" by simp
  have "of_int (round_even (x / ?u)) \<le> (of_int (2 ^ 53) :: rat)" using round_even_le [OF r] by (simp only: of_int_le_iff)
  then have "round_pos x \<le> of_int (2 ^ 53) * ?u" unfolding round_pos_def using u by (intro mult_right_mono) simp_all
  moreover have "of_int (2 ^ 53) * ?u = 2 powi (expo x + 1)" by (simp add: power_int_diff power_int_add)
  ultimately show "round_pos x \<le> 2 powi (expo x + 1)" by simp
qed

lemma round_pos_pos: "0 < x \<Longrightarrow> 0 < round_pos x"
  using round_pos_bounds(1) [of x] powi_pos [of "expo x"] by linarith

lemma round_pos_mono:
  assumes "0 < x" and "x \<le> y"
  shows "round_pos x \<le> round_pos y"
proof (cases "expo x = expo y")
  case True
  have "x / 2 powi (expo y - 52) \<le> y / 2 powi (expo y - 52)" using assms(2) by (simp add: divide_right_mono)
  then show ?thesis using True round_even_mono by (simp add: round_pos_def mult_right_mono)
next
  case False
  then have "expo x + 1 \<le> expo y" using expo_mono [OF assms] by simp
  then have "(2 powi (expo x + 1) :: rat) \<le> 2 powi expo y" by (rule powi_mono)
  then show ?thesis using round_pos_bounds(2) [OF assms(1)] round_pos_bounds(1) [of y] assms by linarith
qed

lemma round_pos_scale: "0 < x \<Longrightarrow> round_pos (2 powi k * x) = 2 powi k * round_pos x"
proof -
  assume "0 < x"
  then have e: "expo (2 powi k * x) = k + expo x" by (rule expo_scale)
  have "(2 powi k * x) / 2 powi (k + expo x - 52) = x / 2 powi (expo x - 52)"
    by (simp add: power_int_diff power_int_add)
  then show ?thesis by (simp add: round_pos_def e power_int_diff power_int_add)
qed

lemma round_pos_int: "0 < n \<Longrightarrow> n < 2 ^ 53 \<Longrightarrow> round_pos (of_int n) = of_int n"
proof -
  assume n: "0 < n" "n < 2 ^ 53"
  let ?e = "expo (of_int n)"
  have "?e < 53"
  proof (rule ccontr)
    assume "\<not> ?e < 53"
    then have "(2 powi 53 :: rat) \<le> 2 powi ?e" by (intro powi_mono) simp
    also have "\<dots> \<le> of_int n" using expo_bounds(1) n by simp
    finally have "(of_int (2 ^ 53) :: rat) \<le> of_int n" by simp
    then show False using n(2) by (simp only: of_int_le_iff)
  qed
  then have "(2 powi (52 - ?e) :: rat) = of_int (2 ^ nat (52 - ?e))" by (simp add: power_int_def)
  moreover have "of_int n / 2 powi (?e - 52) = of_int n * (2 powi (52 - ?e) :: rat)"
    by (simp add: power_int_diff)
  ultimately have i: "of_int n / 2 powi (?e - 52) = (of_int (n * 2 ^ nat (52 - ?e)) :: rat)" by simp
  show ?thesis unfolding round_pos_def i round_even_int unfolding i [symmetric] by simp
qed

lemma round_pos_int_top: "round_pos (2 ^ 53) = 2 ^ 53"
proof -
  have e: "expo (2 ^ 53) = 53" by (rule expo_unique) simp_all
  have "(2 ^ 53 / 2 powi (53 - 52) :: rat) = of_int (2 ^ 52)" by simp
  then show ?thesis unfolding round_pos_def e by (simp only: round_even_int) simp
qed

lemma round_pos_idem: "0 < x \<Longrightarrow> round_pos (round_pos x) = round_pos x"
proof -
  assume x: "0 < x"
  define n where "n = round_even (x / 2 powi (expo x - 52))"
  have r: "round_pos x = 2 powi (expo x - 52) * of_int n" by (simp add: round_pos_def n_def)
  have u: "(0 :: rat) < 2 powi (expo x - 52)" by (rule powi_pos)
  have "0 < 2 powi (expo x - 52) * (of_int n :: rat)" using round_pos_pos [OF x] r by simp
  then have "(0 :: rat) < of_int n" using u zero_less_mult_pos by blast
  then have n0: "0 < n" by simp
  have "2 powi (expo x - 52) * (of_int n :: rat) \<le> 2 powi (expo x - 52) * of_int (2 ^ 53)"
    using round_pos_bounds(2) [OF x] unfolding r by (simp add: power_int_diff power_int_add)
  then have "(of_int n :: rat) \<le> of_int (2 ^ 53)" by (simp add: mult_le_cancel_left)
  then have "n \<le> 2 ^ 53" by (simp only: of_int_le_iff)
  then have "round_pos (of_int n) = of_int n"
    using round_pos_int [OF n0] round_pos_int_top by (cases "n = 2 ^ 53") auto
  then show ?thesis using n0 unfolding r by (simp add: round_pos_scale)
qed

lemma f64_of_idem [simp]: "f64_of (f64_of x) = f64_of x"
  using round_pos_idem [of x] round_pos_idem [of "- x"] round_pos_pos [of x] round_pos_pos [of "- x"]
  by (auto simp: f64_of_def)

lemma f64_of_mono: "x \<le> y \<Longrightarrow> f64_of x \<le> f64_of y"
  using round_pos_mono [of x y] round_pos_mono [of "- y" "- x"] round_pos_pos [of y] round_pos_pos [of "- x"]
  by (auto simp: f64_of_def)

lemma f64_of_nonneg: "0 \<le> x \<Longrightarrow> 0 \<le> f64_of x"
  using f64_of_mono [of 0 x] by (simp add: f64_of_def)

lemma f64_of_scale: "f64_of (2 powi k * x) = 2 powi k * f64_of x"
proof (cases rule: linorder_cases [of x 0])
  case less
  then have "2 powi k * x < 0" using powi_pos [of k] by (simp add: mult_pos_neg)
  then show ?thesis using less round_pos_scale [of "- x" k] by (simp add: f64_of_def)
next
  case equal
  then show ?thesis by (simp add: f64_of_def)
next
  case greater
  then show ?thesis using round_pos_scale [of x k] by (simp add: f64_of_def)
qed

lemma f64_of_int: "\<bar>n\<bar> < 2 ^ 53 \<Longrightarrow> f64_of (of_int n) = of_int n"
  using round_pos_int [of n] round_pos_int [of "- n"] by (auto simp: f64_of_def)

lemma f64_of_numeral: "numeral w < (2 ^ 53 :: int) \<Longrightarrow> f64_of (numeral w) = numeral w"
  using f64_of_int [of "numeral w"] by simp

lemma f64_to_i64_mono: "x \<le> y \<Longrightarrow> f64_to_i64 x \<le> f64_to_i64 y"
proof -
  assume xy: "x \<le> y"
  have "\<lfloor>x\<rfloor> \<le> \<lfloor>y\<rfloor>" "\<lceil>x\<rceil> \<le> \<lceil>y\<rceil>" using xy by (auto intro: floor_mono ceiling_mono)
  moreover have "\<lceil>x\<rceil> \<le> \<lfloor>y\<rfloor>" if "x < 0" "0 \<le> y"
  proof -
    have "\<lceil>x\<rceil> \<le> 0" "0 \<le> \<lfloor>y\<rfloor>" using that by (simp_all add: ceiling_le_iff)
    then show ?thesis by linarith
  qed
  ultimately show ?thesis using xy by (auto simp: f64_to_i64_def i64_sat_def)
qed

end
