(* ===== verification/App_Corpus.thy ===== *)
theory App_Corpus
  imports Float64
begin

text \<open>
  The demo corpus of the seeder and its validation (\<open>Corpus\<close> and \<open>check_handle\<close> in
  \<open>mingo-app/src/seed.rs\<close>).
\<close>

section \<open>Constants\<close>

definition LIVE_COMMUNITIES :: "string list" where
  "LIVE_COMMUNITIES = [''cooks'', ''woodworking'', ''homelab'']"

definition SEED_RESERVED :: "string list" where
  "SEED_RESERVED = [''sys'', ''admin'', ''root'']"

definition CLAMP_KNEE_HOURS :: f64 where
  "CLAMP_KNEE_HOURS = 12"

definition CLAMP_CAP_HOURS :: f64 where
  "CLAMP_CAP_HOURS = 20"

definition MAX_CORPUS_AGE_HOURS :: f64 where
  "MAX_CORPUS_AGE_HOURS = 42 * 24"

definition BOT_HANDLE :: string where
  "BOT_HANDLE = ''digest-bot''"

section \<open>The corpus\<close>

record persona =
  pe_handle :: string
  pe_external_email :: "string option"

record comment_seed =
  cs_author :: string
  cs_age :: f64
  cs_body :: string
  cs_via_agent :: bool

record upvote_seed =
  up_by :: string
  up_age :: f64

record post_seed =
  sp_slug :: string
  sp_author :: string
  sp_age :: f64
  sp_body :: string
  sp_via_agent :: bool
  sp_comments :: "comment_seed list"
  sp_upvotes :: "upvote_seed list"

record community_seed =
  co_id :: string
  co_posts :: "post_seed list"

record vouch_seed =
  vo_from :: string
  vo_to :: string
  vo_age :: f64

record badge_seed =
  ba_from :: string
  ba_to :: string
  ba_type :: string
  ba_age :: f64

record corpus =
  personas :: "persona list"
  communities :: "community_seed list"
  vouches :: "vouch_seed list"
  badges :: "badge_seed list"

definition identity_email :: "persona \<Rightarrow> string \<Rightarrow> string" where
  "identity_email p dmn =
     (case pe_external_email p of Some e \<Rightarrow> e | None \<Rightarrow> pe_handle p @ ''@'' @ dmn)"

definition external_email_allowed :: "string \<Rightarrow> bool" where
  "external_email_allowed email \<longleftrightarrow>
     email = ''vthunder@gmail.com'' \<or>
     (case rsplit_once CHR ''@'' email of
        Some (local, dmn) \<Rightarrow> dmn = ''example.com'' \<and> local \<noteq> []
      | None \<Rightarrow> False)"

text \<open>
  What the checks need of Rust's library beyond ASCII: \<open>str::to_lowercase\<close> and the text of a
  number.
\<close>

record text_lib =
  tl_lower :: "string \<Rightarrow> string"
  tl_show :: "f64 \<Rightarrow> string"

section \<open>Validation\<close>

definition quote :: "string \<Rightarrow> string" where
  "quote s = [CHR 0x27] @ s @ [CHR 0x27]"

definition arrow :: string where
  "arrow = [CHR 0x20, CHR 0xE2, CHR 0x86, CHR 0x92, CHR 0x20]"

definition slug_char :: "char \<Rightarrow> bool" where
  "slug_char c \<longleftrightarrow> is_ascii_lowercase c \<or> is_ascii_digit c \<or> c = CHR ''-''"

definition handle_char :: "char \<Rightarrow> bool" where
  "handle_char c \<longleftrightarrow> is_ascii_lowercase c \<or> is_ascii_digit c \<or> c \<in> {CHR ''.'', CHR ''_'', CHR ''-''}"

definition check_handle :: "text_lib \<Rightarrow> string \<Rightarrow> (string, unit) res" where
  "check_handle lib h =
     (if h = [] \<or> 31 < length h
      then Inl (''handle '' @ quote h @ '' must be 1'' @ [CHR 0xE2, CHR 0x80, CHR 0x93] @ ''31 chars'')
      else if h \<noteq> to_lowercase (tl_lower lib) h
      then Inl (''handle '' @ quote h @ '' must be lowercase'')
      else if \<not> is_ascii_alphanumeric (hd h)
      then Inl (''handle '' @ quote h @ '' must start with a letter or digit'')
      else if \<not> list_all handle_char h
      then Inl (''handle '' @ quote h @ '' has a disallowed character'')
      else if h \<in> set SEED_RESERVED \<or> prefix ''sys-'' h
      then Inl (''handle '' @ quote h @ '' is reserved'')
      else Inr ())"

text \<open>The accumulator: the handles and the external addresses seen so far.\<close>

definition check_persona ::
  "text_lib \<Rightarrow> string list \<times> string list \<Rightarrow> persona \<Rightarrow> (string, string list \<times> string list) res" where
  "check_persona lib = (\<lambda>(handles, externals) p.
     res_bind (check_handle lib (pe_handle p)) (\<lambda>_.
     if pe_handle p \<in> set handles then Inl (''duplicate persona handle: '' @ pe_handle p)
     else if pe_handle p = BOT_HANDLE
     then Inl (quote BOT_HANDLE @ '' is reserved for the seeder's agent identity'')
     else case pe_external_email p of
       None \<Rightarrow> Inr (pe_handle p # handles, externals)
     | Some ext \<Rightarrow>
         if \<not> external_email_allowed ext
         then Inl (''persona '' @ pe_handle p @ '': external_email '' @ quote ext @
                '' not allowed'' @ [CHR 0x20, CHR 0xE2, CHR 0x80, CHR 0x94, CHR 0x20] @
                ''only @example.com or vthunder@gmail.com (never an address that could belong to a real third party)'')
         else if ext \<in> set externals then Inl (''duplicate external_email: '' @ ext)
         else Inr (pe_handle p # handles, ext # externals)))"

definition check_known :: "string list \<Rightarrow> string \<Rightarrow> string \<Rightarrow> (string, unit) res" where
  "check_known handles h what =
     bail_if (h \<notin> set handles) (what @ '' references unknown persona: '' @ h)"

definition check_age :: "text_lib \<Rightarrow> f64 \<Rightarrow> string \<Rightarrow> (string, unit) res" where
  "check_age lib age what =
     bail_if (\<not> (0 < age \<and> age \<le> MAX_CORPUS_AGE_HOURS))
       (what @ '': age_hours '' @ tl_show lib age @ '' out of range (0, '' @
        tl_show lib MAX_CORPUS_AGE_HOURS @ '']'')"

definition check_younger :: "text_lib \<Rightarrow> string \<Rightarrow> string \<Rightarrow> f64 \<Rightarrow> f64 \<Rightarrow> (string, unit) res" where
  "check_younger lib ctx what age post_age =
     bail_if (post_age \<le> age)
       (ctx @ '': '' @ what @ '' (age '' @ tl_show lib age @
        '') must be younger than its post (age '' @ tl_show lib post_age @ '')'')"

definition check_comment ::
  "text_lib \<Rightarrow> string list \<Rightarrow> string \<Rightarrow> post_seed \<Rightarrow> nat \<Rightarrow> comment_seed \<Rightarrow> (string, nat) res" where
  "check_comment lib handles ctx p i cm =
     (let cctx = ctx @ '' comment #'' @ show_int (int i) in
      res_bind (check_known handles (cs_author cm) cctx) (\<lambda>_.
      res_bind (check_age lib (cs_age cm) cctx) (\<lambda>_.
      res_bind (check_younger lib cctx ''comment'' (cs_age cm) (sp_age p)) (\<lambda>_.
      res_bind (bail_if (cs_author cm = sp_author p)
        (cctx @ '': comments must come from personas other than the author'')) (\<lambda>_.
      res_bind (bail_if (trim (cs_body cm) = []) (cctx @ '': empty body'')) (\<lambda>_.
      Inr (i + 1)))))))"

definition check_upvote ::
  "text_lib \<Rightarrow> string list \<Rightarrow> string \<Rightarrow> post_seed \<Rightarrow> string list \<Rightarrow> upvote_seed \<Rightarrow>
   (string, string list) res" where
  "check_upvote lib handles ctx p voters u =
     (let uctx = ctx @ '' upvote by '' @ up_by u in
      res_bind (check_known handles (up_by u) uctx) (\<lambda>_.
      res_bind (check_age lib (up_age u) uctx) (\<lambda>_.
      res_bind (check_younger lib uctx ''upvote'' (up_age u) (sp_age p)) (\<lambda>_.
      res_bind (bail_if (up_by u = sp_author p)
        (uctx @ '': upvotes must come from personas other than the author'')) (\<lambda>_.
      res_bind (bail_if (up_by u \<in> set voters) (uctx @ '': duplicate upvote'')) (\<lambda>_.
      Inr (up_by u # voters)))))))"

definition check_post ::
  "text_lib \<Rightarrow> string list \<Rightarrow> string \<Rightarrow> string list \<Rightarrow> post_seed \<Rightarrow> (string, string list) res" where
  "check_post lib handles comm slugs p =
     (let ctx = ''post '' @ comm @ ''/'' @ sp_slug p in
      res_bind (bail_if (sp_slug p \<in> set slugs)
        (''duplicate slug in '' @ comm @ '': '' @ sp_slug p)) (\<lambda>_.
      res_bind (check_known handles (sp_author p) ctx) (\<lambda>_.
      res_bind (check_age lib (sp_age p) ctx) (\<lambda>_.
      res_bind (bail_if (trim (sp_body p) = []) (ctx @ '': empty body'')) (\<lambda>_.
      res_bind (res_fold (check_comment lib handles ctx p) 0 (sp_comments p)) (\<lambda>_.
      res_bind (res_fold (check_upvote lib handles ctx p) [] (sp_upvotes p)) (\<lambda>_.
      Inr (sp_slug p # slugs))))))))"

fun join_text :: "string \<Rightarrow> string list \<Rightarrow> string" where
  "join_text sep [] = []"
| "join_text sep [x] = x"
| "join_text sep (x # xs) = x @ sep @ join_text sep xs"

definition check_community ::
  "text_lib \<Rightarrow> string list \<Rightarrow> string list \<Rightarrow> community_seed \<Rightarrow> (string, string list) res" where
  "check_community lib handles ids c =
     (res_bind (bail_if (co_id c \<notin> set LIVE_COMMUNITIES)
        (''community '' @ quote (co_id c) @ '' is not live on-chain (live: '' @
         join_text '', '' LIVE_COMMUNITIES @ '')'')) (\<lambda>_.
      res_bind (bail_if (co_id c \<in> set ids) (''duplicate community: '' @ co_id c)) (\<lambda>_.
      res_bind (res_fold (check_post lib handles (co_id c)) [] (co_posts c)) (\<lambda>_.
      Inr (co_id c # ids)))))"

definition check_vouch ::
  "text_lib \<Rightarrow> string list \<Rightarrow> (string \<times> string) list \<Rightarrow> vouch_seed \<Rightarrow> (string, (string \<times> string) list) res"
where
  "check_vouch lib handles pairs v =
     (let ctx = ''vouch '' @ vo_from v @ arrow @ vo_to v in
      res_bind (check_known handles (vo_from v) ctx) (\<lambda>_.
      res_bind (check_known handles (vo_to v) ctx) (\<lambda>_.
      res_bind (check_age lib (vo_age v) ctx) (\<lambda>_.
      res_bind (bail_if (vo_from v = vo_to v) (ctx @ '': self-vouch'')) (\<lambda>_.
      res_bind (bail_if ((vo_from v, vo_to v) \<in> set pairs) (ctx @ '': duplicate vouch'')) (\<lambda>_.
      Inr ((vo_from v, vo_to v) # pairs)))))))"

definition badge_type_ok :: "string \<Rightarrow> bool" where
  "badge_type_ok t \<longleftrightarrow>
     \<not> (t = [] \<or> t = ''vouch'' \<or> t = ''ban'' \<or> prefix ''membership'' t \<or> \<not> list_all slug_char t)"

definition check_badge ::
  "text_lib \<Rightarrow> string list \<Rightarrow> (string \<times> string \<times> string) list \<Rightarrow> badge_seed \<Rightarrow>
   (string, (string \<times> string \<times> string) list) res" where
  "check_badge lib handles keys b =
     (let ctx = ''badge '' @ ba_type b @ '' '' @ ba_from b @ arrow @ ba_to b in
      res_bind (check_known handles (ba_from b) ctx) (\<lambda>_.
      res_bind (check_known handles (ba_to b) ctx) (\<lambda>_.
      res_bind (check_age lib (ba_age b) ctx) (\<lambda>_.
      res_bind (bail_if (ba_from b = ba_to b) (ctx @ '': self-badge'')) (\<lambda>_.
      res_bind (bail_if (\<not> badge_type_ok (ba_type b))
        (ctx @ '': badge type must be a lowercase slug and not vouch/ban/membership*'')) (\<lambda>_.
      res_bind (bail_if ((ba_from b, ba_to b, ba_type b) \<in> set keys) (ctx @ '': duplicate badge'')) (\<lambda>_.
      Inr ((ba_from b, ba_to b, ba_type b) # keys))))))))"

definition validate :: "text_lib \<Rightarrow> corpus \<Rightarrow> (string, unit) res" where
  "validate lib c =
     (if personas c = [] then Inl ''corpus has no personas''
      else
        res_bind (res_fold (check_persona lib) ([], []) (personas c)) (\<lambda>(handles, _).
        res_bind (res_fold (check_community lib handles) [] (communities c)) (\<lambda>_.
        res_bind (res_fold (check_vouch lib handles) [] (vouches c)) (\<lambda>_.
        res_bind (res_fold (check_badge lib handles) [] (badges c)) (\<lambda>_. Inr ())))))"

text \<open>\<open>decode\<close> is the decoder \<open>serde\<close> derives for \<open>Corpus\<close>.\<close>

definition corpus_parse ::
  "text_lib \<Rightarrow> (string \<Rightarrow> (string, corpus) res) \<Rightarrow> string \<Rightarrow> (string, corpus) res" where
  "corpus_parse lib decode txt =
     res_bind (map_err (\<lambda>_. ''parsing corpus JSON'') (decode txt)) (\<lambda>c.
     res_bind (validate lib c) (\<lambda>_. Inr c))"

definition corpus_max_age :: "corpus \<Rightarrow> f64" where
  "corpus_max_age c = fold max (map sp_age (concat (map co_posts (communities c)))) 0"

record corpus_stats =
  st_personas :: nat
  st_communities :: nat
  st_posts :: nat
  st_comments :: nat
  st_reactions :: nat
  st_vouches :: nat
  st_badges :: nat

definition stats :: "corpus \<Rightarrow> corpus_stats" where
  "stats c = \<lparr>st_personas = length (personas c), st_communities = length (communities c),
     st_posts = sum_list (map (\<lambda>x. length (co_posts x)) (communities c)),
     st_comments = sum_list (map (\<lambda>p. length (sp_comments p)) (concat (map co_posts (communities c)))),
     st_reactions = sum_list (map (\<lambda>p. length (sp_upvotes p)) (concat (map co_posts (communities c)))),
     st_vouches = length (vouches c), st_badges = length (badges c)\<rparr>"

section \<open>What a valid corpus is\<close>

definition handle_ok :: "string \<Rightarrow> bool" where
  "handle_ok h \<longleftrightarrow> h \<noteq> [] \<and> length h \<le> 31 \<and> is_ascii_alphanumeric (hd h) \<and> list_all handle_char h \<and>
     h \<notin> set SEED_RESERVED \<and> \<not> prefix ''sys-'' h"

definition age_ok :: "f64 \<Rightarrow> bool" where
  "age_ok age \<longleftrightarrow> 0 < age \<and> age \<le> MAX_CORPUS_AGE_HOURS"

definition persona_ok :: "persona \<Rightarrow> bool" where
  "persona_ok p \<longleftrightarrow> handle_ok (pe_handle p) \<and> pe_handle p \<noteq> BOT_HANDLE \<and>
     (case pe_external_email p of None \<Rightarrow> True | Some e \<Rightarrow> external_email_allowed e)"

definition comment_ok :: "string set \<Rightarrow> post_seed \<Rightarrow> comment_seed \<Rightarrow> bool" where
  "comment_ok hs p cm \<longleftrightarrow> cs_author cm \<in> hs \<and> age_ok (cs_age cm) \<and> cs_age cm < sp_age p \<and>
     cs_author cm \<noteq> sp_author p \<and> trim (cs_body cm) \<noteq> []"

definition upvote_ok :: "string set \<Rightarrow> post_seed \<Rightarrow> upvote_seed \<Rightarrow> bool" where
  "upvote_ok hs p u \<longleftrightarrow> up_by u \<in> hs \<and> age_ok (up_age u) \<and> up_age u < sp_age p \<and> up_by u \<noteq> sp_author p"

definition post_ok :: "string set \<Rightarrow> post_seed \<Rightarrow> bool" where
  "post_ok hs p \<longleftrightarrow> sp_author p \<in> hs \<and> age_ok (sp_age p) \<and> trim (sp_body p) \<noteq> [] \<and>
     (\<forall>cm\<in>set (sp_comments p). comment_ok hs p cm) \<and>
     (\<forall>u\<in>set (sp_upvotes p). upvote_ok hs p u) \<and> distinct (map up_by (sp_upvotes p))"

definition community_ok :: "string set \<Rightarrow> community_seed \<Rightarrow> bool" where
  "community_ok hs c \<longleftrightarrow> co_id c \<in> set LIVE_COMMUNITIES \<and> (\<forall>p\<in>set (co_posts c). post_ok hs p) \<and>
     distinct (map sp_slug (co_posts c))"

definition vouch_ok :: "string set \<Rightarrow> vouch_seed \<Rightarrow> bool" where
  "vouch_ok hs v \<longleftrightarrow> vo_from v \<in> hs \<and> vo_to v \<in> hs \<and> age_ok (vo_age v) \<and> vo_from v \<noteq> vo_to v"

definition badge_ok :: "string set \<Rightarrow> badge_seed \<Rightarrow> bool" where
  "badge_ok hs b \<longleftrightarrow> ba_from b \<in> hs \<and> ba_to b \<in> hs \<and> age_ok (ba_age b) \<and> ba_from b \<noteq> ba_to b \<and>
     badge_type_ok (ba_type b)"

definition corpus_ok :: "corpus \<Rightarrow> bool" where
  "corpus_ok c \<longleftrightarrow>
     (let hs = pe_handle ` set (personas c) in
      personas c \<noteq> [] \<and> (\<forall>p\<in>set (personas c). persona_ok p) \<and> distinct (map pe_handle (personas c)) \<and>
      distinct (List.map_filter pe_external_email (personas c)) \<and>
      (\<forall>x\<in>set (communities c). community_ok hs x) \<and> distinct (map co_id (communities c)) \<and>
      (\<forall>v\<in>set (vouches c). vouch_ok hs v) \<and> distinct (map (\<lambda>v. (vo_from v, vo_to v)) (vouches c)) \<and>
      (\<forall>b\<in>set (badges c). badge_ok hs b) \<and>
      distinct (map (\<lambda>b. (ba_from b, ba_to b, ba_type b)) (badges c)))"

section \<open>Validation accepts exactly those\<close>

lemma handle_char_lower: "handle_char c \<Longrightarrow> is_ascii c \<and> to_ascii_lowercase c = c"
  by (auto simp: handle_char_def char_class_defs to_ascii_lowercase_def)

lemma handle_lower: "list_all handle_char h \<Longrightarrow> to_lowercase U h = h"
proof -
  assume "list_all handle_char h"
  then have "list_all is_ascii h" "map to_ascii_lowercase h = h"
    by (induction h) (simp_all add: handle_char_lower)
  then show ?thesis by (simp add: to_lowercase_def)
qed

lemma check_handle_Inr [simp]: "check_handle lib h = Inr u \<longleftrightarrow> handle_ok h"
  by (auto simp: check_handle_def handle_ok_def handle_lower not_less split: if_splits)

lemma check_known_Inr [simp]: "check_known hs h w = Inr u \<longleftrightarrow> h \<in> set hs"
  by (simp add: check_known_def)

lemma check_age_Inr [simp]: "check_age lib a w = Inr u \<longleftrightarrow> age_ok a"
  by (simp add: check_age_def age_ok_def)

lemma check_younger_Inr [simp]: "check_younger lib x w a b = Inr u \<longleftrightarrow> a < b"
  by (auto simp: check_younger_def)

lemma check_comment_Inr:
  "check_comment lib hs ctx p n cm = Inr r \<longleftrightarrow> comment_ok (set hs) p cm \<and> r = n + 1"
  by (auto simp: check_comment_def Let_def res_bind_Inr comment_ok_def)

lemma check_upvote_Inr:
  "check_upvote lib hs ctx p seen u = Inr r \<longleftrightarrow>
   upvote_ok (set hs) p u \<and> up_by u \<notin> set seen \<and> r = up_by u # seen"
  by (auto simp: check_upvote_def Let_def res_bind_Inr upvote_ok_def)

lemma check_post_Inr:
  "check_post lib hs comm seen p = Inr r \<longleftrightarrow>
   post_ok (set hs) p \<and> sp_slug p \<notin> set seen \<and> r = sp_slug p # seen"
  by (auto simp: check_post_def Let_def res_bind_Inr post_ok_def
      res_fold_count [OF check_comment_Inr] res_fold_distinct [OF check_upvote_Inr])

lemma check_community_Inr:
  "check_community lib hs seen c = Inr r \<longleftrightarrow>
   community_ok (set hs) c \<and> co_id c \<notin> set seen \<and> r = co_id c # seen"
  by (auto simp: check_community_def res_bind_Inr community_ok_def res_fold_distinct [OF check_post_Inr])

lemma check_vouch_Inr:
  "check_vouch lib hs seen v = Inr r \<longleftrightarrow>
   vouch_ok (set hs) v \<and> (vo_from v, vo_to v) \<notin> set seen \<and> r = (vo_from v, vo_to v) # seen"
  by (auto simp: check_vouch_def Let_def res_bind_Inr vouch_ok_def)

lemma check_badge_Inr:
  "check_badge lib hs seen b = Inr r \<longleftrightarrow>
   badge_ok (set hs) b \<and> (ba_from b, ba_to b, ba_type b) \<notin> set seen \<and> r = (ba_from b, ba_to b, ba_type b) # seen"
  by (auto simp: check_badge_def Let_def res_bind_Inr badge_ok_def)

lemma check_persona_Inr:
  "check_persona lib (hs, es) p = Inr r \<longleftrightarrow>
   persona_ok p \<and> pe_handle p \<notin> set hs \<and>
   (case pe_external_email p of None \<Rightarrow> r = (pe_handle p # hs, es)
    | Some e \<Rightarrow> e \<notin> set es \<and> r = (pe_handle p # hs, e # es))"
  by (auto simp: check_persona_def res_bind_Inr persona_ok_def split: option.splits if_splits)

lemma check_personas_Inr:
  "res_fold (check_persona lib) (hs, es) ps = Inr r \<longleftrightarrow>
   (\<forall>p\<in>set ps. persona_ok p \<and> pe_handle p \<notin> set hs) \<and> distinct (map pe_handle ps) \<and>
   distinct (List.map_filter pe_external_email ps) \<and> set (List.map_filter pe_external_email ps) \<inter> set es = {} \<and>
   r = (rev (map pe_handle ps) @ hs, rev (List.map_filter pe_external_email ps) @ es)"
proof (induction ps arbitrary: hs es)
  case (Cons p ps)
  show ?case unfolding res_fold.simps res_bind_Inr check_persona_Inr
    by (cases "pe_external_email p") (auto simp: Cons List.map_filter_simps image_iff)
qed (auto simp: List.map_filter_simps)

lemma validate_Inr: "validate lib c = Inr u \<longleftrightarrow> corpus_ok c"
  by (auto simp: validate_def corpus_ok_def Let_def res_bind_Inr check_personas_Inr
      res_fold_distinct [OF check_community_Inr] res_fold_distinct [OF check_vouch_Inr]
      res_fold_distinct [OF check_badge_Inr])

end
