(* ===== verification/App_Write.thy ===== *)
theory App_Write
  imports Sbo_Wire
begin

text \<open>
  What the command-line tools of \<open>mingo-app\<close> share: the assembly of one signed write and the
  loading of a key file (both from \<open>mingo-app/src/seed.rs\<close>), and talking to the daemon.

  A tool runs on the log of its HTTP calls and fails with the text of its error (of an
  \<open>anyhow\<close> chain, the outermost message).  What it prints is left out.
\<close>

text \<open>
  An object as the daemon returns it (the \<open>ObjResp\<close> of the policy tools, whose decoder is derived
  by \<open>serde\<close>).
\<close>

record obj_resp =
  or_value :: json
  or_owner_ref :: "string option"
  or_object_hash :: string
  or_confirmed :: bool

record ('sk, 'pk, 'sig) app_api = "('sk, 'pk, 'sig) sbo_api" +
  json_text :: "json \<Rightarrow> string"
  hex_encode :: "string \<Rightarrow> string"
  hex_decode :: "string \<Rightarrow> (string, string) res"
  key_text_bytes :: "'pk \<Rightarrow> string"
  with_query :: "string \<Rightarrow> (string \<times> string) list \<Rightarrow> string"
  signed_object :: "'sk \<Rightarrow> string \<Rightarrow> string \<Rightarrow> string \<Rightarrow> string \<Rightarrow> string \<Rightarrow> string"
  collection_config :: "'sk \<Rightarrow> string \<Rightarrow> bool \<Rightarrow> int option \<Rightarrow> int option \<Rightarrow> string option \<Rightarrow> string"
  set_trust_brokers :: "'sk \<Rightarrow> string list \<Rightarrow> string"
  dnssec_policy_entries :: "json \<times> json"
  jwt_domain :: "'sk \<Rightarrow> string \<Rightarrow> string"
  jwt_certified :: "'sk \<Rightarrow> string \<Rightarrow> string \<Rightarrow> 'pk \<Rightarrow> string"
  jwt_self :: "'sk \<Rightarrow> string \<Rightarrow> string"
  hash_text :: "string \<Rightarrow> string"
  new_client :: "(string, unit) res"
  status_error :: "nat \<Rightarrow> string \<Rightarrow> string"
  decode_obj :: "string \<Rightarrow> (string, obj_resp) res"

text \<open>
  \<open>json_text\<close> is \<open>serde_json::to_vec\<close>, \<open>with_query\<close> is the URL that \<open>reqwest\<close> builds from a base
  and query pairs, \<open>hash_text\<close> is the text of a \<open>ContentHash\<close>, \<open>new_client\<close> is the building of a
  client and \<open>status_error\<close> the error text of \<open>error_for_status\<close>.  The rest are the presets and
  tokens of \<open>sbo_core\<close>, with the arguments the sources leave as \<open>None\<close> left out.
\<close>

type_synonym 'a tool = "(http_call list, string, 'a) run"

definition tool_send :: "('sk, 'pk, 'sig, 'm) sbo_api_scheme \<Rightarrow> http_call \<Rightarrow> http_reply tool" where
  "tool_send api c log = (Inr (send api log c), log @ [c])"

definition client_built :: "('sk, 'pk, 'sig) app_api \<Rightarrow> unit tool" where
  "client_built api = lift (map_err (\<lambda>_. ''building HTTP client'') (new_client api))"

text \<open>\<open>Response::error_for_status\<close> lets every status but the 4xx and 5xx through.\<close>

definition error_status :: "nat \<Rightarrow> bool" where
  "error_status status \<longleftrightarrow> 400 \<le> status \<and> status < 600"

definition dash :: string where
  "dash = [CHR 0x20, CHR 0xE2, CHR 0x80, CHR 0x94, CHR 0x20]"

section \<open>Files and keys\<close>

definition key_string :: "('sk, 'pk, 'sig) app_api \<Rightarrow> 'sk \<Rightarrow> string" where
  "key_string api key = ''ed25519:'' @ hex_encode api (key_text_bytes api (key_public api key))"

text \<open>The helper of \<open>add_policy_layer\<close> and \<open>create_community\<close>.\<close>

definition expand_tilde :: "env \<Rightarrow> string \<Rightarrow> string" where
  "expand_tilde env path =
     (case strip_prefix ''~/'' path of
        Some rest \<Rightarrow> (case env ''HOME'' of Some h \<Rightarrow> h | None \<Rightarrow> []) @ ''/'' @ rest
      | None \<Rightarrow> path)"

definition key_seed_hex :: "('sk, 'pk, 'sig) app_api \<Rightarrow> string \<Rightarrow> string \<Rightarrow> (string, string) res" where
  "key_seed_hex api path contents =
     (let trimmed = trim contents in
      case strip_prefix ''ed25519:'' trimmed of
        Some rest \<Rightarrow> Inr (trim rest)
      | None \<Rightarrow>
          res_bind (map_err (\<lambda>_. path @ '': expected `ed25519:<hex>` or JSON {\"secret_key\": <hex>}'')
            (parse_json api trimmed)) (\<lambda>v.
          res_bind (ok_or (str_field ''secret_key'' v)
            (path @ '': JSON key file missing `secret_key`'')) (\<lambda>s. Inr (trim s))))"

definition load_signing_key_file ::
  "('sk, 'pk, 'sig) app_api \<Rightarrow> (string \<Rightarrow> (string, string) res) \<Rightarrow> string \<Rightarrow> (string, 'sk) res" where
  "load_signing_key_file api read path =
     res_bind (map_err (\<lambda>_. ''reading '' @ path) (read path)) (\<lambda>contents.
     res_bind (key_seed_hex api path contents) (\<lambda>hex.
     res_bind (map_err (\<lambda>_. path @ '': decoding hex seed'') (hex_decode api hex)) (\<lambda>raw.
     if length raw \<noteq> 32 then Inl (path @ '': seed must be exactly 32 bytes'')
     else Inr (key_of_bytes api raw))))"

section \<open>One signed write\<close>

definition apos :: "string \<Rightarrow> string" where
  "apos s = [CHR 0x27] @ s @ [CHR 0x27]"

definition write_message ::
  "('sk, 'pk, 'sig) app_api \<Rightarrow> 'sk \<Rightarrow> string option \<Rightarrow> string option \<Rightarrow> string \<Rightarrow> string \<Rightarrow> string \<Rightarrow>
   string \<Rightarrow> string \<Rightarrow> string option \<Rightarrow> string option \<Rightarrow> (string, ('pk, 'sig) message) res" where
  "write_message api key cert warrant path i schema ctype payload owner hlc =
     res_bind (map_err (\<lambda>e. ''bad path '' @ apos path @ '': '' @ e) (path_parse api path)) (\<lambda>p.
     res_bind (map_err (\<lambda>e. ''bad id '' @ apos i @ '': '' @ e) (id_new api i)) (\<lambda>n.
     res_bind (case owner of
         None \<Rightarrow> Inr None
       | Some o' \<Rightarrow> map_err (\<lambda>e. ''bad owner '' @ apos o' @ '': '' @ e)
                     (res_bind (id_new api o') (\<lambda>x. Inr (Some x)))) (\<lambda>own.
     Inr (sign_with api key \<lparr>m_action = Post, m_path = p, m_id = n,
       m_signing_key = key_public api key, m_signature = placeholder_sig api,
       m_content_type = Some ctype, m_content_hash = Some (sha256 api payload),
       m_payload = Some payload, m_owner = own, m_creator = None, m_content_encoding = None,
       m_content_schema = Some schema, m_policy_ref = None, m_related = None, m_hlc = hlc,
       m_prev = None, m_auth_cert = cert, m_auth_evidence = None, m_auth_warrant = warrant\<rparr>))))"

definition assemble_write ::
  "('sk, 'pk, 'sig) app_api \<Rightarrow> 'sk \<Rightarrow> string option \<Rightarrow> string option \<Rightarrow> string \<Rightarrow> string \<Rightarrow> string \<Rightarrow>
   string \<Rightarrow> string \<Rightarrow> string option \<Rightarrow> string option \<Rightarrow> (string, string) res" where
  "assemble_write api key cert warrant path i schema ctype payload owner hlc =
     res_bind (write_message api key cert warrant path i schema ctype payload owner hlc)
       (\<lambda>msg. Inr (wire_serialize api msg))"

lemma write_message_fields:
  "write_message api key cert warrant path i schema ctype payload owner hlc = Inr msg \<Longrightarrow>
   m_action msg = Post \<and> path_parse api path = Inr (m_path msg) \<and> id_new api i = Inr (m_id msg) \<and>
   m_signing_key msg = key_public api key \<and> m_payload msg = Some payload \<and>
   m_content_hash msg = Some (sha256 api payload) \<and> m_content_schema msg = Some schema \<and>
   m_auth_cert msg = cert \<and> m_auth_warrant msg = warrant \<and> m_prev msg = None \<and> m_hlc msg = hlc \<and>
   m_content_type msg = Some ctype \<and>
   (case owner of None \<Rightarrow> m_owner msg = None
    | Some o' \<Rightarrow> \<exists>x. id_new api o' = Inr x \<and> m_owner msg = Some x) \<and>
   m_signature msg = signature_of api key (msg\<lparr>m_signature := placeholder_sig api\<rparr>)"
  by (auto simp: write_message_def res_bind_def map_err_def sign_with_def split: sum.splits option.splits)

section \<open>A concrete instance of the libraries\<close>

text \<open>
  For the theorems that show the hypotheses of a property can hold: keys are their own public keys,
  a wire is its payload, and the daemon accepts everything.
\<close>

definition demo_app :: "(string, string, string) app_api" where
  "demo_app = \<lparr>key_of_bytes = (\<lambda>b. b), key_public = (\<lambda>k. k), placeholder_sig = [],
     signature_of = (\<lambda>k m. k), wire_serialize = (\<lambda>m. case m_payload m of Some p \<Rightarrow> p | None \<Rightarrow> []),
     sha256 = (\<lambda>b. b), path_parse = Inr, id_new = Inr, set_dnssec = (\<lambda>k d p. p),
     send = (\<lambda>log c. Replied 200 []), status_text = (\<lambda>n. show_int (int n)),
     parse_json = (\<lambda>s. Inr (JStr s)), json_text = (\<lambda>v. case v of JStr s \<Rightarrow> s | _ \<Rightarrow> ''{}''),
     hex_encode = (\<lambda>b. b), hex_decode = Inr, key_text_bytes = (\<lambda>k. k),
     with_query = (\<lambda>u q. u @ concat (map (\<lambda>(k, v). ''&'' @ k @ ''='' @ v) q)),
     signed_object = (\<lambda>k p i s t b. b), collection_config = (\<lambda>k p a b c d. p),
     set_trust_brokers = (\<lambda>k bs. concat bs), dnssec_policy_entries = (JNull, JNull),
     jwt_domain = (\<lambda>k d. d), jwt_certified = (\<lambda>k d e p. e), jwt_self = (\<lambda>k n. n),
     hash_text = (\<lambda>h. h), new_client = Inr (), status_error = (\<lambda>n u. u),
     decode_obj = (\<lambda>b. Inr \<lparr>or_value = JObj [], or_owner_ref = None, or_object_hash = [],
       or_confirmed = True\<rparr>)\<rparr>"

end
