(* ===== verification/App_Seed_Plan.thy ===== *)
theory App_Seed_Plan
  imports App_Corpus App_Write "HOL-Library.Product_Lexorder"
begin

text \<open>
  The seeder's plan (\<open>build_plan\<close> in \<open>mingo-app/src/seed.rs\<close>): the ages a corpus is written with, the
  identifiers derived from it, and the list of all writes in the order they are submitted.
\<close>

section \<open>Ages\<close>

definition effective_age_hours :: "f64 \<Rightarrow> f64 \<Rightarrow> bool \<Rightarrow> f64" where
  "effective_age_hours age max_age clamp =
     (if \<not> clamp \<or> max_age \<le> CLAMP_CAP_HOURS \<or> age \<le> CLAMP_KNEE_HOURS then age
      else f64_add CLAMP_KNEE_HOURS
        (f64_div (f64_mul (f64_sub age CLAMP_KNEE_HOURS) (f64_sub CLAMP_CAP_HOURS CLAMP_KNEE_HOURS))
           (f64_sub max_age CLAMP_KNEE_HOURS)))"

definition physical_ms :: "int \<Rightarrow> f64 \<Rightarrow> int" where
  "physical_ms now_ms age_hours = i64_sub now_ms (f64_to_i64 (f64_mul age_hours 3600000))"

definition hlc_at :: "int \<Rightarrow> f64 \<Rightarrow> string" where
  "hlc_at now_ms age_hours = show_int (physical_ms now_ms age_hours) @ ''.0''"

section \<open>Identifiers\<close>

definition b36_digit :: "nat \<Rightarrow> char" where
  "b36_digit n = (if n < 10 then char_of (48 + n) else char_of (87 + n))"

text \<open>The loop pushes the digits from the lowest up and reverses them at the end.\<close>

fun b36_digits :: "nat \<Rightarrow> string" where
  "b36_digits n = (if n = 0 then [] else b36_digit (n mod 36) # b36_digits (n div 36))"

declare b36_digits.simps [simp del]

definition b36 :: "nat \<Rightarrow> string" where
  "b36 n = (if n = 0 then ''0'' else rev (b36_digits n))"

text \<open>\<open>u64::from_be_bytes\<close>.\<close>

definition be_bytes :: "string \<Rightarrow> nat" where
  "be_bytes bs = foldl (\<lambda>n b. 256 * n + byte b) 0 bs"

definition derive_id :: "('sk, 'pk, 'sig) app_api \<Rightarrow> char \<Rightarrow> string \<Rightarrow> string" where
  "derive_id api c key = c # ''-'' @ b36 (be_bytes (take 8 (sha256 api key)))"

section \<open>Plan items\<close>

datatype item_kind = Membership | SeedPost | SeedComment | Reaction | Vouch | Badge

fun item_kind_str :: "item_kind \<Rightarrow> string" where
  "item_kind_str Membership = ''membership''"
| "item_kind_str SeedPost = ''post''"
| "item_kind_str SeedComment = ''comment''"
| "item_kind_str Reaction = ''reaction''"
| "item_kind_str Vouch = ''vouch''"
| "item_kind_str Badge = ''badge''"

record plan_item =
  it_kind :: item_kind
  it_signer :: string
  it_path :: string
  it_id :: string
  it_owner :: string
  it_schema :: string
  it_content_type :: string
  it_payload :: string
  it_hlc :: "string option"
  it_age :: "f64 option"
  it_via_agent :: bool
  it_label :: string

record seed_plan =
  pl_domain :: string
  pl_items :: "plan_item list"
  pl_personas :: "string list"
  pl_communities :: "string list"
  pl_agent_authors :: "string list"
  pl_externals :: "string list"
  pl_external_emails :: "(string \<times> string) list"
  pl_clamped :: bool
  pl_max_age :: f64

text \<open>What the loops of \<open>build_plan\<close> close over.\<close>

record plan_env =
  pn_emails :: "(string \<times> string) list"
  pn_now_ms :: int
  pn_max_age :: f64
  pn_clamp :: bool

definition eff :: "plan_env \<Rightarrow> f64 \<Rightarrow> f64" where
  "eff env age = effective_age_hours age (pn_max_age env) (pn_clamp env)"

definition email_of :: "plan_env \<Rightarrow> string \<Rightarrow> (string, string) res" where
  "email_of env handle = ok_or (map_of (pn_emails env) handle) ''no entry found for key''"

definition now_s :: "plan_env \<Rightarrow> int" where
  "now_s env = i64_quot (pn_now_ms env) 1000"

definition general_space :: "string \<Rightarrow> string" where
  "general_space comm = ''/communities/'' @ comm @ ''/spaces/general/''"

definition post_id :: "('sk, 'pk, 'sig) app_api \<Rightarrow> string \<Rightarrow> post_seed \<Rightarrow> string" where
  "post_id api comm p = derive_id api CHR ''p'' (''post:'' @ comm @ '':'' @ sp_slug p)"

definition post_item ::
  "('sk, 'pk, 'sig) app_api \<Rightarrow> plan_env \<Rightarrow> string \<Rightarrow> post_seed \<Rightarrow> string \<Rightarrow> plan_item" where
  "post_item api env comm p owner =
     (let age = eff env (sp_age p) in
      \<lparr>it_kind = SeedPost, it_signer = sp_author p, it_path = general_space comm,
       it_id = post_id api comm p, it_owner = owner, it_schema = ''post.v1'',
       it_content_type = ''application/json'',
       it_payload = json_text api (mk_obj [(''body'', JStr (sp_body p)), (''parent'', JNull),
         (''created_at'', JNum (physical_ms (pn_now_ms env) age))]),
       it_hlc = Some (hlc_at (pn_now_ms env) age), it_age = Some age, it_via_agent = sp_via_agent p,
       it_label = ''post '' @ comm @ ''/'' @ sp_slug p @ '' by '' @ sp_author p\<rparr>)"

definition comment_item ::
  "('sk, 'pk, 'sig) app_api \<Rightarrow> plan_env \<Rightarrow> string \<Rightarrow> post_seed \<Rightarrow> nat \<Rightarrow> comment_seed \<Rightarrow> string \<Rightarrow>
   plan_item" where
  "comment_item api env comm p i cm owner =
     (let age = eff env (cs_age cm) in
      \<lparr>it_kind = SeedComment, it_signer = cs_author cm, it_path = general_space comm,
       it_id = derive_id api CHR ''c'' (''comment:'' @ comm @ '':'' @ sp_slug p @ '':'' @ show_int (int i)),
       it_owner = owner, it_schema = ''comment.v1'', it_content_type = ''application/json'',
       it_payload = json_text api (mk_obj [(''body'', JStr (cs_body cm)),
         (''parent'', JStr (general_space comm @ post_id api comm p)),
         (''created_at'', JNum (physical_ms (pn_now_ms env) age))]),
       it_hlc = Some (hlc_at (pn_now_ms env) age), it_age = Some age, it_via_agent = cs_via_agent cm,
       it_label = ''comment on '' @ comm @ ''/'' @ sp_slug p @ '' by '' @ cs_author cm\<rparr>)"

definition reaction_item ::
  "('sk, 'pk, 'sig) app_api \<Rightarrow> plan_env \<Rightarrow> string \<Rightarrow> post_seed \<Rightarrow> upvote_seed \<Rightarrow> string \<Rightarrow> plan_item" where
  "reaction_item api env comm p u owner =
     (let age = eff env (up_age u) in
      \<lparr>it_kind = Reaction, it_signer = up_by u, it_path = general_space comm,
       it_id = derive_id api CHR ''r'' (''reaction:'' @ comm @ '':'' @ sp_slug p @ '':'' @ up_by u),
       it_owner = owner, it_schema = ''reaction.v1'', it_content_type = ''application/json'',
       it_payload = json_text api (mk_obj [(''target'', JStr (general_space comm @ post_id api comm p)),
         (''kind'', JStr ''upvote''), (''state'', JBool True)]),
       it_hlc = Some (hlc_at (pn_now_ms env) age), it_age = Some age, it_via_agent = False,
       it_label = ''upvote on '' @ comm @ ''/'' @ sp_slug p @ '' by '' @ up_by u\<rparr>)"

text \<open>The payload of an attestation, and its place in the issuer's namespace.\<close>

definition attestation_json :: "string \<Rightarrow> string \<Rightarrow> json \<Rightarrow> int \<Rightarrow> string \<Rightarrow> json" where
  "attestation_json subject typ v issued_at issuer = mk_obj
     [(''subject'', JStr subject), (''type'', JStr typ), (''value'', v), (''issued_at'', JNum issued_at),
      (''expires'', JNull), (''issuer'', JStr issuer)]"

definition attestations_path :: "string \<Rightarrow> string \<Rightarrow> string" where
  "attestations_path issuer subject = ''/u/'' @ issuer @ ''/attestations/'' @ subject @ ''/''"

definition membership_item ::
  "('sk, 'pk, 'sig) app_api \<Rightarrow> plan_env \<Rightarrow> (string \<times> string) \<times> f64 \<Rightarrow> (string, plan_item) res" where
  "membership_item api env = (\<lambda>((comm, handle), oldest_age).
     res_bind (email_of env handle) (\<lambda>addr. Inr
      \<lparr>it_kind = Membership, it_signer = handle, it_path = attestations_path addr addr,
       it_id = ''membership-'' @ comm, it_owner = addr, it_schema = ''attestation.v1'',
       it_content_type = ''application/json'',
       it_payload = json_text api (attestation_json addr (''membership:'' @ comm)
         (mk_obj [(''community'', JStr comm), (''via'', JStr ''mingo-seed'')])
         (i64_sub (now_s env) (f64_to_i64 (f64_mul (f64_add oldest_age (1 / 2)) 3600))) addr),
       it_hlc = None, it_age = None, it_via_agent = False,
       it_label = ''membership '' @ handle @ arrow @ comm\<rparr>))"

definition attestation_item ::
  "('sk, 'pk, 'sig) app_api \<Rightarrow> plan_env \<Rightarrow> item_kind \<Rightarrow> string \<Rightarrow> string \<Rightarrow> string \<Rightarrow> string \<Rightarrow> f64 \<Rightarrow>
   string \<Rightarrow> (string, plan_item) res" where
  "attestation_item api env kind from' to' typ i age label =
     res_bind (email_of env from') (\<lambda>issuer.
     res_bind (email_of env to') (\<lambda>subject. Inr
      \<lparr>it_kind = kind, it_signer = from', it_path = attestations_path issuer subject, it_id = i,
       it_owner = issuer, it_schema = ''attestation.v1'', it_content_type = ''application/json'',
       it_payload = json_text api (attestation_json subject typ (mk_obj [(''via'', JStr ''mingo-seed'')])
         (i64_sub (now_s env) (f64_to_i64 (f64_mul age 3600))) issuer),
       it_hlc = None, it_age = None, it_via_agent = False, it_label = label\<rparr>))"

section \<open>The loops over the corpus\<close>

record plan_acc =
  pa_posts :: "plan_item list"
  pa_comments :: "plan_item list"
  pa_reactions :: "plan_item list"
  pa_participants :: "((string \<times> string) \<times> f64) list"
  pa_agent_authors :: "string list"

definition note_part :: "string \<Rightarrow> string \<Rightarrow> f64 \<Rightarrow> plan_acc \<Rightarrow> plan_acc" where
  "note_part comm handle age acc =
     (let e = (case map_of (pa_participants acc) (comm, handle) of None \<Rightarrow> age | Some x \<Rightarrow> x) in
      acc\<lparr>pa_participants := obj_insert (comm, handle) (max e age) (pa_participants acc)\<rparr>)"

definition note_agent :: "bool \<Rightarrow> string \<Rightarrow> plan_acc \<Rightarrow> plan_acc" where
  "note_agent via author acc =
     (if via then acc\<lparr>pa_agent_authors := insort_insert author (pa_agent_authors acc)\<rparr> else acc)"

definition add_comment ::
  "('sk, 'pk, 'sig) app_api \<Rightarrow> plan_env \<Rightarrow> string \<Rightarrow> post_seed \<Rightarrow> nat \<times> plan_acc \<Rightarrow> comment_seed \<Rightarrow>
   (string, nat \<times> plan_acc) res" where
  "add_comment api env comm p = (\<lambda>(i, acc) cm.
     let acc1 = note_agent (cs_via_agent cm) (cs_author cm) (note_part comm (cs_author cm) (cs_age cm) acc) in
     res_bind (email_of env (cs_author cm)) (\<lambda>owner.
     Inr (i + 1, acc1\<lparr>pa_comments := pa_comments acc1 @ [comment_item api env comm p i cm owner]\<rparr>)))"

definition add_upvote ::
  "('sk, 'pk, 'sig) app_api \<Rightarrow> plan_env \<Rightarrow> string \<Rightarrow> post_seed \<Rightarrow> plan_acc \<Rightarrow> upvote_seed \<Rightarrow>
   (string, plan_acc) res" where
  "add_upvote api env comm p acc u =
     (let acc1 = note_part comm (up_by u) (up_age u) acc in
      res_bind (email_of env (up_by u)) (\<lambda>owner.
      Inr (acc1\<lparr>pa_reactions := pa_reactions acc1 @ [reaction_item api env comm p u owner]\<rparr>)))"

definition add_post ::
  "('sk, 'pk, 'sig) app_api \<Rightarrow> plan_env \<Rightarrow> string \<Rightarrow> plan_acc \<Rightarrow> post_seed \<Rightarrow> (string, plan_acc) res" where
  "add_post api env comm acc p =
     (let acc1 = note_agent (sp_via_agent p) (sp_author p) (note_part comm (sp_author p) (sp_age p) acc) in
      res_bind (email_of env (sp_author p)) (\<lambda>owner.
      let acc2 = acc1\<lparr>pa_posts := pa_posts acc1 @ [post_item api env comm p owner]\<rparr> in
      res_bind (res_fold (add_comment api env comm p) (0, acc2) (sp_comments p)) (\<lambda>(_, acc3).
      res_fold (add_upvote api env comm p) acc3 (sp_upvotes p))))"

definition add_community ::
  "('sk, 'pk, 'sig) app_api \<Rightarrow> plan_env \<Rightarrow> plan_acc \<Rightarrow> community_seed \<Rightarrow> (string, plan_acc) res" where
  "add_community api env acc c = res_fold (add_post api env (co_id c)) acc (co_posts c)"

definition empty_acc :: plan_acc where
  "empty_acc = \<lparr>pa_posts = [], pa_comments = [], pa_reactions = [], pa_participants = [],
     pa_agent_authors = []\<rparr>"

text \<open>A loop that pushes one result per element.\<close>

fun res_map :: "('a \<Rightarrow> ('e, 'b) res) \<Rightarrow> 'a list \<Rightarrow> ('e, 'b list) res" where
  "res_map f [] = Inr []"
| "res_map f (x # xs) = res_bind (f x) (\<lambda>y. res_bind (res_map f xs) (\<lambda>ys. Inr (y # ys)))"

definition vouch_item ::
  "('sk, 'pk, 'sig) app_api \<Rightarrow> plan_env \<Rightarrow> vouch_seed \<Rightarrow> (string, plan_item) res" where
  "vouch_item api env v =
     attestation_item api env Vouch (vo_from v) (vo_to v) ''vouch'' ''vouch'' (vo_age v)
       (''vouch '' @ vo_from v @ arrow @ vo_to v)"

definition badge_item ::
  "('sk, 'pk, 'sig) app_api \<Rightarrow> plan_env \<Rightarrow> badge_seed \<Rightarrow> (string, plan_item) res" where
  "badge_item api env b =
     attestation_item api env Badge (ba_from b) (ba_to b) (''badge:'' @ ba_type b) (ba_type b) (ba_age b)
       (''badge '' @ ba_type b @ '' '' @ ba_from b @ arrow @ ba_to b)"

text \<open>\<open>sort_by\<close> on descending ages is stable, as \<open>sort_key\<close> is.\<close>

definition oldest_first :: "plan_item list \<Rightarrow> plan_item list" where
  "oldest_first = sort_key (\<lambda>i. - (case it_age i of Some a \<Rightarrow> a | None \<Rightarrow> 0))"

definition plan_env_of :: "corpus \<Rightarrow> string \<Rightarrow> int \<Rightarrow> bool \<Rightarrow> plan_env" where
  "plan_env_of c dmn now_ms clamp =
     \<lparr>pn_emails = fold (\<lambda>p. obj_insert (pe_handle p) (identity_email p dmn)) (personas c) [],
      pn_now_ms = now_ms, pn_max_age = corpus_max_age c, pn_clamp = clamp\<rparr>"

definition external_pairs :: "corpus \<Rightarrow> (string \<times> string) list" where
  "external_pairs c =
     List.map_filter (\<lambda>p. map_option (\<lambda>e. (pe_handle p, e)) (pe_external_email p)) (personas c)"

definition build_plan ::
  "('sk, 'pk, 'sig) app_api \<Rightarrow> corpus \<Rightarrow> string \<Rightarrow> int \<Rightarrow> bool \<Rightarrow> (string, seed_plan) res" where
  "build_plan api c dmn now_ms clamp =
     (let env = plan_env_of c dmn now_ms clamp in
      res_bind (res_fold (add_community api env) empty_acc (communities c)) (\<lambda>acc.
      res_bind (res_map (membership_item api env) (pa_participants acc)) (\<lambda>memberships.
      res_bind (res_map (vouch_item api env) (vouches c)) (\<lambda>vs.
      res_bind (res_map (badge_item api env) (badges c)) (\<lambda>bs.
      Inr \<lparr>pl_domain = dmn,
           pl_items = memberships @ oldest_first (pa_posts acc) @ oldest_first (pa_comments acc) @
             oldest_first (pa_reactions acc) @ vs @ bs,
           pl_personas = map pe_handle (personas c),
           pl_communities = map co_id (communities c),
           pl_agent_authors = pa_agent_authors acc,
           pl_externals = map pe_handle (filter (\<lambda>p. pe_external_email p \<noteq> None) (personas c)),
           pl_external_emails = fold (\<lambda>(h, e). obj_insert h e) (external_pairs c) [],
           pl_clamped = (clamp \<and> CLAMP_CAP_HOURS < corpus_max_age c),
           pl_max_age = corpus_max_age c\<rparr>)))))"

end
