(* ===== verification/App_Policy.thy ===== *)
theory App_Policy
  imports App_Write
begin

text \<open>
  What the two editors of the live root policy share: where the policy is, the part of a policy an
  editor must not touch, and the contract of such an edit.
\<close>

definition ROOT_PATH :: string where
  "ROOT_PATH = ''/sys/policies/''"

definition ROOT_ID :: string where
  "ROOT_ID = ''root''"

definition object_url :: "string \<Rightarrow> string" where
  "object_url daemon = trim_end_matches CHR ''/'' daemon @ ''/v1/object''"

definition submit_url :: "string \<Rightarrow> string" where
  "submit_url daemon = trim_end_matches CHR ''/'' daemon @ ''/v1/submit''"

text \<open>\<open>policy.get(key).and_then(Value::as_array).cloned().unwrap_or_default()\<close>\<close>

definition entries :: "string \<Rightarrow> json \<Rightarrow> json list" where
  "entries key v = (case Option.bind (jget key v) as_arr of None \<Rightarrow> [] | Some xs \<Rightarrow> xs)"

lemma entries_JObj: "entries k (JObj kvs) = (case map_of kvs k of Some (JArr xs) \<Rightarrow> xs | _ \<Rightarrow> [])"
  by (auto simp: entries_def split: option.split json.split)

section \<open>The contract of an edit\<close>

text \<open>
  \<open>rest\<close> is the part of a policy an edit leaves alone, and \<open>ok\<close> the policies it is meant for.
\<close>

locale policy_edit =
  fixes edit :: "json \<Rightarrow> 'l \<Rightarrow> (string, json) res"
    and rest :: "json \<Rightarrow> json"
    and ok :: "json \<Rightarrow> bool"
  assumes edit_rest: "edit p l = Inr q \<Longrightarrow> ok p \<Longrightarrow> rest q = rest p"
    and edit_ok: "edit p l = Inr q \<Longrightarrow> ok p \<Longrightarrow> ok q"
    and edit_again: "edit p l = Inr q \<Longrightarrow> ok p \<Longrightarrow> edit q l = Inr q"
begin

fun edits :: "json \<Rightarrow> 'l list \<Rightarrow> (string, json) res" where
  "edits p [] = Inr p"
| "edits p (l # ls) = res_bind (edit p l) (\<lambda>q. edits q ls)"

lemma edits_rest: "edits p ls = Inr q \<Longrightarrow> ok p \<Longrightarrow> rest q = rest p \<and> ok q"
proof (induction ls arbitrary: p)
  case (Cons l ls)
  then obtain p' where p': "edit p l = Inr p'" "edits p' ls = Inr q"
    by (auto simp: res_bind_def split: sum.splits)
  then show ?case using Cons edit_rest [OF p'(1)] edit_ok [OF p'(1)] by simp
qed simp

lemma edits_repeated: "edit p l = Inr q \<Longrightarrow> ok p \<Longrightarrow> edits q (replicate n l) = Inr q"
proof (induction n)
  case (Suc n)
  then show ?case using edit_again [OF Suc.prems] by (simp add: res_bind_def)
qed simp

end

end
