(* ===== verification/App_Genesis.thy ===== *)
theory App_Genesis
  imports App_Policy
begin

text \<open>
  The Mingo genesis (\<open>mingo-app/src/genesis.rs\<close>): the community descriptor, the two community
  policies, and the batch that starts the chain.

  A batch is kept as the list of its writes, whose bytes \<open>emit\<close> gives, so that its order can be
  spoken of.  A path or an id that does not parse is a panic of the source (\<open>unwrap\<close>), an error
  here.
\<close>

datatype ('sk, 'pk, 'sig) genesis_write =
    Signed "('pk, 'sig) message"
  | SignedObject 'sk string string string string string
  | CollectionConfig 'sk string bool "int option" "int option" "string option"
  | TrustBrokers 'sk "string list"

fun emit :: "('sk, 'pk, 'sig) app_api \<Rightarrow> ('sk, 'pk, 'sig) genesis_write \<Rightarrow> string" where
  "emit api (Signed msg) = wire_serialize api msg"
| "emit api (SignedObject key path i schema ctype payload) =
     signed_object api key path i schema ctype payload"
| "emit api (CollectionConfig key path a b c d) = collection_config api key path a b c d"
| "emit api (TrustBrokers key brokers) = set_trust_brokers api key brokers"

definition emit_all :: "('sk, 'pk, 'sig) app_api \<Rightarrow> ('sk, 'pk, 'sig) genesis_write list \<Rightarrow> string" where
  "emit_all api ws = concat (map (emit api) ws)"

section \<open>Communities\<close>

definition community_path :: "string \<Rightarrow> string" where
  "community_path i = ''/communities/'' @ i @ ''/''"

definition spaces_glob :: "string \<Rightarrow> string" where
  "spaces_glob i = ''/communities/'' @ i @ ''/spaces/**''"

definition community_payload ::
  "string \<Rightarrow> string \<Rightarrow> string \<Rightarrow> string option \<Rightarrow> bool \<Rightarrow> int option \<Rightarrow> json" where
  "community_payload name issuer policy description opened created_at = mk_obj
     [(''name'', JStr name), (''issuer'', JStr issuer), (''policy'', JStr policy),
      (''description'', opt_str description), (''open'', JBool opened),
      (''created_at'', case created_at of None \<Rightarrow> JNull | Some t \<Rightarrow> JNum t)]"

definition community ::
  "('sk, 'pk, 'sig) app_api \<Rightarrow> 'sk \<Rightarrow> string \<Rightarrow> string \<Rightarrow> string \<Rightarrow> string \<Rightarrow> string option \<Rightarrow> bool \<Rightarrow>
   int option \<Rightarrow> ('sk, 'pk, 'sig) genesis_write" where
  "community api key i name issuer policy description opened created_at =
     SignedObject key (community_path i) ''community'' ''community.v1'' ''application/json''
       (json_text api (community_payload name issuer policy description opened created_at))"

definition attested_by :: "string \<Rightarrow> string \<Rightarrow> json" where
  "attested_by typ issuer = mk_obj [(''type'', JStr typ), (''by'', JStr issuer)]"

definition ban_restriction :: "string \<Rightarrow> string \<Rightarrow> json" where
  "ban_restriction i issuer =
     mk_obj [(''on'', JStr (spaces_glob i)),
       (''require'', mk_obj [(''not_attested'', attested_by ''ban'' issuer)])]"

definition grant :: "json \<Rightarrow> string list \<Rightarrow> string \<Rightarrow> json" where
  "grant whom actions where' = mk_obj [(''to'', whom), (''can'', JArr (map JStr actions)), (''on'', JStr where')]"

definition to_role :: "string \<Rightarrow> json" where
  "to_role r = mk_obj [(''role'', JStr r)]"

definition to_key :: "string \<Rightarrow> json" where
  "to_key k = mk_obj [(''key'', JStr k)]"

definition community_policy_payload :: "string \<Rightarrow> string \<Rightarrow> json" where
  "community_policy_payload i issuer = mk_obj
     [(''roles'', mk_obj [(''member'', JArr [mk_obj [(''attested'', attested_by ''membership'' issuer)]])]),
      (''grants'', JArr [grant (to_role ''member'') [''post''] (spaces_glob i)]),
      (''restrictions'', JArr [ban_restriction i issuer])]"

definition community_policy ::
  "('sk, 'pk, 'sig) app_api \<Rightarrow> 'sk \<Rightarrow> string \<Rightarrow> string \<Rightarrow> ('sk, 'pk, 'sig) genesis_write" where
  "community_policy api key i issuer =
     SignedObject key (community_path i) ''root'' ''policy.v2'' ''application/json''
       (json_text api (community_policy_payload i issuer))"

definition community_policy_open_payload :: "string \<Rightarrow> string \<Rightarrow> string \<Rightarrow> json" where
  "community_policy_open_payload sys_pubkey i issuer = mk_obj
     [(''roles'', mk_obj
        [(''member'', JArr [mk_obj [(''attested'', mk_obj [(''type'', JStr (''membership:'' @ i))])]]),
         (''moderator'', JArr [mk_obj [(''attested'', attested_by (''role:moderator:'' @ i) issuer)]])]),
      (''grants'', JArr
        [grant (to_role ''member'') [''create''] (spaces_glob i),
         grant (JStr ''owner'') [''update''] (spaces_glob i),
         grant (to_role ''moderator'') [''delete''] (spaces_glob i),
         grant (to_key sys_pubkey) [''delete''] (''/communities/'' @ i @ ''/**'')]),
      (''restrictions'', JArr [ban_restriction i issuer])]"

definition community_policy_open ::
  "('sk, 'pk, 'sig) app_api \<Rightarrow> 'sk \<Rightarrow> string \<Rightarrow> string \<Rightarrow> ('sk, 'pk, 'sig) genesis_write" where
  "community_policy_open api key i issuer =
     SignedObject key (community_path i) ''root'' ''policy.v2'' ''application/json''
       (json_text api (community_policy_open_payload (key_string api key) i issuer))"

record mingo_community =
  mc_id :: string
  mc_name :: string
  mc_description :: string
  mc_issuer :: string

section \<open>The batch\<close>

text \<open>One message of the batch, signed.\<close>

definition genesis_message ::
  "('sk, 'pk, 'sig) app_api \<Rightarrow> 'sk \<Rightarrow> string \<Rightarrow> string \<Rightarrow> string \<Rightarrow> string \<Rightarrow> string \<Rightarrow> string option \<Rightarrow>
   (string, ('sk, 'pk, 'sig) genesis_write) res" where
  "genesis_message api key path i ctype payload schema evidence =
     res_bind (path_parse api path) (\<lambda>p.
     res_bind (id_new api i) (\<lambda>n.
     Inr (Signed (sign_with api key \<lparr>m_action = Post, m_path = p, m_id = n,
       m_signing_key = key_public api key, m_signature = placeholder_sig api,
       m_content_type = Some ctype, m_content_hash = Some (sha256 api payload),
       m_payload = Some payload, m_owner = None, m_creator = None, m_content_encoding = None,
       m_content_schema = Some schema, m_policy_ref = None, m_related = None, m_hlc = None,
       m_prev = None, m_auth_cert = None, m_auth_evidence = evidence, m_auth_warrant = None\<rparr>))))"

definition dnssec_message ::
  "('sk, 'pk, 'sig) app_api \<Rightarrow> 'sk \<Rightarrow> string \<Rightarrow> string \<Rightarrow> (string, ('sk, 'pk, 'sig) genesis_write) res"
where
  "dnssec_message api domain_key domain_name evidence =
     genesis_message api domain_key ''/sys/dnssec/'' domain_name ''application/octet-stream'' evidence
       ''dnssec.v1'' None"

definition domain_message ::
  "('sk, 'pk, 'sig) app_api \<Rightarrow> 'sk \<Rightarrow> string \<Rightarrow> string option \<Rightarrow>
   (string, ('sk, 'pk, 'sig) genesis_write) res" where
  "domain_message api domain_key domain_name evidence =
     genesis_message api domain_key ''/sys/domains/'' domain_name ''application/jwt''
       (jwt_domain api domain_key domain_name) ''domain.v1''
       (map_option (\<lambda>_. ''ref:/sys/dnssec/'' @ domain_name) evidence)"

definition sys_message ::
  "('sk, 'pk, 'sig) app_api \<Rightarrow> 'sk \<Rightarrow> 'sk \<Rightarrow> string \<Rightarrow> (string, ('sk, 'pk, 'sig) genesis_write) res" where
  "sys_message api domain_key sys_key domain_name =
     genesis_message api sys_key ''/sys/names/'' ''sys'' ''application/jwt''
       (jwt_certified api domain_key domain_name (''sys@'' @ domain_name) (key_public api sys_key))
       ''identity.v1'' None"

definition checkpointer_message ::
  "('sk, 'pk, 'sig) app_api \<Rightarrow> 'sk \<Rightarrow> (string, ('sk, 'pk, 'sig) genesis_write) res" where
  "checkpointer_message api checkpoint_key =
     genesis_message api checkpoint_key ''/sys/names/'' ''sys-checkpointer'' ''application/jwt''
       (jwt_self api checkpoint_key ''sys-checkpointer'') ''identity.v1'' None"

definition community_writes ::
  "('sk, 'pk, 'sig) app_api \<Rightarrow> 'sk \<Rightarrow> int option \<Rightarrow> mingo_community \<Rightarrow>
   ('sk, 'pk, 'sig) genesis_write list" where
  "community_writes api sys_key created_at c =
     [community api sys_key (mc_id c) (mc_name c) (mc_issuer c) (community_path (mc_id c))
        (Some (mc_description c)) True created_at,
      community_policy_open api sys_key (mc_id c) (mc_issuer c),
      CollectionConfig sys_key (''/communities/'' @ mc_id c @ ''/spaces/general/'') True (Some 5)
        (Some (24 * 60 * 60)) (Some ''post.v1'')]"

definition root_policy_payload :: "json \<times> json \<Rightarrow> string \<Rightarrow> string \<Rightarrow> json" where
  "root_policy_payload dnssec sys_pubkey checkpoint_pubkey = mk_obj
     [(''roles'', mk_obj [(''admin'', JArr [to_key sys_pubkey])]),
      (''grants'', JArr
        [grant (JStr ''*'') [''create''] ''/sys/names/*'',
         grant (JStr ''owner'') [''update'', ''delete''] ''/sys/names/*'',
         grant (JStr ''owner'') [''*''] ''/u/$owner/**'',
         fst dnssec,
         grant (to_key checkpoint_pubkey) [''create''] ''/sys/checkpoints/**'',
         grant (to_role ''admin'') [''post'', ''transfer'', ''delete'', ''govern''] ''/**'']),
      (''restrictions'', JArr
        [mk_obj [(''on'', JStr ''/communities/*/spaces/**''),
           (''require'', mk_obj [(''not_attested'', mk_obj [(''type'', JStr ''ban'')])])],
         snd dnssec])]"

definition root_policy_message ::
  "('sk, 'pk, 'sig) app_api \<Rightarrow> 'sk \<Rightarrow> 'sk \<Rightarrow> (string, ('sk, 'pk, 'sig) genesis_write) res" where
  "root_policy_message api sys_key checkpoint_key =
     genesis_message api sys_key ''/sys/policies/'' ''root'' ''application/json''
       (json_text api (root_policy_payload (dnssec_policy_entries api) (key_string api sys_key)
         (key_string api checkpoint_key))) ''policy.v2'' None"

definition genesis_writes ::
  "('sk, 'pk, 'sig) app_api \<Rightarrow> 'sk \<Rightarrow> 'sk \<Rightarrow> 'sk \<Rightarrow> string \<Rightarrow> string \<Rightarrow> mingo_community list \<Rightarrow>
   int option \<Rightarrow> string option \<Rightarrow> (string, ('sk, 'pk, 'sig) genesis_write list) res" where
  "genesis_writes api domain_key sys_key checkpoint_key domain_name broker communities created_at evidence =
     res_bind (case evidence of None \<Rightarrow> Inr []
       | Some e \<Rightarrow> res_bind (dnssec_message api domain_key domain_name e) (\<lambda>m. Inr [m])) (\<lambda>ev.
     res_bind (domain_message api domain_key domain_name evidence) (\<lambda>dm.
     res_bind (sys_message api domain_key sys_key domain_name) (\<lambda>sm.
     res_bind (checkpointer_message api checkpoint_key) (\<lambda>cm.
     let brokers = TrustBrokers sys_key [broker];
         cs = concat (map (community_writes api sys_key created_at) communities) in
     res_bind (root_policy_message api sys_key checkpoint_key) (\<lambda>pm.
     Inr (ev @ [dm, sm, cm, brokers] @ cs @ [pm]))))))"

definition mingo_genesis ::
  "('sk, 'pk, 'sig) app_api \<Rightarrow> 'sk \<Rightarrow> 'sk \<Rightarrow> 'sk \<Rightarrow> string \<Rightarrow> string \<Rightarrow> mingo_community list \<Rightarrow>
   int option \<Rightarrow> string option \<Rightarrow> (string, string) res" where
  "mingo_genesis api domain_key sys_key checkpoint_key domain_name broker communities created_at evidence =
     res_bind (genesis_writes api domain_key sys_key checkpoint_key domain_name broker communities
       created_at evidence) (\<lambda>ws. Inr (emit_all api ws))"

section \<open>What the writes are\<close>

fun write_kind :: "('sk, 'pk, 'sig) genesis_write \<Rightarrow> string" where
  "write_kind (Signed msg) = (case m_content_schema msg of Some s \<Rightarrow> s | None \<Rightarrow> [])"
| "write_kind (SignedObject _ _ _ schema _ _) = schema"
| "write_kind (CollectionConfig _ _ _ _ _ _) = ''collection''"
| "write_kind (TrustBrokers _ _) = ''brokers''"

text \<open>A message is signed by its key, over its own fields, and its hash is of its payload.\<close>

definition well_signed :: "('sk, 'pk, 'sig) app_api \<Rightarrow> 'sk \<Rightarrow> ('pk, 'sig) message \<Rightarrow> bool" where
  "well_signed api key msg \<longleftrightarrow>
     m_signing_key msg = key_public api key \<and>
     m_signature msg = signature_of api key (msg\<lparr>m_signature := placeholder_sig api\<rparr>) \<and>
     m_content_hash msg = map_option (sha256 api) (m_payload msg)"

lemma genesis_message_Inr:
  "genesis_message api key path i ctype payload schema ev = Inr w \<Longrightarrow>
   \<exists>msg. w = Signed msg \<and> well_signed api key msg \<and> path_parse api path = Inr (m_path msg) \<and>
     id_new api i = Inr (m_id msg) \<and> m_payload msg = Some payload \<and>
     m_content_schema msg = Some schema \<and> m_auth_evidence msg = ev \<and> m_owner msg = None"
  by (auto simp: genesis_message_def res_bind_def well_signed_def sign_with_def split: sum.splits)

lemma genesis_message_kind:
  "genesis_message api key path i ctype payload schema ev = Inr w \<Longrightarrow> write_kind w = schema"
  using genesis_message_Inr by fastforce

lemma genesis_writes_parts:
  assumes "genesis_writes api dk sk ck dmn broker cs created ev = Inr ws"
  obtains evs dm sm cm pm where
    "case ev of None \<Rightarrow> evs = [] | Some e \<Rightarrow> \<exists>m. dnssec_message api dk dmn e = Inr m \<and> evs = [m]"
    "domain_message api dk dmn ev = Inr dm" "sys_message api dk sk dmn = Inr sm"
    "checkpointer_message api ck = Inr cm" "root_policy_message api sk ck = Inr pm"
    "ws = evs @ [dm, sm, cm, TrustBrokers sk [broker]] @
       concat (map (community_writes api sk created) cs) @ [pm]"
  using assms unfolding genesis_writes_def
  by (auto simp: res_bind_def Let_def split: sum.splits option.splits)

lemma community_writes_kinds:
  "map write_kind (concat (map (community_writes api sk created) cs)) =
   concat (map (\<lambda>_. [''community.v1'', ''policy.v2'', ''collection'']) cs)"
  by (induction cs) (simp_all add: community_writes_def community_def community_policy_open_def)

lemma genesis_writes_kinds:
  assumes "genesis_writes api dk sk ck dmn broker cs created ev = Inr ws"
  shows "map write_kind ws = (if ev = None then [] else [''dnssec.v1'']) @
      [''domain.v1'', ''identity.v1'', ''identity.v1'', ''brokers''] @
      concat (map (\<lambda>_. [''community.v1'', ''policy.v2'', ''collection'']) cs) @ [''policy.v2'']"
  using assms
proof (rule genesis_writes_parts)
  fix evs dm sm cm pm
  assume e: "case ev of None \<Rightarrow> evs = [] | Some e \<Rightarrow> \<exists>m. dnssec_message api dk dmn e = Inr m \<and> evs = [m]"
    and "domain_message api dk dmn ev = Inr dm" "sys_message api dk sk dmn = Inr sm"
    "checkpointer_message api ck = Inr cm" "root_policy_message api sk ck = Inr pm"
    and ws: "ws = evs @ [dm, sm, cm, TrustBrokers sk [broker]] @
       concat (map (community_writes api sk created) cs) @ [pm]"
  then have "write_kind dm = ''domain.v1''" "write_kind sm = ''identity.v1''"
    "write_kind cm = ''identity.v1''" "write_kind pm = ''policy.v2''"
    by (auto simp: domain_message_def sys_message_def checkpointer_message_def root_policy_message_def
        dest: genesis_message_kind)
  moreover have "map write_kind evs = (if ev = None then [] else [''dnssec.v1''])"
    using e genesis_message_kind by (cases ev) (auto simp: dnssec_message_def)
  ultimately show ?thesis unfolding ws map_append community_writes_kinds by simp
qed

lemma community_writes_unsigned:
  "Signed msg \<notin> set (concat (map (community_writes api sk created) cs))"
  by (auto simp: community_writes_def community_def community_policy_open_def)

text \<open>Where the signed messages of the batch are written.\<close>

lemma genesis_writes_signed:
  assumes "genesis_writes api dk sk ck dmn broker cs created ev = Inr ws"
    and "Signed msg \<in> set (butlast ws)"
  shows "\<exists>path\<in>{''/sys/dnssec/'', ''/sys/domains/'', ''/sys/names/''}. path_parse api path = Inr (m_path msg)"
  using assms(1)
proof (rule genesis_writes_parts)
  fix evs dm sm cm pm
  assume e: "case ev of None \<Rightarrow> evs = [] | Some e \<Rightarrow> \<exists>m. dnssec_message api dk dmn e = Inr m \<and> evs = [m]"
    and w: "domain_message api dk dmn ev = Inr dm" "sys_message api dk sk dmn = Inr sm"
    "checkpointer_message api ck = Inr cm"
    and ws: "ws = evs @ [dm, sm, cm, TrustBrokers sk [broker]] @
       concat (map (community_writes api sk created) cs) @ [pm]"
  have evm: "path_parse api ''/sys/dnssec/'' = Inr (m_path msg)" if "Signed msg \<in> set evs"
    using e that genesis_message_Inr [of api dk "''/sys/dnssec/''"]
    by (cases ev) (fastforce simp: dnssec_message_def)+
  have "Signed msg \<in> set evs \<or> Signed msg = dm \<or> Signed msg = sm \<or> Signed msg = cm"
    using assms(2) community_writes_unsigned [of msg api sk created cs]
    by (auto simp: ws butlast_append)
  moreover have "path_parse api ''/sys/domains/'' = Inr (m_path msg)" if "Signed msg = dm"
    using w(1) that by (auto simp: domain_message_def dest: genesis_message_Inr)
  moreover have "path_parse api ''/sys/names/'' = Inr (m_path msg)" if "Signed msg = sm \<or> Signed msg = cm"
    using w(2,3) that by (auto simp: sys_message_def checkpointer_message_def dest: genesis_message_Inr)
  ultimately show ?thesis using evm by blast
qed

lemma genesis_writes_objects:
  assumes "genesis_writes api dk sk ck dmn broker cs created ev = Inr ws"
    and "SignedObject key path i schema ctype payload \<in> set ws"
  shows "key = sk \<and> (\<exists>c\<in>set cs. path = community_path (mc_id c))"
  using assms(1)
proof (rule genesis_writes_parts)
  fix evs dm sm cm pm
  assume e: "case ev of None \<Rightarrow> evs = [] | Some e \<Rightarrow> \<exists>m. dnssec_message api dk dmn e = Inr m \<and> evs = [m]"
    and w: "domain_message api dk dmn ev = Inr dm" "sys_message api dk sk dmn = Inr sm"
    "checkpointer_message api ck = Inr cm" "root_policy_message api sk ck = Inr pm"
    and ws: "ws = evs @ [dm, sm, cm, TrustBrokers sk [broker]] @
       concat (map (community_writes api sk created) cs) @ [pm]"
  have "SignedObject key path i schema ctype payload \<notin> set evs \<union> {dm, sm, cm, pm}"
    using e w by (cases ev) (auto simp: dnssec_message_def domain_message_def sys_message_def
        checkpointer_message_def root_policy_message_def dest: genesis_message_Inr)
  then have "SignedObject key path i schema ctype payload \<in> set (concat (map (community_writes api sk created) cs))"
    using assms(2) by (auto simp: ws)
  then show ?thesis by (auto simp: community_writes_def community_def community_policy_open_def)
qed

lemma genesis_writes_ends:
  assumes "genesis_writes api dk sk ck dmn broker cs created ev = Inr ws"
  shows "(\<exists>root. last ws = Signed root \<and> well_signed api sk root \<and>
      path_parse api ''/sys/policies/'' = Inr (m_path root) \<and> id_new api ''root'' = Inr (m_id root) \<and>
      m_payload root = Some (json_text api (root_policy_payload (dnssec_policy_entries api)
        (key_string api sk) (key_string api ck)))) \<and>
    (\<exists>dm. Signed dm \<in> set ws \<and> m_content_schema dm = Some ''domain.v1'' \<and> well_signed api dk dm \<and>
      m_auth_evidence dm = map_option (\<lambda>_. ''ref:/sys/dnssec/'' @ dmn) ev)"
  using assms
proof (rule genesis_writes_parts)
  fix evs dm sm cm pm
  assume d: "domain_message api dk dmn ev = Inr dm" and p: "root_policy_message api sk ck = Inr pm"
    and ws: "ws = evs @ [dm, sm, cm, TrustBrokers sk [broker]] @
       concat (map (community_writes api sk created) cs) @ [pm]"
  show ?thesis
    using genesis_message_Inr [OF d [unfolded domain_message_def]]
      genesis_message_Inr [OF p [unfolded root_policy_message_def]]
    by (auto simp: ws)
qed

section \<open>Properties\<close>

text \<open>C19: The genesis batch is, in this order: the DNSSEC proof when there is one, the domain, the
  two identities, the brokers, for each community its descriptor, its policy and the configuration
  of its space, and last the root policy, which is the only write at \<open>/sys/policies/\<close>.  The domain
  refers to the proof exactly when there is one, and the root policy is signed by the sys key.\<close>
theorem genesis_batch_order:
  assumes "genesis_writes api dk sk ck dmn broker cs created ev = Inr ws"
  shows "mingo_genesis api dk sk ck dmn broker cs created ev = Inr (emit_all api ws) \<and>
    map write_kind ws = (if ev = None then [] else [''dnssec.v1'']) @
      [''domain.v1'', ''identity.v1'', ''identity.v1'', ''brokers''] @
      concat (map (\<lambda>_. [''community.v1'', ''policy.v2'', ''collection'']) cs) @ [''policy.v2''] \<and>
    (\<exists>root. last ws = Signed root \<and> well_signed api sk root \<and>
      path_parse api ''/sys/policies/'' = Inr (m_path root) \<and> id_new api ''root'' = Inr (m_id root) \<and>
      m_payload root = Some (json_text api (root_policy_payload (dnssec_policy_entries api)
        (key_string api sk) (key_string api ck)))) \<and>
    (\<forall>msg. Signed msg \<in> set (butlast ws) \<longrightarrow>
      (\<exists>path\<in>{''/sys/dnssec/'', ''/sys/domains/'', ''/sys/names/''}. path_parse api path = Inr (m_path msg))) \<and>
    (\<forall>key path i schema ctype payload. SignedObject key path i schema ctype payload \<in> set ws \<longrightarrow>
      key = sk \<and> (\<exists>c\<in>set cs. path = community_path (mc_id c))) \<and>
    (\<exists>dm. Signed dm \<in> set ws \<and> m_content_schema dm = Some ''domain.v1'' \<and> well_signed api dk dm \<and>
      m_auth_evidence dm = map_option (\<lambda>_. ''ref:/sys/dnssec/'' @ dmn) ev)"
  using assms genesis_writes_kinds [OF assms] genesis_writes_ends [OF assms]
    genesis_writes_signed [OF assms] genesis_writes_objects [OF assms]
  by (simp add: mingo_genesis_def res_bind_def)

definition demo_community :: mingo_community where
  "demo_community = \<lparr>mc_id = ''cooks'', mc_name = ''Cooks'', mc_description = ''food'', mc_issuer = ''cooks@m.p''\<rparr>"

lemma genesis_batch_order_witness:
  "\<exists>ws. genesis_writes demo_app ''d'' ''s'' ''c'' ''m.p'' ''b'' [demo_community] None (Some ''e'') = Inr ws \<and>
     map write_kind ws = [''dnssec.v1'', ''domain.v1'', ''identity.v1'', ''identity.v1'', ''brokers'',
       ''community.v1'', ''policy.v2'', ''collection'', ''policy.v2'']"
proof -
  obtain ws where ws: "genesis_writes demo_app ''d'' ''s'' ''c'' ''m.p'' ''b'' [demo_community] None (Some ''e'') = Inr ws"
    by (simp add: genesis_writes_def dnssec_message_def domain_message_def sys_message_def
        checkpointer_message_def root_policy_message_def genesis_message_def res_bind_def demo_app_def Let_def)
  show ?thesis using genesis_batch_order [OF ws] ws by simp
qed

text \<open>
  What a policy grants: \<open>whom\<close> may do \<open>action\<close> on the paths \<open>place\<close>.
\<close>

definition grants_of :: "json \<Rightarrow> json \<Rightarrow> string \<Rightarrow> json \<Rightarrow> bool" where
  "grants_of policy whom action place \<longleftrightarrow>
     (\<exists>g\<in>set (entries ''grants'' policy). jget ''to'' g = Some whom \<and>
        JStr action \<in> set (entries ''can'' g) \<and> jget ''on'' g = Some place)"

definition role_members :: "string \<Rightarrow> json \<Rightarrow> json list" where
  "role_members role policy =
     (case Option.bind (jget ''roles'' policy) (jget role) of Some v \<Rightarrow> (case as_arr v of Some ms \<Rightarrow> ms | None \<Rightarrow> [])
      | None \<Rightarrow> [])"

lemma grant_fields [simp]:
  "jget ''to'' (grant whom acts place) = Some whom"
  "entries ''can'' (grant whom acts place) = map JStr acts"
  "jget ''on'' (grant whom acts place) = Some (JStr place)"
  by (simp_all add: grant_def entries_def)

lemma closed_grants:
  "grants_of (community_policy_payload i issuer) whom action place \<longleftrightarrow>
     whom = to_role ''member'' \<and> action = ''post'' \<and> place = JStr (spaces_glob i)"
proof -
  have "entries ''grants'' (community_policy_payload i issuer) =
      [grant (to_role ''member'') [''post''] (spaces_glob i)]"
    by (simp add: community_policy_payload_def entries_def)
  then show ?thesis by (auto simp: grants_of_def)
qed

lemma open_grants:
  "grants_of (community_policy_open_payload k i issuer) whom action place \<longleftrightarrow>
     (whom, action, place) \<in>
       {(to_role ''member'', ''create'', JStr (spaces_glob i)), (JStr ''owner'', ''update'', JStr (spaces_glob i)),
        (to_role ''moderator'', ''delete'', JStr (spaces_glob i)),
        (to_key k, ''delete'', JStr (''/communities/'' @ i @ ''/**''))}"
proof -
  have "entries ''grants'' (community_policy_open_payload k i issuer) =
      [grant (to_role ''member'') [''create''] (spaces_glob i), grant (JStr ''owner'') [''update''] (spaces_glob i),
       grant (to_role ''moderator'') [''delete''] (spaces_glob i),
       grant (to_key k) [''delete''] (''/communities/'' @ i @ ''/**'')]"
    by (simp add: community_policy_open_payload_def entries_def)
  then show ?thesis by (simp add: grants_of_def) blast
qed

lemma root_govern:
  "JStr ''govern'' \<notin> set (entries ''can'' (fst dnssec)) \<Longrightarrow>
   grants_of (root_policy_payload dnssec k ck) whom ''govern'' place \<longleftrightarrow>
     whom = to_role ''admin'' \<and> place = JStr ''/**''"
proof -
  assume "JStr ''govern'' \<notin> set (entries ''can'' (fst dnssec))"
  moreover have "entries ''grants'' (root_policy_payload dnssec k ck) =
      [grant (JStr ''*'') [''create''] ''/sys/names/*'',
       grant (JStr ''owner'') [''update'', ''delete''] ''/sys/names/*'',
       grant (JStr ''owner'') [''*''] ''/u/$owner/**'', fst dnssec,
       grant (to_key ck) [''create''] ''/sys/checkpoints/**'',
       grant (to_role ''admin'') [''post'', ''transfer'', ''delete'', ''govern''] ''/**'']"
    by (simp add: root_policy_payload_def entries_def)
  ultimately show ?thesis by (auto simp: grants_of_def)
qed

text \<open>C20: The right to govern is granted by the root policy alone, to the role \<open>admin\<close> alone, whose
  only member is the sys key by its key and not by a name (given that the shared DNSSEC fragment
  does not grant it).  A community policy, open or closed, grants it to nobody and grants nothing
  outside the community's own subtree; in the open one members create, owners update, moderators
  delete and the sys key can take down; both exclude everybody the issuer has banned.\<close>
theorem govern_only_for_sys_key:
  assumes "JStr ''govern'' \<notin> set (entries ''can'' (fst (dnssec_policy_entries api)))"
  shows "(grants_of (root_policy_payload (dnssec_policy_entries api) (key_string api sk) ck) whom ''govern'' place \<longleftrightarrow>
      whom = to_role ''admin'' \<and> place = JStr ''/**'') \<and>
    role_members ''admin'' (root_policy_payload (dnssec_policy_entries api) (key_string api sk) ck) =
      [to_key (key_string api sk)] \<and>
    (\<forall>policy\<in>{community_policy_payload i issuer, community_policy_open_payload (key_string api sk) i issuer}.
      \<not> grants_of policy whom ''govern'' place \<and> \<not> grants_of policy whom ''*'' place \<and>
      (grants_of policy whom action place \<longrightarrow>
        place = JStr (spaces_glob i) \<or>
        place = JStr (''/communities/'' @ i @ ''/**'') \<and> action = ''delete'' \<and> whom = to_key (key_string api sk)) \<and>
      entries ''restrictions'' policy = [ban_restriction i issuer]) \<and>
    (grants_of (community_policy_open_payload (key_string api sk) i issuer) whom action (JStr (spaces_glob i)) \<longrightarrow>
      (whom, action) \<in> {(to_role ''member'', ''create''), (JStr ''owner'', ''update''),
        (to_role ''moderator'', ''delete'')}) \<and>
    role_members ''member'' (community_policy_open_payload (key_string api sk) i issuer) =
      [mk_obj [(''attested'', mk_obj [(''type'', JStr (''membership:'' @ i))])]]"
proof -
  have sub: "spaces_glob i \<noteq> ''/communities/'' @ i @ ''/**''" by (simp add: spaces_glob_def)
  have r: "role_members ''admin'' (root_policy_payload (dnssec_policy_entries api) (key_string api sk) ck) =
      [to_key (key_string api sk)]"
    by (simp add: role_members_def root_policy_payload_def)
  have m: "role_members ''member'' (community_policy_open_payload (key_string api sk) i issuer) =
      [mk_obj [(''attested'', mk_obj [(''type'', JStr (''membership:'' @ i))])]]"
    by (simp add: role_members_def community_policy_open_payload_def)
  have e: "entries ''restrictions'' (community_policy_payload i issuer) = [ban_restriction i issuer]"
    "entries ''restrictions'' (community_policy_open_payload (key_string api sk) i issuer) = [ban_restriction i issuer]"
    by (simp_all add: entries_def community_policy_payload_def community_policy_open_payload_def)
  show ?thesis
    unfolding root_govern [OF assms] r m ball_simps closed_grants open_grants e
    using sub by auto
qed

lemma govern_only_for_sys_key_witness:
  "grants_of (root_policy_payload (dnssec_policy_entries demo_app) (key_string demo_app ''s'') ''c'')
     (to_role ''admin'') ''govern'' (JStr ''/**'') \<and>
   \<not> grants_of (community_policy_payload ''cooks'' ''x'') (to_role ''member'') ''govern'' (JStr ''/**'')"
proof -
  have d: "JStr ''govern'' \<notin> set (entries ''can'' (fst (dnssec_policy_entries demo_app)))" by code_simp
  show ?thesis
    using govern_only_for_sys_key [OF d, of "''s''" "''c''" "to_role ''admin''" "JStr ''/**''" "''cooks''" "''x''" "''post''"]
      govern_only_for_sys_key [OF d, of "''s''" "''c''" "to_role ''member''" "JStr ''/**''" "''cooks''" "''x''" "''post''"]
    by simp
qed

end
