(* ===== verification/App_Seed_Run.thy ===== *)
theory App_Seed_Run
  imports App_Seed_Plan App_Genesis
begin

text \<open>
  Running a seed plan against a live daemon (the second half of \<open>mingo-app/src/seed.rs\<close>): the
  submission with its retries, the freshness of the attribution proof, the provisioning of the
  personas, the widening and restoring of the authoring lag around the writes, and the command.

  The pauses between submissions are left out; the schedule of the retries is kept, since it bounds
  their number.
\<close>

section \<open>Libraries and data\<close>

record seed_dnssec =
  sd_needs_refresh :: bool
  sd_proof :: "string option"

record seed_provision =
  sv_success :: bool
  sv_cert :: string

text \<open>
  A new key pair, given as its secret bytes, and a new signing key depend on the moment, which is
  the list of the calls sent so far.  The decoders are derived by \<open>serde\<close>, and \<open>default_corpus\<close> is
  the embedded JSON file.
\<close>

record 'sk seed_lib =
  pair_generate :: "http_call list \<Rightarrow> string"
  pair_public :: "string \<Rightarrow> string"
  key_generate :: "http_call list \<Rightarrow> 'sk"
  proof_decode :: "string \<Rightarrow> (string, string) res"
  decode_dnssec :: "string \<Rightarrow> (string, seed_dnssec) res"
  decode_provision :: "string \<Rightarrow> (string, seed_provision) res"
  decode_corpus :: "string \<Rightarrow> (string, corpus) res"
  default_corpus :: string

record seed_args =
  sg_idp :: string
  sg_daemon :: string
  sg_broker :: string
  sg_audience :: string
  sg_corpus :: "string option"
  sg_sys_key :: "string option"
  sg_execute :: bool
  sg_admin_token_env :: string
  sg_broker_token_env :: string

record 'sk provisioned =
  pv_email :: string
  pv_key :: 'sk
  pv_pair :: string
  pv_cert :: string

definition GENESIS_LAG_S :: int where
  "GENESIS_LAG_S = 24 * 60 * 60"

definition WIDENED_LAG_S :: int where
  "WIDENED_LAG_S = 45 * 24 * 60 * 60"

definition RETRY_BACKOFF_S :: "nat list" where
  "RETRY_BACKOFF_S = [2, 4, 8, 16, 32, 64]"

definition domain_of :: "string \<Rightarrow> string" where
  "domain_of url =
     (let no_scheme = (case split_once_text ''://'' (trim_end_matches CHR ''/'' url) of
          Some (_, rest) \<Rightarrow> rest | None \<Rightarrow> url) in
      let host = hd (split_on CHR ''/'' no_scheme) in
      hd (split_on CHR '':'' host))"

section \<open>Submitting\<close>

definition submit_retryable :: "nat \<Rightarrow> string \<Rightarrow> bool" where
  "submit_retryable status body \<longleftrightarrow>
     status = 429 \<or>
     500 \<le> status \<and> status \<le> 599 \<and> (contains_text ''429'' body \<or> contains_text ''Too Many Requests'' body)"

definition seed_submit_url :: "string \<Rightarrow> string" where
  "seed_submit_url daemon = trim_end_matches CHR ''/'' daemon @ ''/v1/submit''"

fun submit_loop ::
  "('sk, 'pk, 'sig) app_api \<Rightarrow> string \<Rightarrow> string \<Rightarrow> string \<Rightarrow> nat list \<Rightarrow> unit tool" where
  "submit_loop api daemon wire_bytes label backoff sent =
     (let call = PostWire (seed_submit_url daemon) wire_bytes in
      case send api sent call of
        Replied status body \<Rightarrow>
          if is_success status then (Inr (), sent @ [call])
          else if submit_retryable status body \<and> backoff \<noteq> []
          then submit_loop api daemon wire_bytes label (tl backoff) (sent @ [call])
          else (Inl (''ABORT'' @ dash @ ''submit failed for ['' @ label @ '']: HTTP '' @
                  status_text api status @ '': '' @ body), sent @ [call])
      | _ \<Rightarrow> (Inl (''submitting '' @ label), sent @ [call]))"

declare submit_loop.simps [simp del]

definition seed_submit ::
  "('sk, 'pk, 'sig) app_api \<Rightarrow> string \<Rightarrow> string \<Rightarrow> string \<Rightarrow> unit tool" where
  "seed_submit api daemon wire_bytes label = submit_loop api daemon wire_bytes label RETRY_BACKOFF_S"

section \<open>The attribution proof\<close>

definition seed_dnssec_url :: "string \<Rightarrow> string \<Rightarrow> int \<Rightarrow> string" where
  "seed_dnssec_url daemon dmn now =
     trim_end_matches CHR ''/'' daemon @ ''/v1/dnssec?domain='' @ dmn @ ''&needed_by='' @
     show_int now @ ''&margin=3600''"

definition dnssec_check :: "('sk, 'pk, 'sig) app_api \<Rightarrow> 'sk seed_lib \<Rightarrow> string \<Rightarrow> seed_dnssec tool" where
  "dnssec_check api lib url =
     and_then (tool_send api (HttpGet url)) (\<lambda>reply. lift (case reply of
       Replied status body \<Rightarrow>
         if error_status status then Inl ''dnssec freshness check''
         else map_err (\<lambda>_. ''parsing dnssec response'') (decode_dnssec lib body)
     | _ \<Rightarrow> Inl ''dnssec freshness check''))"

definition refresh_proof ::
  "('sk, 'pk, 'sig) app_api \<Rightarrow> 'sk seed_lib \<Rightarrow> string \<Rightarrow> string \<Rightarrow> string \<Rightarrow> unit tool" where
  "refresh_proof api lib daemon dmn proof_b64 =
     and_then (lift (map_err (\<lambda>_. ''decoding dnssec proof'') (proof_decode lib proof_b64))) (\<lambda>prf sent.
     and_then (lift (assemble_write api (key_generate lib sent) None None ''/sys/dnssec/'' dmn
         ''dnssec.v1'' ''application/octet-stream'' prf None None)) (\<lambda>wire_bytes.
     seed_submit api daemon wire_bytes (''dnssec refresh ('' @ dmn @ '')'')) sent)"

definition seed_dnssec_fresh ::
  "('sk, 'pk, 'sig) app_api \<Rightarrow> 'sk seed_lib \<Rightarrow> string \<Rightarrow> string \<Rightarrow> int \<Rightarrow> unit tool" where
  "seed_dnssec_fresh api lib daemon dmn now =
     and_then (dnssec_check api lib (seed_dnssec_url daemon dmn now)) (\<lambda>resp.
     case (if sd_needs_refresh resp then sd_proof resp else None) of
       None \<Rightarrow> done_with ()
     | Some proof_b64 \<Rightarrow> refresh_proof api lib daemon dmn proof_b64)"

section \<open>Provisioning\<close>

definition pubkey_json :: "'sk seed_lib \<Rightarrow> string \<Rightarrow> json" where
  "pubkey_json lib secret = mk_obj [(''algorithm'', JStr ''Ed25519''), (''publicKey'', JStr (pair_public lib secret))]"

text \<open>What both certificate endpoints answer; the texts name the step and the identity.\<close>

definition cert_request ::
  "('sk, 'pk, 'sig) app_api \<Rightarrow> 'sk seed_lib \<Rightarrow> http_call \<Rightarrow> string \<Rightarrow> string \<Rightarrow> string \<Rightarrow> string \<Rightarrow>
   string tool" where
  "cert_request api lib call sending what whom parsing =
     and_then (tool_send api call) (\<lambda>reply. lift (case reply of
       Replied status body \<Rightarrow>
         if \<not> is_success status
         then Inl (''ABORT'' @ dash @ what @ apos whom @ '' failed: HTTP '' @ status_text api status @
                '': '' @ body)
         else res_bind (map_err (\<lambda>_. parsing @ whom) (decode_provision lib body)) (\<lambda>parsed.
           if \<not> sv_success parsed then Inl (''ABORT'' @ dash @ what @ apos whom @ '' returned success=false'')
           else Inr (sv_cert parsed))
     | _ \<Rightarrow> Inl (sending @ whom)))"

definition provision_call :: "'sk seed_lib \<Rightarrow> string \<Rightarrow> string \<Rightarrow> string \<Rightarrow> string \<Rightarrow> http_call" where
  "provision_call lib idp admin_token handle secret =
     PostAdmin (trim_end_matches CHR ''/'' idp @ ''/admin/provision'') admin_token
       (mk_obj [(''external_email'', JStr (handle @ ''.seed@sandmill.org'')), (''handle'', JStr handle),
          (''pubkey'', pubkey_json lib secret)])"

definition provision_persona ::
  "('sk, 'pk, 'sig) app_api \<Rightarrow> 'sk seed_lib \<Rightarrow> string \<Rightarrow> string \<Rightarrow> string \<Rightarrow> string \<Rightarrow> 'sk provisioned tool" where
  "provision_persona api lib idp admin_token handle dmn sent =
     (let secret = pair_generate lib sent in
      and_then (cert_request api lib (provision_call lib idp admin_token handle secret) ''provisioning ''
          ''provisioning '' handle ''parsing provision response for '') (\<lambda>cert.
      done_with \<lparr>pv_email = handle @ ''@'' @ dmn, pv_key = key_of_bytes api secret, pv_pair = secret,
        pv_cert = cert\<rparr>) sent)"

definition mint_call :: "'sk seed_lib \<Rightarrow> string \<Rightarrow> string \<Rightarrow> string \<Rightarrow> string \<Rightarrow> http_call" where
  "mint_call lib broker broker_token email secret =
     PostAdmin (trim_end_matches CHR ''/'' broker @ ''/wsapi/admin/cert_key'') broker_token
       (mk_obj [(''email'', JStr email), (''pubkey'', pubkey_json lib secret)])"

definition provision_external ::
  "('sk, 'pk, 'sig) app_api \<Rightarrow> 'sk seed_lib \<Rightarrow> string \<Rightarrow> string \<Rightarrow> string \<Rightarrow> 'sk provisioned tool" where
  "provision_external api lib broker broker_token email sent =
     (let secret = pair_generate lib sent in
      and_then (cert_request api lib (mint_call lib broker broker_token email secret) ''broker mint for ''
          ''broker mint for '' email ''parsing broker mint response for '') (\<lambda>cert.
      done_with \<lparr>pv_email = email, pv_key = key_of_bytes api secret, pv_pair = secret, pv_cert = cert\<rparr>) sent)"

definition provision_one ::
  "('sk, 'pk, 'sig) app_api \<Rightarrow> 'sk seed_lib \<Rightarrow> env \<Rightarrow> seed_args \<Rightarrow> seed_plan \<Rightarrow> string \<Rightarrow> string \<Rightarrow>
   string \<Rightarrow> 'sk provisioned tool" where
  "provision_one api lib env args plan admin_token dmn handle =
     (case map_of (pl_external_emails plan) handle of
        Some ext_email \<Rightarrow>
          and_then (lift (ok_or (env (sg_broker_token_env args))
              (''external personas need the broker admin token in $'' @ sg_broker_token_env args)))
            (\<lambda>broker_token. provision_external api lib (sg_broker args) broker_token ext_email)
      | None \<Rightarrow> provision_persona api lib (sg_idp args) admin_token handle dmn)"

text \<open>The loop fills a map from handles to keys and certificates.\<close>

fun provision_all ::
  "('sk, 'pk, 'sig) app_api \<Rightarrow> 'sk seed_lib \<Rightarrow> env \<Rightarrow> seed_args \<Rightarrow> seed_plan \<Rightarrow> string \<Rightarrow> string \<Rightarrow>
   (string \<times> 'sk provisioned) list \<Rightarrow> string list \<Rightarrow> (string \<times> 'sk provisioned) list tool" where
  "provision_all api lib env args plan admin_token dmn acc [] = done_with acc"
| "provision_all api lib env args plan admin_token dmn acc (h # hs) =
     and_then (provision_one api lib env args plan admin_token dmn h) (\<lambda>p.
     provision_all api lib env args plan admin_token dmn (obj_insert h p acc) hs)"

section \<open>The authoring lag of the spaces\<close>

definition space_config :: "('sk, 'pk, 'sig) app_api \<Rightarrow> 'sk \<Rightarrow> string \<Rightarrow> int \<Rightarrow> string" where
  "space_config api sys_key comm lag =
     collection_config api sys_key (general_space comm) True (Some 5) (Some lag) (Some ''post.v1'')"

fun set_lags ::
  "('sk, 'pk, 'sig) app_api \<Rightarrow> string \<Rightarrow> 'sk \<Rightarrow> int \<Rightarrow> string \<Rightarrow> string list \<Rightarrow> unit tool" where
  "set_lags api daemon sys lag verb [] = done_with ()"
| "set_lags api daemon sys lag verb (comm # cs) =
     and_then (seed_submit api daemon (space_config api sys comm lag)
         (''_config '' @ verb @ '' ('' @ comm @ '')'')) (\<lambda>_.
     set_lags api daemon sys lag verb cs)"

definition with_sys :: "'sk option \<Rightarrow> ('sk \<Rightarrow> unit tool) \<Rightarrow> unit tool" where
  "with_sys sys_key f = (case sys_key of None \<Rightarrow> done_with () | Some sys \<Rightarrow> f sys)"

section \<open>The writes\<close>

definition item_wire ::
  "('sk, 'pk, 'sig) app_api \<Rightarrow> (string \<times> 'sk provisioned) list \<Rightarrow> plan_item \<Rightarrow> (string, string) res" where
  "item_wire api ps i =
     res_bind (ok_or (map_of ps (it_signer i)) (''no provisioned persona for '' @ it_signer i)) (\<lambda>p.
     assemble_write api (pv_key p) (Some (pv_cert p)) None (it_path i) (it_id i) (it_schema i)
       (it_content_type i) (it_payload i) (Some (it_owner i)) (it_hlc i))"

fun submit_items ::
  "('sk, 'pk, 'sig) app_api \<Rightarrow> string \<Rightarrow> (string \<times> 'sk provisioned) list \<Rightarrow> plan_item list \<Rightarrow> unit tool" where
  "submit_items api daemon ps [] = done_with ()"
| "submit_items api daemon ps (i # is) =
     and_then (lift (item_wire api ps i)) (\<lambda>wire_bytes.
     and_then (seed_submit api daemon wire_bytes (it_label i)) (\<lambda>_.
     submit_items api daemon ps is))"

section \<open>The command\<close>

text \<open>Widen, write, restore whatever came of the writes, and only then report.\<close>

definition seed_writes ::
  "('sk, 'pk, 'sig) app_api \<Rightarrow> string \<Rightarrow> seed_plan \<Rightarrow> 'sk option \<Rightarrow> (string \<times> 'sk provisioned) list \<Rightarrow>
   unit tool" where
  "seed_writes api daemon plan sys_key ps =
     and_then (with_sys sys_key (\<lambda>sys. set_lags api daemon sys WIDENED_LAG_S ''widen'' (pl_communities plan)))
       (\<lambda>_.
     attempt (submit_items api daemon ps (pl_items plan)) (\<lambda>result.
     and_then (with_sys sys_key (\<lambda>sys. set_lags api daemon sys GENESIS_LAG_S ''restore'' (pl_communities plan)))
       (\<lambda>_. lift result)))"

definition seed_setup ::
  "('sk, 'pk, 'sig) app_api \<Rightarrow> 'sk seed_lib \<Rightarrow> env \<Rightarrow> (string \<Rightarrow> (string, string) res) \<Rightarrow> seed_args \<Rightarrow>
   seed_plan \<Rightarrow> string \<Rightarrow> int \<Rightarrow> ('sk option \<times> (string \<times> 'sk provisioned) list) tool" where
  "seed_setup api lib env read args plan dmn now_ms =
     and_then (lift (ok_or (env (sg_admin_token_env args))
         (''--execute needs the IdP admin token in $'' @ sg_admin_token_env args))) (\<lambda>admin_token.
     and_then (lift (case sg_sys_key args of
         None \<Rightarrow> Inr None
       | Some path \<Rightarrow> res_bind (load_signing_key_file api read path) (\<lambda>k. Inr (Some k)))) (\<lambda>sys_key.
     and_then (client_built api) (\<lambda>_.
     and_then (seed_dnssec_fresh api lib (sg_daemon args) dmn (i64_quot now_ms 1000)) (\<lambda>_.
     and_then (if pl_externals plan = [] then done_with ()
         else seed_dnssec_fresh api lib (sg_daemon args) (domain_of (sg_broker args)) (i64_quot now_ms 1000))
       (\<lambda>_.
     and_then (provision_all api lib env args plan admin_token dmn [] (pl_personas plan)) (\<lambda>ps.
     done_with (sys_key, ps)))))))"

definition seed_execute ::
  "('sk, 'pk, 'sig) app_api \<Rightarrow> 'sk seed_lib \<Rightarrow> env \<Rightarrow> (string \<Rightarrow> (string, string) res) \<Rightarrow> seed_args \<Rightarrow>
   seed_plan \<Rightarrow> string \<Rightarrow> int \<Rightarrow> unit tool" where
  "seed_execute api lib env read args plan dmn now_ms =
     and_then (seed_setup api lib env read args plan dmn now_ms) (\<lambda>(sys_key, ps).
     seed_writes api (sg_daemon args) plan sys_key ps)"

definition seed_corpus ::
  "'sk seed_lib \<Rightarrow> text_lib \<Rightarrow> (string \<Rightarrow> (string, string) res) \<Rightarrow> seed_args \<Rightarrow> (string, corpus) res" where
  "seed_corpus lib txl read args =
     res_bind (case sg_corpus args of
         Some path \<Rightarrow> map_err (\<lambda>_. ''reading '' @ path) (read path)
       | None \<Rightarrow> Inr (default_corpus lib)) (\<lambda>txt.
     corpus_parse txl (decode_corpus lib) txt)"

definition seed_run ::
  "('sk, 'pk, 'sig) app_api \<Rightarrow> 'sk seed_lib \<Rightarrow> text_lib \<Rightarrow> env \<Rightarrow> (string \<Rightarrow> (string, string) res) \<Rightarrow>
   seed_args \<Rightarrow> int \<Rightarrow> unit tool" where
  "seed_run api lib txl env read args now_ms =
     and_then (lift (seed_corpus lib txl read args)) (\<lambda>c.
     let dmn = domain_of (sg_idp args) in
     and_then (lift (build_plan api c dmn now_ms (sg_sys_key args = None))) (\<lambda>plan.
     if \<not> sg_execute args then done_with () else seed_execute api lib env read args plan dmn now_ms))"

end
