(* ===== verification/App_Livetest.thy ===== *)
theory App_Livetest
  imports App_Seed_Run
begin

text \<open>
  \<open>mingo live-test\<close> (\<open>mingo-app/src/livetest.rs\<close>): the scenarios, the polls that settle what became
  of a write, the writes, and the whole run against a daemon and an identity provider.

  An error is its outermost message; the causes that \<open>{:#}\<close> adds are left out.  The file repeats the
  seeder's \<open>domain_of\<close>.
\<close>

section \<open>Arguments and catalogue\<close>

record live_args =
  lg_idp :: string
  lg_daemon :: string
  lg_admin_token_env :: string
  lg_sys_key_file :: string
  lg_only :: "string list"
  lg_keep :: bool
  lg_execute :: bool

datatype expect = ExpectPresent | ExpectAbsent | ExpectUnchanged

fun expect_label :: "expect \<Rightarrow> string" where
  "expect_label ExpectPresent = ''PRESENT''"
| "expect_label ExpectAbsent = ''ABSENT''"
| "expect_label ExpectUnchanged = ''UNCHANGED''"

record scenario =
  sc_id :: string
  sc_title :: string
  sc_expect :: expect
  sc_implemented :: bool
  sc_detail :: string

definition scenarios :: "scenario list" where
  "scenarios =
     [\<lparr>sc_id = ''S1'', sc_title = ''capture fix'' @ dash @ ''member cannot self-install a policy'', sc_expect = ExpectAbsent, sc_implemented = True,
        sc_detail = ''a cooks member writes a policy.v2 under the space subtree'' @ arrow @ ''disregarded (no govern). THE headline security test.''\<rparr>,
      \<lparr>sc_id = ''S2'', sc_title = ''non-member cannot post'', sc_expect = ExpectAbsent, sc_implemented = True,
        sc_detail = ''a provisioned user with NO membership posts in cooks/general'' @ arrow @ ''denied.''\<rparr>,
      \<lparr>sc_id = ''S3'', sc_title = ''member can post'', sc_expect = ExpectPresent, sc_implemented = True,
        sc_detail = ''a user self-issues membership:cooks, then posts'' @ arrow @ ''applied.''\<rparr>,
      \<lparr>sc_id = ''S4'', sc_title = ''owner-only update'', sc_expect = ExpectUnchanged, sc_implemented = True,
        sc_detail = ''member A posts; member B tries to update A'' @ [CHR 0x27] @ ''s (path,id)'' @ arrow @ ''A'' @ [CHR 0x27] @ ''s content unchanged (B denied).''\<rparr>,
      \<lparr>sc_id = ''S5'', sc_title = ''author delete'', sc_expect = ExpectAbsent, sc_implemented = True,
        sc_detail = ''A deletes their own post'' @ arrow @ ''gone from head.''\<rparr>,
      \<lparr>sc_id = ''S6'', sc_title = ''moderator delete'', sc_expect = ExpectAbsent, sc_implemented = True,
        sc_detail = ''appoint a role:moderator:cooks by cooks@mingo.place; the moderator deletes another member'' @ [CHR 0x27] @ ''s post'' @ arrow @ ''gone.''\<rparr>,
      \<lparr>sc_id = ''S7'', sc_title = ''non-moderator cannot delete another'' @ [CHR 0x27] @ ''s post'', sc_expect = ExpectPresent, sc_implemented = True,
        sc_detail = ''a plain member tries to delete another member'' @ [CHR 0x27] @ ''s post'' @ arrow @ ''denied, post survives.''\<rparr>,
      \<lparr>sc_id = ''S8'', sc_title = ''ban'', sc_expect = ExpectAbsent, sc_implemented = False,
        sc_detail = ''issuer bans a member; that member'' @ [CHR 0x27] @ ''s post'' @ arrow @ ''disregarded. (NOT YET IMPLEMENTED'' @ dash @ ''SKIP.)''\<rparr>,
      \<lparr>sc_id = ''S9'', sc_title = ''P2 pinning immunity (sovereignty vs revocable)'', sc_expect = ExpectPresent, sc_implemented = True,
        sc_detail = ''ancestor A grants sys govern; child C pins A@v1, sibling D tracks. Amend A'' @ [CHR 0xE2, CHR 0x86, CHR 0x92] @ ''v2 removing sys govern. Update C (pinned) APPLIES; update D (tracking) DENIED.''\<rparr>,
      \<lparr>sc_id = ''S10'', sc_title = ''P2 creation pin must be latest'', sc_expect = ExpectPresent, sc_implemented = True,
        sc_detail = ''with A at latest, a child pinned to a STALE A hash is REJECTED; a child pinned to the latest hash is ACCEPTED.''\<rparr>,
      \<lparr>sc_id = ''S11'', sc_title = ''P2 forward-only pin advance'', sc_expect = ExpectPresent, sc_implemented = True,
        sc_detail = ''child pinned to A@v2; amend A'' @ [CHR 0xE2, CHR 0x86, CHR 0x92] @ ''v3. Update child pin'' @ [CHR 0xE2, CHR 0x86, CHR 0x92] @ ''v3 (forward) ACCEPTED; update pin'' @ [CHR 0xE2, CHR 0x86, CHR 0x92] @ ''older (backward) REJECTED.''\<rparr>,
      \<lparr>sc_id = ''S12'', sc_title = ''P3 descendant-constraint (subset grants + mandated restriction)'', sc_expect = ExpectPresent, sc_implemented = True,
        sc_detail = ''A templates allowed_grants G + mandated restriction R. Child with grant exceeding G REJECTED; child missing R REJECTED; child subset-of-G carrying R ACCEPTED.''\<rparr>,
      \<lparr>sc_id = ''S13'', sc_title = ''P4 no-pin (forbid_pinning)'', sc_expect = ExpectPresent, sc_implemented = True,
        sc_detail = ''A sets descendant_constraint.forbid_pinning. A PINNED child REJECTED; an unpinned (tracking) child ACCEPTED.''\<rparr>]"

definition selected :: "scenario \<Rightarrow> string list \<Rightarrow> bool" where
  "selected s only \<longleftrightarrow>
     only = [] \<or> list_ex (\<lambda>i. map to_ascii_lowercase i = map to_ascii_lowercase (sc_id s)) only"

section \<open>Data and state\<close>

record live_view =
  lv_confirmed :: bool
  lv_block :: nat
  lv_value :: json
  lv_object_hash :: string

record submitted =
  su_accepted :: bool
  su_reason :: "string option"
  su_base :: nat

datatype outcome = Pass | Fail string | Timeout string | Skip string | Broken string

text \<open>\<open>Broken\<close> is \<open>Outcome::Error\<close>.\<close>

fun outcome_tag :: "outcome \<Rightarrow> string" where
  "outcome_tag Pass = ''PASS''"
| "outcome_tag (Fail _) = ''FAIL''"
| "outcome_tag (Timeout _) = ''TIMEOUT''"
| "outcome_tag (Skip _) = ''SKIP''"
| "outcome_tag (Broken _) = ''ERROR''"

fun outcome_note :: "outcome \<Rightarrow> string" where
  "outcome_note Pass = []"
| "outcome_note (Fail s) = s"
| "outcome_note (Timeout s) = s"
| "outcome_note (Skip s) = s"
| "outcome_note (Broken s) = s"

text \<open>
  Besides the libraries of the other tools, a run needs the decoders of two replies, the clocks and
  \<open>{:?}\<close> of texts.  A moment is the list of the calls sent so far: \<open>unix_s\<close> is the clock then, and
  \<open>spent\<close> the milliseconds between two moments.
\<close>

record live_lib =
  decode_view :: "string \<Rightarrow> (string, live_view) res"
  decode_root :: "string \<Rightarrow> (string, nat) res"
  unix_s :: "http_call list \<Rightarrow> int"
  spent :: "http_call list \<Rightarrow> http_call list \<Rightarrow> nat"
  debug_text :: "string \<Rightarrow> string"
  debug_texts :: "string list \<Rightarrow> string"

record ('sk, 'pk, 'sig) live_ctx =
  lx_api :: "('sk, 'pk, 'sig) app_api"
  lx_seed :: "'sk seed_lib"
  lx_lib :: live_lib
  lx_idp :: string
  lx_daemon :: string
  lx_token :: string
  lx_domain :: string
  lx_runid :: string
  lx_sys :: "('sk \<times> string) option"

record live_state =
  ls_sent :: "http_call list"
  ls_written :: "(string \<times> string) list"
  ls_policies :: "(string \<times> string) list"

type_synonym 'a live = "(live_state, string, 'a) run"

definition on_net :: "'a tool \<Rightarrow> 'a live" where
  "on_net m st = (case m (ls_sent st) of (r, sent) \<Rightarrow> (r, st\<lparr>ls_sent := sent\<rparr>))"

definition live_send :: "('sk, 'pk, 'sig) live_ctx \<Rightarrow> http_call \<Rightarrow> http_reply live" where
  "live_send ctx c = on_net (tool_send (lx_api ctx) c)"

definition note_written :: "string \<Rightarrow> string \<Rightarrow> unit live" where
  "note_written path i st = (Inr (), st\<lparr>ls_written := ls_written st @ [(path, i)]\<rparr>)"

definition note_policy :: "string \<Rightarrow> string \<Rightarrow> unit live" where
  "note_policy path i st = (Inr (), st\<lparr>ls_policies := ls_policies st @ [(path, i)]\<rparr>)"

definition live_now :: "('sk, 'pk, 'sig) live_ctx \<Rightarrow> int live" where
  "live_now ctx st = (Inr (unix_s (lx_lib ctx) (ls_sent st)), st)"

section \<open>Calls\<close>

definition live_provision :: "('sk, 'pk, 'sig) live_ctx \<Rightarrow> string \<Rightarrow> 'sk provisioned live" where
  "live_provision ctx name =
     on_net (provision_persona (lx_api ctx) (lx_seed ctx) (lx_idp ctx) (lx_token ctx)
       (''livetest-'' @ name) (lx_domain ctx))"

definition oid :: "('sk, 'pk, 'sig) live_ctx \<Rightarrow> string \<Rightarrow> string" where
  "oid ctx name = ''livetest-'' @ lx_runid ctx @ ''-'' @ name"

definition head_url :: "('sk, 'pk, 'sig) live_ctx \<Rightarrow> string" where
  "head_url ctx = trim_end_matches CHR ''/'' (lx_daemon ctx) @ ''/v1/state-root''"

definition head_block :: "('sk, 'pk, 'sig) live_ctx \<Rightarrow> nat live" where
  "head_block ctx =
     and_then (live_send ctx (HttpGet (head_url ctx))) (\<lambda>reply. lift (case reply of
       Replied status body \<Rightarrow>
         if error_status status then Inl ''state-root''
         else map_err (\<lambda>_. ''parsing state-root'') (decode_root (lx_lib ctx) body)
     | _ \<Rightarrow> Inl ''state-root''))"

text \<open>\<open>head_block(ctx).unwrap_or(..)\<close>.\<close>

definition head_or :: "('sk, 'pk, 'sig) live_ctx \<Rightarrow> nat \<Rightarrow> live_state \<Rightarrow> nat \<times> live_state" where
  "head_or ctx b st = (case head_block ctx st of (r, st') \<Rightarrow> (case r of Inr n \<Rightarrow> n | Inl _ \<Rightarrow> b, st'))"

definition parse_error :: "('sk, 'pk, 'sig) app_api \<Rightarrow> string \<Rightarrow> string" where
  "parse_error api body =
     (case (case parse_json api body of Inr v \<Rightarrow> str_field ''error'' v | Inl _ \<Rightarrow> None) of
        Some e \<Rightarrow> e
      | None \<Rightarrow> trim body)"

definition live_submit :: "('sk, 'pk, 'sig) live_ctx \<Rightarrow> string \<Rightarrow> string \<Rightarrow> submitted live" where
  "live_submit ctx wire_bytes label st =
     (case head_or ctx 0 st of (base, st1) \<Rightarrow>
      and_then (live_send ctx (PostWire (seed_submit_url (lx_daemon ctx)) wire_bytes)) (\<lambda>reply. lift (case reply of
        Replied status body \<Rightarrow>
          if is_success status then Inr \<lparr>su_accepted = True, su_reason = None, su_base = base\<rparr>
          else if status = 400
          then Inr \<lparr>su_accepted = False, su_reason = Some (parse_error (lx_api ctx) body), su_base = base\<rparr>
          else Inl (''submit ['' @ label @ ''] failed: HTTP '' @ status_text (lx_api ctx) status @ '': '' @ body)
      | _ \<Rightarrow> Inl (''submitting '' @ label))) st1)"

definition live_url :: "('sk, 'pk, 'sig) live_ctx \<Rightarrow> string \<Rightarrow> string \<Rightarrow> string" where
  "live_url ctx path i =
     with_query (lx_api ctx) (trim_end_matches CHR ''/'' (lx_daemon ctx) @ ''/v1/object'') [(''path'', path), (''id'', i)]"

definition live_get :: "('sk, 'pk, 'sig) live_ctx \<Rightarrow> string \<Rightarrow> string \<Rightarrow> live_view option live" where
  "live_get ctx path i =
     and_then (live_send ctx (HttpGet (live_url ctx path i))) (\<lambda>reply. lift (case reply of
       Replied status body \<Rightarrow>
         if status = 404 then Inr None
         else if error_status status then Inl ''get_object''
         else res_bind (map_err (\<lambda>_. ''parsing object'') (decode_view (lx_lib ctx) body)) (\<lambda>v. Inr (Some v))
     | _ \<Rightarrow> Inl ''get_object''))"

section \<open>Polling\<close>

text \<open>Times are in milliseconds since the deadline was set.\<close>

definition SETTLE_MS :: nat where
  "SETTLE_MS = 180000"

definition POLL_MS :: nat where
  "POLL_MS = 5000"

definition FINALITY_BLOCKS :: nat where
  "FINALITY_BLOCKS = 2"

text \<open>The head that must be reached; the sum of two \<open>u64\<close> wraps in a release build.\<close>

definition final_head :: "submitted \<Rightarrow> nat" where
  "final_head sub = (su_base sub + FINALITY_BLOCKS) mod 2 ^ 64"

text \<open>
  The loop that the polls share: look, stop with an outcome or go on; give up at the deadline, with
  the outcome of \<open>late\<close>; sleep.
\<close>

type_synonym 'a look = "live_state \<Rightarrow> 'a \<times> live_state"

function live_poll ::
  "('sk, 'pk, 'sig) live_ctx \<Rightarrow> outcome option look \<Rightarrow> outcome look \<Rightarrow> nat \<Rightarrow> outcome look" where
  "live_poll ctx look late elapsed st =
     (case look st of
        (Some out, st') \<Rightarrow> (out, st')
      | (None, st') \<Rightarrow>
          (let t = elapsed + spent (lx_lib ctx) (ls_sent st) (ls_sent st') in
           if SETTLE_MS \<le> t then late st'
           else live_poll ctx look late (t + POLL_MS) st'))"
  by pat_completeness auto
termination
  by (relation "measure (\<lambda>(ctx, look, late, elapsed, st). SETTLE_MS + POLL_MS - elapsed)")
     (auto simp: POLL_MS_def Let_def)

declare live_poll.simps [simp del]

definition done_late :: "outcome \<Rightarrow> outcome look" where
  "done_late out st = (out, st)"

text \<open>\<open>debug_opt\<close> is \<open>{:?}\<close> of an \<open>Option<String>\<close>.\<close>

definition debug_opt :: "live_lib \<Rightarrow> string option \<Rightarrow> string" where
  "debug_opt lib x = (case x of None \<Rightarrow> ''None'' | Some s \<Rightarrow> ''Some('' @ debug_text lib s @ '')'')"

definition or_empty :: "string option \<Rightarrow> string" where
  "or_empty x = (case x of Some s \<Rightarrow> s | None \<Rightarrow> [])"

definition look_present ::
  "('sk, 'pk, 'sig) live_ctx \<Rightarrow> string \<Rightarrow> string \<Rightarrow> string option \<Rightarrow> outcome option look" where
  "look_present ctx path i expect_body st =
     (case live_get ctx path i st of (r, st') \<Rightarrow>
      (case r of
         Inl e \<Rightarrow> Some (Broken e)
       | Inr None \<Rightarrow> None
       | Inr (Some o') \<Rightarrow>
           if \<not> lv_confirmed o' then None
           else (case expect_body of
               None \<Rightarrow> Some Pass
             | Some want \<Rightarrow>
                 let got = or_empty (str_field ''body'' (lv_value o')) in
                 if got \<noteq> want
                 then Some (Fail (''present but body changed: got '' @ debug_text (lx_lib ctx) got @ '', want '' @
                        debug_text (lx_lib ctx) want))
                 else Some Pass), st'))"

definition settle_present ::
  "('sk, 'pk, 'sig) live_ctx \<Rightarrow> string \<Rightarrow> string \<Rightarrow> string option \<Rightarrow> outcome look" where
  "settle_present ctx path i expect_body =
     live_poll ctx (look_present ctx path i expect_body)
       (done_late (Timeout (''never confirmed present at '' @ path @ i))) 0"

definition show_nat :: "nat \<Rightarrow> string" where
  "show_nat n = show_int (int n)"

definition absent_now :: "('sk, 'pk, 'sig) live_ctx \<Rightarrow> string \<Rightarrow> string \<Rightarrow> outcome look" where
  "absent_now ctx path i st =
     (case live_get ctx path i st of (r, st') \<Rightarrow>
      (case r of
         Inl e \<Rightarrow> Broken e
       | Inr None \<Rightarrow> Pass
       | Inr (Some o') \<Rightarrow>
           if lv_confirmed o'
           then Fail (''denied at submit yet present+confirmed (block '' @ show_nat (lv_block o') @ '')'')
           else Pass, st'))"

definition look_absent ::
  "('sk, 'pk, 'sig) live_ctx \<Rightarrow> string \<Rightarrow> string \<Rightarrow> submitted \<Rightarrow> outcome option look" where
  "look_absent ctx path i sub st =
     (case head_or ctx (su_base sub) st of (head, st1) \<Rightarrow>
      case live_get ctx path i st1 of (r, st2) \<Rightarrow>
      (case r of
         Inl e \<Rightarrow> Some (Broken e)
       | Inr None \<Rightarrow> if final_head sub \<le> head then Some Pass else None
       | Inr (Some o') \<Rightarrow>
           if lv_confirmed o'
           then Some (Fail (''applied to head (confirmed in block '' @ show_nat (lv_block o') @ '')'' @ dash @
                  ''expected disregarded''))
           else None, st2))"

definition absent_late :: "('sk, 'pk, 'sig) live_ctx \<Rightarrow> string \<Rightarrow> string \<Rightarrow> outcome look" where
  "absent_late ctx path i st =
     (case live_get ctx path i st of (r, st') \<Rightarrow>
      (case r of
         Inr None \<Rightarrow> Timeout ''absent, but head did not advance enough to prove finality''
       | _ \<Rightarrow> Timeout ''still pending in overlay at deadline'', st'))"

definition settle_absent :: "('sk, 'pk, 'sig) live_ctx \<Rightarrow> string \<Rightarrow> string \<Rightarrow> submitted \<Rightarrow> outcome look" where
  "settle_absent ctx path i sub =
     (if \<not> su_accepted sub then absent_now ctx path i
      else live_poll ctx (look_absent ctx path i sub) (absent_late ctx path i) 0)"

definition look_deleted :: "('sk, 'pk, 'sig) live_ctx \<Rightarrow> string \<Rightarrow> string \<Rightarrow> outcome option look" where
  "look_deleted ctx path i st =
     (case live_get ctx path i st of (r, st') \<Rightarrow>
      (case r of Inl e \<Rightarrow> Some (Broken e) | Inr None \<Rightarrow> Some Pass | Inr (Some _) \<Rightarrow> None, st'))"

definition wait_deleted :: "('sk, 'pk, 'sig) live_ctx \<Rightarrow> string \<Rightarrow> string \<Rightarrow> submitted \<Rightarrow> outcome look" where
  "wait_deleted ctx path i sub =
     (if \<not> su_accepted sub then done_late (Fail (''delete denied at submit: '' @ or_empty (su_reason sub)))
      else live_poll ctx (look_deleted ctx path i)
        (done_late (Timeout (''object still present at '' @ path @ i @ dash @ ''delete never took effect''))) 0)"

definition look_version ::
  "('sk, 'pk, 'sig) live_ctx \<Rightarrow> string \<Rightarrow> string \<Rightarrow> string \<Rightarrow> outcome option look" where
  "look_version ctx path i old st =
     (case live_get ctx path i st of (r, st') \<Rightarrow>
      (case r of
         Inl e \<Rightarrow> Some (Broken e)
       | Inr None \<Rightarrow> None
       | Inr (Some o') \<Rightarrow> if lv_confirmed o' \<and> lv_object_hash o' \<noteq> old then Some Pass else None, st'))"

definition wait_version_change ::
  "('sk, 'pk, 'sig) live_ctx \<Rightarrow> string \<Rightarrow> string \<Rightarrow> string \<Rightarrow> outcome look" where
  "wait_version_change ctx path i old =
     live_poll ctx (look_version ctx path i old)
       (done_late (Timeout (''policy at '' @ path @ i @ '' never changed version''))) 0"

text \<open>Here the deadline comes first.\<close>

function wait_head_from :: "('sk, 'pk, 'sig) live_ctx \<Rightarrow> nat \<Rightarrow> nat \<Rightarrow> live_state \<Rightarrow> live_state" where
  "wait_head_from ctx target elapsed st =
     (if SETTLE_MS \<le> elapsed then st
      else case head_or ctx 0 st of (head, st') \<Rightarrow>
        if target \<le> head then st'
        else wait_head_from ctx target
          (elapsed + spent (lx_lib ctx) (ls_sent st) (ls_sent st') + POLL_MS) st')"
  by pat_completeness auto
termination
  by (relation "measure (\<lambda>(ctx, target, elapsed, st). SETTLE_MS - elapsed)") (auto simp: POLL_MS_def)

declare wait_head_from.simps [simp del]

text \<open>An outcome is no error: a poll as a step of a scenario.\<close>

definition look_run :: "'a look \<Rightarrow> 'a live" where
  "look_run l st = (case l st of (x, st') \<Rightarrow> (Inr x, st'))"

definition wait_for_head :: "('sk, 'pk, 'sig) live_ctx \<Rightarrow> nat \<Rightarrow> unit live" where
  "wait_for_head ctx target st = (Inr (), wait_head_from ctx target 0 st)"

definition require_present :: "('sk, 'pk, 'sig) live_ctx \<Rightarrow> string \<Rightarrow> string \<Rightarrow> string \<Rightarrow> unit live" where
  "require_present ctx path i what =
     and_then (look_run (settle_present ctx path i None)) (\<lambda>out.
     if out = Pass then done_with ()
     else fail_with (what @ '' never confirmed in head: '' @ outcome_note out))"

definition live_hash :: "('sk, 'pk, 'sig) live_ctx \<Rightarrow> string \<Rightarrow> string \<Rightarrow> string option live" where
  "live_hash ctx path i =
     and_then (live_get ctx path i) (\<lambda>o'. done_with (map_option lv_object_hash o'))"

end
