(* ===== verification/App_Live_Scenarios.thy ===== *)
theory App_Live_Scenarios
  imports App_Livetest
begin

text \<open>
  The writes of \<open>mingo live-test\<close>, its scenarios, the cleanup and the run
  (\<open>mingo-app/src/livetest.rs\<close>).
\<close>

section \<open>Writes\<close>

definition space :: string where
  "space = ''/communities/cooks/spaces/general/''"

definition attestation_place :: "string \<Rightarrow> string \<Rightarrow> string" where
  "attestation_place issuer subject = ''/u/'' @ issuer @ ''/attestations/'' @ subject @ ''/''"

text \<open>A write under the certificate of a provisioned identity.\<close>

definition persona_write ::
  "('sk, 'pk, 'sig) live_ctx \<Rightarrow> 'sk provisioned \<Rightarrow> string \<Rightarrow> string \<Rightarrow> string \<Rightarrow> json \<Rightarrow> string option \<Rightarrow>
   (string, string) res" where
  "persona_write ctx actor path i schema payload owner =
     assemble_write (lx_api ctx) (pv_key actor) (Some (pv_cert actor)) None path i schema
       ''application/json'' (json_text (lx_api ctx) payload) owner None"

definition attestation_body :: "string \<Rightarrow> string \<Rightarrow> json \<Rightarrow> int \<Rightarrow> string \<Rightarrow> json" where
  "attestation_body subject typ v now issuer = mk_obj
     [(''subject'', JStr subject), (''type'', JStr typ), (''value'', v), (''issued_at'', JNum now),
      (''expires'', JNull), (''issuer'', JStr issuer)]"

definition self_issue_membership :: "('sk, 'pk, 'sig) live_ctx \<Rightarrow> 'sk provisioned \<Rightarrow> string \<Rightarrow> submitted live" where
  "self_issue_membership ctx actor comm =
     (let addr = pv_email actor in
      and_then (live_now ctx) (\<lambda>now.
      and_then (lift (persona_write ctx actor (attestation_place addr addr) (''membership-'' @ comm) ''attestation.v1''
          (attestation_body addr (''membership:'' @ comm)
             (mk_obj [(''community'', JStr comm), (''via'', JStr ''mingo-livetest'')]) now addr) (Some addr)))
        (\<lambda>wire_bytes.
      live_submit ctx wire_bytes (''membership '' @ addr @ [CHR 0xE2, CHR 0x86, CHR 0x92] @ comm))))"

definition join_and_confirm :: "('sk, 'pk, 'sig) live_ctx \<Rightarrow> 'sk provisioned \<Rightarrow> string \<Rightarrow> unit live" where
  "join_and_confirm ctx actor comm =
     and_then (self_issue_membership ctx actor comm) (\<lambda>sub.
     if \<not> su_accepted sub
     then fail_with (''membership self-issue denied at submit: '' @ or_empty (su_reason sub))
     else
       let addr = pv_email actor in
       require_present ctx (attestation_place addr addr) (''membership-'' @ comm) (addr @ '' membership:'' @ comm))"

definition post_body :: "string \<Rightarrow> int \<Rightarrow> json" where
  "post_body body now = mk_obj
     [(''body'', JStr body), (''parent'', JNull), (''created_at'', JNum (wrap64 (now * 1000)))]"

text \<open>The object is noted only when the submission got an answer.\<close>

definition write_post ::
  "('sk, 'pk, 'sig) live_ctx \<Rightarrow> 'sk provisioned \<Rightarrow> string \<Rightarrow> string \<Rightarrow> submitted live" where
  "write_post ctx actor i body =
     and_then (live_now ctx) (\<lambda>now.
     and_then (lift (persona_write ctx actor space i ''post.v1'' (post_body body now) (Some (pv_email actor))))
       (\<lambda>wire_bytes.
     and_then (live_submit ctx wire_bytes (''post '' @ i @ '' by '' @ pv_email actor)) (\<lambda>sub.
     and_then (note_written space i) (\<lambda>_. done_with sub))))"

definition owned_delete_message ::
  "('sk, 'pk, 'sig) app_api \<Rightarrow> 'sk \<Rightarrow> string option \<Rightarrow> string \<Rightarrow> string \<Rightarrow> string \<Rightarrow> string \<Rightarrow>
   (string, ('pk, 'sig) message) res" where
  "owned_delete_message api key cert path i schema owner =
     res_bind (map_err (\<lambda>e. ''bad path '' @ apos path @ '': '' @ e) (path_parse api path)) (\<lambda>p.
     res_bind (map_err (\<lambda>e. ''bad id '' @ apos i @ '': '' @ e) (id_new api i)) (\<lambda>n.
     res_bind (map_err (\<lambda>e. ''bad owner '' @ apos owner @ '': '' @ e) (id_new api owner)) (\<lambda>own.
     Inr (sign_with api key \<lparr>m_action = Delete, m_path = p, m_id = n,
       m_signing_key = key_public api key, m_signature = placeholder_sig api,
       m_content_type = None, m_content_hash = None, m_payload = None, m_owner = Some own,
       m_creator = None, m_content_encoding = None, m_content_schema = Some schema, m_policy_ref = None,
       m_related = None, m_hlc = None, m_prev = None, m_auth_cert = cert, m_auth_evidence = None,
       m_auth_warrant = None\<rparr>))))"

definition assemble_delete ::
  "('sk, 'pk, 'sig) app_api \<Rightarrow> 'sk \<Rightarrow> string option \<Rightarrow> string \<Rightarrow> string \<Rightarrow> string \<Rightarrow> string \<Rightarrow>
   (string, string) res" where
  "assemble_delete api key cert path i schema owner =
     res_bind (owned_delete_message api key cert path i schema owner) (\<lambda>msg. Inr (wire_serialize api msg))"

definition write_delete ::
  "('sk, 'pk, 'sig) live_ctx \<Rightarrow> 'sk provisioned \<Rightarrow> string \<Rightarrow> string \<Rightarrow> string \<Rightarrow> submitted live" where
  "write_delete ctx actor path i schema =
     and_then (lift (assemble_delete (lx_api ctx) (pv_key actor) (Some (pv_cert actor)) path i schema (pv_email actor)))
       (\<lambda>wire_bytes.
     live_submit ctx wire_bytes (''delete '' @ i @ '' by '' @ pv_email actor))"

definition write_attestation ::
  "('sk, 'pk, 'sig) live_ctx \<Rightarrow> 'sk provisioned \<Rightarrow> string \<Rightarrow> string \<Rightarrow> json \<Rightarrow> submitted live" where
  "write_attestation ctx issuer subject typ v =
     (let iss = pv_email issuer in
      and_then (live_now ctx) (\<lambda>now.
      and_then (lift (persona_write ctx issuer (attestation_place iss subject) typ ''attestation.v1''
          (attestation_body subject typ v now iss) (Some iss))) (\<lambda>wire_bytes.
      live_submit ctx wire_bytes
        (''attestation '' @ typ @ '' '' @ iss @ [CHR 0xE2, CHR 0x86, CHR 0x92] @ subject))))"

definition assemble_policy ::
  "('sk, 'pk, 'sig) live_ctx \<Rightarrow> 'sk provisioned \<Rightarrow> string \<Rightarrow> (string, string) res" where
  "assemble_policy ctx actor path =
     persona_write ctx actor path ''_policy'' ''policy.v2''
       (mk_obj [(''grants'', JArr [mk_obj [(''to'', JStr ''*''),
            (''can'', JArr [JStr ''create'', JStr ''update'', JStr ''delete'']), (''on'', JStr (path @ ''**''))]]),
          (''restrictions'', JArr [])]) None"

definition sys_wire ::
  "('sk, 'pk, 'sig) live_ctx \<Rightarrow> string \<Rightarrow> string \<Rightarrow> json \<Rightarrow> (string, string \<times> string) res" where
  "sys_wire ctx path i policy =
     res_bind (ok_or (lx_sys ctx) ''no sys key loaded'') (\<lambda>(key, owner).
     let payload = json_text (lx_api ctx) policy in
     res_bind (assemble_write (lx_api ctx) key None None path i ''policy.v2'' ''application/json'' payload
         (Some owner) None) (\<lambda>wire_bytes.
     Inr (wire_bytes, hash_text (lx_api ctx) (sha256 (lx_api ctx) payload))))"

definition sys_install ::
  "('sk, 'pk, 'sig) live_ctx \<Rightarrow> string \<Rightarrow> string \<Rightarrow> json \<Rightarrow> string \<Rightarrow> (submitted \<times> string) live" where
  "sys_install ctx path i policy label =
     and_then (lift (sys_wire ctx path i policy)) (\<lambda>(wire_bytes, content_hash).
     and_then (live_submit ctx wire_bytes label) (\<lambda>sub.
     and_then (note_policy path i) (\<lambda>_. done_with (sub, content_hash))))"

text \<open>\<open>expect\<close> panics without a key; every caller has checked for one.\<close>

definition govern_by :: "string \<Rightarrow> string \<Rightarrow> json" where
  "govern_by owner base = mk_obj
     [(''to'', mk_obj [(''key'', JStr owner)]), (''can'', JArr [JStr ''govern'']), (''on'', JStr (base @ ''**''))]"

definition sys_govern_grant :: "('sk, 'pk, 'sig) live_ctx \<Rightarrow> string \<Rightarrow> json" where
  "sys_govern_grant ctx base = govern_by (snd (the (lx_sys ctx))) base"

definition p234_base :: "('sk, 'pk, 'sig) live_ctx \<Rightarrow> string \<Rightarrow> string" where
  "p234_base ctx t = ''/livetest-p234-'' @ lx_runid ctx @ ''-'' @ t @ ''/''"

definition with_sys_key :: "('sk, 'pk, 'sig) live_ctx \<Rightarrow> outcome live \<Rightarrow> outcome live" where
  "with_sys_key ctx m = (if lx_sys ctx = None then done_with (Skip ''no --sys-key-file loaded'') else m)"

text \<open>The early returns on a denied write: \<open>denied\<close> with the reason, \<open>refused\<close> without.\<close>

definition refused :: "submitted \<Rightarrow> string \<Rightarrow> outcome live \<Rightarrow> outcome live" where
  "refused sub txt m = (if \<not> su_accepted sub then done_with (Fail txt) else m)"

definition denied :: "submitted \<Rightarrow> string \<Rightarrow> outcome live \<Rightarrow> outcome live" where
  "denied sub what m = refused sub (what @ '': '' @ or_empty (su_reason sub)) m"

section \<open>Scenarios on content\<close>

definition s1_capture_fix :: "('sk, 'pk, 'sig) live_ctx \<Rightarrow> outcome live" where
  "s1_capture_fix ctx =
     and_then (live_provision ctx ''s1-alice'') (\<lambda>alice.
     and_then (join_and_confirm ctx alice ''cooks'') (\<lambda>_.
     let sub = space @ oid ctx ''s1'' @ ''/'' in
     and_then (lift (assemble_policy ctx alice sub)) (\<lambda>wire_bytes.
     and_then (live_submit ctx wire_bytes ''policy capture attempt'') (\<lambda>submitted.
     and_then (note_written sub ''_policy'') (\<lambda>_.
     look_run (settle_absent ctx sub ''_policy'' submitted))))))"

definition s2_non_member_denied :: "('sk, 'pk, 'sig) live_ctx \<Rightarrow> outcome live" where
  "s2_non_member_denied ctx =
     and_then (live_provision ctx ''s2-stranger'') (\<lambda>stranger.
     let i = oid ctx ''s2-post'' in
     and_then (write_post ctx stranger i ''non-member post (should be denied)'') (\<lambda>sub.
     look_run (settle_absent ctx space i sub)))"

definition s3_member_can_post :: "('sk, 'pk, 'sig) live_ctx \<Rightarrow> outcome live" where
  "s3_member_can_post ctx =
     and_then (live_provision ctx ''s3-member'') (\<lambda>member.
     and_then (join_and_confirm ctx member ''cooks'') (\<lambda>_.
     let i = oid ctx ''s3-post'' in
     and_then (write_post ctx member i ''member post (should apply)'') (\<lambda>sub.
     denied sub ''member post denied at submit''
       (look_run (settle_present ctx space i (Some ''member post (should apply)''))))))"

definition possessive_a :: string where
  "possessive_a = ''A'' @ [CHR 0x27] @ ''s ''"

definition s4_owner_only_update :: "('sk, 'pk, 'sig) live_ctx \<Rightarrow> outcome live" where
  "s4_owner_only_update ctx =
     and_then (live_provision ctx ''s4-a'') (\<lambda>a.
     and_then (live_provision ctx ''s4-b'') (\<lambda>b.
     and_then (join_and_confirm ctx a ''cooks'') (\<lambda>_.
     and_then (join_and_confirm ctx b ''cooks'') (\<lambda>_.
     let i = oid ctx ''s4-post''; original = possessive_a @ ''original post'' in
     and_then (write_post ctx a i original) (\<lambda>sub_a.
     refused sub_a (possessive_a @ ''post denied at submit'') (
     and_then (require_present ctx space i (possessive_a @ ''post'')) (\<lambda>_.
     and_then (live_now ctx) (\<lambda>now.
     and_then (lift (persona_write ctx b space i ''post.v1'' (post_body ''B hijacked this'' now) (Some (pv_email b))))
       (\<lambda>wire_b.
     and_then (live_submit ctx wire_b (''B hijack update of '' @ i)) (\<lambda>sub_b.
     and_then (if su_accepted sub_b then wait_for_head ctx (final_head sub_b) else done_with ()) (\<lambda>_.
     look_run (settle_present ctx space i (Some original)))))))))))))"

definition s5_author_delete :: "('sk, 'pk, 'sig) live_ctx \<Rightarrow> outcome live" where
  "s5_author_delete ctx =
     and_then (live_provision ctx ''s5-a'') (\<lambda>a.
     and_then (join_and_confirm ctx a ''cooks'') (\<lambda>_.
     let i = oid ctx ''s5-post'' in
     and_then (write_post ctx a i ''post to self-delete'') (\<lambda>sub.
     refused sub ''post denied at submit'' (
     and_then (require_present ctx space i ''post to delete'') (\<lambda>_.
     and_then (write_delete ctx a space i ''post.v1'') (\<lambda>del.
     look_run (wait_deleted ctx space i del)))))))"

text \<open>The context that \<open>s6\<close> adds to a failed provisioning replaces its message.\<close>

definition issuer_persona :: "('sk, 'pk, 'sig) live_ctx \<Rightarrow> 'sk provisioned live" where
  "issuer_persona ctx =
     attempt (on_net (provision_persona (lx_api ctx) (lx_seed ctx) (lx_idp ctx) (lx_token ctx) ''cooks'' (lx_domain ctx)))
       (\<lambda>r. lift (map_err (\<lambda>_. ''provisioning cooks@mingo.place issuer'') r))"

definition s6_moderator_delete :: "('sk, 'pk, 'sig) live_ctx \<Rightarrow> outcome live" where
  "s6_moderator_delete ctx =
     and_then (live_provision ctx ''s6-victim'') (\<lambda>victim.
     and_then (live_provision ctx ''s6-mod'') (\<lambda>moderator.
     and_then (join_and_confirm ctx victim ''cooks'') (\<lambda>_.
     and_then (join_and_confirm ctx moderator ''cooks'') (\<lambda>_.
     and_then (issuer_persona ctx) (\<lambda>issuer.
     and_then (write_attestation ctx issuer (pv_email moderator) ''role:moderator:cooks'' (JStr ''moderator''))
       (\<lambda>appt.
     denied appt ''moderator appointment denied'' (
     and_then (require_present ctx (attestation_place (pv_email issuer) (pv_email moderator)) ''role:moderator:cooks''
         ''moderator role attestation'') (\<lambda>_.
     let i = oid ctx ''s6-post'' in
     and_then (write_post ctx victim i ''victim post for moderator delete'') (\<lambda>vpost.
     refused vpost ''victim post denied at submit'' (
     and_then (require_present ctx space i ''victim post'') (\<lambda>_.
     and_then (write_delete ctx moderator space i ''post.v1'') (\<lambda>del.
     look_run (wait_deleted ctx space i del)))))))))))))"

definition s7_non_moderator_delete :: "('sk, 'pk, 'sig) live_ctx \<Rightarrow> outcome live" where
  "s7_non_moderator_delete ctx =
     and_then (live_provision ctx ''s7-owner'') (\<lambda>owner.
     and_then (live_provision ctx ''s7-other'') (\<lambda>other.
     and_then (join_and_confirm ctx owner ''cooks'') (\<lambda>_.
     and_then (join_and_confirm ctx other ''cooks'') (\<lambda>_.
     let i = oid ctx ''s7-post'' in
     and_then (write_post ctx owner i ''owner post, other tries to delete'') (\<lambda>sub.
     refused sub ''owner post denied at submit'' (
     and_then (require_present ctx space i ''owner post'') (\<lambda>_.
     and_then (write_delete ctx other space i ''post.v1'') (\<lambda>del.
     and_then (if su_accepted del then wait_for_head ctx (final_head del) else done_with ()) (\<lambda>_.
     look_run (settle_present ctx space i (Some ''owner post, other tries to delete'')))))))))))"

section \<open>Scenarios on policies\<close>

definition pinned :: "string \<Rightarrow> string \<Rightarrow> (string \<times> json) list \<Rightarrow> json" where
  "pinned ancestor hash extra =
     mk_obj ((''pin'', mk_obj [(''ancestor'', JStr ancestor), (''hash'', JStr hash)]) # (''grants'', JArr []) # extra)"

definition hash_now :: "('sk, 'pk, 'sig) live_ctx \<Rightarrow> string \<Rightarrow> string live" where
  "hash_now ctx path = and_then (live_hash ctx path ''root'') (\<lambda>h. done_with (or_empty h))"

text \<open>\<open>!accepted || matches!(.., Timeout(_))\<close>: the poll runs only after an accepted write.\<close>

definition amended :: "('sk, 'pk, 'sig) live_ctx \<Rightarrow> string \<Rightarrow> string \<Rightarrow> submitted \<Rightarrow> bool live" where
  "amended ctx path old sub =
     (if \<not> su_accepted sub then done_with False
      else and_then (look_run (wait_version_change ctx path ''root'' old)) (\<lambda>out.
        done_with (case out of Timeout _ \<Rightarrow> False | _ \<Rightarrow> True)))"

text \<open>\<open>accepted && matches!(.., Pass)\<close>.\<close>

definition applied :: "submitted \<Rightarrow> outcome look \<Rightarrow> bool live" where
  "applied sub l =
     (if \<not> su_accepted sub then done_with False
      else and_then (look_run l) (\<lambda>out. done_with (out = Pass)))"

definition verdict_of :: "live_lib \<Rightarrow> string \<Rightarrow> submitted \<Rightarrow> outcome" where
  "verdict_of lib what sub =
     Fail (what @ '' (submit accepted='' @ (if su_accepted sub then ''true'' else ''false'') @ '', reason='' @
       debug_opt lib (su_reason sub) @ '')'')"

definition govern_policy :: "('sk, 'pk, 'sig) live_ctx \<Rightarrow> string \<Rightarrow> (string \<times> json) list \<Rightarrow> json" where
  "govern_policy ctx base extra = mk_obj ((''grants'', JArr [sys_govern_grant ctx base]) # extra)"

text \<open>Whether an update that must be denied was: not accepted, and the object as it was.\<close>

definition update_denied ::
  "('sk, 'pk, 'sig) live_ctx \<Rightarrow> string \<Rightarrow> json \<Rightarrow> string \<Rightarrow> (bool \<times> submitted) live" where
  "update_denied ctx path policy label =
     and_then (hash_now ctx path) (\<lambda>before.
     and_then (sys_install ctx path ''root'' policy label) (\<lambda>(sub, _).
     and_then (hash_now ctx path) (\<lambda>now.
     done_with (\<not> su_accepted sub \<and> now = before, sub))))"

text \<open>The two updates of \<open>s9\<close> after the ancestor has changed.\<close>

definition s9_updates ::
  "('sk, 'pk, 'sig) live_ctx \<Rightarrow> string \<Rightarrow> string \<Rightarrow> string \<Rightarrow> string \<Rightarrow> outcome live" where
  "s9_updates ctx base child_a child_b h_a1 =
     and_then (hash_now ctx child_a) (\<lambda>c_oh.
     and_then (sys_install ctx child_a ''root''
         (pinned base h_a1 [(''deny'', JArr [JStr (child_a @ ''zzz*'')])]) ''update C (pinned@v1)'') (\<lambda>(sub_cu, _).
     and_then (applied sub_cu (wait_version_change ctx child_a ''root'' c_oh)) (\<lambda>c_applied.
     and_then (update_denied ctx child_b
         (mk_obj [(''grants'', JArr []), (''deny'', JArr [JStr (child_b @ ''zzz*'')])]) ''update D (tracking v2)'')
       (\<lambda>(d_denied, sub_du).
     done_with (if \<not> c_applied
       then Fail (''pinned child C update was NOT applied'' @ dash @
              ''sovereignty broken (frozen v1 should still grant sys govern)'')
       else if \<not> d_denied
       then verdict_of (lx_lib ctx) (''tracking child D update was NOT denied'' @ dash @ ''revocation broken'') sub_du
       else Pass)))))"

text \<open>A key nobody holds, drawn at this moment.\<close>

definition throwaway_owner :: "('sk, 'pk, 'sig) live_ctx \<Rightarrow> string live" where
  "throwaway_owner ctx st = (Inr (key_string (lx_api ctx) (key_generate (lx_seed ctx) (ls_sent st))), st)"

definition s9_pinning_immunity :: "('sk, 'pk, 'sig) live_ctx \<Rightarrow> outcome live" where
  "s9_pinning_immunity ctx =
     with_sys_key ctx (
     let base = p234_base ctx ''s9''; child_a = base @ ''childA/''; child_b = base @ ''childB/'' in
     and_then (sys_install ctx base ''root'' (govern_policy ctx base []) ''A_v1 install'') (\<lambda>(sub_a, h_a1).
     denied sub_a ''A_v1 install denied'' (
     and_then (require_present ctx base ''root'' ''ancestor A'') (\<lambda>_.
     and_then (sys_install ctx child_a ''root'' (pinned base h_a1 []) ''C pinned@A_v1'') (\<lambda>(sub_c, _).
     denied sub_c ''C install denied'' (
     and_then (require_present ctx child_a ''root'' ''child C'') (\<lambda>_.
     and_then (sys_install ctx child_b ''root'' (mk_obj [(''grants'', JArr [])]) ''D unpinned'') (\<lambda>(sub_d, _).
     denied sub_d ''D install denied'' (
     and_then (require_present ctx child_b ''root'' ''child D'') (\<lambda>_.
     and_then (hash_now ctx base) (\<lambda>a_oh.
     and_then (throwaway_owner ctx) (\<lambda>rand_owner.
     and_then (sys_install ctx base ''root'' (mk_obj [(''grants'', JArr [govern_by rand_owner base])])
         ''A_v2 (revoke sys govern)'') (\<lambda>(sub_a2, _).
     denied sub_a2 ''A_v2 amend denied'' (
     and_then (look_run (wait_version_change ctx base ''root'' a_oh)) (\<lambda>changed.
     case changed of
       Timeout m \<Rightarrow> done_with (Timeout (''A_v2 never applied: '' @ m))
     | _ \<Rightarrow> s9_updates ctx base child_a child_b h_a1)))))))))))))))"

definition s10_creation_pin_latest :: "('sk, 'pk, 'sig) live_ctx \<Rightarrow> outcome live" where
  "s10_creation_pin_latest ctx =
     with_sys_key ctx (
     let base = p234_base ctx ''s10'' in
     and_then (sys_install ctx base ''root'' (govern_policy ctx base []) ''A_v1'') (\<lambda>(sa, h_stale).
     refused sa ''A_v1 denied'' (
     and_then (require_present ctx base ''root'' ''ancestor A'') (\<lambda>_.
     and_then (hash_now ctx base) (\<lambda>a_oh.
     and_then (sys_install ctx base ''root''
         (govern_policy ctx base [(''deny'', JArr [JStr (base @ ''zzz*'')])]) ''A_v2 (new latest)'')
       (\<lambda>(sa2, h_latest).
     and_then (amended ctx base a_oh sa2) (\<lambda>ok.
     if \<not> ok then done_with (Fail ''A_v2 amend not applied'')
     else
       let stale_path = base @ ''childStale/''; latest_path = base @ ''childLatest/'' in
       and_then (sys_install ctx stale_path ''root'' (pinned base h_stale []) ''child pinned@STALE'') (\<lambda>(sub_stale, _).
       and_then (look_run (settle_absent ctx stale_path ''root'' sub_stale)) (\<lambda>stale.
       and_then (sys_install ctx latest_path ''root'' (pinned base h_latest []) ''child pinned@LATEST'')
         (\<lambda>(sub_latest, _).
       and_then (applied sub_latest (settle_present ctx latest_path ''root'' None)) (\<lambda>latest_present.
       done_with (if stale \<noteq> Pass then Fail ''stale-pinned child was NOT rejected''
         else if \<not> latest_present
         then verdict_of (lx_lib ctx) ''latest-pinned child was NOT accepted'' sub_latest
         else Pass))))))))))))"

definition s11_forward_only :: "('sk, 'pk, 'sig) live_ctx \<Rightarrow> outcome live" where
  "s11_forward_only ctx =
     with_sys_key ctx (
     let base = p234_base ctx ''s11''; child = base @ ''child/''; a' = JStr (base @ ''a*''); b' = JStr (base @ ''b*'') in
     and_then (sys_install ctx base ''root'' (govern_policy ctx base []) ''A_v1'') (\<lambda>(s1, _).
     refused s1 ''A_v1 denied'' (
     and_then (require_present ctx base ''root'' ''ancestor A'') (\<lambda>_.
     and_then (hash_now ctx base) (\<lambda>oh1.
     and_then (sys_install ctx base ''root'' (govern_policy ctx base [(''deny'', JArr [a'])]) ''A_v2'') (\<lambda>(s2, h2).
     and_then (amended ctx base oh1 s2) (\<lambda>ok2.
     if \<not> ok2 then done_with (Fail ''A_v2 not applied'')
     else
     and_then (sys_install ctx child ''root'' (pinned base h2 []) ''child pinned@v2'') (\<lambda>(sc, _).
     denied sc ''child install denied'' (
     and_then (require_present ctx child ''root'' ''child'') (\<lambda>_.
     and_then (hash_now ctx base) (\<lambda>oh2.
     and_then (sys_install ctx base ''root'' (govern_policy ctx base [(''deny'', JArr [a', b'])]) ''A_v3'') (\<lambda>(s3, h3).
     and_then (amended ctx base oh2 s3) (\<lambda>ok3.
     if \<not> ok3 then done_with (Fail ''A_v3 not applied'')
     else
     and_then (hash_now ctx child) (\<lambda>ch_oh.
     and_then (sys_install ctx child ''root'' (pinned base h3 [])
         (''child re-pin'' @ [CHR 0xE2, CHR 0x86, CHR 0x92] @ ''v3 (forward)'')) (\<lambda>(sf, _).
     and_then (applied sf (wait_version_change ctx child ''root'' ch_oh)) (\<lambda>forward_ok.
     and_then (update_denied ctx child (pinned base h2 [])
         (''child re-pin'' @ [CHR 0xE2, CHR 0x86, CHR 0x92] @ ''v2 (backward)'')) (\<lambda>(backward_denied, sb).
     done_with (if \<not> forward_ok
       then Fail (''forward re-pin ('' @ [CHR 0xE2, CHR 0x86, CHR 0x92] @ ''latest) was NOT accepted'')
       else if \<not> backward_denied
       then verdict_of (lx_lib ctx) (''backward re-pin ('' @ [CHR 0xE2, CHR 0x86, CHR 0x92] @ ''older) was NOT rejected'') sb
       else Pass))))))))))))))))))"

definition open_grant :: "string list \<Rightarrow> string \<Rightarrow> json" where
  "open_grant can on = mk_obj [(''to'', JStr ''*''), (''can'', JArr (map JStr can)), (''on'', JStr on)]"

definition size_restriction :: "string \<Rightarrow> json" where
  "size_restriction on = mk_obj [(''on'', JStr on), (''require'', mk_obj [(''max_size'', JNum 65536)])]"

definition s12_descendant_constraint :: "('sk, 'pk, 'sig) live_ctx \<Rightarrow> outcome live" where
  "s12_descendant_constraint ctx =
     with_sys_key ctx (
     let base = p234_base ctx ''s12''; subtree = base @ ''**'';
         g = open_grant [''create''] subtree; r = size_restriction subtree;
         bad_path = base @ ''childBad/''; miss_path = base @ ''childMissing/''; good_path = base @ ''childGood/'' in
     and_then (sys_install ctx base ''root'' (govern_policy ctx base [(''descendant_constraint'',
         mk_obj [(''allowed_grants'', JArr [g]), (''mandated_restrictions'', JArr [r])])])
         ''A (with descendant_constraint)'') (\<lambda>(sa, _).
     denied sa ''A install denied'' (
     and_then (require_present ctx base ''root'' ''ancestor A'') (\<lambda>_.
     and_then (sys_install ctx bad_path ''root'' (mk_obj [(''grants'', JArr [open_grant [''create'', ''update''] subtree]),
         (''restrictions'', JArr [r])]) ''child grant exceeds template'') (\<lambda>(sub_bad, _).
     and_then (look_run (settle_absent ctx bad_path ''root'' sub_bad)) (\<lambda>bad.
     and_then (sys_install ctx miss_path ''root'' (mk_obj [(''grants'', JArr [g])])
         ''child missing mandated restriction'') (\<lambda>(sub_miss, _).
     and_then (look_run (settle_absent ctx miss_path ''root'' sub_miss)) (\<lambda>miss.
     and_then (sys_install ctx good_path ''root'' (mk_obj [(''grants'', JArr [g]), (''restrictions'', JArr [r])])
         ''child within template'') (\<lambda>(sub_good, _).
     and_then (applied sub_good (settle_present ctx good_path ''root'' None)) (\<lambda>good_present.
     done_with (if bad \<noteq> Pass then Fail ''over-broad-grant child was NOT rejected''
       else if miss \<noteq> Pass then Fail ''child missing mandated restriction was NOT rejected''
       else if \<not> good_present then verdict_of (lx_lib ctx) ''compliant child was NOT accepted'' sub_good
       else Pass)))))))))))"

definition s13_no_pin :: "('sk, 'pk, 'sig) live_ctx \<Rightarrow> outcome live" where
  "s13_no_pin ctx =
     with_sys_key ctx (
     let base = p234_base ctx ''s13''; pinned_path = base @ ''childPinned/''; open_path = base @ ''childOpen/'' in
     and_then (sys_install ctx base ''root'' (govern_policy ctx base [(''descendant_constraint'',
         mk_obj [(''forbid_pinning'', JBool True)])]) ''A (forbid_pinning)'') (\<lambda>(sa, h_a).
     denied sa ''A install denied'' (
     and_then (require_present ctx base ''root'' ''ancestor A'') (\<lambda>_.
     and_then (sys_install ctx pinned_path ''root'' (pinned base h_a []) ''pinned child (parent forbids)'')
       (\<lambda>(sub_pin, _).
     and_then (look_run (settle_absent ctx pinned_path ''root'' sub_pin)) (\<lambda>pin.
     and_then (sys_install ctx open_path ''root'' (mk_obj [(''grants'', JArr [])]) ''unpinned tracking child'')
       (\<lambda>(sub_open, _).
     and_then (applied sub_open (settle_present ctx open_path ''root'' None)) (\<lambda>open_present.
     done_with (if pin \<noteq> Pass then Fail ''pinned child was NOT rejected under forbid_pinning''
       else if \<not> open_present then verdict_of (lx_lib ctx) ''unpinned child was NOT accepted'' sub_open
       else Pass)))))))))"

section \<open>The run\<close>

definition run_scenario :: "('sk, 'pk, 'sig) live_ctx \<Rightarrow> string \<Rightarrow> outcome live" where
  "run_scenario ctx i =
     (if i = ''S1'' then s1_capture_fix ctx
      else if i = ''S2'' then s2_non_member_denied ctx
      else if i = ''S3'' then s3_member_can_post ctx
      else if i = ''S4'' then s4_owner_only_update ctx
      else if i = ''S5'' then s5_author_delete ctx
      else if i = ''S6'' then s6_moderator_delete ctx
      else if i = ''S7'' then s7_non_moderator_delete ctx
      else if i = ''S8'' then done_with (Skip ''not implemented'')
      else if i = ''S9'' then s9_pinning_immunity ctx
      else if i = ''S10'' then s10_creation_pin_latest ctx
      else if i = ''S11'' then s11_forward_only ctx
      else if i = ''S12'' then s12_descendant_constraint ctx
      else if i = ''S13'' then s13_no_pin ctx
      else done_with (Skip (''unknown scenario '' @ i)))"

definition sys_delete_policy :: "('sk, 'pk, 'sig) live_ctx \<Rightarrow> string \<Rightarrow> string \<Rightarrow> submitted live" where
  "sys_delete_policy ctx path i =
     and_then (lift (ok_or (lx_sys ctx) ''no sys key'')) (\<lambda>(key, owner).
     and_then (lift (assemble_delete (lx_api ctx) key None path i ''policy.v2'' owner)) (\<lambda>wire_bytes.
     live_submit ctx wire_bytes (''delete policy '' @ path @ i)))"

fun sweep :: "('sk, 'pk, 'sig) live_ctx \<Rightarrow> (string \<times> string) list \<Rightarrow> unit live" where
  "sweep ctx [] = done_with ()"
| "sweep ctx ((path, i) # ps) = attempt (sys_delete_policy ctx path i) (\<lambda>_. sweep ctx ps)"

definition cleanup :: "('sk, 'pk, 'sig) live_ctx \<Rightarrow> unit live" where
  "cleanup ctx st =
     (if lx_sys ctx \<noteq> None \<and> ls_policies st \<noteq> [] then sweep ctx (rev (ls_policies st)) st else (Inr (), st))"

type_synonym verdict = "string \<times> expect \<times> outcome"

fun run_all :: "('sk, 'pk, 'sig) live_ctx \<Rightarrow> scenario list \<Rightarrow> verdict list live" where
  "run_all ctx [] = done_with []"
| "run_all ctx (s # ss) =
     attempt (if \<not> sc_implemented s then done_with (Skip ''not implemented'') else run_scenario ctx (sc_id s))
       (\<lambda>r. let out = (case r of Inr x \<Rightarrow> x | Inl e \<Rightarrow> Broken e) in
     and_then (run_all ctx ss) (\<lambda>vs. done_with ((sc_id s, sc_expect s, out) # vs)))"

text \<open>The two counts of the summary.\<close>

definition tally :: "verdict list \<Rightarrow> nat \<times> nat" where
  "tally vs =
     (length (filter (\<lambda>(_, _, out). out = Pass) vs),
      length (filter (\<lambda>(_, _, out). case out of Fail _ \<Rightarrow> True | Timeout _ \<Rightarrow> True | Broken _ \<Rightarrow> True | _ \<Rightarrow> False) vs))"

definition load_sys_key ::
  "('sk, 'pk, 'sig) app_api \<Rightarrow> env \<Rightarrow> (string \<Rightarrow> (string, string) res) \<Rightarrow> string \<Rightarrow> (string, 'sk \<times> string) res" where
  "load_sys_key api env read path =
     res_bind (load_signing_key_file api read (expand_tilde env path)) (\<lambda>key. Inr (key, key_string api key))"

definition make_runid :: "('sk, 'pk, 'sig) app_api \<Rightarrow> 'sk \<Rightarrow> string" where
  "make_runid api seed = hex_encode api (take 4 (sha256 api (key_text_bytes api (key_public api seed))))"

definition live_execute ::
  "('sk, 'pk, 'sig) app_api \<Rightarrow> 'sk seed_lib \<Rightarrow> live_lib \<Rightarrow> env \<Rightarrow> (string \<Rightarrow> (string, string) res) \<Rightarrow>
   live_args \<Rightarrow> string \<Rightarrow> scenario list \<Rightarrow> verdict list live" where
  "live_execute api slib lib env read args dmn chosen =
     and_then (lift (ok_or (env (lg_admin_token_env args))
         (''--execute needs the IdP admin token in $'' @ lg_admin_token_env args))) (\<lambda>admin_token.
     and_then (on_net (client_built api)) (\<lambda>_ st.
     and_then (on_net (seed_dnssec_fresh api slib (lg_daemon args) dmn (unix_s lib (ls_sent st)))) (\<lambda>_ st1.
     let ctx = \<lparr>lx_api = api, lx_seed = slib, lx_lib = lib, lx_idp = lg_idp args, lx_daemon = lg_daemon args,
           lx_token = admin_token, lx_domain = dmn, lx_runid = make_runid api (key_generate slib (ls_sent st1)),
           lx_sys = (case load_sys_key api env read (lg_sys_key_file args) of Inr k \<Rightarrow> Some k | Inl _ \<Rightarrow> None)\<rparr>
     in and_then (run_all ctx chosen) (\<lambda>results.
        and_then (if lg_keep args then done_with () else cleanup ctx) (\<lambda>_. done_with results)) st1) st))"

text \<open>A dry run gives no verdicts.\<close>

definition live_run ::
  "('sk, 'pk, 'sig) app_api \<Rightarrow> 'sk seed_lib \<Rightarrow> live_lib \<Rightarrow> env \<Rightarrow> (string \<Rightarrow> (string, string) res) \<Rightarrow>
   live_args \<Rightarrow> verdict list option live" where
  "live_run api slib lib env read args =
     (let chosen = filter (\<lambda>s. selected s (lg_only args)) scenarios in
      if chosen = [] then fail_with (''no scenarios match --only '' @ debug_texts lib (lg_only args))
      else if \<not> lg_execute args then done_with None
      else and_then (live_execute api slib lib env read args (domain_of (lg_idp args)) chosen)
        (\<lambda>results. done_with (Some results)))"

end
