(* ===== verification/App_Appoint.thy ===== *)
theory App_Appoint
  imports App_Seed_Run
begin

text \<open>
  \<open>mingo appoint-moderator\<close> (\<open>mingo-app/src/appoint.rs\<close>): one attestation in the namespace of a
  community's issuer, under a certificate provisioned for it; and the cron tool that refreshes the
  attribution proofs (\<open>mingo-app/src/bin/dnssec-refresh.rs\<close>).

  The file repeats the seeder's \<open>domain_of\<close> and its freshness check, the latter with a submission
  that does not retry.  \<open>rfc3339\<close> is \<open>chrono\<close>'s parser of a date, as seconds.
\<close>

record appoint_args =
  am_comm_id :: string
  am_subject :: string
  am_idp :: string
  am_daemon :: string
  am_admin_token_env :: string
  am_value :: "string option"
  am_expires :: "string option"
  am_execute :: bool

definition parse_expires ::
  "(string \<Rightarrow> (string, int) res) \<Rightarrow> string option \<Rightarrow> (string, int option) res" where
  "parse_expires rfc3339 expires =
     (case map_option trim expires of
        None \<Rightarrow> Inr None
      | Some s \<Rightarrow>
          if s = [] \<or> s = ''none'' then Inr None
          else res_bind (map_err (\<lambda>_. ''parsing --expires '' @ apos s @ '' as ISO-8601/RFC-3339'') (rfc3339 s))
            (\<lambda>t. Inr (Some t)))"

definition attestation_payload ::
  "string \<Rightarrow> string \<Rightarrow> string \<Rightarrow> string \<Rightarrow> int \<Rightarrow> int option \<Rightarrow> json" where
  "attestation_payload comm_id subject issuer v issued_at expires = mk_obj
     [(''subject'', JStr subject), (''type'', JStr (''role:moderator:'' @ comm_id)), (''value'', JStr v),
      (''issued_at'', JNum issued_at),
      (''expires'', case expires of None \<Rightarrow> JNull | Some t \<Rightarrow> JNum t), (''issuer'', JStr issuer)]"

record appoint_plan =
  ap_issuer :: string
  ap_external_email :: string
  ap_subject :: string
  ap_path :: string
  ap_id :: string
  ap_owner :: string
  ap_schema :: string
  ap_content_type :: string
  ap_payload :: json

definition appoint_build_plan ::
  "(string \<Rightarrow> (string, int) res) \<Rightarrow> appoint_args \<Rightarrow> string \<Rightarrow> int \<Rightarrow> (string, appoint_plan) res" where
  "appoint_build_plan rfc3339 args dmn now =
     (if am_comm_id args = [] then Inl ''community id must not be empty''
      else if am_subject args = [] then Inl ''subject must not be empty''
      else
        let issuer = am_comm_id args @ ''@'' @ dmn;
            v = (case am_value args of Some x \<Rightarrow> x | None \<Rightarrow> ''moderator'')
        in res_bind (parse_expires rfc3339 (am_expires args)) (\<lambda>expires.
          Inr \<lparr>ap_issuer = issuer, ap_external_email = am_comm_id args @ ''.issuer@sandmill.org'',
            ap_subject = am_subject args,
            ap_path = ''/u/'' @ issuer @ ''/attestations/'' @ am_subject args @ ''/'',
            ap_id = ''role:moderator:'' @ am_comm_id args, ap_owner = issuer, ap_schema = ''attestation.v1'',
            ap_content_type = ''application/json'',
            ap_payload = attestation_payload (am_comm_id args) (am_subject args) issuer v now expires\<rparr>))"

definition appoint_submit :: "('sk, 'pk, 'sig) app_api \<Rightarrow> string \<Rightarrow> string \<Rightarrow> string \<Rightarrow> unit tool" where
  "appoint_submit api daemon wire_bytes label =
     and_then (tool_send api (PostWire (seed_submit_url daemon) wire_bytes)) (\<lambda>reply. lift (case reply of
       Replied status body \<Rightarrow>
         if is_success status then Inr ()
         else Inl (''ABORT'' @ dash @ ''submit failed for ['' @ label @ '']: HTTP '' @
                status_text api status @ '': '' @ body)
     | _ \<Rightarrow> Inl (''submitting '' @ label)))"

definition appoint_refresh_proof ::
  "('sk, 'pk, 'sig) app_api \<Rightarrow> 'sk seed_lib \<Rightarrow> string \<Rightarrow> string \<Rightarrow> string \<Rightarrow> unit tool" where
  "appoint_refresh_proof api lib daemon dmn proof_b64 =
     and_then (lift (map_err (\<lambda>_. ''decoding dnssec proof'') (proof_decode lib proof_b64))) (\<lambda>prf sent.
     and_then (lift (assemble_write api (key_generate lib sent) None None ''/sys/dnssec/'' dmn
         ''dnssec.v1'' ''application/octet-stream'' prf None None)) (\<lambda>wire_bytes.
     appoint_submit api daemon wire_bytes (''dnssec refresh ('' @ dmn @ '')'')) sent)"

definition appoint_dnssec_fresh ::
  "('sk, 'pk, 'sig) app_api \<Rightarrow> 'sk seed_lib \<Rightarrow> string \<Rightarrow> string \<Rightarrow> int \<Rightarrow> unit tool" where
  "appoint_dnssec_fresh api lib daemon dmn now =
     and_then (dnssec_check api lib (seed_dnssec_url daemon dmn now)) (\<lambda>resp.
     case (if sd_needs_refresh resp then sd_proof resp else None) of
       None \<Rightarrow> done_with ()
     | Some proof_b64 \<Rightarrow> appoint_refresh_proof api lib daemon dmn proof_b64)"

definition provision_issuer_call ::
  "'sk seed_lib \<Rightarrow> string \<Rightarrow> string \<Rightarrow> string \<Rightarrow> string \<Rightarrow> string \<Rightarrow> http_call" where
  "provision_issuer_call lib idp admin_token comm_id external secret =
     PostAdmin (trim_end_matches CHR ''/'' idp @ ''/admin/provision'') admin_token
       (mk_obj [(''external_email'', JStr external), (''handle'', JStr comm_id),
          (''pubkey'', pubkey_json lib secret)])"

definition provision_issuer ::
  "('sk, 'pk, 'sig) app_api \<Rightarrow> 'sk seed_lib \<Rightarrow> string \<Rightarrow> string \<Rightarrow> string \<Rightarrow> string \<Rightarrow> string \<Rightarrow>
   string tool" where
  "provision_issuer api lib idp admin_token comm_id external secret =
     cert_request api lib (provision_issuer_call lib idp admin_token comm_id external secret)
       ''provisioning '' ''provisioning issuer '' comm_id ''parsing provision response for ''"

definition appoint_write ::
  "('sk, 'pk, 'sig) app_api \<Rightarrow> appoint_plan \<Rightarrow> string \<Rightarrow> string \<Rightarrow> (string, string) res" where
  "appoint_write api plan secret cert =
     assemble_write api (key_of_bytes api secret) (Some cert) None (ap_path plan) (ap_id plan)
       (ap_schema plan) (ap_content_type plan) (json_text api (ap_payload plan)) (Some (ap_owner plan)) None"

definition appoint_execute ::
  "('sk, 'pk, 'sig) app_api \<Rightarrow> 'sk seed_lib \<Rightarrow> env \<Rightarrow> appoint_args \<Rightarrow> appoint_plan \<Rightarrow> string \<Rightarrow> int \<Rightarrow>
   unit tool" where
  "appoint_execute api lib env args plan dmn now1 =
     and_then (lift (ok_or (env (am_admin_token_env args))
         (''--execute needs the IdP admin token in $'' @ am_admin_token_env args))) (\<lambda>admin_token.
     and_then (client_built api) (\<lambda>_.
     and_then (appoint_dnssec_fresh api lib (am_daemon args) dmn now1) (\<lambda>_ sent.
     let secret = pair_generate lib sent in
     and_then (provision_issuer api lib (am_idp args) admin_token (am_comm_id args)
         (ap_external_email plan) secret) (\<lambda>cert.
     and_then (lift (appoint_write api plan secret cert)) (\<lambda>wire_bytes.
     appoint_submit api (am_daemon args) wire_bytes ''appoint-moderator attestation'')) sent)))"

text \<open>\<open>now\<close> is the clock of the plan, \<open>now1\<close> that of the freshness check.\<close>

definition appoint_run ::
  "('sk, 'pk, 'sig) app_api \<Rightarrow> 'sk seed_lib \<Rightarrow> (string \<Rightarrow> (string, int) res) \<Rightarrow> env \<Rightarrow> appoint_args \<Rightarrow>
   int \<Rightarrow> int \<Rightarrow> unit tool" where
  "appoint_run api lib rfc3339 env args now now1 =
     (let dmn = domain_of (am_idp args) in
      and_then (lift (appoint_build_plan rfc3339 args dmn now)) (\<lambda>plan.
      if \<not> am_execute args then done_with () else appoint_execute api lib env args plan dmn now1))"

section \<open>Refreshing the proofs\<close>

text \<open>The loop goes on after a failure; the flag remembers it.\<close>

fun refresh_all ::
  "('sk, 'pk, 'sig) app_api \<Rightarrow> 'sk seed_lib \<Rightarrow> string \<Rightarrow> int \<Rightarrow> bool \<Rightarrow> string list \<Rightarrow> bool tool" where
  "refresh_all api lib daemon now failed [] = done_with failed"
| "refresh_all api lib daemon now failed (d # ds) =
     attempt (seed_dnssec_fresh api lib daemon d now) (\<lambda>r.
     refresh_all api lib daemon now (failed \<or> r \<noteq> Inr ()) ds)"

definition refresh_args :: "string list \<Rightarrow> (string, string \<times> string list) res" where
  "refresh_args args =
     res_bind (case args of
         a # rest \<Rightarrow>
           if a = ''--daemon'' then (case rest of [] \<Rightarrow> Inl ''--daemon needs a URL'' | d # ds \<Rightarrow> Inr (d, ds))
           else Inr (''https://da.sandmill.org'', args)
       | [] \<Rightarrow> Inr (''https://da.sandmill.org'', args)) (\<lambda>(daemon, ds).
     if ds = [] then Inl ''usage: dnssec-refresh [--daemon URL] <domain>...'' else Inr (daemon, ds))"

definition refresh_main ::
  "('sk, 'pk, 'sig) app_api \<Rightarrow> 'sk seed_lib \<Rightarrow> string list \<Rightarrow> int \<Rightarrow> unit tool" where
  "refresh_main api lib args now =
     and_then (lift (refresh_args args)) (\<lambda>(daemon, ds).
     and_then (lift (new_client api)) (\<lambda>_.
     and_then (refresh_all api lib daemon now False ds) (\<lambda>failed.
     if failed then fail_with ''some domains failed to refresh'' else done_with ())))"

section \<open>What a successful appointment has sent\<close>

lemma appoint_submit_Inr:
  "appoint_submit api daemon w label sent = (Inr (), sent') \<longleftrightarrow>
   (\<exists>status body. send api sent (PostWire (seed_submit_url daemon) w) = Replied status body \<and> is_success status) \<and>
   sent' = sent @ [PostWire (seed_submit_url daemon) w]"
  by (auto simp: appoint_submit_def and_then_Inr tool_send_def split: http_reply.splits)

lemma appoint_fresh_log:
  assumes "appoint_dnssec_fresh api lib daemon dmn now sent = (Inr (), sent')"
  shows "sent' = sent @ [HttpGet (seed_dnssec_url daemon dmn now)] \<or>
    (\<exists>w. sent' = sent @ [HttpGet (seed_dnssec_url daemon dmn now), PostWire (seed_submit_url daemon) w])"
  using assms
  by (auto simp: appoint_dnssec_fresh_def dnssec_check_def and_then_Inr tool_send_def done_with_def
      appoint_refresh_proof_def appoint_submit_Inr split: http_reply.splits if_splits option.splits)

lemma cert_request_Inr:
  "cert_request api lib call a b w d sent = (Inr cert, sent') \<Longrightarrow>
   sent' = sent @ [call] \<and> (\<exists>status body p. send api sent call = Replied status body \<and> is_success status \<and>
     decode_provision lib body = Inr p \<and> sv_success p \<and> sv_cert p = cert)"
  by (auto simp: cert_request_def and_then_Inr tool_send_def res_bind_Inr split: http_reply.splits if_splits)

lemma appoint_plan_fields:
  assumes "appoint_build_plan rfc3339 args dmn now = Inr plan"
  shows "am_comm_id args \<noteq> [] \<and> am_subject args \<noteq> [] \<and>
    ap_issuer plan = am_comm_id args @ ''@'' @ dmn \<and> ap_owner plan = ap_issuer plan \<and>
    ap_path plan = attestations_path (ap_issuer plan) (am_subject args) \<and>
    jget ''subject'' (ap_payload plan) = Some (JStr (am_subject args)) \<and>
    jget ''issuer'' (ap_payload plan) = Some (JStr (ap_issuer plan)) \<and>
    jget ''type'' (ap_payload plan) = Some (JStr (''role:moderator:'' @ am_comm_id args)) \<and>
    ap_id plan = ''role:moderator:'' @ am_comm_id args \<and> ap_schema plan = ''attestation.v1'' \<and>
    ap_content_type plan = ''application/json''"
  using assms
  by (auto simp: appoint_build_plan_def Let_def res_bind_Inr attestation_payload_def attestations_path_def
      split: if_splits)

lemma appoint_execute_log:
  assumes "appoint_execute api lib env args plan dmn now1 sent = (Inr (), sent')"
  obtains tok pre secret cert wire where "env (am_admin_token_env args) = Some tok"
    "pre = [HttpGet (seed_dnssec_url (am_daemon args) dmn now1)] \<or>
      (\<exists>w. pre = [HttpGet (seed_dnssec_url (am_daemon args) dmn now1), PostWire (seed_submit_url (am_daemon args)) w])"
    "secret = pair_generate lib (sent @ pre)"
    "appoint_write api plan secret cert = Inr wire"
    "sent' = sent @ pre @ [provision_issuer_call lib (am_idp args) tok (am_comm_id args) (ap_external_email plan) secret,
       PostWire (seed_submit_url (am_daemon args)) wire]"
proof -
  from assms obtain tok s1 cert s2 wire where t: "env (am_admin_token_env args) = Some tok"
    and f: "appoint_dnssec_fresh api lib (am_daemon args) dmn now1 sent = (Inr (), s1)"
    and p: "provision_issuer api lib (am_idp args) tok (am_comm_id args) (ap_external_email plan)
      (pair_generate lib s1) s1 = (Inr cert, s2)"
    and w: "appoint_write api plan (pair_generate lib s1) cert = Inr wire"
      "appoint_submit api (am_daemon args) wire ''appoint-moderator attestation'' s2 = (Inr (), sent')"
    by (auto simp: appoint_execute_def and_then_Inr client_built_def Let_def)
  obtain pre where pre: "s1 = sent @ pre" "pre = [HttpGet (seed_dnssec_url (am_daemon args) dmn now1)] \<or>
      (\<exists>w. pre = [HttpGet (seed_dnssec_url (am_daemon args) dmn now1), PostWire (seed_submit_url (am_daemon args)) w])"
    using appoint_fresh_log [OF f] by blast
  have "s2 = s1 @ [provision_issuer_call lib (am_idp args) tok (am_comm_id args) (ap_external_email plan)
      (pair_generate lib s1)]"
    using cert_request_Inr [OF p [unfolded provision_issuer_def]] by blast
  then show ?thesis using that [OF t pre(2) refl, of cert wire] w pre(1) by (simp add: appoint_submit_Inr)
qed

lemma open_policy_moderators:
  "role_members ''moderator'' (community_policy_open_payload sys_key i issuer) =
     [mk_obj [(''attested'', attested_by (''role:moderator:'' @ i) issuer)]]"
  by (simp add: role_members_def community_policy_open_payload_def)

lemma appoint_run_writes:
  assumes "appoint_run api lib rfc3339 env args now now1 sent = (Inr (), sent')" "am_execute args"
  shows "\<exists>plan tok pre secret cert msg issuer. issuer = am_comm_id args @ ''@'' @ domain_of (am_idp args) \<and>
        appoint_build_plan rfc3339 args (domain_of (am_idp args)) now = Inr plan \<and>
        env (am_admin_token_env args) = Some tok \<and>
        sent' = sent @ HttpGet (seed_dnssec_url (am_daemon args) (domain_of (am_idp args)) now1) # pre @
          [provision_issuer_call lib (am_idp args) tok (am_comm_id args) (ap_external_email plan) secret,
           PostWire (seed_submit_url (am_daemon args)) (wire_serialize api msg)] \<and>
        (pre = [] \<or> (\<exists>w. pre = [PostWire (seed_submit_url (am_daemon args)) w])) \<and>
        m_signing_key msg = key_public api (key_of_bytes api secret) \<and> m_auth_cert msg = Some cert \<and>
        m_payload msg = Some (json_text api (ap_payload plan)) \<and>
        (\<exists>owner. id_new api issuer = Inr owner \<and> m_owner msg = Some owner) \<and>
        path_parse api (attestations_path issuer (am_subject args)) = Inr (m_path msg) \<and>
        jget ''subject'' (ap_payload plan) = Some (JStr (am_subject args)) \<and>
        jget ''issuer'' (ap_payload plan) = Some (JStr issuer) \<and>
        (\<exists>typ. jget ''type'' (ap_payload plan) = Some (JStr typ) \<and>
           role_members ''moderator'' (community_policy_open_payload sys_key (am_comm_id args) issuer) =
             [mk_obj [(''attested'', attested_by typ issuer)]])"
proof -
  obtain plan where plan: "appoint_build_plan rfc3339 args (domain_of (am_idp args)) now = Inr plan"
    and e: "appoint_execute api lib env args plan (domain_of (am_idp args)) now1 sent = (Inr (), sent')"
    using assms by (auto simp: appoint_run_def and_then_Inr Let_def)
  note f = appoint_plan_fields [OF plan]
  from e show ?thesis
  proof (rule appoint_execute_log)
    fix tok pre secret cert wire
    assume t: "env (am_admin_token_env args) = Some tok"
      and pre: "pre = [HttpGet (seed_dnssec_url (am_daemon args) (domain_of (am_idp args)) now1)] \<or>
        (\<exists>w. pre = [HttpGet (seed_dnssec_url (am_daemon args) (domain_of (am_idp args)) now1),
           PostWire (seed_submit_url (am_daemon args)) w])"
      and w: "appoint_write api plan secret cert = Inr wire"
      and log: "sent' = sent @ pre @ [provision_issuer_call lib (am_idp args) tok (am_comm_id args)
        (ap_external_email plan) secret, PostWire (seed_submit_url (am_daemon args)) wire]"
    from w obtain msg where msg: "write_message api (key_of_bytes api secret) (Some cert) None (ap_path plan)
        (ap_id plan) (ap_schema plan) (ap_content_type plan) (json_text api (ap_payload plan))
        (Some (ap_owner plan)) None = Inr msg" "wire = wire_serialize api msg"
      by (auto simp: appoint_write_def assemble_write_def res_bind_Inr)
    show ?thesis
      by (rule exI [of _ plan], rule exI [of _ tok], rule exI [of _ "tl pre"],
          rule exI [of _ secret], rule exI [of _ cert], rule exI [of _ msg], rule exI [of _ "ap_issuer plan"],
          insert plan t pre log f open_policy_moderators write_message_fields [OF msg(1)] msg(2)) auto
  qed
qed

text \<open>C29: Appointing a moderator without \<open>--execute\<close> sends nothing.  A successful appointment sends the
  freshness check, at most one refreshed proof, one provisioning request and one write, in this
  order.  The write is signed with the key the certificate was provisioned for, owned by the
  community's issuer and in its namespace; its payload names the subject, and its type and issuer are
  exactly those that the open policy of the community asks of a moderator.\<close>
theorem appointment_recognized:
  "(\<not> am_execute args \<longrightarrow> snd (appoint_run api lib rfc3339 env args now now1 sent) = sent) \<and>
   (\<forall>sent'. appoint_run api lib rfc3339 env args now now1 sent = (Inr (), sent') \<and> am_execute args \<longrightarrow>
     (\<exists>plan tok pre secret cert msg issuer. issuer = am_comm_id args @ ''@'' @ domain_of (am_idp args) \<and>
        appoint_build_plan rfc3339 args (domain_of (am_idp args)) now = Inr plan \<and>
        env (am_admin_token_env args) = Some tok \<and>
        sent' = sent @ HttpGet (seed_dnssec_url (am_daemon args) (domain_of (am_idp args)) now1) # pre @
          [provision_issuer_call lib (am_idp args) tok (am_comm_id args) (ap_external_email plan) secret,
           PostWire (seed_submit_url (am_daemon args)) (wire_serialize api msg)] \<and>
        (pre = [] \<or> (\<exists>w. pre = [PostWire (seed_submit_url (am_daemon args)) w])) \<and>
        m_signing_key msg = key_public api (key_of_bytes api secret) \<and> m_auth_cert msg = Some cert \<and>
        m_payload msg = Some (json_text api (ap_payload plan)) \<and>
        (\<exists>owner. id_new api issuer = Inr owner \<and> m_owner msg = Some owner) \<and>
        path_parse api (attestations_path issuer (am_subject args)) = Inr (m_path msg) \<and>
        jget ''subject'' (ap_payload plan) = Some (JStr (am_subject args)) \<and>
        jget ''issuer'' (ap_payload plan) = Some (JStr issuer) \<and>
        (\<exists>typ. jget ''type'' (ap_payload plan) = Some (JStr typ) \<and>
           role_members ''moderator'' (community_policy_open_payload sys_key (am_comm_id args) issuer) =
             [mk_obj [(''attested'', attested_by typ issuer)]])))"
proof (intro conjI impI allI)
  assume "\<not> am_execute args"
  then show "snd (appoint_run api lib rfc3339 env args now now1 sent) = sent"
    by (auto simp: appoint_run_def run_defs Let_def split: sum.split)
qed (blast dest: appoint_run_writes)

text \<open>The whole run on accepting servers.\<close>

definition demo_appoint :: appoint_args where
  "demo_appoint = \<lparr>am_comm_id = ''cooks'', am_subject = ''asha@m.p'', am_idp = ''https://m.p/'',
     am_daemon = ''http://d'', am_admin_token_env = ''T'', am_value = None, am_expires = Some ''none'',
     am_execute = True\<rparr>"

definition demo_cert_lib :: "string seed_lib" where
  "demo_cert_lib = \<lparr>pair_generate = (\<lambda>sent. ''s''), pair_public = (\<lambda>s. s), key_generate = (\<lambda>sent. ''k''),
     proof_decode = Inr, decode_dnssec = (\<lambda>b. Inr \<lparr>sd_needs_refresh = True, sd_proof = Some ''p''\<rparr>),
     decode_provision = (\<lambda>b. Inr \<lparr>sv_success = True, sv_cert = ''c''\<rparr>),
     decode_corpus = (\<lambda>b. Inl []), default_corpus = []\<rparr>"

lemma appointment_recognized_witness:
  "\<exists>sent'. appoint_run demo_app demo_cert_lib Inl (\<lambda>_. Some ''t'') demo_appoint 5 6 [] = (Inr (), sent') \<and>
     length sent' = 4 \<and> hd sent' = HttpGet (seed_dnssec_url ''http://d'' ''m.p'' 6) \<and>
     snd (appoint_run demo_app demo_cert_lib Inl (\<lambda>_. Some ''t'') (demo_appoint\<lparr>am_execute := False\<rparr>) 5 6 []) = []"
proof -
  have "fst (appoint_run demo_app demo_cert_lib Inl (\<lambda>_. Some ''t'') demo_appoint 5 6 []) = Inr () \<and>
      length (snd (appoint_run demo_app demo_cert_lib Inl (\<lambda>_. Some ''t'') demo_appoint 5 6 [])) = 4"
    by code_simp
  then obtain sent' where r: "appoint_run demo_app demo_cert_lib Inl (\<lambda>_. Some ''t'') demo_appoint 5 6 [] = (Inr (), sent')"
    "length sent' = 4" by (metis prod.collapse)
  have d: "am_execute demo_appoint" "am_daemon demo_appoint = ''http://d''" "domain_of (am_idp demo_appoint) = ''m.p''"
    by code_simp+
  have q: "snd (appoint_run demo_app demo_cert_lib Inl (\<lambda>_. Some ''t'') (demo_appoint\<lparr>am_execute := False\<rparr>) 5 6 []) = []"
    using appointment_recognized [of "demo_appoint\<lparr>am_execute := False\<rparr>" demo_app demo_cert_lib Inl "\<lambda>_. Some ''t''" 5 6 "[]"]
    by simp
  have "hd sent' = HttpGet (seed_dnssec_url ''http://d'' ''m.p'' 6)"
    using appointment_recognized [of demo_appoint demo_app demo_cert_lib Inl "\<lambda>_. Some ''t''" 5 6 "[]"] r(1) d
    by fastforce
  then show ?thesis using r q by blast
qed

end
