(* ===== verification/App_Login.thy ===== *)
theory App_Login
  imports App_Seed_Run
begin

text \<open>
  The identity of the command line: the stored device login (\<open>mingo-app/src/device_login.rs\<close>), and
  logging in, signing and posting with it (\<open>mingo-app/src/login.rs\<close>).

  Device agents, warrants and certificates are those of \<open>browserid_agent\<close> and
  \<open>browserid_core\<close>, as is the provisioning request that waits for its approval: they are the
  record \<open>login_lib\<close>.  The provisioning client and the minting of an access certificate use the
  network themselves: the calls they make, whatever they are, go to the log with the others.
\<close>

section \<open>Libraries and data\<close>

record stored_grant =
  gr_audience :: string
  gr_warrant :: string
  gr_config_cert :: string

record stored_login =
  sl_credential :: "device_credential option"
  sl_grants :: "stored_grant list"

definition no_login :: stored_login where
  "no_login = \<lparr>sl_credential = None, sl_grants = []\<rparr>"

record cert_view =
  cv_identities :: "string list"
  cv_holder :: string
  cv_purpose :: string
  cv_exp :: int

text \<open>What an approved provisioning request delivers.\<close>

record approved_login =
  al_credential :: device_credential
  al_grants :: "(string \<times> string) list"
  al_grants_denied :: "string option"

record provision_ask =
  pk_broker :: string
  pk_handle :: "string option"
  pk_namespace :: "string option"
  pk_grants :: "(string \<times> string list) list"
  pk_label :: "string option"
  pk_message :: "string option"

record 'ag login_lib =
  da_new :: "device_credential \<Rightarrow> (string, 'ag) res"
  da_add_grant :: "'ag \<Rightarrow> string \<Rightarrow> string \<Rightarrow> (string, 'ag) res"
  da_email :: "'ag \<Rightarrow> string"
  da_audiences :: "'ag \<Rightarrow> string list"
  da_assertion_seed :: "'ag \<Rightarrow> string \<Rightarrow> (string \<times> string) net_lib"
  da_assertion :: "'ag \<Rightarrow> string \<Rightarrow> string net_lib"
  warrant_parties :: "string \<Rightarrow> (string, string \<times> string) res"
  cert_parse :: "string \<Rightarrow> (string, cert_view) res"
  load_credential :: "string \<Rightarrow> (string, device_credential) res"
  request_provision :: "provision_ask \<Rightarrow> string net_lib"
  await_approval :: "string \<Rightarrow> approved_login net_lib"
  login_decode :: "string \<Rightarrow> (string, stored_login) res"
  login_encode :: "stored_login \<Rightarrow> string"
  payload_b64 :: "string \<Rightarrow> (string, string) res"
  dir_error :: "string \<Rightarrow> string option"
  os_error :: "string \<Rightarrow> string option"
  disk_full :: "string \<Rightarrow> string \<Rightarrow> nat option"
  clock_ms :: "http_call list \<Rightarrow> int"
  clock_s :: "http_call list \<Rightarrow> int"

text \<open>
  \<open>dir_error\<close> is the operating system's refusal to make a directory, \<open>os_error\<close> to open a path for
  reading or writing.  \<open>disk_full\<close> tells how much of a text got into the file when writing it fails.
\<close>

record disk_file =
  df_text :: string
  df_mode :: nat

type_synonym disk = "string \<rightharpoonup> disk_file"

type_synonym 'a on_disk = "(disk, string, 'a) run"

text \<open>A command works on files and on the network.\<close>

record cli_state =
  cl_disk :: disk
  cl_sent :: "http_call list"

type_synonym 'a cli = "(cli_state, string, 'a) run"

definition on_disk_run :: "'a on_disk \<Rightarrow> 'a cli" where
  "on_disk_run m st = (case m (cl_disk st) of (r, d) \<Rightarrow> (r, st\<lparr>cl_disk := d\<rparr>))"

definition on_wire :: "'a tool \<Rightarrow> 'a cli" where
  "on_wire m st = (case m (cl_sent st) of (r, sent) \<Rightarrow> (r, st\<lparr>cl_sent := sent\<rparr>))"

text \<open>A library call on the network, with the error it is reported as.\<close>

definition library :: "(string \<Rightarrow> string) \<Rightarrow> 'a net_lib \<Rightarrow> 'a tool" where
  "library f lib sent = (case lib sent of (r, made) \<Rightarrow> (map_err f r, sent @ made))"

section \<open>The stored login\<close>

definition mingo_home :: "env \<Rightarrow> (string, string) res" where
  "mingo_home env =
     ok_or (case env ''MINGO_HOME'' of
         Some h \<Rightarrow> Some h
       | None \<Rightarrow> map_option (\<lambda>h. path_join h ''.mingo'') (env ''HOME''))
       ''cannot locate home dir (set $HOME or $MINGO_HOME)''"

definition device_credential_path :: "env \<Rightarrow> (string, string) res" where
  "device_credential_path env =
     res_bind (mingo_home env) (\<lambda>h. Inr (path_join h ''device-credential.json''))"

text \<open>
  Files are made with mode 600, in octal; an existing file keeps its mode.  The file is emptied before
  it is written.  Directories are not in the model.
\<close>

definition parent_dir :: "string \<Rightarrow> string" where
  "parent_dir path =
     (let dir = rev (dropWhile (\<lambda>c. c \<noteq> CHR ''/'') (rev path)); up = trim_end_matches CHR ''/'' dir
      in if dir \<noteq> [] \<and> up = [] then ''/'' else up)"

definition private_file :: "disk \<Rightarrow> string \<Rightarrow> string \<Rightarrow> disk_file" where
  "private_file d path txt = \<lparr>df_text = txt, df_mode = (case d path of Some f \<Rightarrow> df_mode f | None \<Rightarrow> 384)\<rparr>"

definition write_private :: "'ag login_lib \<Rightarrow> string \<Rightarrow> string \<Rightarrow> unit on_disk" where
  "write_private lib path contents d =
     (case dir_error lib (parent_dir path) of
        Some e \<Rightarrow> (Inl (''creating '' @ parent_dir path), d)
      | None \<Rightarrow>
     (case os_error lib path of
        Some e \<Rightarrow> (Inl (''opening '' @ path @ '' for write''), d)
      | None \<Rightarrow>
     (case disk_full lib path contents of
        Some n \<Rightarrow> (Inl (''writing '' @ path), d(path \<mapsto> private_file d path (take n contents)))
      | None \<Rightarrow> (Inr (), d(path \<mapsto> private_file d path contents)))))"

definition load_login :: "'ag login_lib \<Rightarrow> env \<Rightarrow> stored_login on_disk" where
  "load_login lib env =
     and_then (lift (device_credential_path env)) (\<lambda>path d.
     case d path of
       None \<Rightarrow> (Inr no_login, d)
     | Some f \<Rightarrow>
        (case os_error lib path of
           Some e \<Rightarrow> (Inl e, d)
         | None \<Rightarrow> (map_err (\<lambda>_. ''parsing '' @ path) (login_decode lib (df_text f)), d)))"

definition save_login :: "'ag login_lib \<Rightarrow> env \<Rightarrow> stored_login \<Rightarrow> unit on_disk" where
  "save_login lib env s =
     and_then (lift (device_credential_path env)) (\<lambda>path. write_private lib path (login_encode lib s))"

definition add_stored_grant :: "'ag login_lib \<Rightarrow> 'ag \<Rightarrow> stored_grant \<Rightarrow> (string, 'ag) res" where
  "add_stored_grant lib ag g =
     map_err (\<lambda>e. ''stored grant for '' @ gr_audience g @ '': '' @ e)
       (da_add_grant lib ag (gr_warrant g) (gr_config_cert g))"

definition login_agent :: "'ag login_lib \<Rightarrow> stored_login \<Rightarrow> (string, 'ag) res" where
  "login_agent lib s =
     res_bind (ok_or (sl_credential s) (''no device credential'' @ dash @ ''run `mingo login --device` (re-login)''))
       (\<lambda>c.
     res_bind (map_err (\<lambda>e. ''invalid device credential (re-login): '' @ e) (da_new lib c)) (\<lambda>ag.
     res_fold (add_stored_grant lib) ag (sl_grants s)))"

definition grant_parties :: "'ag login_lib \<Rightarrow> stored_grant \<Rightarrow> (string, string \<times> string) res" where
  "grant_parties lib g =
     map_err (\<lambda>e. ''stored warrant for '' @ gr_audience g @ '' is unreadable (re-login): '' @ e)
       (warrant_parties lib (gr_warrant g))"

definition grantor :: "'ag login_lib \<Rightarrow> stored_grant \<Rightarrow> (string, string) res" where
  "grantor lib g = res_bind (grant_parties lib g) (\<lambda>(from', to'). Inr from')"

definition grantee :: "'ag login_lib \<Rightarrow> stored_grant \<Rightarrow> (string, string) res" where
  "grantee lib g = res_bind (grant_parties lib g) (\<lambda>(from', to'). Inr to')"

definition no_grant :: "string \<Rightarrow> string" where
  "no_grant audience = ''no grant held for '' @ audience @ dash @ ''re-run `mingo login`''"

definition grantor_for :: "'ag login_lib \<Rightarrow> stored_login \<Rightarrow> string \<Rightarrow> (string, string) res" where
  "grantor_for lib s audience =
     res_bind (ok_or (find (\<lambda>g. gr_audience g = audience) (sl_grants s)) (no_grant audience)) (grantor lib)"

definition import_credential :: "'ag login_lib \<Rightarrow> env \<Rightarrow> string \<Rightarrow> unit on_disk" where
  "import_credential lib env path =
     and_then (lift (map_err (\<lambda>e. ''reading device credential '' @ path @ '': '' @ e) (load_credential lib path)))
       (\<lambda>c.
     and_then (lift (map_err (\<lambda>e. ''invalid device credential: '' @ e) (da_new lib c))) (\<lambda>_.
     and_then (load_login lib env) (\<lambda>s.
     save_login lib env (s\<lparr>sl_credential := Some c\<rparr>))))"

definition present_for :: "'ag login_lib \<Rightarrow> env \<Rightarrow> string \<Rightarrow> string cli" where
  "present_for lib env audience =
     and_then (on_disk_run (load_login lib env)) (\<lambda>s.
     and_then (lift (login_agent lib s)) (\<lambda>ag.
     if list_all (\<lambda>a. a \<noteq> audience) (da_audiences lib ag)
     then fail_with (''no grant held for '' @ audience @ dash @ ''approve a warrant for it (re-login)'')
     else on_wire (library (\<lambda>e. ''assembling presentation for '' @ audience @ '': '' @ e)
            (da_assertion lib ag audience))))"

text \<open>What \<open>mingo whoami\<close> reports.\<close>

datatype grant_report =
    AsSelf string string
  | OnBehalf string string string
  | Unreadable string

datatype login_report =
    NotLoggedIn
  | LoggedIn string "string option" string string string "int option" "grant_report list"

fun join_comma :: "string list \<Rightarrow> string" where
  "join_comma [] = []"
| "join_comma [x] = x"
| "join_comma (x # y # xs) = x @ '', '' @ join_comma (y # xs)"

definition report_grant :: "'ag login_lib \<Rightarrow> stored_grant \<Rightarrow> grant_report" where
  "report_grant lib g =
     (case (grantor lib g, grantee lib g) of
        (Inr a, Inr b) \<Rightarrow> if a = b then AsSelf (gr_audience g) a else OnBehalf (gr_audience g) b a
      | _ \<Rightarrow> Unreadable (gr_audience g))"

definition login_whoami :: "'ag login_lib \<Rightarrow> env \<Rightarrow> int \<Rightarrow> login_report on_disk" where
  "login_whoami lib env now =
     and_then (load_login lib env) (\<lambda>s.
     case sl_credential s of
       None \<Rightarrow> done_with NotLoggedIn
     | Some c \<Rightarrow>
        and_then (lift (map_err (\<lambda>e. ''stored device cert is unreadable (re-login): '' @ e)
            (cert_parse lib (cr_device_cert c)))) (\<lambda>cv.
        let acting = (case cr_identity c of Some i \<Rightarrow> i | None \<Rightarrow> join_comma (cv_identities cv));
            via = (if cr_identity c \<noteq> None \<and> acting \<notin> set (cv_identities cv)
                   then Some (join_comma (cv_identities cv)) else None);
            days = (if cv_exp cv \<le> now then None else Some (i64_quot (i64_sub (cv_exp cv) now) 86400))
        in done_with (LoggedIn acting via (cv_holder cv) (cv_purpose cv) (cr_idp c) days
             (map (report_grant lib) (sl_grants s)))))"

section \<open>Logging in\<close>

datatype scope_preset = PostScope | AdminScope

definition scope_parse :: "string \<Rightarrow> (string, scope_preset) res" where
  "scope_parse s =
     (if s = ''post'' \<or> s = ''action:post'' then Inr PostScope
      else if s = ''admin'' then Inr AdminScope
      else Inl (''unknown scope preset '' @ apos s @ '' (expected '' @ apos ''post'' @ '' or '' @ apos ''admin'' @ '')''))"

definition scopes_for :: "scope_preset \<Rightarrow> string list" where
  "scopes_for preset =
     [''action:post'', ''schema:post.v1'', ''schema:comment.v1'', ''schema:reaction.v1'',
      ''path:/communities/**'', ''path:/u/**''] @
     (if preset = AdminScope then [''action:delete''] else [])"

record login_args =
  la_broker :: string
  la_idp :: "string option"
  la_audience :: string
  la_scope :: string
  la_handle :: "string option"

definition host_name :: "env \<Rightarrow> (string \<Rightarrow> (string, string) res) \<Rightarrow> string" where
  "host_name env read =
     (case env ''HOSTNAME'' of
        Some h \<Rightarrow> h
      | None \<Rightarrow>
         (case read ''/etc/hostname'' of
            Inl _ \<Rightarrow> ''cli''
          | Inr txt \<Rightarrow> if trim txt = [] then ''cli'' else trim txt))"

definition login_ask :: "login_args \<Rightarrow> scope_preset \<Rightarrow> string \<Rightarrow> provision_ask" where
  "login_ask args preset host =
     \<lparr>pk_broker = la_broker args, pk_handle = la_handle args, pk_namespace = Some ''agents'',
      pk_grants = [(la_audience args, scopes_for preset)], pk_label = Some (''mingo CLI on '' @ host),
      pk_message = Some (''Command-line access from '' @ host @
        '': sign in and act at the site shown, until you revoke it.'')\<rparr>"

text \<open>A delivered grant is \<open>warrant~config_cert\<close>; one that is not is dropped.\<close>

definition delivered_grants :: "(string \<times> string) list \<Rightarrow> stored_grant list" where
  "delivered_grants gs =
     List.map_filter (\<lambda>(audience, tail). map_option (\<lambda>(w, c).
       \<lparr>gr_audience = audience, gr_warrant = w, gr_config_cert = c\<rparr>) (split_once CHR ''~'' tail)) gs"

definition login_result :: "login_args \<Rightarrow> approved_login \<Rightarrow> (string, device_credential \<times> stored_grant list) res" where
  "login_result args al =
     (let c = (case la_idp args of Some i \<Rightarrow> (al_credential al)\<lparr>cr_idp := i\<rparr> | None \<Rightarrow> al_credential al);
          gs = delivered_grants (al_grants al)
      in if gs = []
         then Inl (case al_grants_denied al of
             Some reason \<Rightarrow> ''the identity was approved but the permission was declined ('' @ reason @ '')'' @
               dash @ replicate 17 CHR 0x20 @ ''re-run `mingo login` when you'' @ [CHR 0x27] @ ''re ready to grant it''
           | None \<Rightarrow> ''approval delivered no warrant grant'' @ dash @ ''re-run `mingo login`'')
         else Inr (c, gs))"

text \<open>The last steps read back what was stored, to report it.\<close>

definition login_report_check :: "'ag login_lib \<Rightarrow> stored_login \<Rightarrow> (string, unit) res" where
  "login_report_check lib s =
     res_bind (login_agent lib s) (\<lambda>_.
     res_fold (\<lambda>_ g. res_bind (grantor lib g) (\<lambda>_. Inr ())) () (sl_grants s))"

text \<open>What an approval is made of what is stored already.\<close>

definition store_login :: "'ag login_lib \<Rightarrow> env \<Rightarrow> device_credential \<Rightarrow> stored_grant list \<Rightarrow> unit on_disk" where
  "store_login lib env c gs =
     attempt (load_login lib env) (\<lambda>loaded.
     let old = (case loaded of Inr s \<Rightarrow> s | Inl _ \<Rightarrow> no_login);
         new = old\<lparr>sl_credential := Some c, sl_grants := gs\<rparr>
     in and_then (save_login lib env new) (\<lambda>_. lift (login_report_check lib new)))"

text \<open>The provisioning client asks the broker and polls until there is an approval.\<close>

definition approved_login_for :: "'ag login_lib \<Rightarrow> string \<Rightarrow> provision_ask \<Rightarrow> approved_login tool" where
  "approved_login_for lib broker ask =
     and_then (library (\<lambda>e. ''starting provisioning at '' @ broker @ '': '' @ e) (request_provision lib ask))
       (\<lambda>pending. library (\<lambda>e. ''provisioning: '' @ e) (await_approval lib pending))"

definition login_run ::
  "'ag login_lib \<Rightarrow> env \<Rightarrow> (string \<Rightarrow> (string, string) res) \<Rightarrow> login_args \<Rightarrow> unit cli" where
  "login_run lib env read args =
     and_then (lift (scope_parse (la_scope args))) (\<lambda>preset.
     and_then (on_wire (approved_login_for lib (la_broker args) (login_ask args preset (host_name env read)))) (\<lambda>al.
     and_then (lift (login_result args al)) (\<lambda>(c, gs). on_disk_run (store_login lib env c gs))))"

section \<open>Signing and posting\<close>

record write_spec =
  ws_action :: action
  ws_path :: string
  ws_id :: string
  ws_schema :: string
  ws_content_type :: string
  ws_payload :: string
  ws_owner :: string
  ws_hlc :: "string option"

definition device_message ::
  "('sk, 'pk, 'sig) app_api \<Rightarrow> string \<Rightarrow> string \<Rightarrow> write_spec \<Rightarrow> (string, ('pk, 'sig) message) res" where
  "device_message api access_seed presentation spec =
     (let key = key_of_bytes api access_seed in
      res_bind (map_err (\<lambda>e. ''bad path '' @ apos (ws_path spec) @ '': '' @ e) (path_parse api (ws_path spec))) (\<lambda>p.
      res_bind (map_err (\<lambda>e. ''bad id '' @ apos (ws_id spec) @ '': '' @ e) (id_new api (ws_id spec))) (\<lambda>n.
      res_bind (map_err (\<lambda>e. ''bad owner '' @ apos (ws_owner spec) @ '': '' @ e) (id_new api (ws_owner spec))) (\<lambda>own.
      Inr (sign_with api key \<lparr>m_action = ws_action spec, m_path = p, m_id = n,
        m_signing_key = key_public api key, m_signature = placeholder_sig api,
        m_content_type = Some (ws_content_type spec), m_content_hash = Some (sha256 api (ws_payload spec)),
        m_payload = Some (ws_payload spec), m_owner = Some own, m_creator = None,
        m_content_encoding = None, m_content_schema = Some (ws_schema spec), m_policy_ref = None,
        m_related = None, m_hlc = ws_hlc spec, m_prev = None, m_auth_cert = Some presentation,
        m_auth_evidence = None, m_auth_warrant = None\<rparr>)))))"

definition assemble_device_wire ::
  "('sk, 'pk, 'sig) app_api \<Rightarrow> string \<Rightarrow> string \<Rightarrow> write_spec \<Rightarrow> (string, string) res" where
  "assemble_device_wire api access_seed presentation spec =
     res_bind (device_message api access_seed presentation spec) (\<lambda>msg. Inr (wire_serialize api msg))"

definition jws_issuer :: "('sk, 'pk, 'sig) app_api \<Rightarrow> 'ag login_lib \<Rightarrow> string \<Rightarrow> string \<Rightarrow> (string, string) res" where
  "jws_issuer api lib jws what =
     res_bind (ok_or (nth_opt (split_on CHR ''.'' jws) 1) (what @ '': not a JWS'')) (\<lambda>payload.
     res_bind (map_err (\<lambda>_. what @ '': bad base64'') (payload_b64 lib payload)) (\<lambda>bytes.
     res_bind (map_err (\<lambda>_. what @ '': bad JSON'') (parse_json api bytes)) (\<lambda>v.
     ok_or (str_field ''iss'' v) (what @ '': no iss claim''))))"

definition device_issuers ::
  "('sk, 'pk, 'sig) app_api \<Rightarrow> 'ag login_lib \<Rightarrow> string \<Rightarrow> (string, string list) res" where
  "device_issuers api lib presentation =
     (let parts = split_on CHR ''~'' presentation in
      if length parts \<noteq> 4 then Inl ''presentation is not 4 ~-joined objects''
      else
        res_bind (jws_issuer api lib (parts ! 0) ''access cert'') (\<lambda>access.
        res_bind (jws_issuer api lib (parts ! 3) ''config cert'') (\<lambda>conf.
        Inr (if conf \<in> set [access] then [access] else [access, conf]))))"

text \<open>Minting the access certificate is the one step that goes to the network.\<close>

definition sign_as_logged_in ::
  "('sk, 'pk, 'sig) app_api \<Rightarrow> 'ag login_lib \<Rightarrow> stored_login \<Rightarrow> string \<Rightarrow> write_spec \<Rightarrow>
   (string \<times> string list) tool" where
  "sign_as_logged_in api lib s audience spec =
     and_then (lift (login_agent lib s)) (\<lambda>ag.
     if list_all (\<lambda>a. a \<noteq> audience) (da_audiences lib ag) then fail_with (no_grant audience)
     else
       and_then (library (\<lambda>e. ''minting access cert: '' @ e) (da_assertion_seed lib ag audience))
         (\<lambda>(presentation, access_seed).
       and_then (lift (assemble_device_wire api access_seed presentation spec)) (\<lambda>wire_bytes.
       and_then (lift (device_issuers api lib presentation)) (\<lambda>issuers. done_with (wire_bytes, issuers)))))"

record post_args =
  po_community :: string
  po_space :: string
  po_text :: string
  po_audience :: string
  po_daemon :: string
  po_execute :: bool

definition post_place :: "post_args \<Rightarrow> string" where
  "post_place args = ''/communities/'' @ po_community args @ ''/spaces/'' @ po_space args @ ''/''"

definition post_spec :: "('sk, 'pk, 'sig) app_api \<Rightarrow> post_args \<Rightarrow> string \<Rightarrow> int \<Rightarrow> write_spec" where
  "post_spec api args user now_ms =
     \<lparr>ws_action = Post, ws_path = post_place args,
      ws_id = derive_id api CHR ''p'' (''post:'' @ po_community args @ '':'' @ po_space args @ '':'' @ show_int now_ms),
      ws_schema = ''post.v1'', ws_content_type = ''application/json'',
      ws_payload = json_text api (mk_obj [(''body'', JStr (po_text args)), (''parent'', JNull),
        (''created_at'', JNum now_ms)]),
      ws_owner = user, ws_hlc = Some (show_int now_ms @ ''.0'')\<rparr>"

fun refresh_issuers ::
  "('sk, 'pk, 'sig) app_api \<Rightarrow> 'sk seed_lib \<Rightarrow> 'ag login_lib \<Rightarrow> string \<Rightarrow> string list \<Rightarrow> unit tool" where
  "refresh_issuers api slib lib daemon [] sent = done_with () sent"
| "refresh_issuers api slib lib daemon (d # ds) sent =
     and_then (seed_dnssec_fresh api slib daemon d (clock_s lib sent))
       (\<lambda>_. refresh_issuers api slib lib daemon ds) sent"

definition post_submit :: "('sk, 'pk, 'sig) app_api \<Rightarrow> string \<Rightarrow> string \<Rightarrow> unit tool" where
  "post_submit api daemon wire_bytes =
     and_then (tool_send api (PostWire (seed_submit_url daemon) wire_bytes)) (\<lambda>reply. lift (case reply of
       Replied status body \<Rightarrow>
         if \<not> is_success status
         then Inl (''submit failed (HTTP '' @ status_text api status @ ''): '' @ body)
         else Inr ()
     | _ \<Rightarrow> Inl ''submitting write''))"

record object_view =
  ov_creator :: string
  ov_owner_ref :: "string option"
  ov_confirmed :: bool

definition read_url :: "('sk, 'pk, 'sig) app_api \<Rightarrow> string \<Rightarrow> string \<Rightarrow> string \<Rightarrow> string" where
  "read_url api daemon path i =
     with_query api (trim_end_matches CHR ''/'' daemon @ ''/v1/object'') [(''path'', path), (''id'', i)]"

definition read_object ::
  "('sk, 'pk, 'sig) app_api \<Rightarrow> (string \<Rightarrow> (string, object_view) res) \<Rightarrow> string \<Rightarrow> string \<Rightarrow> string \<Rightarrow>
   object_view option tool" where
  "read_object api decode daemon path i =
     and_then (tool_send api (HttpGet (read_url api daemon path i))) (\<lambda>reply. lift (case reply of
       Replied status body \<Rightarrow>
         if status = 404 then Inr None
         else if \<not> is_success status then Inr None
         else res_bind (map_err (\<lambda>_. ''decoding object view'') (decode body)) (\<lambda>v. Inr (Some v))
     | _ \<Rightarrow> Inl ''GET /v1/object''))"

text \<open>What the command reports in the end.\<close>

datatype post_outcome =
    PostPlanned
  | AttributedTo string
  | NotConfirmed

fun read_back ::
  "('sk, 'pk, 'sig) app_api \<Rightarrow> (string \<Rightarrow> (string, object_view) res) \<Rightarrow> string \<Rightarrow> string \<Rightarrow> string \<Rightarrow> nat \<Rightarrow>
   post_outcome tool" where
  "read_back api decode daemon path i 0 = done_with NotConfirmed"
| "read_back api decode daemon path i (Suc n) =
     attempt (read_object api decode daemon path i) (\<lambda>r. case r of
       Inr (Some v) \<Rightarrow> done_with (AttributedTo (case ov_owner_ref v of Some o' \<Rightarrow> o' | None \<Rightarrow> ov_creator v))
     | _ \<Rightarrow> read_back api decode daemon path i n)"

definition READ_BACKS :: nat where
  "READ_BACKS = 20"

definition post_execute ::
  "('sk, 'pk, 'sig) app_api \<Rightarrow> 'sk seed_lib \<Rightarrow> 'ag login_lib \<Rightarrow> (string \<Rightarrow> (string, object_view) res) \<Rightarrow>
   post_args \<Rightarrow> write_spec \<Rightarrow> string \<Rightarrow> string list \<Rightarrow> post_outcome tool" where
  "post_execute api slib lib decode args spec wire_bytes issuers =
     and_then (lift (new_client api)) (\<lambda>_.
     and_then (refresh_issuers api slib lib (po_daemon args) issuers) (\<lambda>_.
     and_then (post_submit api (po_daemon args) wire_bytes) (\<lambda>_.
     read_back api decode (po_daemon args) (ws_path spec) (ws_id spec) READ_BACKS)))"

text \<open>The stored login is read once, before anything is sent; whether to execute is asked after signing.\<close>

definition post_run ::
  "('sk, 'pk, 'sig) app_api \<Rightarrow> 'sk seed_lib \<Rightarrow> 'ag login_lib \<Rightarrow> (string \<Rightarrow> (string, object_view) res) \<Rightarrow>
   env \<Rightarrow> disk \<Rightarrow> post_args \<Rightarrow> post_outcome tool" where
  "post_run api slib lib decode env d args sent =
     and_then (lift (fst (load_login lib env d))) (\<lambda>s.
     and_then (lift (login_agent lib s)) (\<lambda>_.
     and_then (lift (grantor_for lib s (po_audience args))) (\<lambda>user.
     let spec = post_spec api args user (clock_ms lib sent) in
     and_then (sign_as_logged_in api lib s (po_audience args) spec) (\<lambda>(wire_bytes, issuers).
     if \<not> po_execute args then done_with PostPlanned
     else post_execute api slib lib decode args spec wire_bytes issuers)))) sent"

end
