(* ===== verification/App_Policy_Layer.thy ===== *)
theory App_Policy_Layer
  imports App_Policy
begin

text \<open>
  \<open>mingo add-policy-layer\<close> (\<open>mingo-app/src/add_policy_layer.rs\<close>): the merge of an application's
  grants and restrictions into the live root policy, and the command around it.
\<close>

record add_policy_layer_args =
  layer_file :: string
  al_daemon :: string
  al_repo :: string
  al_sys_key_file :: string
  al_execute :: bool

section \<open>The rest of a policy\<close>

definition policy_rest :: "json \<Rightarrow> json" where
  "policy_rest policy =
     (case policy of
        JObj kvs \<Rightarrow> JObj (obj_remove ''restrictions'' (obj_remove ''grants'' kvs))
      | _ \<Rightarrow> policy)"

definition rest_hash :: "('sk, 'pk, 'sig) app_api \<Rightarrow> json \<Rightarrow> string" where
  "rest_hash api policy =
     ''sha256:'' @ hex_encode api (sha256 api (json_text api (policy_rest policy)))"

section \<open>The merge\<close>

definition check_layer :: "json \<Rightarrow> (string, unit) res" where
  "check_layer layer =
     res_bind (ok_or (as_object layer) ''layer is not a JSON object'') (\<lambda>kvs.
     case find (\<lambda>k. k \<noteq> ''grants'' \<and> k \<noteq> ''restrictions'') (map fst kvs) of
       Some k \<Rightarrow> Inl (''layer carries `'' @ k @
         ''`; only `grants` and `restrictions` may be merged. Roles, deny rules and anything else are mingo's own and must be edited deliberately.'')
     | None \<Rightarrow> Inr ())"

fun merge_items ::
  "(json \<Rightarrow> string) \<Rightarrow> string \<Rightarrow> json list \<Rightarrow> json list \<Rightarrow> string list \<Rightarrow> json list \<times> string list" where
  "merge_items pr key [] target added = (target, added)"
| "merge_items pr key (item # items) target added =
     (if list_ex (\<lambda>e. e = item) target then merge_items pr key items target added
      else merge_items pr key items (target @ [item]) (added @ [key @ '': '' @ pr item]))"

definition merge_key ::
  "('sk, 'pk, 'sig) app_api \<Rightarrow> json \<Rightarrow> string \<Rightarrow> (string \<times> json) list \<Rightarrow> string list \<Rightarrow>
   (string, (string \<times> json) list \<times> string list) res" where
  "merge_key api layer key obj added =
     (case Option.bind (jget key layer) as_arr of
        None \<Rightarrow> Inr (obj, added)
      | Some items \<Rightarrow>
          let entry = (case map_of obj key of None \<Rightarrow> JArr [] | Some v \<Rightarrow> v) in
          res_bind (ok_or (as_arr entry) (''policy `'' @ key @ ''` is not an array'')) (\<lambda>target.
          let (target', added') = merge_items (json_text api) key items target added in
          Inr (obj_insert key (JArr target') obj, added')))"

definition merge ::
  "('sk, 'pk, 'sig) app_api \<Rightarrow> json \<Rightarrow> json \<Rightarrow> (string, json \<times> string list) res" where
  "merge api policy layer =
     res_bind (check_layer layer) (\<lambda>_.
     res_bind (ok_or (as_object policy) ''root policy is not a JSON object'') (\<lambda>obj.
     res_bind (merge_key api layer ''grants'' obj []) (\<lambda>(obj1, added1).
     res_bind (merge_key api layer ''restrictions'' obj1 added1) (\<lambda>(obj2, added2).
     Inr (JObj obj2, added2)))))"

section \<open>The command\<close>

definition layer_root_url :: "('sk, 'pk, 'sig) app_api \<Rightarrow> add_policy_layer_args \<Rightarrow> string" where
  "layer_root_url api args =
     with_query api (object_url (al_daemon args))
       [(''path'', ROOT_PATH), (''id'', ROOT_ID), (''repo'', al_repo args)]"

definition fetch_for_layer ::
  "('sk, 'pk, 'sig) app_api \<Rightarrow> add_policy_layer_args \<Rightarrow> obj_resp tool" where
  "fetch_for_layer api args =
     and_then (tool_send api (HttpGet (layer_root_url api args))) (\<lambda>reply. lift (case reply of
       Replied status body \<Rightarrow>
         if status = 404
         then Inl (''root policy '' @ ROOT_PATH @ ROOT_ID @ '' not found on '' @ al_daemon args @
                '' for repo '' @ al_repo args)
         else if error_status status then Inl (status_error api status (layer_root_url api args))
         else map_err (\<lambda>_. ''parsing root policy object'') (decode_obj api body)
     | _ \<Rightarrow> Inl ''fetching current root policy''))"

definition submit_layer ::
  "('sk, 'pk, 'sig) app_api \<Rightarrow> env \<Rightarrow> (string \<Rightarrow> (string, string) res) \<Rightarrow> add_policy_layer_args \<Rightarrow>
   obj_resp \<Rightarrow> json \<Rightarrow> unit tool" where
  "submit_layer api env read args obj merged =
     and_then (lift (map_err (\<lambda>_. ''loading sys key '' @ al_sys_key_file args)
         (load_signing_key_file api read (expand_tilde env (al_sys_key_file args))))) (\<lambda>sys_key.
     let sys_owner = key_string api sys_key;
         owner = (case or_owner_ref obj of Some x \<Rightarrow> x | None \<Rightarrow> sys_owner) in
     and_then (lift (assemble_write api sys_key None None ROOT_PATH ROOT_ID ''policy.v2''
         ''application/json'' (json_text api merged) (Some owner) None)) (\<lambda>wire_bytes.
     and_then (tool_send api (PostWire (with_query api (submit_url (al_daemon args))
         [(''repo'', al_repo args)]) wire_bytes)) (\<lambda>reply. lift (case reply of
       Replied status body \<Rightarrow>
         if \<not> is_success status
         then Inl (''ABORT'' @ dash @ ''submit failed: HTTP '' @ status_text api status @ '': '' @ body)
         else Inr ()
     | _ \<Rightarrow> Inl ''submitting root-policy update''))))"

definition merge_not_preserved :: string where
  "merge_not_preserved =
     ''ABORT'' @ dash @ ''the merge did not preserve the existing policy; refusing to submit''"

definition add_policy_layer_run ::
  "('sk, 'pk, 'sig) app_api \<Rightarrow> env \<Rightarrow> (string \<Rightarrow> (string, string) res) \<Rightarrow> add_policy_layer_args \<Rightarrow>
   unit tool" where
  "add_policy_layer_run api env read args =
     and_then (lift (map_err (\<lambda>_. ''reading layer file '' @ layer_file args)
         (read (expand_tilde env (layer_file args))))) (\<lambda>layer_raw.
     and_then (lift (map_err (\<lambda>_. ''parsing layer file as JSON'') (parse_json api layer_raw))) (\<lambda>layer.
     and_then (client_built api) (\<lambda>_.
     and_then (fetch_for_layer api args) (\<lambda>obj.
     let policy = or_value obj in
     if as_object policy = None
     then fail_with ''root policy `value` is not a JSON object; refusing to edit''
     else if \<not> or_confirmed obj
     then fail_with (''the root policy read back is UNCONFIRMED'' @ dash @
            ''refusing to build an update on a value that may not stick'')
     else
       let before_grants = entries ''grants'' policy;
           before_restrictions = entries ''restrictions'' policy;
           before_rest = rest_hash api policy in
       and_then (lift (merge api policy layer)) (\<lambda>(merged, added).
       let prefix_ok = (prefix before_grants (entries ''grants'' merged) \<and>
                        prefix before_restrictions (entries ''restrictions'' merged));
           rest_ok = (rest_hash api merged = before_rest) in
       if added = [] then done_with ()
       else if \<not> prefix_ok \<or> \<not> rest_ok then fail_with merge_not_preserved
       else if \<not> al_execute args then done_with ()
       else submit_layer api env read args obj merged)))))"

section \<open>The merge is exactly the missing entries, appended\<close>

lemma merge_items_spec:
  "\<exists>ys. merge_items pr key items target added =
       (target @ ys, added @ map (\<lambda>y. key @ '': '' @ pr y) ys) \<and>
     distinct ys \<and> set ys = set items - set target"
proof (induction pr key items target added rule: merge_items.induct)
  case (2 pr key item items target added)
  show ?case
  proof (cases "item \<in> set target")
    case True
    then have "list_ex (\<lambda>e. e = item) target" by (auto simp: list_ex_iff)
    then show ?thesis using 2(1) True by auto
  next
    case False
    then have n: "\<not> list_ex (\<lambda>e. e = item) target" by (auto simp: list_ex_iff)
    obtain ys where ys: "merge_items pr key items (target @ [item]) (added @ [key @ '': '' @ pr item]) =
        ((target @ [item]) @ ys, (added @ [key @ '': '' @ pr item]) @ map (\<lambda>y. key @ '': '' @ pr y) ys)"
      "distinct ys" "set ys = set items - set (target @ [item])"
      using 2(2) [OF n] by blast
    show ?thesis
      by (rule exI [of _ "item # ys"]) (use ys n False in auto)
  qed
qed simp

definition added_of :: "('sk, 'pk, 'sig) app_api \<Rightarrow> string \<Rightarrow> json list \<Rightarrow> string list" where
  "added_of api key ys = map (\<lambda>y. key @ '': '' @ json_text api y) ys"

lemma merge_key_spec:
  assumes "merge_key api layer key obj added = Inr (obj', added')"
  obtains ys where "entries key (JObj obj') = entries key (JObj obj) @ ys" "distinct ys"
    "set ys = set (entries key layer) - set (entries key (JObj obj))"
    "added' = added @ added_of api key ys"
    "\<And>k. k \<noteq> key \<Longrightarrow> map_of obj' k = map_of obj k"
    "obj_remove key obj' = obj_remove key obj"
proof (cases "Option.bind (jget key layer) as_arr")
  case None
  then have "entries key layer = []" by (simp add: entries_def)
  moreover have "obj' = obj" "added' = added" using assms None by (simp_all add: merge_key_def)
  ultimately show ?thesis using that [of "[]"] by (simp add: added_of_def)
next
  case (Some items)
  define entry where "entry = (case map_of obj key of None \<Rightarrow> JArr [] | Some v \<Rightarrow> v)"
  obtain target where t: "entry = JArr target"
    and m: "(case merge_items (json_text api) key items target added of (t', a') \<Rightarrow>
        Inr (obj_insert key (JArr t') obj, a')) = (Inr (obj', added') :: (string, (string \<times> json) list \<times> string list) res)"
    using assms Some unfolding merge_key_def
    by (simp add: entry_def Let_def res_bind_def split: sum.splits)
  obtain ys where ys: "merge_items (json_text api) key items target added =
      (target @ ys, added @ map (\<lambda>y. key @ '': '' @ json_text api y) ys)"
    "distinct ys" "set ys = set items - set target"
    using merge_items_spec by blast
  have e: "entries key (JObj obj) = target" "entries key layer = items"
    using t Some by (auto simp: entries_def entry_def split: option.splits)
  have "obj' = obj_insert key (JArr (target @ ys)) obj" "added' = added @ added_of api key ys"
    using m ys(1) by (simp_all add: added_of_def)
  then show ?thesis using that [of ys] ys(2,3) e by (simp add: entries_JObj)
qed

lemma check_layer_Inr:
  "check_layer layer = Inr u \<longleftrightarrow>
   (\<exists>kvs. layer = JObj kvs \<and> fst ` set kvs \<subseteq> {''grants'', ''restrictions''})"
proof -
  have f: "find (\<lambda>k. k \<noteq> ''grants'' \<and> k \<noteq> ''restrictions'') (map fst kvs) = None \<longleftrightarrow>
      fst ` set kvs \<subseteq> {''grants'', ''restrictions''}" for kvs :: "(string \<times> json) list"
    by (auto simp: find_None_iff2)
  show ?thesis
    by (cases layer) (simp_all add: check_layer_def ok_or_def res_bind_def f [symmetric] split: option.split)
qed

lemma merge_cases:
  assumes "merge api p l = Inr (q, added)"
  obtains kvs obj1 added1 obj2 where "check_layer l = Inr ()" "p = JObj kvs"
    "merge_key api l ''grants'' kvs [] = Inr (obj1, added1)"
    "merge_key api l ''restrictions'' obj1 added1 = Inr (obj2, added)" "q = JObj obj2"
  using assms unfolding merge_def
  by (auto simp: res_bind_def ok_or_def split: sum.splits option.splits prod.splits)

lemma merge_spec:
  assumes "merge api p l = Inr (q, added)"
  obtains gs rs where "entries ''grants'' q = entries ''grants'' p @ gs"
    "entries ''restrictions'' q = entries ''restrictions'' p @ rs"
    "distinct gs" "set gs = set (entries ''grants'' l) - set (entries ''grants'' p)"
    "distinct rs" "set rs = set (entries ''restrictions'' l) - set (entries ''restrictions'' p)"
    "added = added_of api ''grants'' gs @ added_of api ''restrictions'' rs"
    "policy_rest q = policy_rest p"
proof -
  from assms obtain kvs obj1 added1 obj2 where s: "check_layer l = Inr ()" "p = JObj kvs"
    and m1: "merge_key api l ''grants'' kvs [] = Inr (obj1, added1)"
    and m2: "merge_key api l ''restrictions'' obj1 added1 = Inr (obj2, added)" and q: "q = JObj obj2"
    by (rule merge_cases)
  from m1 obtain gs where g: "entries ''grants'' (JObj obj1) = entries ''grants'' (JObj kvs) @ gs" "distinct gs"
    "set gs = set (entries ''grants'' l) - set (entries ''grants'' (JObj kvs))"
    "added1 = [] @ added_of api ''grants'' gs"
    "\<And>k. k \<noteq> ''grants'' \<Longrightarrow> map_of obj1 k = map_of kvs k"
    "obj_remove ''grants'' obj1 = obj_remove ''grants'' kvs" by (rule merge_key_spec) blast
  from m2 obtain rs where r: "entries ''restrictions'' (JObj obj2) = entries ''restrictions'' (JObj obj1) @ rs"
    "distinct rs" "set rs = set (entries ''restrictions'' l) - set (entries ''restrictions'' (JObj obj1))"
    "added = added1 @ added_of api ''restrictions'' rs"
    "\<And>k. k \<noteq> ''restrictions'' \<Longrightarrow> map_of obj2 k = map_of obj1 k"
    "obj_remove ''restrictions'' obj2 = obj_remove ''restrictions'' obj1" by (rule merge_key_spec) blast
  have e: "entries ''grants'' (JObj obj2) = entries ''grants'' (JObj obj1)"
    "entries ''restrictions'' (JObj obj1) = entries ''restrictions'' (JObj kvs)"
    using r(5) [of "''grants''"] g(5) [of "''restrictions''"] by (simp_all add: entries_JObj)
  have "obj_remove ''restrictions'' (obj_remove ''grants'' obj2) =
        obj_remove ''grants'' (obj_remove ''restrictions'' obj1)"
    by (simp add: obj_remove_comm [of "''restrictions''"] r(6))
  also have "\<dots> = obj_remove ''restrictions'' (obj_remove ''grants'' kvs)"
    by (simp add: obj_remove_comm [of "''grants''"] g(6))
  finally have "policy_rest q = policy_rest p" by (simp add: policy_rest_def q s)
  then show ?thesis using that [of gs rs] g r e s q by simp
qed

text \<open>Merging once more finds nothing to add.\<close>

lemma merge_items_present: "set items \<subseteq> set target \<Longrightarrow> merge_items pr key items target added = (target, added)"
  by (induction pr key items target added rule: merge_items.induct) (auto simp: list_ex_iff)

lemma merge_key_present:
  assumes "sorted_keys obj" and "set (entries key layer) \<subseteq> set (entries key (JObj obj))"
    and "\<And>items. jget key layer = Some (JArr items) \<Longrightarrow> \<exists>xs. map_of obj key = Some (JArr xs)"
  shows "merge_key api layer key obj added = Inr (obj, added)"
proof (cases "Option.bind (jget key layer) as_arr")
  case None
  then show ?thesis by (simp add: merge_key_def)
next
  case (Some items)
  then have "jget key layer = Some (JArr items)" by (auto simp: Option.bind_eq_Some_conv)
  with assms(3) obtain xs where xs: "map_of obj key = Some (JArr xs)" by blast
  have "set items \<subseteq> set xs" using assms(2) Some xs by (simp add: entries_def)
  then show ?thesis using Some xs obj_insert_same [OF assms(1) xs]
    by (simp add: merge_key_def res_bind_def ok_or_def merge_items_present)
qed

lemma merge_key_array:
  assumes "merge_key api layer key obj added = Inr (obj', added')" and "jget key layer = Some (JArr items)"
  shows "\<exists>xs. map_of obj' key = Some (JArr xs)"
  using assms by (auto simp: merge_key_def res_bind_def Let_def split: sum.splits prod.splits)

lemma merge_key_sorted:
  "merge_key api layer key obj added = Inr (obj', added') \<Longrightarrow> sorted_keys obj \<Longrightarrow> sorted_keys obj'"
  by (auto simp: merge_key_def res_bind_def Let_def obj_insert_sorted split: option.splits sum.splits prod.splits)

lemma merge_sorted: "merge api p l = Inr (q, added) \<Longrightarrow> obj_sorted p \<Longrightarrow> obj_sorted q"
  by (elim merge_cases) (auto dest: merge_key_sorted)

lemma merge_again:
  assumes m: "merge api p l = Inr (q, added)" and srt: "obj_sorted p"
  shows "merge api q l = Inr (q, [])"
proof -
  from m obtain kvs obj1 added1 obj2 where s: "check_layer l = Inr ()" "p = JObj kvs"
    and m1: "merge_key api l ''grants'' kvs [] = Inr (obj1, added1)"
    and m2: "merge_key api l ''restrictions'' obj1 added1 = Inr (obj2, added)" and q: "q = JObj obj2"
    by (rule merge_cases)
  have sq: "sorted_keys obj2" using merge_sorted [OF m srt] q by simp
  have sub: "set (entries k l) \<subseteq> set (entries k (JObj obj2))" if "k = ''grants'' \<or> k = ''restrictions''" for k
    by (rule merge_spec [OF m]) (use that q in auto)
  from m2 have same: "map_of obj2 ''grants'' = map_of obj1 ''grants''"
    by (rule merge_key_spec) simp
  have "merge_key api l ''grants'' obj2 [] = Inr (obj2, [])"
    using merge_key_present [OF sq sub [of "''grants''"]] merge_key_array [OF m1] same by simp
  moreover have "merge_key api l ''restrictions'' obj2 [] = Inr (obj2, [])"
    using merge_key_present [OF sq sub [of "''restrictions''"]] merge_key_array [OF m2] by simp
  ultimately show ?thesis by (simp add: merge_def res_bind_def s q ok_or_def)
qed

definition layer_edit :: "('sk, 'pk, 'sig) app_api \<Rightarrow> json \<Rightarrow> json \<Rightarrow> (string, json) res" where
  "layer_edit api p l = res_bind (merge api p l) (\<lambda>(q, _). Inr q)"

lemma layer_edit_Inr: "layer_edit api p l = Inr q \<longleftrightarrow> (\<exists>added. merge api p l = Inr (q, added))"
  by (auto simp: layer_edit_def res_bind_def split: sum.splits)

lemma merge_rest: "merge api p l = Inr (q, added) \<Longrightarrow> policy_rest q = policy_rest p"
  by (erule merge_spec)

interpretation layer: policy_edit "layer_edit api" policy_rest obj_sorted for api
  by unfold_locales (auto simp: layer_edit_Inr intro: merge_sorted dest: merge_rest merge_again)

text \<open>When the merge is refused.\<close>

definition array_or_absent :: "string \<Rightarrow> json \<Rightarrow> bool" where
  "array_or_absent k v = (case jget k v of None \<Rightarrow> True | Some x \<Rightarrow> as_arr x \<noteq> None)"

definition mergeable :: "json \<Rightarrow> json \<Rightarrow> bool" where
  "mergeable p l \<longleftrightarrow>
     as_object p \<noteq> None \<and> as_object l \<noteq> None \<and>
     (\<forall>kvs. l = JObj kvs \<longrightarrow> fst ` set kvs \<subseteq> {''grants'', ''restrictions''}) \<and>
     (\<forall>k\<in>{''grants'', ''restrictions''}. Option.bind (jget k l) as_arr \<noteq> None \<longrightarrow> array_or_absent k p)"

lemma merge_key_accepts:
  "(\<exists>obj' added'. merge_key api l k obj added = Inr (obj', added')) \<longleftrightarrow>
   (Option.bind (jget k l) as_arr \<noteq> None \<longrightarrow> array_or_absent k (JObj obj))"
  by (auto simp: merge_key_def array_or_absent_def res_bind_def ok_or_def Let_def
      split: option.splits sum.splits prod.splits)

lemma merge_accepts: "(\<exists>q added. merge api p l = Inr (q, added)) \<longleftrightarrow> mergeable p l"
proof
  assume "\<exists>q added. merge api p l = Inr (q, added)"
  then obtain q added where m: "merge api p l = Inr (q, added)" by blast
  then obtain kvs obj1 added1 obj2 where s: "check_layer l = Inr ()" "p = JObj kvs"
    and m1: "merge_key api l ''grants'' kvs [] = Inr (obj1, added1)"
    and m2: "merge_key api l ''restrictions'' obj1 added1 = Inr (obj2, added)"
    by (rule merge_cases)
  have "map_of obj1 ''restrictions'' = map_of kvs ''restrictions''"
    using m1 by (rule merge_key_spec) simp
  moreover have "Option.bind (jget ''restrictions'' l) as_arr \<noteq> None \<longrightarrow> array_or_absent ''restrictions'' (JObj obj1)"
    using m2 merge_key_accepts by blast
  moreover have "Option.bind (jget ''grants'' l) as_arr \<noteq> None \<longrightarrow> array_or_absent ''grants'' (JObj kvs)"
    using m1 merge_key_accepts by blast
  ultimately show "mergeable p l" using s(1)
    by (auto simp: mergeable_def s(2) check_layer_Inr array_or_absent_def)
next
  assume ok: "mergeable p l"
  then obtain kvs where p: "p = JObj kvs" by (auto simp: mergeable_def)
  have cl: "check_layer l = Inr ()" using ok by (auto simp: mergeable_def check_layer_Inr)
  have "\<exists>obj1 added1. merge_key api l ''grants'' kvs [] = Inr (obj1, added1)"
    using ok unfolding merge_key_accepts by (simp add: mergeable_def p)
  then obtain obj1 added1 where m1: "merge_key api l ''grants'' kvs [] = Inr (obj1, added1)" by blast
  then have "map_of obj1 ''restrictions'' = map_of kvs ''restrictions''"
    by (rule merge_key_spec) simp
  then have "\<exists>obj2 added2. merge_key api l ''restrictions'' obj1 added1 = Inr (obj2, added2)"
    using ok unfolding merge_key_accepts by (simp add: mergeable_def p array_or_absent_def)
  then show "\<exists>q added. merge api p l = Inr (q, added)"
    by (auto simp: merge_def res_bind_def cl p ok_or_def m1)
qed

section \<open>The command sends at most one write\<close>

lemma fetch_for_layer_log: "snd (fetch_for_layer api args log) = log @ [HttpGet (layer_root_url api args)]"
  by (simp add: fetch_for_layer_def run_defs tool_send_def)

lemma submit_layer_log:
  "snd (submit_layer api env read args obj merged log) =
   (case load_signing_key_file api read (expand_tilde env (al_sys_key_file args)) of
      Inl _ \<Rightarrow> log
    | Inr key \<Rightarrow>
        (case assemble_write api key None None ROOT_PATH ROOT_ID ''policy.v2'' ''application/json''
            (json_text api merged)
            (Some (case or_owner_ref obj of Some x \<Rightarrow> x | None \<Rightarrow> key_string api key)) None of
           Inl _ \<Rightarrow> log
         | Inr wire \<Rightarrow> log @ [PostWire (with_query api (submit_url (al_daemon args))
             [(''repo'', al_repo args)]) wire]))"
  by (simp add: submit_layer_def run_defs tool_send_def map_err_def Let_def split: sum.split)

lemma merge_preserves:
  assumes "merge api p l = Inr (q, added)"
  shows "prefix (entries ''grants'' p) (entries ''grants'' q)"
    and "prefix (entries ''restrictions'' p) (entries ''restrictions'' q)"
    and "rest_hash api q = rest_hash api p"
  by (rule merge_spec [OF assms], simp add: rest_hash_def)+

text \<open>
  What the command would write: the inputs it reads, the policy it fetched and the merge of the two.
\<close>

definition layer_merge_inputs ::
  "('sk, 'pk, 'sig) app_api \<Rightarrow> env \<Rightarrow> (string \<Rightarrow> (string, string) res) \<Rightarrow> add_policy_layer_args \<Rightarrow>
   http_call list \<Rightarrow> obj_resp \<Rightarrow> json \<Rightarrow> bool" where
  "layer_merge_inputs api env read args log obj layer \<longleftrightarrow>
     (\<exists>raw. read (expand_tilde env (layer_file args)) = Inr raw \<and> parse_json api raw = Inr layer) \<and>
     new_client api = Inr () \<and> fst (fetch_for_layer api args log) = Inr obj"

lemma add_policy_layer_run_inputs:
  "layer_merge_inputs api env read args log obj layer \<Longrightarrow>
   add_policy_layer_run api env read args log =
     (if as_object (or_value obj) = None
      then fail_with ''root policy `value` is not a JSON object; refusing to edit''
      else if \<not> or_confirmed obj
      then fail_with (''the root policy read back is UNCONFIRMED'' @ dash @
             ''refusing to build an update on a value that may not stick'')
      else case merge api (or_value obj) layer of
        Inl e \<Rightarrow> fail_with e
      | Inr (merged, added) \<Rightarrow>
          if added = [] \<or> \<not> al_execute args then done_with ()
          else submit_layer api env read args obj merged)
     (log @ [HttpGet (layer_root_url api args)])"
proof -
  assume i: "layer_merge_inputs api env read args log obj layer"
  have f: "fetch_for_layer api args log = (Inr obj, log @ [HttpGet (layer_root_url api args)])"
    using i fetch_for_layer_log [of api args log] by (cases "fetch_for_layer api args log")
      (simp add: layer_merge_inputs_def)
  show ?thesis
    using i f by (auto simp: add_policy_layer_run_def layer_merge_inputs_def run_defs client_built_def
        map_err_def Let_def dest: merge_preserves split: sum.split)
qed

lemma add_policy_layer_run_stops:
  assumes "\<nexists>obj layer. layer_merge_inputs api env read args log obj layer"
  shows "snd (add_policy_layer_run api env read args log) = log \<or>
         snd (add_policy_layer_run api env read args log) = log @ [HttpGet (layer_root_url api args)]"
proof (cases "\<exists>raw layer. read (expand_tilde env (layer_file args)) = Inr raw \<and>
    parse_json api raw = Inr layer \<and> new_client api = Inr ()")
  case True
  then obtain raw layer where rl: "read (expand_tilde env (layer_file args)) = Inr raw"
    "parse_json api raw = Inr layer" "new_client api = Inr ()" by blast
  then obtain e where "fetch_for_layer api args log = (Inl e, log @ [HttpGet (layer_root_url api args)])"
    using assms fetch_for_layer_log [of api args log]
    by (cases "fetch_for_layer api args log"; cases "fst (fetch_for_layer api args log)")
       (auto simp: layer_merge_inputs_def)
  then show ?thesis using rl
    by (simp add: add_policy_layer_run_def run_defs client_built_def map_err_def)
next
  case False
  then show ?thesis
    by (auto simp: add_policy_layer_run_def run_defs client_built_def map_err_def split: sum.split)
qed

lemma layer_merge_inputs_unique:
  "layer_merge_inputs api env read args log obj layer \<Longrightarrow>
   layer_merge_inputs api env read args log obj' layer' \<longleftrightarrow> obj' = obj \<and> layer' = layer"
  by (auto simp: layer_merge_inputs_def)

definition layer_write ::
  "('sk, 'pk, 'sig) app_api \<Rightarrow> env \<Rightarrow> (string \<Rightarrow> (string, string) res) \<Rightarrow> add_policy_layer_args \<Rightarrow>
   obj_resp \<Rightarrow> json \<Rightarrow> string \<Rightarrow> bool" where
  "layer_write api env read args obj layer wire \<longleftrightarrow>
     al_execute args \<and> or_confirmed obj \<and>
     (\<exists>merged added key. merge api (or_value obj) layer = Inr (merged, added) \<and> added \<noteq> [] \<and>
       load_signing_key_file api read (expand_tilde env (al_sys_key_file args)) = Inr key \<and>
       assemble_write api key None None ROOT_PATH ROOT_ID ''policy.v2'' ''application/json''
         (json_text api merged)
         (Some (case or_owner_ref obj of Some x \<Rightarrow> x | None \<Rightarrow> key_string api key)) None = Inr wire)"

lemma add_policy_layer_run_log:
  assumes i: "layer_merge_inputs api env read args log obj layer"
  shows "snd (add_policy_layer_run api env read args log) = log @ [HttpGet (layer_root_url api args)] \<and>
      (\<nexists>wire. layer_write api env read args obj layer wire) \<or>
    (\<exists>wire. layer_write api env read args obj layer wire \<and>
      (\<forall>w. layer_write api env read args obj layer w = (w = wire)) \<and>
      snd (add_policy_layer_run api env read args log) =
        log @ [HttpGet (layer_root_url api args), PostWire (with_query api (submit_url (al_daemon args))
          [(''repo'', al_repo args)]) wire])"
proof (cases "al_execute args \<and> or_confirmed obj \<and>
    (\<exists>merged added. merge api (or_value obj) layer = Inr (merged, added) \<and> added \<noteq> [])")
  case False
  then have "\<nexists>wire. layer_write api env read args obj layer wire" by (auto simp: layer_write_def)
  then show ?thesis using False unfolding add_policy_layer_run_inputs [OF i]
    by (auto simp: fail_with_def done_with_def split: sum.split)
next
  case True
  then obtain merged added where m: "merge api (or_value obj) layer = Inr (merged, added)" "added \<noteq> []"
    by blast
  obtain kvs where kvs: "or_value obj = JObj kvs" using m(1) by (rule merge_cases)
  have r: "add_policy_layer_run api env read args log =
      submit_layer api env read args obj merged (log @ [HttpGet (layer_root_url api args)])"
    using True m by (simp add: add_policy_layer_run_inputs [OF i] kvs)
  show ?thesis unfolding r submit_layer_log using True m
    by (simp add: layer_write_def split: sum.split) blast
qed

lemma add_policy_layer_run_writes:
  "(\<forall>wire. snd (add_policy_layer_run api env read args log) =
     log @ [HttpGet (layer_root_url api args), PostWire (with_query api (submit_url (al_daemon args))
       [(''repo'', al_repo args)]) wire] \<longleftrightarrow>
   (\<exists>obj layer. layer_merge_inputs api env read args log obj layer \<and>
     layer_write api env read args obj layer wire)) \<and>
   snd (add_policy_layer_run api env read args log) \<in>
     {log, log @ [HttpGet (layer_root_url api args)]} \<union>
     {log @ [HttpGet (layer_root_url api args), PostWire (with_query api (submit_url (al_daemon args))
       [(''repo'', al_repo args)]) wire] | wire. True}"
proof (cases "\<exists>obj layer. layer_merge_inputs api env read args log obj layer")
  case False
  then show ?thesis using add_policy_layer_run_stops [of api env read args log] by auto
next
  case True
  then obtain obj layer where i: "layer_merge_inputs api env read args log obj layer" by blast
  show ?thesis
    using add_policy_layer_run_log [OF i] layer_merge_inputs_unique [OF i] by auto
qed

section \<open>Properties\<close>

text \<open>C15: The merge accepts exactly the layers that are objects with no keys but \<open>grants\<close> and
  \<open>restrictions\<close>, on policies that are objects and hold arrays (or nothing) where the layer has
  entries.  The merged policy has the old entries in their order followed by exactly the missing
  ones, each once; what it reports as added are those; nothing else in the policy changes; and
  merging the same layer again adds nothing.\<close>
theorem merge_correct:
  assumes "obj_sorted p"
  shows "((\<exists>q added. merge api p l = Inr (q, added)) \<longleftrightarrow> mergeable p l) \<and>
    (\<forall>q added. merge api p l = Inr (q, added) \<longrightarrow>
      (\<exists>gs rs. entries ''grants'' q = entries ''grants'' p @ gs \<and>
        entries ''restrictions'' q = entries ''restrictions'' p @ rs \<and> distinct gs \<and> distinct rs \<and>
        set gs = set (entries ''grants'' l) - set (entries ''grants'' p) \<and>
        set rs = set (entries ''restrictions'' l) - set (entries ''restrictions'' p) \<and>
        added = added_of api ''grants'' gs @ added_of api ''restrictions'' rs) \<and>
      policy_rest q = policy_rest p \<and> merge api q l = Inr (q, []))"
proof (intro conjI allI impI)
  show "(\<exists>q added. merge api p l = Inr (q, added)) \<longleftrightarrow> mergeable p l" by (rule merge_accepts)
next
  fix q added
  assume m: "merge api p l = Inr (q, added)"
  show "\<exists>gs rs. entries ''grants'' q = entries ''grants'' p @ gs \<and>
        entries ''restrictions'' q = entries ''restrictions'' p @ rs \<and> distinct gs \<and> distinct rs \<and>
        set gs = set (entries ''grants'' l) - set (entries ''grants'' p) \<and>
        set rs = set (entries ''restrictions'' l) - set (entries ''restrictions'' p) \<and>
        added = added_of api ''grants'' gs @ added_of api ''restrictions'' rs"
    by (rule merge_spec [OF m]) blast
  show "policy_rest q = policy_rest p" by (rule merge_rest [OF m])
  show "merge api q l = Inr (q, [])" by (rule merge_again [OF m assms])
qed

definition demo_policy :: json where
  "demo_policy = JObj [(''grants'', JArr [JStr ''a'']), (''roles'', JNull)]"

definition demo_layer :: json where
  "demo_layer = JObj [(''grants'', JArr [JStr ''b'', JStr ''a'', JStr ''b'']), (''restrictions'', JArr [JStr ''c''])]"

definition demo_merged :: json where
  "demo_merged = JObj [(''grants'', JArr [JStr ''a'', JStr ''b'']), (''restrictions'', JArr [JStr ''c'']),
     (''roles'', JNull)]"

lemma merge_correct_witness:
  "merge demo_app demo_policy demo_layer =
     Inr (demo_merged, [''grants: b'', ''restrictions: c'']) \<and>
   mergeable demo_policy demo_layer \<and> merge demo_app demo_merged demo_layer = Inr (demo_merged, [])"
proof -
  have m: "merge demo_app demo_policy demo_layer = Inr (demo_merged, [''grants: b'', ''restrictions: c''])"
    by code_simp
  have "obj_sorted demo_policy" by code_simp
  from merge_correct [OF this, of demo_app demo_layer] m show ?thesis by blast
qed

text \<open>C16: Adding a layer sends one GET and at most one write.  It sends the write exactly when
  \<open>--execute\<close> is given, the policy read back is confirmed, the merge adds something and the key
  file loads; the write is then the merged policy at \<open>/sys/policies/root\<close>, owned as before and
  signed by the loaded key.\<close>
theorem add_policy_layer_submits_iff:
  "(\<forall>wire. snd (add_policy_layer_run api env read args log) =
     log @ [HttpGet (layer_root_url api args), PostWire (with_query api (submit_url (al_daemon args))
       [(''repo'', al_repo args)]) wire] \<longleftrightarrow>
   (\<exists>obj layer. layer_merge_inputs api env read args log obj layer \<and>
     al_execute args \<and> or_confirmed obj \<and>
     (\<exists>merged added key. merge api (or_value obj) layer = Inr (merged, added) \<and> added \<noteq> [] \<and>
       load_signing_key_file api read (expand_tilde env (al_sys_key_file args)) = Inr key \<and>
       assemble_write api key None None ROOT_PATH ROOT_ID ''policy.v2'' ''application/json''
         (json_text api merged)
         (Some (case or_owner_ref obj of Some x \<Rightarrow> x | None \<Rightarrow> key_string api key)) None = Inr wire))) \<and>
   snd (add_policy_layer_run api env read args log) \<in>
     {log, log @ [HttpGet (layer_root_url api args)]} \<union>
     {log @ [HttpGet (layer_root_url api args), PostWire (with_query api (submit_url (al_daemon args))
       [(''repo'', al_repo args)]) wire] | wire. True}"
  by (rule add_policy_layer_run_writes [unfolded layer_write_def])

end
