(* ===== verification/App_Root_Admin.thy ===== *)
theory App_Root_Admin
  imports App_Policy
begin

text \<open>
  \<open>mingo set-root-admin\<close> (\<open>mingo-app/src/set_root_admin.rs\<close>): replacing \<open>roles.admin\<close> in the live
  root policy, the fingerprint of everything else, and the guard of the irreversible cutover.
\<close>

record set_root_admin_args =
  sa_admin :: "string list"
  sa_daemon :: string
  sa_sys_key_file :: string
  sa_execute :: bool
  i_understand_cutover :: bool

section \<open>Members\<close>

definition parse_admin_member :: "('sk, 'pk, 'sig) app_api \<Rightarrow> string \<Rightarrow> (string, json) res" where
  "parse_admin_member api spec0 =
     (let spec = trim spec0 in
      if spec = [] then Inl ''empty --admin entry''
      else case (case strip_prefix ''ed25519:'' spec of
                   Some h \<Rightarrow> Some h | None \<Rightarrow> strip_prefix ''key:'' spec) of
        Some hex0 \<Rightarrow>
          (let hex = trim hex0 in
           res_bind (map_err (\<lambda>_. ''--admin '' @ apos spec @ '': decoding key hex'') (hex_decode api hex))
             (\<lambda>raw.
           if length raw \<noteq> 32
           then Inl (''--admin '' @ apos spec @ '': ed25519 pubkey must be 32 bytes ('' @
                  show_int (int (length raw)) @ '' given)'')
           else Inr (mk_obj [(''key'', JStr (''ed25519:'' @ hex))])))
      | None \<Rightarrow> Inr (JStr spec))"

fun parse_admin_members ::
  "('sk, 'pk, 'sig) app_api \<Rightarrow> string list \<Rightarrow> (string, json list) res" where
  "parse_admin_members api [] = Inr []"
| "parse_admin_members api (s # ss) =
     res_bind (parse_admin_member api s) (\<lambda>m. res_bind (parse_admin_members api ss) (\<lambda>ms. Inr (m # ms)))"

definition member_key :: "json \<Rightarrow> string option" where
  "member_key m = Option.bind (jget ''key'' m) as_str"

section \<open>The edit and its fingerprint\<close>

definition mutate_admin :: "json \<Rightarrow> json list \<Rightarrow> (string, json) res" where
  "mutate_admin policy admins =
     res_bind (ok_or (as_object policy) ''root policy is not a JSON object'') (\<lambda>obj.
     let entry = (case map_of obj ''roles'' of None \<Rightarrow> JObj [] | Some v \<Rightarrow> v) in
     res_bind (ok_or (as_object entry) ''policy `roles` is not a JSON object'') (\<lambda>roles.
     Inr (JObj (obj_insert ''roles'' (JObj (obj_insert ''admin'' (JArr admins) roles)) obj))))"

record fingerprint =
  fp_grants :: nat
  fp_restrictions :: nat
  other_roles :: "string list"
  fp_rest_hash :: string

text \<open>The policy with \<open>roles.admin\<close> removed.\<close>

definition strip_admin :: "json \<Rightarrow> json" where
  "strip_admin policy =
     (case policy of
        JObj kvs \<Rightarrow>
          (case map_of kvs ''roles'' of
             Some (JObj roles) \<Rightarrow> JObj (obj_insert ''roles'' (JObj (obj_remove ''admin'' roles)) kvs)
           | _ \<Rightarrow> policy)
      | _ \<Rightarrow> policy)"

definition fingerprint_of :: "('sk, 'pk, 'sig) app_api \<Rightarrow> json \<Rightarrow> fingerprint" where
  "fingerprint_of api policy =
     \<lparr>fp_grants = length (entries ''grants'' policy),
      fp_restrictions = length (entries ''restrictions'' policy),
      other_roles = sort (case Option.bind (jget ''roles'' policy) as_object of
          None \<Rightarrow> [] | Some r \<Rightarrow> filter (\<lambda>k. k \<noteq> ''admin'') (map fst r)),
      fp_rest_hash = hash_text api (sha256 api (json_text api (strip_admin policy)))\<rparr>"

definition is_cutover :: "json list \<Rightarrow> string \<Rightarrow> bool" where
  "is_cutover proposed sys_key \<longleftrightarrow> \<not> list_ex (\<lambda>m. member_key m = Some sys_key) proposed"

section \<open>The command\<close>

text \<open>This file's own \<open>expand_tilde\<close>, which strips a bare \<open>~\<close>.\<close>

definition expand_home :: "env \<Rightarrow> string \<Rightarrow> string" where
  "expand_home env path =
     (case strip_prefix ''~'' path of
        Some rest \<Rightarrow> (case env ''HOME'' of Some h \<Rightarrow> h @ rest | None \<Rightarrow> path)
      | None \<Rightarrow> path)"

definition load_sys_owner ::
  "('sk, 'pk, 'sig) app_api \<Rightarrow> env \<Rightarrow> (string \<Rightarrow> (string, string) res) \<Rightarrow> string \<Rightarrow> (string, string) res"
where
  "load_sys_owner api env read path =
     res_bind (load_signing_key_file api read (expand_home env path)) (\<lambda>key. Inr (key_string api key))"

definition root_policy_url :: "('sk, 'pk, 'sig) app_api \<Rightarrow> string \<Rightarrow> string" where
  "root_policy_url api daemon = with_query api (object_url daemon) [(''path'', ROOT_PATH), (''id'', ROOT_ID)]"

definition fetch_root_policy :: "('sk, 'pk, 'sig) app_api \<Rightarrow> string \<Rightarrow> obj_resp tool" where
  "fetch_root_policy api daemon =
     and_then (tool_send api (HttpGet (root_policy_url api daemon))) (\<lambda>reply. lift (case reply of
       Replied status body \<Rightarrow>
         if status = 404 then Inl (''root policy '' @ ROOT_PATH @ ROOT_ID @ '' not found on '' @ daemon)
         else if error_status status then Inl ''fetching current root policy''
         else map_err (\<lambda>_. ''parsing root policy object'') (decode_obj api body)
     | _ \<Rightarrow> Inl ''fetching current root policy''))"

definition current_admin :: "json \<Rightarrow> json list" where
  "current_admin policy =
     (case Option.bind (Option.bind (jget ''roles'' policy) (jget ''admin'')) as_arr of
        None \<Rightarrow> [] | Some ms \<Rightarrow> ms)"

text \<open>The key the cutover check is about: the loaded one, or the one that holds admin now.\<close>

fun find_member_key :: "json list \<Rightarrow> string option" where
  "find_member_key [] = None"
| "find_member_key (m # ms) = (case member_key m of Some k \<Rightarrow> Some k | None \<Rightarrow> find_member_key ms)"

definition cutover_for :: "string option \<Rightarrow> json \<Rightarrow> json list \<Rightarrow> bool" where
  "cutover_for sys_owner policy proposed =
     (case (case sys_owner of Some k \<Rightarrow> Some k | None \<Rightarrow> find_member_key (current_admin policy)) of
        Some k \<Rightarrow> is_cutover proposed k
      | None \<Rightarrow> True)"

definition submit_root_admin ::
  "('sk, 'pk, 'sig) app_api \<Rightarrow> env \<Rightarrow> (string \<Rightarrow> (string, string) res) \<Rightarrow> set_root_admin_args \<Rightarrow>
   obj_resp \<Rightarrow> string \<Rightarrow> json \<Rightarrow> unit tool" where
  "submit_root_admin api env read args obj sys_owner updated =
     and_then (lift (map_err (\<lambda>_. ''loading sys signing key'')
         (load_signing_key_file api read (expand_home env (sa_sys_key_file args))))) (\<lambda>sys_key.
     let owner = (case or_owner_ref obj of Some x \<Rightarrow> x | None \<Rightarrow> sys_owner) in
     and_then (lift (assemble_write api sys_key None None ROOT_PATH ROOT_ID ''policy.v2''
         ''application/json'' (json_text api updated) (Some owner) None)) (\<lambda>wire_bytes.
     and_then (tool_send api (PostWire (submit_url (sa_daemon args)) wire_bytes)) (\<lambda>reply.
     lift (case reply of
       Replied status body \<Rightarrow>
         if \<not> is_success status
         then Inl (''ABORT'' @ dash @ ''submit failed: HTTP '' @ status_text api status @ '': '' @ body)
         else Inr ()
     | _ \<Rightarrow> Inl ''submitting root-policy update''))))"

definition admin_not_preserved :: string where
  "admin_not_preserved = ''ABORT'' @ dash @
     ''preservation check FAILED: something other than roles.admin changed. Refusing to submit.''"

definition cutover_refused :: string where
  "cutover_refused = ''ABORT'' @ dash @
     ''this --execute drops the sys key from admin (irreversible cutover). Re-run with --i-understand-cutover to proceed.''"

definition set_root_admin_run ::
  "('sk, 'pk, 'sig) app_api \<Rightarrow> env \<Rightarrow> (string \<Rightarrow> (string, string) res) \<Rightarrow> set_root_admin_args \<Rightarrow>
   unit tool" where
  "set_root_admin_run api env read args =
     (if sa_admin args = [] then fail_with ''at least one --admin <id> is required''
      else
        and_then (lift (parse_admin_members api (sa_admin args))) (\<lambda>proposed.
        and_then (client_built api) (\<lambda>_.
        and_then (fetch_root_policy api (sa_daemon args)) (\<lambda>obj.
        let policy = or_value obj in
        if as_object policy = None
        then fail_with ''root policy `value` is not a JSON object; refusing to edit''
        else
          and_then (lift (mutate_admin policy proposed)) (\<lambda>updated.
          let preserved = (fingerprint_of api policy = fingerprint_of api updated) in
          and_then (lift (case load_sys_owner api env read (sa_sys_key_file args) of
              Inr x \<Rightarrow> Inr (Some x)
            | Inl e \<Rightarrow> if sa_execute args then Inl ''--execute needs the sys key to sign the update''
                       else Inr None)) (\<lambda>sys_owner.
          let cutover = cutover_for sys_owner policy proposed in
          if \<not> preserved then fail_with admin_not_preserved
          else if \<not> sa_execute args then done_with ()
          else if cutover \<and> \<not> i_understand_cutover args then fail_with cutover_refused
          else (case sys_owner of
              Some owner \<Rightarrow> submit_root_admin api env read args obj owner updated
            | None \<Rightarrow> fail_with ''sys owner computed when execute'')))))))"

text \<open>The last branch is the panic of an \<open>expect\<close>; \<open>set_root_admin_run_inputs\<close> shows it is never
  reached.\<close>

section \<open>The edit replaces the admins and nothing else\<close>

lemma mutate_admin_cases:
  assumes "mutate_admin p admins = Inr q"
  obtains kvs roles where "p = JObj kvs" "map_of kvs ''roles'' = Some (JObj roles) \<or> map_of kvs ''roles'' = None \<and> roles = []"
    "q = JObj (obj_insert ''roles'' (JObj (obj_insert ''admin'' (JArr admins) roles)) kvs)"
  using assms by (auto simp: mutate_admin_def res_bind_def ok_or_def Let_def split: sum.splits option.splits)

definition has_roles :: "json \<Rightarrow> bool" where
  "has_roles p = (Option.bind (jget ''roles'' p) as_object \<noteq> None)"

lemma has_rolesE: "has_roles p \<Longrightarrow> (\<And>r. jget ''roles'' p = Some (JObj r) \<Longrightarrow> P) \<Longrightarrow> P"
  by (auto simp: has_roles_def Option.bind_eq_Some_conv)

lemma mutate_admin_roles: "mutate_admin p admins = Inr q \<Longrightarrow> has_roles q"
  by (elim mutate_admin_cases) (simp add: has_roles_def)

lemma mutate_admin_strip:
  assumes "mutate_admin p admins = Inr q"
  shows "strip_admin q = strip_admin p \<longleftrightarrow> has_roles p"
  using assms
proof (rule mutate_admin_cases)
  fix kvs roles
  assume p: "p = JObj kvs" and r: "map_of kvs ''roles'' = Some (JObj roles) \<or> map_of kvs ''roles'' = None \<and> roles = []"
    and q: "q = JObj (obj_insert ''roles'' (JObj (obj_insert ''admin'' (JArr admins) roles)) kvs)"
  from r show ?thesis
  proof
    assume "map_of kvs ''roles'' = Some (JObj roles)"
    then show ?thesis by (simp add: strip_admin_def p q has_roles_def)
  next
    assume n: "map_of kvs ''roles'' = None \<and> roles = []"
    have "map_of (obj_insert ''roles'' (JObj []) kvs) ''roles'' \<noteq> map_of kvs ''roles''" using n by simp
    then have "obj_insert ''roles'' (JObj []) kvs \<noteq> kvs" by metis
    moreover have "strip_admin p = JObj kvs" "\<not> has_roles p" using n by (simp_all add: strip_admin_def p has_roles_def)
    moreover have "strip_admin q = JObj (obj_insert ''roles'' (JObj []) kvs)"
      using n by (simp add: strip_admin_def q obj_remove_def)
    ultimately show ?thesis by simp
  qed
qed

lemma mutate_admin_again: "mutate_admin p admins = Inr q \<Longrightarrow> mutate_admin q admins = Inr q"
  by (elim mutate_admin_cases) (simp add: mutate_admin_def res_bind_def ok_or_def)

lemma mutate_admin_entries:
  "mutate_admin p admins = Inr q \<Longrightarrow> k \<noteq> ''roles'' \<Longrightarrow> jget k q = jget k p"
  by (elim mutate_admin_cases) simp

lemma filter_admin_insert:
  "filter (\<lambda>k. k \<noteq> ''admin'') (map fst (obj_insert ''admin'' v roles)) = filter (\<lambda>k. k \<noteq> ''admin'') (map fst roles)"
  by (induction "''admin''" v roles rule: obj_insert.induct) auto

lemma mutate_admin_fingerprint:
  assumes m: "mutate_admin p admins = Inr q" and "has_roles p"
  shows "fingerprint_of api q = fingerprint_of api p"
proof -
  have "strip_admin q = strip_admin p" using mutate_admin_strip [OF m] assms(2) by simp
  moreover have "entries k q = entries k p" if "k \<noteq> ''roles''" for k
    using mutate_admin_entries [OF m that] by (simp add: entries_def)
  moreover have "filter (\<lambda>k. k \<noteq> ''admin'') (map fst r') = filter (\<lambda>k. k \<noteq> ''admin'') (map fst r)"
    if "jget ''roles'' q = Some (JObj r')" "jget ''roles'' p = Some (JObj r)" for r r'
    using m that by (elim mutate_admin_cases) (auto simp: filter_admin_insert)
  moreover obtain r where "jget ''roles'' p = Some (JObj r)" using assms(2)
    by (rule has_rolesE)
  moreover obtain r' where "jget ''roles'' q = Some (JObj r')" using mutate_admin_roles [OF m]
    by (rule has_rolesE)
  ultimately show ?thesis by (simp add: fingerprint_of_def)
qed

interpretation admins: policy_edit mutate_admin strip_admin has_roles
  by unfold_locales (auto dest: mutate_admin_strip mutate_admin_roles mutate_admin_again)

text \<open>Any sequence of changes of the admins leaves the fingerprint as it was.\<close>

lemma admin_edits_rest:
  "admins.edits p ls = Inr q \<Longrightarrow> has_roles p \<Longrightarrow> strip_admin q = strip_admin p"
  using admins.edits_rest by blast

section \<open>The command sends at most one write\<close>

lemma fetch_root_policy_log: "snd (fetch_root_policy api d log) = log @ [HttpGet (root_policy_url api d)]"
  by (simp add: fetch_root_policy_def run_defs tool_send_def)

text \<open>What the command has when it comes to its checks.\<close>

definition admin_inputs ::
  "('sk, 'pk, 'sig) app_api \<Rightarrow> set_root_admin_args \<Rightarrow> http_call list \<Rightarrow> obj_resp \<Rightarrow> json list \<Rightarrow> json \<Rightarrow> bool"
where
  "admin_inputs api args log obj proposed updated \<longleftrightarrow>
     sa_admin args \<noteq> [] \<and> parse_admin_members api (sa_admin args) = Inr proposed \<and>
     new_client api = Inr () \<and> fst (fetch_root_policy api (sa_daemon args) log) = Inr obj \<and>
     mutate_admin (or_value obj) proposed = Inr updated"

definition admin_write ::
  "('sk, 'pk, 'sig) app_api \<Rightarrow> env \<Rightarrow> (string \<Rightarrow> (string, string) res) \<Rightarrow> set_root_admin_args \<Rightarrow>
   obj_resp \<Rightarrow> json list \<Rightarrow> json \<Rightarrow> string \<Rightarrow> bool" where
  "admin_write api env read args obj proposed updated wire \<longleftrightarrow>
     sa_execute args \<and> fingerprint_of api (or_value obj) = fingerprint_of api updated \<and>
     (\<exists>key. load_signing_key_file api read (expand_home env (sa_sys_key_file args)) = Inr key \<and>
       (i_understand_cutover args \<or> list_ex (\<lambda>m. member_key m = Some (key_string api key)) proposed) \<and>
       assemble_write api key None None ROOT_PATH ROOT_ID ''policy.v2'' ''application/json''
         (json_text api updated)
         (Some (case or_owner_ref obj of Some x \<Rightarrow> x | None \<Rightarrow> key_string api key)) None = Inr wire)"

lemma set_root_admin_run_inputs:
  assumes "admin_inputs api args log obj proposed updated"
  shows "set_root_admin_run api env read args log =
    (case load_signing_key_file api read (expand_home env (sa_sys_key_file args)) of
       Inl _ \<Rightarrow>
         if sa_execute args then fail_with ''--execute needs the sys key to sign the update''
         else if fingerprint_of api (or_value obj) \<noteq> fingerprint_of api updated
         then fail_with admin_not_preserved else done_with ()
     | Inr key \<Rightarrow>
         if fingerprint_of api (or_value obj) \<noteq> fingerprint_of api updated
         then fail_with admin_not_preserved
         else if \<not> sa_execute args then done_with ()
         else if is_cutover proposed (key_string api key) \<and> \<not> i_understand_cutover args
         then fail_with cutover_refused
         else submit_root_admin api env read args obj (key_string api key) updated)
    (log @ [HttpGet (root_policy_url api (sa_daemon args))])"
proof -
  have f: "fetch_root_policy api (sa_daemon args) log =
      (Inr obj, log @ [HttpGet (root_policy_url api (sa_daemon args))])"
    using assms fetch_root_policy_log [of api "sa_daemon args" log]
    by (cases "fetch_root_policy api (sa_daemon args) log") (simp add: admin_inputs_def)
  obtain kvs where v: "or_value obj = JObj kvs"
    using assms unfolding admin_inputs_def by (auto elim: mutate_admin_cases)
  show ?thesis
    using assms f v
    by (simp add: set_root_admin_run_def admin_inputs_def run_defs client_built_def map_err_def Let_def
        load_sys_owner_def res_bind_def cutover_for_def split: sum.split)
qed

lemma submit_root_admin_log:
  "load_signing_key_file api read (expand_home env (sa_sys_key_file args)) = Inr key \<Longrightarrow>
   snd (submit_root_admin api env read args obj owner updated log) =
   (case assemble_write api key None None ROOT_PATH ROOT_ID ''policy.v2'' ''application/json''
       (json_text api updated)
       (Some (case or_owner_ref obj of Some x \<Rightarrow> x | None \<Rightarrow> owner)) None of
      Inl _ \<Rightarrow> log
    | Inr wire \<Rightarrow> log @ [PostWire (submit_url (sa_daemon args)) wire])"
  by (simp add: submit_root_admin_def run_defs tool_send_def map_err_def Let_def split: sum.split)

lemma set_root_admin_run_log:
  assumes i: "admin_inputs api args log obj proposed updated"
  shows "snd (set_root_admin_run api env read args log) =
        log @ [HttpGet (root_policy_url api (sa_daemon args))] \<and>
      (\<nexists>wire. admin_write api env read args obj proposed updated wire) \<or>
    (\<exists>wire. (\<forall>w. admin_write api env read args obj proposed updated w = (w = wire)) \<and>
      snd (set_root_admin_run api env read args log) =
        log @ [HttpGet (root_policy_url api (sa_daemon args)), PostWire (submit_url (sa_daemon args)) wire])"
proof (cases "load_signing_key_file api read (expand_home env (sa_sys_key_file args))")
  case (Inl e)
  then show ?thesis
    by (simp add: set_root_admin_run_inputs [OF i] admin_write_def fail_with_def done_with_def)
next
  case (Inr key)
  show ?thesis
  proof (cases "sa_execute args \<and> fingerprint_of api (or_value obj) = fingerprint_of api updated \<and>
      (i_understand_cutover args \<or> \<not> is_cutover proposed (key_string api key))")
    case False
    then show ?thesis using Inr
      by (auto simp: set_root_admin_run_inputs [OF i] admin_write_def fail_with_def done_with_def
          is_cutover_def)
  next
    case True
    then have r: "set_root_admin_run api env read args log =
        submit_root_admin api env read args obj (key_string api key) updated
          (log @ [HttpGet (root_policy_url api (sa_daemon args))])"
      using Inr by (simp add: set_root_admin_run_inputs [OF i] admin_not_preserved_def) blast
    show ?thesis unfolding r submit_root_admin_log [OF Inr] using True
      by (auto simp: admin_write_def is_cutover_def Inr split: sum.split)
  qed
qed

lemma set_root_admin_run_stops:
  assumes "\<nexists>obj proposed updated. admin_inputs api args log obj proposed updated"
  shows "snd (set_root_admin_run api env read args log) = log \<or>
    snd (set_root_admin_run api env read args log) = log @ [HttpGet (root_policy_url api (sa_daemon args))]"
proof (cases "sa_admin args \<noteq> [] \<and> (\<exists>proposed. parse_admin_members api (sa_admin args) = Inr proposed) \<and>
    new_client api = Inr ()")
  case False
  then show ?thesis
    by (auto simp: set_root_admin_run_def run_defs client_built_def map_err_def split: sum.split)
next
  case True
  then obtain proposed where p: "parse_admin_members api (sa_admin args) = Inr proposed"
    "sa_admin args \<noteq> []" "new_client api = Inr ()" by blast
  obtain r where f: "fetch_root_policy api (sa_daemon args) log =
      (r, log @ [HttpGet (root_policy_url api (sa_daemon args))])"
    using fetch_root_policy_log [of api "sa_daemon args" log]
    by (cases "fetch_root_policy api (sa_daemon args) log") simp
  show ?thesis
  proof (cases r)
    case (Inl e)
    then show ?thesis using p f
      by (simp add: set_root_admin_run_def run_defs client_built_def map_err_def)
  next
    case (Inr obj)
    then obtain e where "mutate_admin (or_value obj) proposed = Inl e"
      using assms p f by (cases "mutate_admin (or_value obj) proposed") (auto simp: admin_inputs_def)
    then show ?thesis using p f Inr
      by (simp add: set_root_admin_run_def run_defs client_built_def map_err_def Let_def)
  qed
qed

lemma admin_inputs_unique:
  "admin_inputs api args log obj proposed updated \<Longrightarrow>
   admin_inputs api args log obj' proposed' updated' \<longleftrightarrow>
   obj' = obj \<and> proposed' = proposed \<and> updated' = updated"
  by (auto simp: admin_inputs_def)

lemma set_root_admin_run_writes:
  "(\<forall>wire. snd (set_root_admin_run api env read args log) =
      log @ [HttpGet (root_policy_url api (sa_daemon args)), PostWire (submit_url (sa_daemon args)) wire] \<longleftrightarrow>
    (\<exists>obj proposed updated. admin_inputs api args log obj proposed updated \<and>
      admin_write api env read args obj proposed updated wire)) \<and>
   snd (set_root_admin_run api env read args log) \<in>
     {log, log @ [HttpGet (root_policy_url api (sa_daemon args))]} \<union>
     {log @ [HttpGet (root_policy_url api (sa_daemon args)), PostWire (submit_url (sa_daemon args)) wire]
      | wire. True}"
proof (cases "\<exists>obj proposed updated. admin_inputs api args log obj proposed updated")
  case False
  then show ?thesis using set_root_admin_run_stops [of api args log env read] by auto
next
  case True
  then obtain obj proposed updated where i: "admin_inputs api args log obj proposed updated" by blast
  show ?thesis
    using set_root_admin_run_log [OF i, of env read] admin_inputs_unique [OF i] by auto
qed

section \<open>Properties\<close>

text \<open>C17: Replacing the admins succeeds exactly on an object whose \<open>roles\<close>, if any, is an object.
  The result lists exactly the given admins; every other field and every other role is as before;
  doing it again changes nothing.  What the fingerprint hashes is unchanged exactly when the policy
  had a \<open>roles\<close> object: one without always fails the command's own preservation check, up to a
  collision of the hash.\<close>
theorem mutate_admin_correct:
  "((\<exists>q. mutate_admin p admins = Inr q) \<longleftrightarrow>
     (\<exists>kvs. p = JObj kvs \<and> (has_roles p \<or> map_of kvs ''roles'' = None))) \<and>
   (\<forall>q. mutate_admin p admins = Inr q \<longrightarrow>
     current_admin q = admins \<and> (\<forall>k. k \<noteq> ''roles'' \<longrightarrow> jget k q = jget k p) \<and>
     (\<forall>role. role \<noteq> ''admin'' \<longrightarrow>
       Option.bind (jget ''roles'' q) (jget role) = Option.bind (jget ''roles'' p) (jget role)) \<and>
     mutate_admin q admins = Inr q \<and>
     (strip_admin q = strip_admin p \<longleftrightarrow> has_roles p) \<and>
     (has_roles p \<longrightarrow> fingerprint_of api q = fingerprint_of api p))"
proof (intro conjI allI impI)
  show "(\<exists>q. mutate_admin p admins = Inr q) \<longleftrightarrow>
     (\<exists>kvs. p = JObj kvs \<and> (has_roles p \<or> map_of kvs ''roles'' = None))"
    by (cases p) (auto simp: mutate_admin_def res_bind_def ok_or_def Let_def has_roles_def split: option.splits)
next
  fix q
  assume m: "mutate_admin p admins = Inr q"
  then show "current_admin q = admins" by (elim mutate_admin_cases) (simp add: current_admin_def)
  show "mutate_admin q admins = Inr q" using m by (rule mutate_admin_again)
  show "strip_admin q = strip_admin p \<longleftrightarrow> has_roles p" using m by (rule mutate_admin_strip)
  show "fingerprint_of api q = fingerprint_of api p" if "has_roles p"
    using m that by (rule mutate_admin_fingerprint)
  show "jget k q = jget k p" if "k \<noteq> ''roles''" for k using m that by (rule mutate_admin_entries)
  show "Option.bind (jget ''roles'' q) (jget role) = Option.bind (jget ''roles'' p) (jget role)"
    if "role \<noteq> ''admin''" for role
    using m that by (elim mutate_admin_cases) auto
qed

definition demo_root :: json where
  "demo_root = JObj [(''grants'', JArr []), (''roles'', JObj [(''admin'', JArr [JStr ''sys'']), (''mod'', JNull)])]"

lemma mutate_admin_correct_witness:
  "\<exists>q. mutate_admin demo_root [JStr ''kim@x''] = Inr q \<and> current_admin q = [JStr ''kim@x''] \<and>
     fingerprint_of demo_app q = fingerprint_of demo_app demo_root \<and> q \<noteq> demo_root"
proof -
  have r: "has_roles demo_root" by code_simp
  obtain q where q: "mutate_admin demo_root [JStr ''kim@x''] = Inr q"
    by (simp add: mutate_admin_def res_bind_def ok_or_def demo_root_def)
  have "current_admin demo_root \<noteq> [JStr ''kim@x'']" by code_simp
  then show ?thesis
    using mutate_admin_correct [of demo_root "[JStr ''kim@x'']" demo_app] q r by blast
qed

text \<open>C18: Setting the admins sends one GET and at most one write.  It sends the write exactly when
  every given admin parses, the edit applies and passes the fingerprint check, \<open>--execute\<close> is
  given, the key file loads, and the given admins still list the loaded key or the cutover is
  acknowledged; the write is then the edited policy at \<open>/sys/policies/root\<close>, signed by that
  key.\<close>
theorem set_root_admin_submits_iff:
  "(\<forall>wire. snd (set_root_admin_run api env read args log) =
      log @ [HttpGet (root_policy_url api (sa_daemon args)), PostWire (submit_url (sa_daemon args)) wire] \<longleftrightarrow>
    (\<exists>obj proposed updated. admin_inputs api args log obj proposed updated \<and>
      sa_execute args \<and> fingerprint_of api (or_value obj) = fingerprint_of api updated \<and>
     (\<exists>key. load_signing_key_file api read (expand_home env (sa_sys_key_file args)) = Inr key \<and>
       (i_understand_cutover args \<or> list_ex (\<lambda>m. member_key m = Some (key_string api key)) proposed) \<and>
       assemble_write api key None None ROOT_PATH ROOT_ID ''policy.v2'' ''application/json''
         (json_text api updated)
         (Some (case or_owner_ref obj of Some x \<Rightarrow> x | None \<Rightarrow> key_string api key)) None = Inr wire))) \<and>
   snd (set_root_admin_run api env read args log) \<in>
     {log, log @ [HttpGet (root_policy_url api (sa_daemon args))]} \<union>
     {log @ [HttpGet (root_policy_url api (sa_daemon args)), PostWire (submit_url (sa_daemon args)) wire]
      | wire. True}"
  by (rule set_root_admin_run_writes [unfolded admin_write_def])

end
