(* ===== verification/App_Community.thy ===== *)
theory App_Community
  imports App_Genesis "HOL-Library.Multiset"
begin

text \<open>
  The community descriptor (\<open>mingo-app/src/community.rs\<close>) and \<open>mingo create-community\<close>
  (\<open>mingo-app/src/create_community.rs\<close>), which writes on the live chain what the genesis writes for a
  community.
\<close>

section \<open>The descriptor\<close>

definition DEFAULT_MEMBERS_PREFIX :: string where
  "DEFAULT_MEMBERS_PREFIX = ''/members/''"

definition DEFAULT_SPACES_PREFIX :: string where
  "DEFAULT_SPACES_PREFIX = ''/spaces/''"

record community_v1 =
  cm_name :: string
  cm_issuer :: string
  cm_policy :: string
  cm_description :: "string option"
  cm_members :: "string option"
  cm_spaces :: "string option"
  cm_open :: "bool option"
  cm_created_at :: "int option"

definition members_prefix :: "community_v1 \<Rightarrow> string" where
  "members_prefix c = (case cm_members c of Some p \<Rightarrow> p | None \<Rightarrow> DEFAULT_MEMBERS_PREFIX)"

definition spaces_prefix :: "community_v1 \<Rightarrow> string" where
  "spaces_prefix c = (case cm_spaces c of Some p \<Rightarrow> p | None \<Rightarrow> DEFAULT_SPACES_PREFIX)"

datatype schema_error =
    EmptyPayload
  | MissingField string
  | JsonError string

text \<open>\<open>decode\<close> is the decoder \<open>serde\<close> derives for \<open>Community\<close>.\<close>

definition parse_community ::
  "(string \<Rightarrow> (string, community_v1) res) \<Rightarrow> string \<Rightarrow> (schema_error, community_v1) res" where
  "parse_community decode payload = map_err JsonError (decode payload)"

definition validate_community ::
  "(string \<Rightarrow> (string, community_v1) res) \<Rightarrow> ('pk, 'sig) message \<Rightarrow> (schema_error, unit) res" where
  "validate_community decode msg =
     res_bind (ok_or (m_payload msg) EmptyPayload) (\<lambda>payload.
     res_bind (parse_community decode payload) (\<lambda>c.
     case find (\<lambda>(_, value). value = [])
         [(''name'', cm_name c), (''issuer'', cm_issuer c), (''policy'', cm_policy c)] of
       Some (field, _) \<Rightarrow> Inl (MissingField field)
     | None \<Rightarrow> Inr ()))"

section \<open>Creating a community\<close>

record create_community_args =
  cc_id :: string
  cc_name :: string
  cc_description :: "string option"
  cc_issuer :: string
  cc_spaces :: "string list"
  cc_open :: bool
  cc_daemon :: string
  cc_repo :: string
  cc_sys_key_file :: string
  cc_execute :: bool
  cc_replace :: bool

text \<open>A panic of \<open>expect\<close> is an error here.\<close>

definition delete_message ::
  "('sk, 'pk, 'sig) app_api \<Rightarrow> 'sk \<Rightarrow> string \<Rightarrow> string \<Rightarrow> (string, ('pk, 'sig) message) res" where
  "delete_message api key path i =
     res_bind (path_parse api path) (\<lambda>p.
     res_bind (id_new api i) (\<lambda>n.
     Inr (sign_with api key \<lparr>m_action = Delete, m_path = p, m_id = n,
       m_signing_key = key_public api key, m_signature = placeholder_sig api,
       m_content_type = None, m_content_hash = None, m_payload = None, m_owner = None,
       m_creator = None, m_content_encoding = None, m_content_schema = None, m_policy_ref = None,
       m_related = None, m_hlc = None, m_prev = None, m_auth_cert = None, m_auth_evidence = None,
       m_auth_warrant = None\<rparr>)))"

definition signed_delete ::
  "('sk, 'pk, 'sig) app_api \<Rightarrow> 'sk \<Rightarrow> string \<Rightarrow> string \<Rightarrow> (string, string) res" where
  "signed_delete api key path i =
     res_bind (delete_message api key path i) (\<lambda>msg. Inr (wire_serialize api msg))"

definition exists_url :: "('sk, 'pk, 'sig) app_api \<Rightarrow> create_community_args \<Rightarrow> string" where
  "exists_url api args = with_query api (object_url (cc_daemon args))
     [(''path'', community_path (cc_id args)), (''id'', ''community''), (''repo'', cc_repo args)]"

definition exists_now :: "('sk, 'pk, 'sig) app_api \<Rightarrow> create_community_args \<Rightarrow> bool tool" where
  "exists_now api args =
     and_then (tool_send api (HttpGet (exists_url api args))) (\<lambda>reply. lift (case reply of
       Replied status _ \<Rightarrow> Inr (is_success status)
     | _ \<Rightarrow> Inl ''checking whether the community exists''))"

definition create_submit_url :: "('sk, 'pk, 'sig) app_api \<Rightarrow> create_community_args \<Rightarrow> string" where
  "create_submit_url api args =
     with_query api (submit_url (cc_daemon args)) [(''repo'', cc_repo args)]"

definition submit_batch ::
  "('sk, 'pk, 'sig) app_api \<Rightarrow> create_community_args \<Rightarrow> string \<Rightarrow> string \<Rightarrow> string tool" where
  "submit_batch api args batch what =
     and_then (tool_send api (PostWire (create_submit_url api args) batch)) (\<lambda>reply. lift (case reply of
       Replied status body \<Rightarrow>
         if \<not> is_success status
         then Inl (''ABORT'' @ dash @ what @ '' failed: HTTP '' @ status_text api status @ '': '' @ body)
         else Inr body
     | _ \<Rightarrow> Inl what))"

text \<open>
  The loop that waits until the old community is gone.  Times are in milliseconds since the
  deadline was set; \<open>lat k\<close> is how long the \<open>k\<close>-th check takes.
\<close>

definition WAIT_MS :: nat where
  "WAIT_MS = 300000"

definition NAP_MS :: nat where
  "NAP_MS = 10000"

function wait_gone ::
  "('sk, 'pk, 'sig) app_api \<Rightarrow> create_community_args \<Rightarrow> (nat \<Rightarrow> nat) \<Rightarrow> nat \<Rightarrow> nat \<Rightarrow> unit tool" where
  "wait_gone api args lat k elapsed log =
     (case exists_now api args log of
        (Inl e, log') \<Rightarrow> (Inl e, log')
      | (Inr False, log') \<Rightarrow> (Inr (), log')
      | (Inr True, log') \<Rightarrow>
          if WAIT_MS < elapsed + lat k
          then (Inl (''the old community is still present after 5 minutes'' @ dash @
                  ''stopping rather than writing over it''), log')
          else wait_gone api args lat (k + 1) (elapsed + lat k + NAP_MS) log')"
  by pat_completeness auto
termination
  by (relation "measure (\<lambda>(api, args, lat, k, elapsed, log). Suc WAIT_MS + NAP_MS - elapsed)")
     (auto simp: NAP_MS_def WAIT_MS_def)

declare wait_gone.simps [simp del]

definition space_char :: "char \<Rightarrow> bool" where
  "space_char c \<longleftrightarrow> is_ascii_lowercase c \<or> is_ascii_digit c \<or> c = CHR ''-''"

text \<open>The batch: the descriptor, the spaces, and the policy last.\<close>

definition create_writes ::
  "('sk, 'pk, 'sig) app_api \<Rightarrow> 'sk \<Rightarrow> create_community_args \<Rightarrow> int \<Rightarrow>
   ('sk, 'pk, 'sig) genesis_write list" where
  "create_writes api key args now =
     [community api key (cc_id args) (cc_name args) (cc_issuer args) (community_path (cc_id args))
        (cc_description args) (cc_open args) (Some now)] @
     map (\<lambda>s. CollectionConfig key (''/communities/'' @ cc_id args @ ''/spaces/'' @ s @ ''/'') True
        (Some 5) (Some (24 * 60 * 60)) (Some ''post.v1'')) (cc_spaces args) @
     [if cc_open args then community_policy_open api key (cc_id args) (cc_issuer args)
      else community_policy api key (cc_id args) (cc_issuer args)]"

definition clear_community ::
  "('sk, 'pk, 'sig) app_api \<Rightarrow> 'sk \<Rightarrow> create_community_args \<Rightarrow> (nat \<Rightarrow> nat) \<Rightarrow> unit tool" where
  "clear_community api key args lat =
     and_then (lift (signed_delete api key (community_path (cc_id args)) ''root'')) (\<lambda>d1.
     and_then (lift (signed_delete api key (community_path (cc_id args)) ''community'')) (\<lambda>d2.
     and_then (submit_batch api args (d1 @ d2) ''clearing the old community'') (\<lambda>_.
     wait_gone api args lat 0 0)))"

text \<open>What follows the check whether there is a community already.\<close>

definition create_checked ::
  "('sk, 'pk, 'sig) app_api \<Rightarrow> env \<Rightarrow> (string \<Rightarrow> (string, string) res) \<Rightarrow> create_community_args \<Rightarrow>
   (nat \<Rightarrow> nat) \<Rightarrow> int \<Rightarrow> bool \<Rightarrow> unit tool" where
  "create_checked api env read args lat now there =
     (if there \<and> \<not> cc_replace args
      then fail_with (''/communities/'' @ cc_id args @ ''/community already exists'' @ dash @
             ''refusing to overwrite a live community's descriptor and policy. Pick another id, or edit the existing one deliberately.'')
      else if \<not> cc_execute args then done_with ()
      else
        and_then (lift (map_err (\<lambda>_. ''loading admin key '' @ cc_sys_key_file args)
            (load_signing_key_file api read (expand_tilde env (cc_sys_key_file args))))) (\<lambda>sys_key.
        and_then (if cc_replace args then clear_community api sys_key args lat else done_with ()) (\<lambda>_.
        and_then (submit_batch api args (emit_all api (create_writes api sys_key args now))
            ''submitting the community'') (\<lambda>_. done_with ()))))"

definition create_community_run ::
  "('sk, 'pk, 'sig) app_api \<Rightarrow> env \<Rightarrow> (string \<Rightarrow> (string, string) res) \<Rightarrow> create_community_args \<Rightarrow>
   (nat \<Rightarrow> nat) \<Rightarrow> int \<Rightarrow> unit tool" where
  "create_community_run api env read args lat now =
     (if cc_id args = [] \<or> cc_spaces args = []
      then fail_with ''--id and at least one --space are required''
      else case find (\<lambda>s. \<not> list_all space_char s) (cc_spaces args) of
        Some s \<Rightarrow> fail_with (''space `'' @ s @ ''`: use lowercase letters, digits and hyphens'' @ dash @
                    ''it becomes a path segment'')
      | None \<Rightarrow>
        and_then (client_built api) (\<lambda>_.
        and_then (exists_now api args) (create_checked api env read args lat now)))"

section \<open>The descriptor\<close>

lemma validate_community_iff:
  "validate_community decode msg = Inr () \<longleftrightarrow>
   (\<exists>payload c. m_payload msg = Some payload \<and> decode payload = Inr c \<and>
      cm_name c \<noteq> [] \<and> cm_issuer c \<noteq> [] \<and> cm_policy c \<noteq> [])"
  by (auto simp: validate_community_def parse_community_def res_bind_def ok_or_def map_err_def
      split: option.splits sum.splits)

section \<open>The wait ends\<close>

lemma exists_now_log: "exists_now api args log =
    (case send api log (HttpGet (exists_url api args)) of
       Replied st _ \<Rightarrow> Inr (is_success st) | _ \<Rightarrow> Inl ''checking whether the community exists'',
     log @ [HttpGet (exists_url api args)])"
  by (simp add: exists_now_def run_defs tool_send_def)

text \<open>The daemon answers the check, with anything but a success: \<open>404\<close>, or an error such as \<open>500\<close>.\<close>

definition not_served :: "('sk, 'pk, 'sig) app_api \<Rightarrow> create_community_args \<Rightarrow> http_call list \<Rightarrow> bool" where
  "not_served api args log \<longleftrightarrow>
     (\<exists>st body. send api log (HttpGet (exists_url api args)) = Replied st body \<and> \<not> is_success st)"

lemma exists_now_False:
  "exists_now api args log = (Inr False, log') \<longleftrightarrow>
   not_served api args log \<and> log' = log @ [HttpGet (exists_url api args)]"
  by (auto simp: exists_now_log not_served_def split: http_reply.splits)

text \<open>
  However long the checks take, there are at most 32, since every round naps for ten seconds; and
  it ends well only after a check that was answered without success.
\<close>

lemma wait_gone_checks:
  "NAP_MS * k \<le> elapsed \<Longrightarrow> k \<le> 31 \<Longrightarrow>
   \<exists>n. snd (wait_gone api args lat k elapsed log) = log @ replicate (Suc n) (HttpGet (exists_url api args)) \<and>
     k + Suc n \<le> 32 \<and>
     (fst (wait_gone api args lat k elapsed log) = Inr () \<longrightarrow>
       not_served api args (log @ replicate n (HttpGet (exists_url api args))))"
proof (induction api args lat k elapsed log rule: wait_gone.induct)
  case (1 api args lat k elapsed log)
  let ?g = "HttpGet (exists_url api args)"
  show ?case
  proof (cases "exists_now api args log")
    case (Pair r log')
    then have l: "log' = log @ [?g]" by (simp add: exists_now_log)
    show ?thesis
    proof (cases "r = Inr True \<and> \<not> WAIT_MS < elapsed + lat k")
      case True
      then have more: "wait_gone api args lat k elapsed log =
          wait_gone api args lat (k + 1) (elapsed + lat k + NAP_MS) log'"
        using Pair by (simp add: wait_gone.simps [of api args lat k])
      have "k \<le> 30" using True 1(2) by (simp add: WAIT_MS_def NAP_MS_def)
      then have "\<exists>n. snd (wait_gone api args lat (k + 1) (elapsed + lat k + NAP_MS) log') =
            log' @ replicate (Suc n) ?g \<and> k + 1 + Suc n \<le> 32 \<and>
          (fst (wait_gone api args lat (k + 1) (elapsed + lat k + NAP_MS) log') = Inr () \<longrightarrow>
            not_served api args (log' @ replicate n ?g))"
        using True 1(2) Pair by (intro 1(1) [of r log' True]) (auto simp: NAP_MS_def)
      then obtain n where n: "snd (wait_gone api args lat (k + 1) (elapsed + lat k + NAP_MS) log') =
            log' @ replicate (Suc n) ?g" "k + 1 + Suc n \<le> 32"
          "fst (wait_gone api args lat (k + 1) (elapsed + lat k + NAP_MS) log') = Inr () \<longrightarrow>
            not_served api args (log' @ replicate n ?g)" by blast
      show ?thesis by (rule exI [of _ "Suc n"]) (use n in \<open>simp add: more l\<close>)
    next
      case False
      then have "snd (wait_gone api args lat k elapsed log) = log'"
        "fst (wait_gone api args lat k elapsed log) = Inr () \<Longrightarrow> r = Inr False"
        using Pair by (auto simp: wait_gone.simps [of api args lat k] split: sum.splits if_splits bool.splits)
      moreover have "not_served api args log" if "r = Inr False"
        using Pair that exists_now_False by blast
      ultimately show ?thesis using 1(3) l by (intro exI [of _ 0]) auto
    qed
  qed
qed

lemma submit_batch_log: "snd (submit_batch api args b what log) = log @ [PostWire (create_submit_url api args) b]"
  by (simp add: submit_batch_def run_defs tool_send_def)

lemma clear_community_Inr:
  assumes "clear_community api key args lat log = (Inr (), log')"
  obtains d1 d2 n where "signed_delete api key (community_path (cc_id args)) ''root'' = Inr d1"
    "signed_delete api key (community_path (cc_id args)) ''community'' = Inr d2" "n < 32"
    "log' = log @ PostWire (create_submit_url api args) (d1 @ d2) #
       replicate (Suc n) (HttpGet (exists_url api args))"
    "not_served api args (log @ PostWire (create_submit_url api args) (d1 @ d2) #
       replicate n (HttpGet (exists_url api args)))"
proof -
  from assms obtain d1 d2 body log1 where d: "signed_delete api key (community_path (cc_id args)) ''root'' = Inr d1"
      "signed_delete api key (community_path (cc_id args)) ''community'' = Inr d2"
    and b: "submit_batch api args (d1 @ d2) ''clearing the old community'' log = (Inr body, log1)"
    and w: "wait_gone api args lat 0 0 log1 = (Inr (), log')"
    by (auto simp: clear_community_def and_then_Inr)
  have l: "log1 = log @ [PostWire (create_submit_url api args) (d1 @ d2)]"
    using submit_batch_log [of api args "d1 @ d2" "''clearing the old community''" log] b by simp
  obtain n where "log' = log1 @ replicate (Suc n) (HttpGet (exists_url api args))" "Suc n \<le> 32"
    "not_served api args (log1 @ replicate n (HttpGet (exists_url api args)))"
    using wait_gone_checks [of 0 0 api args lat log1] w by auto
  then show ?thesis using that [of d1 d2 n] d l by simp
qed

lemma create_writes_kinds:
  "map write_kind (create_writes api key args now) =
   ''community.v1'' # replicate (length (cc_spaces args)) ''collection'' @ [''policy.v2'']"
proof -
  have "map (\<lambda>s. ''collection'') xs = replicate (length xs) ''collection''" for xs :: "string list"
    by (induction xs) simp_all
  then show ?thesis
    by (simp add: create_writes_def community_def community_policy_open_def community_policy_def comp_def)
qed

definition create_args_ok :: "create_community_args \<Rightarrow> bool" where
  "create_args_ok args \<longleftrightarrow> cc_id args \<noteq> [] \<and> cc_spaces args \<noteq> [] \<and> list_all (list_all space_char) (cc_spaces args)"

lemma create_community_bad_args:
  "\<not> create_args_ok args \<Longrightarrow> \<exists>e. create_community_run api env read args lat now log = (Inl e, log)"
proof -
  assume "\<not> create_args_ok args"
  then have "cc_id args = [] \<or> cc_spaces args = [] \<or>
      (\<exists>s. find (\<lambda>s. \<not> list_all space_char s) (cc_spaces args) = Some s)"
    by (cases "find (\<lambda>s. \<not> list_all space_char s) (cc_spaces args)")
       (auto simp: create_args_ok_def find_None_iff2 list_all_iff)
  then show ?thesis by (auto simp: create_community_run_def fail_with_def)
qed

lemma create_community_start:
  "create_args_ok args \<Longrightarrow> create_community_run api env read args lat now log =
    (case new_client api of
       Inl _ \<Rightarrow> (Inl ''building HTTP client'', log)
     | Inr _ \<Rightarrow> and_then (exists_now api args) (create_checked api env read args lat now) log)"
proof -
  assume ok: "create_args_ok args"
  then have "find (\<lambda>s. \<not> list_all space_char s) (cc_spaces args) = None"
    by (simp add: find_None_iff2 list_all_iff create_args_ok_def)
  then show ?thesis using ok
    by (simp add: create_community_run_def create_args_ok_def client_built_def run_defs map_err_def
        split: sum.split)
qed

lemma create_community_quiet:
  assumes "\<not> cc_execute args \<or> \<not> not_served api args log \<and> \<not> cc_replace args"
  shows "snd (create_community_run api env read args lat now log) \<in>
       {log, log @ [HttpGet (exists_url api args)]}"
proof (cases "create_args_ok args")
  case True
  have x: "exists_now api args log = (Inr False, l) \<Longrightarrow> not_served api args log" for l
    by (simp add: exists_now_False)
  have "snd (and_then (exists_now api args) (create_checked api env read args lat now) log) =
      log @ [HttpGet (exists_url api args)]"
  proof (cases "exists_now api args log")
    case (Pair r l)
    then have "l = log @ [HttpGet (exists_url api args)]" by (simp add: exists_now_log)
    then show ?thesis using Pair x [of l] assms
      by (cases r) (auto simp: and_then_def create_checked_def fail_with_def done_with_def)
  qed
  then show ?thesis by (simp add: create_community_start [OF True] split: sum.split)
next
  case False
  then show ?thesis using create_community_bad_args [OF False] by (metis insertI1 snd_conv)
qed

text \<open>All that is sent without \<open>--replace\<close>.\<close>

definition create_calls ::
  "('sk, 'pk, 'sig) app_api \<Rightarrow> env \<Rightarrow> (string \<Rightarrow> (string, string) res) \<Rightarrow> create_community_args \<Rightarrow> int \<Rightarrow>
   http_call list \<Rightarrow> http_call list" where
  "create_calls api env read args now log =
     (if \<not> create_args_ok args \<or> new_client api \<noteq> Inr () then []
      else HttpGet (exists_url api args) #
        (case load_signing_key_file api read (expand_tilde env (cc_sys_key_file args)) of
           Inl _ \<Rightarrow> []
         | Inr key \<Rightarrow> if cc_execute args \<and> not_served api args log
             then [PostWire (create_submit_url api args) (emit_all api (create_writes api key args now))] else []))"

lemma create_community_log:
  assumes "\<not> cc_replace args"
  shows "snd (create_community_run api env read args lat now log) = log @ create_calls api env read args now log"
proof (cases "create_args_ok args \<and> new_client api = Inr ()")
  case True
  note start = create_community_start [OF True [THEN conjunct1], of api env read lat now log]
  have e: "exists_now api args log = (case send api log (HttpGet (exists_url api args)) of
       Replied st _ \<Rightarrow> Inr (is_success st) | _ \<Rightarrow> Inl ''checking whether the community exists'',
     log @ [HttpGet (exists_url api args)])" by (rule exists_now_log)
  show ?thesis
    using True assms
    by (cases "send api log (HttpGet (exists_url api args))";
        cases "load_signing_key_file api read (expand_tilde env (cc_sys_key_file args))")
       (auto simp: start e create_calls_def and_then_def create_checked_def lift_def map_err_def fail_with_def
         done_with_def not_served_def submit_batch_log split: prod.split sum.split
         dest: arg_cong [where f = snd])
next
  case False
  then show ?thesis
  proof (cases "create_args_ok args")
    case True
    then show ?thesis using False
      by (cases "new_client api") (auto simp: create_community_start create_calls_def)
  next
    case f: False
    then show ?thesis using create_community_bad_args [OF f, of api env read lat now log]
      by (auto simp: create_calls_def)
  qed
qed

lemma create_community_Inr:
  assumes r: "create_community_run api env read args lat now log = (Inr (), log')"
  obtains there where "create_args_ok args" "there \<or> not_served api args log" "there \<longrightarrow> cc_replace args"
    "create_checked api env read args lat now there (log @ [HttpGet (exists_url api args)]) = (Inr (), log')"
proof -
  have ok: "create_args_ok args"
  proof (rule ccontr)
    assume n: "\<not> create_args_ok args"
    show False using r create_community_bad_args [OF n, of api env read lat now log] by auto
  qed
  from r have a: "and_then (exists_now api args) (create_checked api env read args lat now) log = (Inr (), log')"
    by (simp add: create_community_start [OF ok] split: sum.splits)
  then obtain there l where t: "exists_now api args log = (Inr there, l)"
      "create_checked api env read args lat now there l = (Inr (), log')"
    by (auto simp: and_then_Inr)
  have l: "l = log @ [HttpGet (exists_url api args)]" using t(1) by (simp add: exists_now_log)
  have "there \<longrightarrow> cc_replace args" using t(2) by (auto simp: create_checked_def split: if_splits)
  moreover have "there \<or> not_served api args log" using t(1) exists_now_False by (cases there) auto
  ultimately show ?thesis using that ok t(2) l by blast
qed

lemma create_checked_log:
  assumes "there \<longrightarrow> cc_replace args" and "create_checked api env read args lat now there l = (Inr (), log')"
  shows "if \<not> cc_execute args then log' = l
      else \<exists>key mid. load_signing_key_file api read (expand_tilde env (cc_sys_key_file args)) = Inr key \<and>
        log' = l @ mid @
          [PostWire (create_submit_url api args) (emit_all api (create_writes api key args now))] \<and>
        (if \<not> cc_replace args then mid = []
         else \<exists>d1 d2 n. mid = PostWire (create_submit_url api args) (d1 @ d2) #
             replicate (Suc n) (HttpGet (exists_url api args)) \<and> n < 32 \<and>
           signed_delete api key (community_path (cc_id args)) ''root'' = Inr d1 \<and>
           signed_delete api key (community_path (cc_id args)) ''community'' = Inr d2 \<and>
           not_served api args (l @ butlast mid))"
proof (cases "cc_execute args")
  case True
  let ?w = "\<lambda>key. PostWire (create_submit_url api args) (emit_all api (create_writes api key args now))"
  from assms True obtain key l1 body where
    k: "load_signing_key_file api read (expand_tilde env (cc_sys_key_file args)) = Inr key" and
    c: "(if cc_replace args then clear_community api key args lat else done_with ()) l = (Inr (), l1)" and
    b: "submit_batch api args (emit_all api (create_writes api key args now)) ''submitting the community'' l1 =
      (Inr body, log')"
    by (auto simp: create_checked_def and_then_Inr)
  have log': "log' = l1 @ [?w key]" using b submit_batch_log by (metis snd_conv)
  show ?thesis
  proof (cases "cc_replace args")
    case False
    then show ?thesis using True k c log' by simp
  next
    case rep: True
    with c have "clear_community api key args lat l = (Inr (), l1)" by simp
    then obtain d1 d2 n where "signed_delete api key (community_path (cc_id args)) ''root'' = Inr d1"
      "signed_delete api key (community_path (cc_id args)) ''community'' = Inr d2" "n < 32"
      "l1 = l @ PostWire (create_submit_url api args) (d1 @ d2) #
         replicate (Suc n) (HttpGet (exists_url api args))"
      "not_served api args (l @ PostWire (create_submit_url api args) (d1 @ d2) #
         replicate n (HttpGet (exists_url api args)))" by (rule clear_community_Inr)
    moreover have "butlast (PostWire (create_submit_url api args) (d1 @ d2) #
        replicate (Suc n) (HttpGet (exists_url api args))) = PostWire (create_submit_url api args) (d1 @ d2) #
        replicate n (HttpGet (exists_url api args))"
      by (simp add: butlast_append flip: replicate_append_same)
    ultimately show ?thesis using True k log' rep
      by (auto simp del: replicate_Suc butlast.simps
          intro!: exI [of _ "PostWire (create_submit_url api args) (d1 @ d2) #
            replicate (Suc n) (HttpGet (exists_url api args))"] exI [of _ d1] exI [of _ d2] exI [of _ n])
  qed
next
  case False
  then show ?thesis using assms by (auto simp: create_checked_def)
qed

section \<open>Properties\<close>

text \<open>C21: Without \<open>--replace\<close> a run with valid arguments makes one check, and then submits the batch of
  descriptor, spaces and policy, in this order, exactly when it has \<open>--execute\<close> and a key that loads
  and the check is answered with something else than a success.  So a community that the daemon serves
  is not written over, but an answer like 500 or 429 is taken for its absence.  A dry run sends nothing
  but the check.  A run that succeeds when replacing submits the two deletions first and waits, with at
  most 32 checks, for one that is answered without success.\<close>
theorem create_community_correct:
  "(\<not> cc_replace args \<longrightarrow>
     snd (create_community_run api env read args lat now log) = log @ create_calls api env read args now log) \<and>
   (\<not> cc_execute args \<or> \<not> not_served api args log \<and> \<not> cc_replace args \<longrightarrow>
     snd (create_community_run api env read args lat now log) \<in>
       {log, log @ [HttpGet (exists_url api args)]}) \<and>
   (\<forall>log'. create_community_run api env read args lat now log = (Inr (), log') \<longrightarrow>
     create_args_ok args \<and> (not_served api args log \<or> cc_replace args) \<and>
     (if \<not> cc_execute args then log' = log @ [HttpGet (exists_url api args)]
      else \<exists>key mid. load_signing_key_file api read (expand_tilde env (cc_sys_key_file args)) = Inr key \<and>
        log' = (log @ [HttpGet (exists_url api args)]) @ mid @
          [PostWire (create_submit_url api args) (emit_all api (create_writes api key args now))] \<and>
        (if \<not> cc_replace args then mid = []
         else \<exists>d1 d2 n. mid = PostWire (create_submit_url api args) (d1 @ d2) #
             replicate (Suc n) (HttpGet (exists_url api args)) \<and> n < 32 \<and>
           signed_delete api key (community_path (cc_id args)) ''root'' = Inr d1 \<and>
           signed_delete api key (community_path (cc_id args)) ''community'' = Inr d2 \<and>
           not_served api args ((log @ [HttpGet (exists_url api args)]) @ butlast mid)))) \<and>
   map write_kind (create_writes api key args now) =
     ''community.v1'' # replicate (length (cc_spaces args)) ''collection'' @ [''policy.v2'']"
proof (intro conjI impI allI)
  assume "\<not> cc_replace args"
  then show "snd (create_community_run api env read args lat now log) = log @ create_calls api env read args now log"
    by (rule create_community_log)
next
  assume "\<not> cc_execute args \<or> \<not> not_served api args log \<and> \<not> cc_replace args"
  then show "snd (create_community_run api env read args lat now log) \<in>
       {log, log @ [HttpGet (exists_url api args)]}"
    by (rule create_community_quiet)
next
  show "map write_kind (create_writes api key args now) =
     ''community.v1'' # replicate (length (cc_spaces args)) ''collection'' @ [''policy.v2'']"
    by (rule create_writes_kinds)
next
  fix log'
  assume "create_community_run api env read args lat now log = (Inr (), log')"
  then obtain there where t: "create_args_ok args" "there \<or> not_served api args log" "there \<longrightarrow> cc_replace args"
    "create_checked api env read args lat now there (log @ [HttpGet (exists_url api args)]) = (Inr (), log')"
    by (rule create_community_Inr)
  then show "create_args_ok args" "not_served api args log \<or> cc_replace args" by auto
  show "if \<not> cc_execute args then log' = log @ [HttpGet (exists_url api args)]
      else \<exists>key mid. load_signing_key_file api read (expand_tilde env (cc_sys_key_file args)) = Inr key \<and>
        log' = (log @ [HttpGet (exists_url api args)]) @ mid @
          [PostWire (create_submit_url api args) (emit_all api (create_writes api key args now))] \<and>
        (if \<not> cc_replace args then mid = []
         else \<exists>d1 d2 n. mid = PostWire (create_submit_url api args) (d1 @ d2) #
             replicate (Suc n) (HttpGet (exists_url api args)) \<and> n < 32 \<and>
           signed_delete api key (community_path (cc_id args)) ''root'' = Inr d1 \<and>
           signed_delete api key (community_path (cc_id args)) ''community'' = Inr d2 \<and>
           not_served api args ((log @ [HttpGet (exists_url api args)]) @ butlast mid))"
    using t(3,4) by (rule create_checked_log)
qed

text \<open>A daemon that answers every read with the status \<open>st\<close> and accepts every submission.\<close>

definition answering :: "nat \<Rightarrow> (string, string, string) app_api" where
  "answering st = demo_app\<lparr>send := (\<lambda>log c. case c of HttpGet _ \<Rightarrow> Replied st [] | _ \<Rightarrow> Replied 200 [])\<rparr>"

definition demo_key_file :: "string \<Rightarrow> (string, string) res" where
  "demo_key_file path = Inr (''ed25519:'' @ replicate 32 CHR ''a'')"

definition demo_create :: create_community_args where
  "demo_create = \<lparr>cc_id = ''cooks'', cc_name = ''Cooks'', cc_description = None, cc_issuer = ''cooks@m.p'',
     cc_spaces = [''general'', ''pies-2''], cc_open = True, cc_daemon = ''http://d'', cc_repo = ''r'',
     cc_sys_key_file = ''k'', cc_execute = True, cc_replace = False\<rparr>"

text \<open>The community is written where it is not found, also where it is only said not to be available,
  and not where it is found.\<close>

definition demo_create_log :: "nat \<Rightarrow> http_call list" where
  "demo_create_log st =
     snd (create_community_run (answering st) (\<lambda>_. None) demo_key_file demo_create (\<lambda>_. 0) 5 [])"

lemma create_community_correct_witness:
  "\<exists>b1 b2. demo_create_log 404 = [HttpGet (exists_url (answering 404) demo_create),
        PostWire (create_submit_url (answering 404) demo_create) b1] \<and>
     demo_create_log 500 = [HttpGet (exists_url (answering 500) demo_create),
        PostWire (create_submit_url (answering 500) demo_create) b2] \<and>
     demo_create_log 200 = [HttpGet (exists_url (answering 200) demo_create)]"
proof -
  have a: "create_args_ok demo_create" "cc_execute demo_create" "\<not> cc_replace demo_create" by code_simp+
  have k: "load_signing_key_file (answering 404) demo_key_file (expand_tilde (\<lambda>_. None) (cc_sys_key_file demo_create)) =
      Inr (replicate 32 CHR ''a'')"
    "load_signing_key_file (answering 500) demo_key_file (expand_tilde (\<lambda>_. None) (cc_sys_key_file demo_create)) =
      Inr (replicate 32 CHR ''a'')" by code_simp+
  have n: "new_client (answering st) = Inr ()" "not_served (answering st) demo_create [] \<longleftrightarrow> \<not> is_success st" for st
    by (simp_all add: answering_def demo_app_def not_served_def)
  have "demo_create_log st = create_calls (answering st) (\<lambda>_. None) demo_key_file demo_create 5 []" for st
    using create_community_correct [of demo_create "answering st"] a(3) by (simp add: demo_create_log_def)
  then show ?thesis using a k by (simp add: create_calls_def n is_success_def split: sum.split)
qed

text \<open>C28: Creating an open community with the one space \<open>general\<close> makes exactly the writes the
  genesis makes for that community, with the policy last instead of second; the descriptor names
  the object that holds the policy.\<close>
theorem create_matches_genesis:
  assumes "cc_open args" and "cc_spaces args = [''general'']"
    and "cc_id args = mc_id c" and "cc_name args = mc_name c" and "cc_issuer args = mc_issuer c"
    and "cc_description args = Some (mc_description c)"
  shows "mset (create_writes api key args now) = mset (community_writes api key (Some now) c) \<and>
    last (create_writes api key args now) = community_policy_open api key (mc_id c) (mc_issuer c) \<and>
    (\<exists>payload. hd (create_writes api key args now) =
       SignedObject key (community_path (mc_id c)) ''community'' ''community.v1'' ''application/json'' payload \<and>
       payload = json_text api (community_payload (mc_name c) (mc_issuer c) (community_path (mc_id c))
         (Some (mc_description c)) True (Some now))) \<and>
    (\<exists>payload. last (create_writes api key args now) =
       SignedObject key (community_path (mc_id c)) ''root'' ''policy.v2'' ''application/json'' payload)"
  using assms by (simp add: create_writes_def community_writes_def community_def community_policy_open_def)

lemma create_matches_genesis_witness:
  "mset (create_writes demo_app ''k'' (demo_create\<lparr>cc_spaces := [''general''], cc_description := Some ''food''\<rparr>) 5) =
   mset (community_writes demo_app ''k'' (Some 5) demo_community)"
  using create_matches_genesis [of "demo_create\<lparr>cc_spaces := [''general''], cc_description := Some ''food''\<rparr>"
      demo_community demo_app "''k''" 5]
  by (simp add: demo_create_def demo_community_def)

end
