(* ===== verification/App_Cli.thy ===== *)
theory App_Cli
  imports App_Live_Scenarios App_Appoint App_Login App_Policy_Layer App_Root_Admin App_Community
begin

text \<open>
  The command line \<open>mingo\<close> (\<open>mingo-app/src/bin/mingo.rs\<close>): the commands with their options, and what
  each runs.  The commands that build wires on this machine are here, the others are in the theories
  of their files.

  Splitting the command line into options is \<open>clap\<close>'s and the keyring is \<open>sbo_core\<close>'s: the options are
  given by name, and the keyring is a parameter.  What is printed is left out.
\<close>

section \<open>Commands\<close>

record genesis_options =
  go_domain :: string
  go_broker :: "string option"
  go_key :: "string option"
  go_domain_key :: "string option"
  go_domain_key_file :: "string option"
  go_checkpoint_key :: "string option"
  go_checkpoint_key_out :: string
  go_dnssec_evidence :: "string option"
  go_out :: string

record open_options =
  oo_community_id :: string
  oo_issuer :: string
  oo_key :: "string option"
  oo_out :: string

text \<open>
  The options of the other commands are the fields of their argument records.  \<open>CreateCommunity\<close> has
  \<open>attested\<close> beside them, whose negation becomes \<open>cc_open\<close>, and \<open>AppointModerator\<close> an ignored
  \<open>dry_run\<close>.
\<close>

datatype command =
    Genesis genesis_options
  | Login login_args
  | Whoami
  | PostCommand post_args
  | OpenCommunity open_options
  | SeedCommand seed_args
  | AppointModerator appoint_args bool
  | LiveTest live_args
  | CreateCommunity create_community_args bool
  | AddPolicyLayer add_policy_layer_args
  | SetRootAdmin set_root_admin_args

section \<open>Arguments\<close>

text \<open>
  What \<open>clap\<close> hands over, before defaults: the values of the options by name, the occurrences of the
  options that can be repeated, the flags and the positional arguments.  \<open>None\<close> is a usage error.
\<close>

record given =
  gv_option :: "string \<rightharpoonup> string"
  gv_repeated :: "string \<Rightarrow> string list"
  gv_flags :: "string list"
  gv_positional :: "string list"

definition option_or :: "given \<Rightarrow> string \<Rightarrow> string \<Rightarrow> string" where
  "option_or g name def = (case gv_option g name of Some v \<Rightarrow> v | None \<Rightarrow> def)"

definition flag :: "given \<Rightarrow> string \<Rightarrow> bool" where
  "flag g name \<longleftrightarrow> name \<in> set (gv_flags g)"

definition DEFAULT_BROKER :: string where "DEFAULT_BROKER = ''https://browserid.me''"

definition DEFAULT_AUDIENCE :: string where "DEFAULT_AUDIENCE = ''sbo+raw://avail:turing:506/''"

definition DEFAULT_DAEMON :: string where "DEFAULT_DAEMON = ''https://da.sandmill.org''"

definition DEFAULT_SYS_KEY_FILE :: string where "DEFAULT_SYS_KEY_FILE = ''~/secure-backup/mingo-sys.key''"

definition genesis_given :: "given \<Rightarrow> command option" where
  "genesis_given g = map_option (\<lambda>dmn. Genesis \<lparr>go_domain = dmn, go_broker = gv_option g ''broker'',
     go_key = gv_option g ''key'', go_domain_key = gv_option g ''domain-key'',
     go_domain_key_file = gv_option g ''domain-key-file'', go_checkpoint_key = gv_option g ''checkpoint-key'',
     go_checkpoint_key_out = option_or g ''checkpoint-key-out'' ''checkpoint-key.json'',
     go_dnssec_evidence = gv_option g ''dnssec-evidence'', go_out = option_or g ''out'' ''genesis.wire''\<rparr>)
     (gv_option g ''domain'')"

definition login_given :: "given \<Rightarrow> command option" where
  "login_given g = Some (Login \<lparr>la_broker = option_or g ''broker'' DEFAULT_BROKER, la_idp = gv_option g ''idp'',
     la_audience = option_or g ''audience'' DEFAULT_AUDIENCE, la_scope = option_or g ''scope'' ''post'',
     la_handle = gv_option g ''handle''\<rparr>)"

definition post_given :: "given \<Rightarrow> command option" where
  "post_given g = (case gv_positional g of
       [comm, spc, txt] \<Rightarrow> Some (PostCommand \<lparr>po_community = comm, po_space = spc, po_text = txt,
         po_audience = option_or g ''audience'' DEFAULT_AUDIENCE,
         po_daemon = option_or g ''daemon'' DEFAULT_DAEMON, po_execute = flag g ''execute''\<rparr>)
     | _ \<Rightarrow> None)"

definition open_given :: "given \<Rightarrow> command option" where
  "open_given g = (case gv_positional g of
       [comm, iss] \<Rightarrow> Some (OpenCommunity \<lparr>oo_community_id = comm, oo_issuer = iss,
         oo_key = gv_option g ''key'', oo_out = option_or g ''out'' ''policy.wire''\<rparr>)
     | _ \<Rightarrow> None)"

definition seed_given :: "given \<Rightarrow> command option" where
  "seed_given g = Some (SeedCommand \<lparr>sg_idp = option_or g ''idp'' ''https://mingo.place'',
     sg_daemon = option_or g ''daemon'' DEFAULT_DAEMON, sg_broker = option_or g ''broker'' ''https://browserid.me'',
     sg_audience = option_or g ''audience'' DEFAULT_AUDIENCE, sg_corpus = gv_option g ''corpus'',
     sg_sys_key = gv_option g ''sys-key'', sg_execute = flag g ''execute'',
     sg_admin_token_env = option_or g ''admin-token-env'' ''MINGO_ADMIN_TOKEN'',
     sg_broker_token_env = option_or g ''broker-admin-token-env'' ''BROKER_ADMIN_TOKEN''\<rparr>)"

definition appoint_given :: "given \<Rightarrow> command option" where
  "appoint_given g = (case gv_positional g of
       [comm, subj] \<Rightarrow> Some (AppointModerator \<lparr>am_comm_id = comm, am_subject = subj,
         am_idp = option_or g ''idp'' ''https://mingo.place'', am_daemon = option_or g ''daemon'' DEFAULT_DAEMON,
         am_admin_token_env = option_or g ''admin-token-env'' ''MINGO_ADMIN_TOKEN'',
         am_value = gv_option g ''value'', am_expires = gv_option g ''expires'',
         am_execute = flag g ''execute''\<rparr> (flag g ''dry-run''))
     | _ \<Rightarrow> None)"

text \<open>Each occurrence of \<open>--only\<close> is split at its commas.\<close>

definition live_given :: "given \<Rightarrow> command option" where
  "live_given g = Some (LiveTest \<lparr>lg_idp = option_or g ''idp'' ''https://mingo.place'',
     lg_daemon = option_or g ''daemon'' DEFAULT_DAEMON,
     lg_admin_token_env = option_or g ''admin-token-env'' ''MINGO_ADMIN_TOKEN'',
     lg_sys_key_file = option_or g ''sys-key-file'' DEFAULT_SYS_KEY_FILE,
     lg_only = concat (map (split_on CHR '','') (gv_repeated g ''only'')),
     lg_keep = flag g ''keep'', lg_execute = flag g ''execute''\<rparr>)"

definition create_given :: "given \<Rightarrow> command option" where
  "create_given g = (case (gv_option g ''id'', gv_option g ''name'', gv_option g ''issuer'') of
       (Some i, Some n, Some iss) \<Rightarrow> Some (CreateCommunity \<lparr>cc_id = i, cc_name = n,
         cc_description = gv_option g ''description'', cc_issuer = iss, cc_spaces = gv_repeated g ''space'',
         cc_open = \<not> flag g ''attested'', cc_daemon = option_or g ''daemon'' DEFAULT_DAEMON,
         cc_repo = option_or g ''repo'' DEFAULT_AUDIENCE,
         cc_sys_key_file = option_or g ''sys-key-file'' DEFAULT_SYS_KEY_FILE,
         cc_execute = flag g ''execute'', cc_replace = flag g ''replace''\<rparr> (flag g ''attested''))
     | _ \<Rightarrow> None)"

definition layer_given :: "given \<Rightarrow> command option" where
  "layer_given g = map_option (\<lambda>f. AddPolicyLayer \<lparr>layer_file = f,
     al_daemon = option_or g ''daemon'' DEFAULT_DAEMON, al_repo = option_or g ''repo'' DEFAULT_AUDIENCE,
     al_sys_key_file = option_or g ''sys-key-file'' DEFAULT_SYS_KEY_FILE, al_execute = flag g ''execute''\<rparr>)
     (gv_option g ''layer-file'')"

definition admin_given :: "given \<Rightarrow> command option" where
  "admin_given g = Some (SetRootAdmin \<lparr>sa_admin = gv_repeated g ''admin'',
     sa_daemon = option_or g ''daemon'' DEFAULT_DAEMON,
     sa_sys_key_file = option_or g ''sys-key-file'' DEFAULT_SYS_KEY_FILE, sa_execute = flag g ''execute'',
     i_understand_cutover = flag g ''i-understand-cutover''\<rparr>)"

definition subcommands :: "(string \<times> (given \<Rightarrow> command option)) list" where
  "subcommands = [(''genesis'', genesis_given), (''login'', login_given), (''whoami'', \<lambda>g. Some Whoami),
     (''post'', post_given), (''open-community'', open_given), (''seed'', seed_given),
     (''appoint-moderator'', appoint_given), (''live-test'', live_given), (''create-community'', create_given),
     (''add-policy-layer'', layer_given), (''set-root-admin'', admin_given)]"

definition command_of :: "string \<Rightarrow> given \<Rightarrow> command option" where
  "command_of name g = Option.bind (map_of subcommands name) (\<lambda>parse. parse g)"

section \<open>The machine\<close>

text \<open>
  \<open>new_mode\<close> is the mode of a file that \<open>std::fs::write\<close> makes, \<open>unix_now\<close> is \<open>None\<close> for a clock before 1970.
\<close>

record ('sk, 'ag) cli_lib =
  keyring_open :: "(string, unit) res"
  resolve_alias :: "string option \<Rightarrow> (string, string) res"
  signing_key :: "string \<Rightarrow> (string, 'sk) res"
  key_bytes :: "'sk \<Rightarrow> string"
  pretty_text :: "json \<Rightarrow> string"
  new_mode :: nat
  unix_now :: "http_call list \<Rightarrow> int option"
  latency :: "nat \<Rightarrow> nat"
  rfc3339_s :: "string \<Rightarrow> (string, int) res"
  object_decode :: "string \<Rightarrow> (string, object_view) res"
  cl_text :: text_lib
  cl_seed :: "'sk seed_lib"
  cl_login :: "'ag login_lib"
  cl_live :: live_lib

definition on_live :: "'a live \<Rightarrow> 'a cli" where
  "on_live m st =
     (case m \<lparr>ls_sent = cl_sent st, ls_written = [], ls_policies = []\<rparr> of
        (r, ls) \<Rightarrow> (r, st\<lparr>cl_sent := ls_sent ls\<rparr>))"

definition read_disk :: "('sk, 'ag) cli_lib \<Rightarrow> disk \<Rightarrow> string \<Rightarrow> (string, string) res" where
  "read_disk lib d path =
     (case os_error (cl_login lib) path of
        Some e \<Rightarrow> Inl e
      | None \<Rightarrow> (case d path of Some f \<Rightarrow> Inr (df_text f) | None \<Rightarrow> Inl ''No such file or directory''))"

definition write_disk :: "('sk, 'ag) cli_lib \<Rightarrow> string \<Rightarrow> string \<Rightarrow> unit on_disk" where
  "write_disk lib path contents d =
     (case os_error (cl_login lib) path of
        Some e \<Rightarrow> (Inl (''writing '' @ path), d)
      | None \<Rightarrow> (Inr (), d(path \<mapsto> \<lparr>df_text = contents,
          df_mode = (case d path of Some f \<Rightarrow> df_mode f | None \<Rightarrow> new_mode lib)\<rparr>)))"

section \<open>Genesis\<close>

definition load_domain_key_file ::
  "('sk, 'pk, 'sig) app_api \<Rightarrow> (string \<Rightarrow> (string, string) res) \<Rightarrow> string \<Rightarrow> (string, 'sk) res" where
  "load_domain_key_file api read path =
     res_bind (map_err (\<lambda>_. ''reading '' @ path) (read path)) (\<lambda>contents.
     res_bind (map_err (\<lambda>_. ''parsing domain key file'') (parse_json api contents)) (\<lambda>v.
     res_bind (ok_or (str_field ''secret_key'' v) ''domain key file missing string field `secret_key`'') (\<lambda>secret.
     res_bind (map_err (\<lambda>_. ''decoding hex secret_key'') (hex_decode api (trim secret))) (\<lambda>raw.
     if length raw \<noteq> 32 then Inl ''secret_key must be a 32-byte seed'' else Inr (key_of_bytes api raw)))))"

definition alias_key :: "('sk, 'ag) cli_lib \<Rightarrow> string option \<Rightarrow> (string, string \<times> 'sk) res" where
  "alias_key lib a =
     res_bind (resolve_alias lib a) (\<lambda>name. res_bind (signing_key lib name) (\<lambda>key. Inr (name, key)))"

definition genesis_domain_key ::
  "('sk, 'pk, 'sig) app_api \<Rightarrow> ('sk, 'ag) cli_lib \<Rightarrow> disk \<Rightarrow> genesis_options \<Rightarrow> string \<Rightarrow> (string, 'sk) res" where
  "genesis_domain_key api lib d opts sys_alias =
     (case go_domain_key_file opts of
        Some path \<Rightarrow> load_domain_key_file api (read_disk lib d) path
      | None \<Rightarrow>
          res_bind (case go_domain_key opts of Some dk \<Rightarrow> resolve_alias lib (Some dk) | None \<Rightarrow> Inr sys_alias)
            (signing_key lib))"

definition genesis_checkpoint_key ::
  "('sk, 'ag) cli_lib \<Rightarrow> genesis_options \<Rightarrow> http_call list \<Rightarrow> (string, 'sk) res" where
  "genesis_checkpoint_key lib opts sent =
     (case go_checkpoint_key opts of
        Some a \<Rightarrow> res_bind (alias_key lib (Some a)) (\<lambda>(_, key). Inr key)
      | None \<Rightarrow> Inr (key_generate (cl_seed lib) sent))"

definition starter_communities :: "string \<Rightarrow> mingo_community list" where
  "starter_communities dmn = map (\<lambda>(i, name, desc).
       \<lparr>mc_id = i, mc_name = name, mc_description = desc, mc_issuer = i @ ''@'' @ dmn\<rparr>)
     [(''cooks'', ''Cooks'', ''Home cooks swapping recipes and technique.''),
      (''woodworking'', ''Woodworking'', ''Makers, joinery, and finishing.''),
      (''homelab'', ''Homelab'', ''Self-hosters and home infrastructure.'')]"

definition genesis_broker :: "genesis_options \<Rightarrow> string" where
  "genesis_broker opts = (case go_broker opts of Some b \<Rightarrow> b | None \<Rightarrow> ''id.'' @ go_domain opts)"

definition genesis_evidence ::
  "('sk, 'ag) cli_lib \<Rightarrow> disk \<Rightarrow> genesis_options \<Rightarrow> (string, string option) res" where
  "genesis_evidence lib d opts =
     (case go_dnssec_evidence opts of
        None \<Rightarrow> Inr None
      | Some p \<Rightarrow> res_bind (map_err (\<lambda>_. ''reading dnssec evidence '' @ p) (read_disk lib d p)) (\<lambda>e. Inr (Some e)))"

definition key_file_json :: "('sk, 'pk, 'sig) app_api \<Rightarrow> ('sk, 'ag) cli_lib \<Rightarrow> 'sk \<Rightarrow> json" where
  "key_file_json api lib key = mk_obj [(''secret_key'', JStr (hex_encode api (key_bytes lib key)))]"

text \<open>The keys and files that the wire is made of.\<close>

definition genesis_wire ::
  "('sk, 'pk, 'sig) app_api \<Rightarrow> ('sk, 'ag) cli_lib \<Rightarrow> genesis_options \<Rightarrow> cli_state \<Rightarrow> (string, string \<times> 'sk) res" where
  "genesis_wire api lib opts st =
     res_bind (alias_key lib (go_key opts)) (\<lambda>(sys_alias, sys_key).
     res_bind (genesis_domain_key api lib (cl_disk st) opts sys_alias) (\<lambda>domain_key.
     res_bind (genesis_checkpoint_key lib opts (cl_sent st)) (\<lambda>checkpoint_key.
     res_bind (genesis_evidence lib (cl_disk st) opts) (\<lambda>evidence.
     res_bind (mingo_genesis api domain_key sys_key checkpoint_key (go_domain opts) (genesis_broker opts)
         (starter_communities (go_domain opts)) (unix_now lib (cl_sent st)) evidence) (\<lambda>wire_bytes.
     Inr (wire_bytes, checkpoint_key))))))"

text \<open>The batch is written first, the secret of the checkpoint key after it.\<close>

definition genesis_command ::
  "('sk, 'pk, 'sig) app_api \<Rightarrow> ('sk, 'ag) cli_lib \<Rightarrow> genesis_options \<Rightarrow> unit cli" where
  "genesis_command api lib opts st =
     and_then (lift (genesis_wire api lib opts st)) (\<lambda>(wire_bytes, checkpoint_key).
     on_disk_run (
       and_then (write_disk lib (go_out opts) wire_bytes) (\<lambda>_.
       write_disk lib (go_checkpoint_key_out opts) (pretty_text lib (key_file_json api lib checkpoint_key))))) st"

definition open_community ::
  "('sk, 'pk, 'sig) app_api \<Rightarrow> ('sk, 'ag) cli_lib \<Rightarrow> open_options \<Rightarrow> unit cli" where
  "open_community api lib opts =
     and_then (lift (alias_key lib (oo_key opts))) (\<lambda>(_, key).
     on_disk_run (write_disk lib (oo_out opts)
       (emit api (community_policy_open api key (oo_community_id opts) (oo_issuer opts)))))"

section \<open>Dispatch\<close>

text \<open>What a command reports, where the model has it.\<close>

datatype report =
    Done
  | WhoamiReport login_report
  | PostReport post_outcome
  | LiveReport "verdict list option"

definition cli_now :: "('sk, 'ag) cli_lib \<Rightarrow> cli_state \<Rightarrow> int" where
  "cli_now lib st = clock_s (cl_login lib) (cl_sent st)"

definition cli_now_ms :: "('sk, 'ag) cli_lib \<Rightarrow> cli_state \<Rightarrow> int" where
  "cli_now_ms lib st = clock_ms (cl_login lib) (cl_sent st)"

definition reported :: "('a \<Rightarrow> report) \<Rightarrow> 'a cli \<Rightarrow> report cli" where
  "reported f m = and_then m (\<lambda>x. done_with (f x))"

abbreviation silent :: "unit cli \<Rightarrow> report cli" where
  "silent \<equiv> reported (\<lambda>_. Done)"

definition run_command ::
  "('sk, 'pk, 'sig) app_api \<Rightarrow> ('sk, 'ag) cli_lib \<Rightarrow> env \<Rightarrow> command \<Rightarrow> report cli" where
  "run_command api lib env c st =
     (let read = read_disk lib (cl_disk st); now = cli_now lib st; now_ms = cli_now_ms lib st in
      case c of
        Genesis opts \<Rightarrow> silent (genesis_command api lib opts) st
      | Login args \<Rightarrow> silent (login_run (cl_login lib) env read args) st
      | Whoami \<Rightarrow> reported WhoamiReport (on_disk_run (login_whoami (cl_login lib) env now)) st
      | PostCommand args \<Rightarrow> reported PostReport (on_wire
          (post_run api (cl_seed lib) (cl_login lib) (object_decode lib) env (cl_disk st) args)) st
      | OpenCommunity opts \<Rightarrow> silent (open_community api lib opts) st
      | SeedCommand args \<Rightarrow> silent (on_wire (seed_run api (cl_seed lib) (cl_text lib) env read args now_ms)) st
      | AppointModerator args dry_run \<Rightarrow> silent (on_wire
          (appoint_run api (cl_seed lib) (rfc3339_s lib) env args now now)) st
      | LiveTest args \<Rightarrow> reported LiveReport (on_live (live_run api (cl_seed lib) (cl_live lib) env read args)) st
      | CreateCommunity args attested \<Rightarrow> silent (on_wire
          (create_community_run api env read (args\<lparr>cc_open := \<not> attested\<rparr>) (latency lib) now)) st
      | AddPolicyLayer args \<Rightarrow> silent (on_wire (add_policy_layer_run api env read args)) st
      | SetRootAdmin args \<Rightarrow> silent (on_wire (set_root_admin_run api env read args)) st)"

text \<open>The keyring is opened for every command.\<close>

definition mingo_main ::
  "('sk, 'pk, 'sig) app_api \<Rightarrow> ('sk, 'ag) cli_lib \<Rightarrow> env \<Rightarrow> command \<Rightarrow> report cli" where
  "mingo_main api lib env c =
     and_then (lift (map_err (\<lambda>_. ''opening keyring'') (keyring_open lib))) (\<lambda>_. run_command api lib env c)"

end
