(* ===== verification/App_Seed_Plan_Props.thy ===== *)
theory App_Seed_Plan_Props
  imports App_Seed_Plan
begin

text \<open>
  What the seeder's plan promises: the bounds on the ages it stamps, and the shape, order and
  repeatability of the list of writes.
\<close>

section \<open>Compressed ages\<close>

lemma cap_knee_diff: "f64_sub CLAMP_CAP_HOURS CLAMP_KNEE_HOURS = 2 powi 3"
  using f64_of_int [of 8] by (simp add: f64_sub_def CLAMP_CAP_HOURS_def CLAMP_KNEE_HOURS_def)

lemma compress_mono:
  assumes "a \<le> b" and "0 < m"
  shows "f64_add CLAMP_KNEE_HOURS (f64_div (f64_mul (f64_sub a CLAMP_KNEE_HOURS) (2 powi 3)) m) \<le>
         f64_add CLAMP_KNEE_HOURS (f64_div (f64_mul (f64_sub b CLAMP_KNEE_HOURS) (2 powi 3)) m)"
  unfolding f64_add_def f64_div_def f64_mul_def f64_sub_def
  using assms by (intro f64_of_mono add_left_mono divide_right_mono mult_right_mono) simp_all

lemma compress_knee:
  assumes "CLAMP_KNEE_HOURS \<le> a" and "0 < m"
  shows "CLAMP_KNEE_HOURS \<le> f64_add CLAMP_KNEE_HOURS (f64_div (f64_mul (f64_sub a CLAMP_KNEE_HOURS) (2 powi 3)) m)"
proof -
  have "0 \<le> f64_div (f64_mul (f64_sub a CLAMP_KNEE_HOURS) (2 powi 3)) m"
    using assms by (simp add: f64_div_def f64_mul_def f64_sub_def f64_of_nonneg)
  then have "f64_of CLAMP_KNEE_HOURS \<le> f64_add CLAMP_KNEE_HOURS (f64_div (f64_mul (f64_sub a CLAMP_KNEE_HOURS) (2 powi 3)) m)"
    by (simp add: f64_add_def f64_of_mono)
  then show ?thesis using f64_of_int [of 12] by (simp add: CLAMP_KNEE_HOURS_def)
qed

lemma compress_cap:
  assumes "0 < f64_sub mx CLAMP_KNEE_HOURS"
  shows "f64_add CLAMP_KNEE_HOURS (f64_div (f64_mul (f64_sub mx CLAMP_KNEE_HOURS) (2 powi 3))
    (f64_sub mx CLAMP_KNEE_HOURS)) = CLAMP_CAP_HOURS"
proof -
  let ?m = "f64_sub mx CLAMP_KNEE_HOURS"
  have "f64_mul ?m (2 powi 3) = 2 powi 3 * ?m"
    using f64_of_scale [of 3 ?m] by (simp add: f64_mul_def f64_sub_def mult.commute)
  then have "f64_div (f64_mul ?m (2 powi 3)) ?m = 8"
    using assms f64_of_int [of 8] by (simp add: f64_div_def)
  then show ?thesis using f64_of_int [of 20]
    by (simp add: f64_add_def CLAMP_KNEE_HOURS_def CLAMP_CAP_HOURS_def)
qed

lemma max_over_cap: "CLAMP_CAP_HOURS < mx \<Longrightarrow> 0 < f64_sub mx CLAMP_KNEE_HOURS"
proof -
  assume "CLAMP_CAP_HOURS < mx"
  then have "f64_of 8 \<le> f64_sub mx CLAMP_KNEE_HOURS"
    unfolding f64_sub_def CLAMP_CAP_HOURS_def CLAMP_KNEE_HOURS_def by (intro f64_of_mono) simp
  then show ?thesis using f64_of_int [of 8] by simp
qed

lemma effective_age_mono:
  assumes "a \<le> b" and "b \<le> mx"
  shows "effective_age_hours a mx clamp \<le> effective_age_hours b mx clamp"
proof (cases "\<not> clamp \<or> mx \<le> CLAMP_CAP_HOURS \<or> b \<le> CLAMP_KNEE_HOURS")
  case True
  then show ?thesis using assms by (auto simp: effective_age_hours_def)
next
  case False
  then have m: "0 < f64_sub mx CLAMP_KNEE_HOURS" by (simp add: max_over_cap)
  show ?thesis
  proof (cases "a \<le> CLAMP_KNEE_HOURS")
    case True
    then show ?thesis using False compress_knee [OF _ m, of b]
      by (auto simp: effective_age_hours_def cap_knee_diff)
  next
    case a: False
    then show ?thesis using False compress_mono [OF assms(1) m] by (simp add: effective_age_hours_def cap_knee_diff)
  qed
qed

lemma effective_age_cap:
  assumes "a \<le> mx"
  shows "effective_age_hours a mx True \<le> CLAMP_CAP_HOURS"
proof (cases "mx \<le> CLAMP_CAP_HOURS \<or> a \<le> CLAMP_KNEE_HOURS")
  case True
  then show ?thesis using assms by (auto simp: effective_age_hours_def CLAMP_KNEE_HOURS_def CLAMP_CAP_HOURS_def)
next
  case False
  then have m: "0 < f64_sub mx CLAMP_KNEE_HOURS" by (simp add: max_over_cap)
  show ?thesis using False compress_mono [OF assms m] compress_cap [OF m]
    by (simp add: effective_age_hours_def cap_knee_diff)
qed

lemma effective_age_pos:
  assumes "0 < a"
  shows "0 < effective_age_hours a mx clamp"
proof (cases "\<not> clamp \<or> mx \<le> CLAMP_CAP_HOURS \<or> a \<le> CLAMP_KNEE_HOURS")
  case True
  then show ?thesis using assms by (auto simp: effective_age_hours_def)
next
  case False
  then have "CLAMP_KNEE_HOURS \<le> effective_age_hours a mx clamp"
    using compress_knee [OF _ max_over_cap, of a mx] by (simp add: effective_age_hours_def cap_knee_diff)
  then show ?thesis by (simp add: CLAMP_KNEE_HOURS_def)
qed

lemma age_ms_bounds:
  assumes "0 \<le> a" and "a \<le> of_int h" and "0 \<le> h" and "h \<le> 1008"
  shows "0 \<le> f64_to_i64 (f64_mul a 3600000)" and "f64_to_i64 (f64_mul a 3600000) \<le> h * 3600000"
proof -
  have z: "f64_to_i64 0 = 0" by (simp add: f64_to_i64_def i64_sat_def)
  have "0 \<le> f64_mul a 3600000" using assms by (simp add: f64_mul_def f64_of_nonneg)
  then show "0 \<le> f64_to_i64 (f64_mul a 3600000)" using f64_to_i64_mono z by metis
  have "f64_mul a 3600000 \<le> f64_of (of_int (h * 3600000))"
    unfolding f64_mul_def using assms by (intro f64_of_mono) simp
  also have "\<dots> = of_int (h * 3600000)" using assms by (intro f64_of_int) simp
  finally have "f64_to_i64 (f64_mul a 3600000) \<le> f64_to_i64 (of_int (h * 3600000))" by (rule f64_to_i64_mono)
  also have "\<dots> = h * 3600000"
  proof -
    have "0 \<le> h * 3600000" "h * 3600000 \<le> 1008 * 3600000" using assms by simp_all
    then show ?thesis unfolding f64_to_i64_def i64_sat_def floor_of_int of_int_0_le_iff by simp
  qed
  finally show "f64_to_i64 (f64_mul a 3600000) \<le> h * 3600000" .
qed

text \<open>C22: With the ages compressed (no sys key), every write of the corpus is stamped at most 20
  hours before now, never after it, so inside the 24 hours the communities admit; without, at most
  45 days.  A younger entry is never stamped before an older one, and up to the knee, or when the
  corpus is young enough, ages are kept as they are.  The arithmetic is that of \<open>f64\<close> with its
  rounding, and no stamp wraps around.\<close>
theorem stamped_age_bounds:
  assumes "0 < age" and "age \<le> older" and "older \<le> max_age" and "max_age \<le> MAX_CORPUS_AGE_HOURS"
    and "0 \<le> now_ms" and "in_i64 now_ms"
  shows "0 < effective_age_hours age max_age True \<and> effective_age_hours age max_age True \<le> CLAMP_CAP_HOURS \<and>
    now_ms - 20 * 3600000 \<le> physical_ms now_ms (effective_age_hours age max_age True) \<and>
    now_ms - 42 * 24 * 3600000 \<le> physical_ms now_ms (effective_age_hours age max_age clamp) \<and>
    physical_ms now_ms (effective_age_hours age max_age clamp) \<le> now_ms \<and>
    physical_ms now_ms (effective_age_hours older max_age clamp) \<le>
      physical_ms now_ms (effective_age_hours age max_age clamp) \<and>
    effective_age_hours age max_age False = age \<and>
    (age \<le> CLAMP_KNEE_HOURS \<or> max_age \<le> CLAMP_CAP_HOURS \<longrightarrow> effective_age_hours age max_age clamp = age)"
proof -
  let ?ms = "\<lambda>a. f64_to_i64 (f64_mul a 3600000)"
  have p: "0 < effective_age_hours age max_age clamp" for clamp using effective_age_pos [OF assms(1)] .
  have c: "effective_age_hours age max_age True \<le> CLAMP_CAP_HOURS"
    using assms by (intro effective_age_cap) simp
  have raw: "effective_age_hours x max_age clamp \<le> MAX_CORPUS_AGE_HOURS" if "x \<le> max_age" for x clamp
  proof (cases clamp)
    case True
    then show ?thesis using effective_age_cap [OF that] by (simp add: CLAMP_CAP_HOURS_def MAX_CORPUS_AGE_HOURS_def)
  next
    case False
    then show ?thesis using assms that by (simp add: effective_age_hours_def)
  qed
  have ms: "0 \<le> ?ms (effective_age_hours x max_age clamp) \<and>
      ?ms (effective_age_hours x max_age clamp) \<le> 1008 * 3600000" if "0 < x" "x \<le> max_age" for x clamp
    using age_ms_bounds [of "effective_age_hours x max_age clamp" 1008] raw [OF that(2), of clamp]
      effective_age_pos [OF that(1), of max_age clamp] by (simp add: MAX_CORPUS_AGE_HOURS_def)
  have ph: "physical_ms now_ms (effective_age_hours x max_age clamp) =
      now_ms - ?ms (effective_age_hours x max_age clamp)" if "0 < x" "x \<le> max_age" for x clamp
  proof -
    have "in_i64 (now_ms - ?ms (effective_age_hours x max_age clamp))"
      using ms [OF that, of clamp] assms(5,6) by (simp add: in_i64_def)
    then show ?thesis by (simp add: physical_ms_def i64_sub_def)
  qed
  have "?ms (effective_age_hours age max_age True) \<le> 20 * 3600000"
    using age_ms_bounds(2) [of "effective_age_hours age max_age True" 20] c p [of True]
    by (simp add: CLAMP_CAP_HOURS_def)
  moreover have "?ms (effective_age_hours age max_age clamp) \<le> ?ms (effective_age_hours older max_age clamp)"
    using effective_age_mono [OF assms(2,3), of clamp]
    by (intro f64_to_i64_mono) (simp add: f64_mul_def f64_of_mono)
  moreover have "0 < older" "age \<le> max_age" using assms by simp_all
  moreover have "effective_age_hours age max_age False = age"
    "age \<le> CLAMP_KNEE_HOURS \<or> max_age \<le> CLAMP_CAP_HOURS \<longrightarrow> effective_age_hours age max_age clamp = age"
    by (auto simp: effective_age_hours_def)
  ultimately show ?thesis
    using p [of True] c ms [of age clamp] ph [of age clamp] ph [of age True] ph [of older clamp] assms(1,3) by simp
qed

lemma stamped_age_bounds_witness:
  "physical_ms 1800000000000 (effective_age_hours 30 100 True) \<le> 1800000000000 \<and>
   1800000000000 - 20 * 3600000 \<le> physical_ms 1800000000000 (effective_age_hours 30 100 True)"
  using stamped_age_bounds [of 30 30 100 1800000000000 True] by (simp add: MAX_CORPUS_AGE_HOURS_def in_i64_def)

section \<open>What the loops collect\<close>

definition owner_in :: "plan_env \<Rightarrow> string \<Rightarrow> string" where
  "owner_in env h = (case map_of (pn_emails env) h of Some e \<Rightarrow> e | None \<Rightarrow> [])"

definition known :: "plan_env \<Rightarrow> string \<Rightarrow> bool" where
  "known env h \<longleftrightarrow> map_of (pn_emails env) h \<noteq> None"

lemma email_of_known: "known env h \<Longrightarrow> email_of env h = Inr (owner_in env h)"
  by (auto simp: known_def email_of_def owner_in_def ok_or_def)

text \<open>The items one accumulator has on top of another, and the participants noted in between.\<close>

definition extends :: "plan_acc \<Rightarrow> plan_item list \<Rightarrow> plan_item list \<Rightarrow> plan_item list \<Rightarrow>
    (string \<times> string) set \<Rightarrow> plan_acc \<Rightarrow> bool" where
  "extends acc ps cs rs ks acc' \<longleftrightarrow>
     pa_posts acc' = pa_posts acc @ ps \<and> pa_comments acc' = pa_comments acc @ cs \<and>
     pa_reactions acc' = pa_reactions acc @ rs \<and>
     set (map fst (pa_participants acc')) = set (map fst (pa_participants acc)) \<union> ks \<and>
     (sorted_keys (pa_participants acc) \<longrightarrow> sorted_keys (pa_participants acc'))"

lemma extends_refl: "extends acc [] [] [] {} acc"
  by (simp add: extends_def)

lemma extends_trans:
  "extends a ps cs rs ks b \<Longrightarrow> extends b ps' cs' rs' ks' c \<Longrightarrow>
   extends a (ps @ ps') (cs @ cs') (rs @ rs') (ks \<union> ks') c"
  by (auto simp: extends_def)

lemma extends_note: "extends acc [] [] [] {(comm, h)} (note_part comm h age acc)"
  using obj_insert_keys [of "(comm, h)" _ "pa_participants acc"]
  by (auto simp: extends_def note_part_def Let_def intro: obj_insert_sorted)

lemma note_agent_fields [simp]:
  "pa_posts (note_agent v a acc) = pa_posts acc" "pa_comments (note_agent v a acc) = pa_comments acc"
  "pa_reactions (note_agent v a acc) = pa_reactions acc"
  "pa_participants (note_agent v a acc) = pa_participants acc"
  by (simp_all add: note_agent_def)

lemma extends_note_agent: "extends acc [] [] [] {(comm, h)} (note_agent v h (note_part comm h age acc))"
  using extends_note [of acc comm h age] by (simp add: extends_def)

definition comment_items where
  "comment_items api env comm p i cms =
     map (\<lambda>(k, cm). comment_item api env comm p k cm (owner_in env (cs_author cm))) (enumerate i cms)"

definition reaction_items where
  "reaction_items api env comm p us = map (\<lambda>u. reaction_item api env comm p u (owner_in env (up_by u))) us"

lemma add_comments:
  assumes "\<forall>cm\<in>set cms. known env (cs_author cm)"
  shows "\<exists>acc'. res_fold (add_comment api env comm p) (i, acc) cms = Inr (i + length cms, acc') \<and>
    extends acc [] (comment_items api env comm p i cms) [] ((\<lambda>cm. (comm, cs_author cm)) ` set cms) acc'"
  using assms
proof (induction cms arbitrary: i acc)
  case Nil
  then show ?case by (simp add: comment_items_def extends_refl)
next
  case (Cons cm cms)
  let ?acc1 = "note_agent (cs_via_agent cm) (cs_author cm) (note_part comm (cs_author cm) (cs_age cm) acc)"
  let ?it = "comment_item api env comm p i cm (owner_in env (cs_author cm))"
  let ?acc2 = "?acc1\<lparr>pa_comments := pa_comments ?acc1 @ [?it]\<rparr>"
  have s: "add_comment api env comm p (i, acc) cm = Inr (i + 1, ?acc2)"
    using Cons.prems by (simp add: add_comment_def email_of_known res_bind_def Let_def)
  have e: "extends acc [] [?it] [] {(comm, cs_author cm)} ?acc2"
    using extends_note_agent [of acc comm "cs_author cm" "cs_via_agent cm" "cs_age cm"] by (simp add: extends_def)
  obtain acc' where "res_fold (add_comment api env comm p) (i + 1, ?acc2) cms = Inr (i + 1 + length cms, acc')"
    "extends ?acc2 [] (comment_items api env comm p (i + 1) cms) [] ((\<lambda>cm. (comm, cs_author cm)) ` set cms) acc'"
    using Cons.IH [of "i + 1" ?acc2] Cons.prems by auto
  then show ?case using s extends_trans [OF e]
    by (fastforce simp: res_bind_def comment_items_def)
qed

lemma add_upvotes:
  assumes "\<forall>u\<in>set us. known env (up_by u)"
  shows "\<exists>acc'. res_fold (add_upvote api env comm p) acc us = Inr acc' \<and>
    extends acc [] [] (reaction_items api env comm p us) ((\<lambda>u. (comm, up_by u)) ` set us) acc'"
  using assms
proof (induction us arbitrary: acc)
  case Nil
  then show ?case by (simp add: reaction_items_def extends_refl)
next
  case (Cons u us)
  let ?acc1 = "note_part comm (up_by u) (up_age u) acc"
  let ?it = "reaction_item api env comm p u (owner_in env (up_by u))"
  let ?acc2 = "?acc1\<lparr>pa_reactions := pa_reactions ?acc1 @ [?it]\<rparr>"
  have s: "add_upvote api env comm p acc u = Inr ?acc2"
    using Cons.prems by (simp add: add_upvote_def email_of_known res_bind_def Let_def)
  have e: "extends acc [] [] [?it] {(comm, up_by u)} ?acc2"
    using extends_note [of acc comm "up_by u" "up_age u"] by (simp add: extends_def)
  obtain acc' where "res_fold (add_upvote api env comm p) ?acc2 us = Inr acc'"
    "extends ?acc2 [] [] (reaction_items api env comm p us) ((\<lambda>u. (comm, up_by u)) ` set us) acc'"
    using Cons.IH [of ?acc2] Cons.prems by auto
  then show ?case using s extends_trans [OF e]
    by (fastforce simp: res_bind_def reaction_items_def)
qed

definition post_known :: "plan_env \<Rightarrow> post_seed \<Rightarrow> bool" where
  "post_known env p \<longleftrightarrow> known env (sp_author p) \<and> (\<forall>cm\<in>set (sp_comments p). known env (cs_author cm)) \<and>
     (\<forall>u\<in>set (sp_upvotes p). known env (up_by u))"

definition post_participants :: "string \<Rightarrow> post_seed \<Rightarrow> (string \<times> string) set" where
  "post_participants comm p =
     {(comm, sp_author p)} \<union> (\<lambda>cm. (comm, cs_author cm)) ` set (sp_comments p) \<union>
     (\<lambda>u. (comm, up_by u)) ` set (sp_upvotes p)"

lemma add_post_extends:
  assumes "post_known env p"
  shows "\<exists>acc'. add_post api env comm acc p = Inr acc' \<and>
    extends acc [post_item api env comm p (owner_in env (sp_author p))]
      (comment_items api env comm p 0 (sp_comments p)) (reaction_items api env comm p (sp_upvotes p))
      (post_participants comm p) acc'"
proof -
  let ?it = "post_item api env comm p (owner_in env (sp_author p))"
  let ?acc1 = "note_agent (sp_via_agent p) (sp_author p) (note_part comm (sp_author p) (sp_age p) acc)"
  let ?acc2 = "?acc1\<lparr>pa_posts := pa_posts ?acc1 @ [?it]\<rparr>"
  have e: "extends acc [?it] [] [] {(comm, sp_author p)} ?acc2"
    using extends_note_agent [of acc comm "sp_author p" "sp_via_agent p" "sp_age p"] by (simp add: extends_def)
  obtain acc3 where c: "res_fold (add_comment api env comm p) (0, ?acc2) (sp_comments p) =
      Inr (0 + length (sp_comments p), acc3)"
    "extends ?acc2 [] (comment_items api env comm p 0 (sp_comments p)) []
      ((\<lambda>cm. (comm, cs_author cm)) ` set (sp_comments p)) acc3"
    using add_comments assms unfolding post_known_def by blast
  obtain acc4 where u: "res_fold (add_upvote api env comm p) acc3 (sp_upvotes p) = Inr acc4"
    "extends acc3 [] [] (reaction_items api env comm p (sp_upvotes p))
      ((\<lambda>u. (comm, up_by u)) ` set (sp_upvotes p)) acc4"
    using add_upvotes assms unfolding post_known_def by blast
  have k: "known env (sp_author p)" using assms by (simp add: post_known_def)
  have "add_post api env comm acc p = Inr acc4"
    using c(1) u(1) by (simp add: add_post_def Let_def email_of_known [OF k] res_bind_def)
  moreover have "extends acc [?it] (comment_items api env comm p 0 (sp_comments p))
      (reaction_items api env comm p (sp_upvotes p)) (post_participants comm p) acc4"
    using extends_trans [OF extends_trans [OF e c(2)] u(2)] by (simp add: post_participants_def)
  ultimately show ?thesis by blast
qed

text \<open>The posts of the corpus with the community each is in.\<close>

definition corpus_posts :: "community_seed list \<Rightarrow> (string \<times> post_seed) list" where
  "corpus_posts cs = concat (map (\<lambda>c. map (Pair (co_id c)) (co_posts c)) cs)"

definition all_posts where
  "all_posts api env cps = map (\<lambda>(comm, p). post_item api env comm p (owner_in env (sp_author p))) cps"

definition all_comments where
  "all_comments api env cps = concat (map (\<lambda>(comm, p). comment_items api env comm p 0 (sp_comments p)) cps)"

definition all_reactions where
  "all_reactions api env cps = concat (map (\<lambda>(comm, p). reaction_items api env comm p (sp_upvotes p)) cps)"

definition participants_in :: "(string \<times> post_seed) list \<Rightarrow> (string \<times> string) set" where
  "participants_in cps = (\<Union>(comm, p)\<in>set cps. post_participants comm p)"

definition collects where
  "collects api env acc cps acc' \<longleftrightarrow>
     extends acc (all_posts api env cps) (all_comments api env cps) (all_reactions api env cps)
       (participants_in cps) acc'"

lemma collects_Nil: "collects api env acc [] acc"
  by (simp add: collects_def all_posts_def all_comments_def all_reactions_def participants_in_def extends_refl)

lemma collects_append:
  "collects api env a xs b \<Longrightarrow> collects api env b ys c \<Longrightarrow> collects api env a (xs @ ys) c"
  unfolding collects_def using extends_trans [of a _ _ _ _ b]
  by (simp add: all_posts_def all_comments_def all_reactions_def participants_in_def)

lemma add_posts_collects:
  "\<forall>p\<in>set ps. post_known env p \<Longrightarrow>
   \<exists>acc'. res_fold (add_post api env comm) acc ps = Inr acc' \<and> collects api env acc (map (Pair comm) ps) acc'"
proof (induction ps arbitrary: acc)
  case Nil
  then show ?case by (simp add: collects_Nil)
next
  case (Cons p ps)
  then obtain acc1 where p: "add_post api env comm acc p = Inr acc1"
    "collects api env acc [(comm, p)] acc1"
    using add_post_extends [of env p api comm acc]
    by (auto simp: collects_def all_posts_def all_comments_def all_reactions_def participants_in_def)
  obtain acc2 where "res_fold (add_post api env comm) acc1 ps = Inr acc2"
    "collects api env acc1 (map (Pair comm) ps) acc2" using Cons.IH [of acc1] Cons.prems by auto
  then show ?case using p collects_append [of api env acc "[(comm, p)]" acc1] by (simp add: res_bind_def)
qed

lemma add_communities_collects:
  "\<forall>c\<in>set cs. \<forall>p\<in>set (co_posts c). post_known env p \<Longrightarrow>
   \<exists>acc'. res_fold (add_community api env) acc cs = Inr acc' \<and> collects api env acc (corpus_posts cs) acc'"
proof (induction cs arbitrary: acc)
  case Nil
  then show ?case by (simp add: corpus_posts_def collects_Nil)
next
  case (Cons c cs)
  then obtain acc1 where p: "add_community api env acc c = Inr acc1"
    "collects api env acc (map (Pair (co_id c)) (co_posts c)) acc1"
    using add_posts_collects [of "co_posts c" env api "co_id c" acc] by (auto simp: add_community_def)
  obtain acc2 where "res_fold (add_community api env) acc1 cs = Inr acc2"
    "collects api env acc1 (corpus_posts cs) acc2" using Cons.IH [of acc1] Cons.prems by auto
  then show ?case using p collects_append [of api env acc "map (Pair (co_id c)) (co_posts c)" acc1]
    by (simp add: res_bind_def corpus_posts_def)
qed

lemma res_map_all:
  "\<forall>x\<in>set xs. f x = Inr (g x) \<Longrightarrow> res_map f xs = Inr (map g xs)"
  by (induction xs) (simp_all add: res_bind_def)

section \<open>The plan of a valid corpus\<close>

lemma emails_fold:
  "map_of (fold (\<lambda>p. obj_insert (pe_handle p) (identity_email p dmn)) ps acc) h =
   (case find (\<lambda>p. pe_handle p = h) (rev ps) of Some p \<Rightarrow> Some (identity_email p dmn) | None \<Rightarrow> map_of acc h)"
proof (induction ps arbitrary: acc)
  case (Cons p ps)
  have f: "find P (xs @ [y]) = (case find P xs of Some z \<Rightarrow> Some z | None \<Rightarrow> if P y then Some y else None)"
    for P and xs :: "persona list" and y
    by (induction xs) auto
  show ?case by (simp add: Cons f split: option.splits)
qed simp

lemma plan_env_known:
  "known (plan_env_of c dmn now clamp) h \<longleftrightarrow> h \<in> pe_handle ` set (personas c)"
proof -
  have "find (\<lambda>p. pe_handle p = h) (rev (personas c)) = None \<longleftrightarrow> h \<notin> pe_handle ` set (personas c)"
    by (auto simp: find_None_iff2)
  then show ?thesis
    by (auto simp: known_def plan_env_of_def emails_fold split: option.splits)
qed

lemma plan_env_owner:
  assumes "distinct (map pe_handle (personas c))" and "p \<in> set (personas c)"
  shows "owner_in (plan_env_of c dmn now clamp) (pe_handle p) = identity_email p dmn"
proof -
  have "find (\<lambda>q. pe_handle q = pe_handle p) (rev (personas c)) = Some p"
    using assms by (intro find_unique) (simp_all add: rev_map [symmetric])
  then show ?thesis by (simp add: owner_in_def plan_env_of_def emails_fold)
qed

lemma corpus_ok_known:
  assumes "corpus_ok c"
  shows "\<forall>x\<in>set (communities c). \<forall>p\<in>set (co_posts x). post_known (plan_env_of c dmn now clamp) p"
    and "\<forall>v\<in>set (vouches c). known (plan_env_of c dmn now clamp) (vo_from v) \<and> known (plan_env_of c dmn now clamp) (vo_to v)"
    and "\<forall>b\<in>set (badges c). known (plan_env_of c dmn now clamp) (ba_from b) \<and> known (plan_env_of c dmn now clamp) (ba_to b)"
  using assms
  by (auto simp: corpus_ok_def Let_def plan_env_known post_known_def community_ok_def post_ok_def comment_ok_def
      upvote_ok_def vouch_ok_def badge_ok_def)

lemma res_map_Inr: "res_map f xs = Inr ys \<longleftrightarrow> list_all2 (\<lambda>x y. f x = Inr y) xs ys"
  by (induction xs arbitrary: ys) (auto simp: res_bind_Inr list_all2_Cons1)

lemma res_map_total: "\<forall>x\<in>set xs. \<exists>y. f x = Inr y \<Longrightarrow> \<exists>ys. res_map f xs = Inr ys"
  by (induction xs) (auto simp: res_bind_def)

definition plan_of ::
  "corpus \<Rightarrow> string \<Rightarrow> bool \<Rightarrow> plan_acc \<Rightarrow> plan_item list \<Rightarrow> plan_item list \<Rightarrow> plan_item list \<Rightarrow> seed_plan" where
  "plan_of c dmn clamp acc ms vs bs =
     \<lparr>pl_domain = dmn,
      pl_items = ms @ oldest_first (pa_posts acc) @ oldest_first (pa_comments acc) @
        oldest_first (pa_reactions acc) @ vs @ bs,
      pl_personas = map pe_handle (personas c), pl_communities = map co_id (communities c),
      pl_agent_authors = pa_agent_authors acc,
      pl_externals = map pe_handle (filter (\<lambda>p. pe_external_email p \<noteq> None) (personas c)),
      pl_external_emails = fold (\<lambda>(h, e). obj_insert h e) (external_pairs c) [],
      pl_clamped = (clamp \<and> CLAMP_CAP_HOURS < corpus_max_age c), pl_max_age = corpus_max_age c\<rparr>"

lemma build_plan_parts:
  assumes ok: "corpus_ok c"
  obtains env cps acc ms vs bs where "env = plan_env_of c dmn now clamp" "cps = corpus_posts (communities c)"
    "build_plan api c dmn now clamp = Inr (plan_of c dmn clamp acc ms vs bs)"
    "pa_posts acc = all_posts api env cps" "pa_comments acc = all_comments api env cps"
    "pa_reactions acc = all_reactions api env cps"
    "map fst (pa_participants acc) = sorted_list_of_set (participants_in cps)"
    "list_all2 (\<lambda>x y. membership_item api env x = Inr y) (pa_participants acc) ms"
    "list_all2 (\<lambda>x y. vouch_item api env x = Inr y) (vouches c) vs"
    "list_all2 (\<lambda>x y. badge_item api env x = Inr y) (badges c) bs"
proof -
  define env where "env = plan_env_of c dmn now clamp"
  define cps where "cps = corpus_posts (communities c)"
  note kn = corpus_ok_known [OF ok, where dmn = dmn and now = now and clamp = clamp, folded env_def]
  obtain acc where acc: "res_fold (add_community api env) empty_acc (communities c) = Inr acc"
    "collects api env empty_acc cps acc"
    using add_communities_collects [OF kn(1)] unfolding cps_def by blast
  have f: "pa_posts acc = all_posts api env cps" "pa_comments acc = all_comments api env cps"
    "pa_reactions acc = all_reactions api env cps"
    "set (map fst (pa_participants acc)) = participants_in cps" "sorted_keys (pa_participants acc)"
    using acc(2) by (simp_all add: collects_def extends_def empty_acc_def sorted_keys_def)
  have part: "known env h" if "(comm, h) \<in> participants_in cps" for comm h
    using that kn(1) by (auto simp: participants_in_def post_participants_def cps_def corpus_posts_def post_known_def)
  have "finite (participants_in cps)" unfolding f(4) [symmetric] by simp
  then have srt: "map fst (pa_participants acc) = sorted_list_of_set (participants_in cps)"
    using f(4,5) by (intro strict_sorted_equal) (simp_all add: sorted_keys_def)
  have m: "\<exists>y. membership_item api env x = Inr y" if "x \<in> set (pa_participants acc)" for x
  proof -
    obtain comm h a where x: "x = ((comm, h), a)" by (cases x) auto
    then have "(comm, h) \<in> participants_in cps" using that f(4) by force
    then show ?thesis using part by (simp add: x membership_item_def email_of_known res_bind_def)
  qed
  then obtain ms where ms: "res_map (membership_item api env) (pa_participants acc) = Inr ms"
    using res_map_total [of "pa_participants acc" "membership_item api env"] by blast
  obtain vs where vs: "res_map (vouch_item api env) (vouches c) = Inr vs"
    using res_map_total [of "vouches c" "vouch_item api env"] kn(2)
    by (auto simp: vouch_item_def attestation_item_def email_of_known res_bind_def)
  obtain bs where bs: "res_map (badge_item api env) (badges c) = Inr bs"
    using res_map_total [of "badges c" "badge_item api env"] kn(3)
    by (auto simp: badge_item_def attestation_item_def email_of_known res_bind_def)
  have "build_plan api c dmn now clamp = Inr (plan_of c dmn clamp acc ms vs bs)"
    using acc(1) ms vs bs by (simp add: build_plan_def plan_of_def Let_def env_def res_bind_def)
  then show ?thesis using that [of env cps acc ms vs bs] f srt ms vs bs
    by (simp add: env_def cps_def res_map_Inr)
qed

section \<open>Order, owners and repeatability\<close>

lemma oldest_first_set [simp]: "set (oldest_first xs) = set xs"
  by (simp add: oldest_first_def)

lemma oldest_first_sorted: "sorted (map (\<lambda>i. - (case it_age i of Some a \<Rightarrow> a | None \<Rightarrow> 0)) (oldest_first xs))"
  by (simp add: oldest_first_def)

lemma map_sort_key: "map g (sort_key (k \<circ> g) xs) = sort_key k (map g xs)"
proof -
  have "map g (insort_key (k \<circ> g) x xs) = insort_key k (g x) (map g xs)" for x xs
    by (induction xs) simp_all
  then show ?thesis by (induction xs) simp_all
qed

text \<open>What identifies a write on the chain, with the age that orders it.\<close>

definition ident :: "plan_item \<Rightarrow> item_kind \<times> string \<times> string \<times> string \<times> string \<times> string \<times> f64 option" where
  "ident i = (it_kind i, it_signer i, it_path i, it_id i, it_owner i, it_schema i, it_age i)"

lemma ident_oldest_first: "map ident xs = map ident ys \<Longrightarrow> map ident (oldest_first xs) = map ident (oldest_first ys)"
proof -
  assume e: "map ident xs = map ident ys"
  let ?k = "\<lambda>(k, s, p, i, ow, sc, a). - (case a of Some (x :: f64) \<Rightarrow> x | None \<Rightarrow> 0)"
  have "oldest_first zs = sort_key (?k \<circ> ident) zs" for zs
    by (simp add: oldest_first_def ident_def comp_def)
  then show ?thesis by (simp add: map_sort_key e)
qed

lemma owner_in_now: "owner_in (plan_env_of c dmn now clamp) = owner_in (plan_env_of c dmn now' clamp)"
  by (simp add: owner_in_def plan_env_of_def fun_eq_iff)

lemma eff_now: "eff (plan_env_of c dmn now clamp) = eff (plan_env_of c dmn now' clamp)"
  by (simp add: eff_def plan_env_of_def fun_eq_iff)

lemma ident_items:
  assumes "owner_in env = owner_in env'" and "eff env = eff env'"
  shows "map ident (all_posts api env cps) = map ident (all_posts api env' cps)"
    and "map ident (all_comments api env cps) = map ident (all_comments api env' cps)"
    and "map ident (all_reactions api env cps) = map ident (all_reactions api env' cps)"
proof -
  have i: "ident (post_item api env comm p a) = ident (post_item api env' comm p a)"
    "ident (comment_item api env comm p k cm a) = ident (comment_item api env' comm p k cm a)"
    "ident (reaction_item api env comm p u a) = ident (reaction_item api env' comm p u a)"
    for comm p a k cm u
    using assms by (simp_all add: ident_def post_item_def comment_item_def reaction_item_def Let_def)
  show "map ident (all_posts api env cps) = map ident (all_posts api env' cps)"
    using assms by (simp add: all_posts_def case_prod_beta comp_def i)
  have c: "map ident (comment_items api env comm p k cms) = map ident (comment_items api env' comm p k cms)"
    for comm p k cms using assms by (simp add: comment_items_def case_prod_beta comp_def i)
  show "map ident (all_comments api env cps) = map ident (all_comments api env' cps)"
    by (simp add: all_comments_def map_concat case_prod_beta comp_def c)
  have r: "map ident (reaction_items api env comm p us) = map ident (reaction_items api env' comm p us)"
    for comm p us using assms by (simp add: reaction_items_def comp_def i)
  show "map ident (all_reactions api env cps) = map ident (all_reactions api env' cps)"
    by (simp add: all_reactions_def map_concat case_prod_beta comp_def r)
qed

lemma ident_memberships:
  assumes "list_all2 (\<lambda>x y. membership_item api env x = Inr y) ps ms"
    and "list_all2 (\<lambda>x y. membership_item api env' x = Inr y) ps' ms'"
    and "map fst ps = map fst ps'" and "pn_emails env = pn_emails env'"
  shows "map ident ms = map ident ms'"
  using assms(3,1,2)
proof (induction ps arbitrary: ps' ms ms')
  case (Cons x ps)
  then obtain x' ps2 where ps': "ps' = x' # ps2" "fst x' = fst x" "map fst ps = map fst ps2" by (cases ps') auto
  from Cons.prems(2) obtain y ys where y: "ms = y # ys" "membership_item api env x = Inr y"
    "list_all2 (\<lambda>x y. membership_item api env x = Inr y) ps ys" by (auto simp: list_all2_Cons1)
  from Cons.prems(3) obtain y' ys' where y': "ms' = y' # ys'" "membership_item api env' x' = Inr y'"
    "list_all2 (\<lambda>x y. membership_item api env' x = Inr y) ps2 ys'" by (auto simp: ps' list_all2_Cons1)
  have "ident y = ident y'"
    using y(2) y'(2) ps'(2) assms(4)
    by (cases x; cases x') (auto simp: membership_item_def res_bind_Inr email_of_def ident_def)
  then show ?case using Cons.IH [OF ps'(3) y(3) y'(3)] y(1) y'(1) by simp
qed simp

lemma ident_attestation:
  "attestation_item api env k f t ty i a l = Inr y \<Longrightarrow> attestation_item api env' k f t ty i a l = Inr y' \<Longrightarrow>
   pn_emails env = pn_emails env' \<Longrightarrow> ident y = ident y'"
  by (auto simp: attestation_item_def res_bind_Inr email_of_def ident_def)

lemma ident_list_all2:
  assumes "list_all2 (\<lambda>x y. f x = Inr y) xs ys" and "list_all2 (\<lambda>x y. g x = Inr y) xs zs"
    and "\<And>x y z. f x = Inr y \<Longrightarrow> g x = Inr z \<Longrightarrow> ident y = ident z"
  shows "map ident ys = map ident zs"
  using assms(1,2)
  by (induction arbitrary: zs rule: list_all2_induct) (auto simp: list_all2_Cons1 dest: assms(3))

lemma plan_repeatable:
  assumes ok: "corpus_ok c" and p: "build_plan api c dmn now clamp = Inr plan"
    and p': "build_plan api c dmn now' clamp = Inr plan'"
  shows "map ident (pl_items plan) = map ident (pl_items plan')"
proof -
  obtain env cps acc ms vs bs where 1: "env = plan_env_of c dmn now clamp" "cps = corpus_posts (communities c)"
    "build_plan api c dmn now clamp = Inr (plan_of c dmn clamp acc ms vs bs)"
    "pa_posts acc = all_posts api env cps" "pa_comments acc = all_comments api env cps"
    "pa_reactions acc = all_reactions api env cps"
    "map fst (pa_participants acc) = sorted_list_of_set (participants_in cps)"
    "list_all2 (\<lambda>x y. membership_item api env x = Inr y) (pa_participants acc) ms"
    "list_all2 (\<lambda>x y. vouch_item api env x = Inr y) (vouches c) vs"
    "list_all2 (\<lambda>x y. badge_item api env x = Inr y) (badges c) bs"
    using build_plan_parts [OF ok, where api = api and dmn = dmn and now = now and clamp = clamp] .
  obtain env' cps' acc' ms' vs' bs' where 2: "env' = plan_env_of c dmn now' clamp" "cps' = corpus_posts (communities c)"
    "build_plan api c dmn now' clamp = Inr (plan_of c dmn clamp acc' ms' vs' bs')"
    "pa_posts acc' = all_posts api env' cps'" "pa_comments acc' = all_comments api env' cps'"
    "pa_reactions acc' = all_reactions api env' cps'"
    "map fst (pa_participants acc') = sorted_list_of_set (participants_in cps')"
    "list_all2 (\<lambda>x y. membership_item api env' x = Inr y) (pa_participants acc') ms'"
    "list_all2 (\<lambda>x y. vouch_item api env' x = Inr y) (vouches c) vs'"
    "list_all2 (\<lambda>x y. badge_item api env' x = Inr y) (badges c) bs'"
    using build_plan_parts [OF ok, where api = api and dmn = dmn and now = now' and clamp = clamp] .
  have em: "pn_emails env = pn_emails env'" by (simp add: 1(1) 2(1) plan_env_of_def)
  note items = ident_items [of env env' api cps, OF owner_in_now [of c dmn now clamp now', folded 1(1) 2(1)]
      eff_now [of c dmn now clamp now', folded 1(1) 2(1)]]
  have "map ident ms = map ident ms'"
    using ident_memberships [OF 1(8) 2(8) _ em] 1(2,7) 2(2,7) by simp
  moreover have "map ident vs = map ident vs'"
    by (rule ident_list_all2 [OF 1(9) 2(9)]) (auto simp: vouch_item_def intro: ident_attestation [OF _ _ em])
  moreover have "map ident bs = map ident bs'"
    by (rule ident_list_all2 [OF 1(10) 2(10)]) (auto simp: badge_item_def intro: ident_attestation [OF _ _ em])
  moreover have "plan = plan_of c dmn clamp acc ms vs bs" "plan' = plan_of c dmn clamp acc' ms' vs' bs'"
    using p p' 1(3) 2(3) by simp_all
  ultimately show ?thesis using items [THEN ident_oldest_first] 1(2,4,5,6) 2(2,4,5,6)
    by (simp add: plan_of_def)
qed

lemma replicate_kind: "\<forall>x\<in>set xs. f x = k \<Longrightarrow> map f xs = replicate (length xs) k"
  by (induction xs) simp_all

lemma list_all2_outputs:
  "list_all2 (\<lambda>x y. f x = Inr y) xs ys \<Longrightarrow> y \<in> set ys \<Longrightarrow> \<exists>x\<in>set xs. f x = Inr y"
  by (induction rule: list_all2_induct) auto

lemma corpus_posts_length: "length (corpus_posts cs) = sum_list (map (\<lambda>c. length (co_posts c)) cs)"
  by (induction cs) (simp_all add: corpus_posts_def)

lemma sum_list_concat: "sum_list (map f (concat xss)) = sum_list (map (\<lambda>xs. sum_list (map f xs)) xss)"
  for f :: "'a \<Rightarrow> nat"
  by (induction xss) simp_all

lemma item_counts:
  "length (all_posts api env (corpus_posts (communities c))) = st_posts (stats c)"
  "length (all_comments api env (corpus_posts (communities c))) = st_comments (stats c)"
  "length (all_reactions api env (corpus_posts (communities c))) = st_reactions (stats c)"
proof -
  have e: "sum_list (map (\<lambda>(comm, p). f p) (corpus_posts cs)) = sum_list (map f (concat (map co_posts cs)))"
    for f :: "post_seed \<Rightarrow> nat" and cs
    by (induction cs) (simp_all add: corpus_posts_def comp_def)
  show "length (all_posts api env (corpus_posts (communities c))) = st_posts (stats c)"
    by (simp add: all_posts_def stats_def corpus_posts_length)
  show "length (all_comments api env (corpus_posts (communities c))) = st_comments (stats c)"
    using e [of "\<lambda>p. length (sp_comments p)" "communities c"]
    by (simp add: all_comments_def stats_def length_concat comp_def case_prod_beta' comment_items_def)
  show "length (all_reactions api env (corpus_posts (communities c))) = st_reactions (stats c)"
    using e [of "\<lambda>p. length (sp_upvotes p)" "communities c"]
    by (simp add: all_reactions_def stats_def length_concat comp_def case_prod_beta' reaction_items_def)
qed

text \<open>What every item of a plan satisfies.\<close>

definition content_kind :: "item_kind \<Rightarrow> bool" where
  "content_kind k \<longleftrightarrow> k = SeedPost \<or> k = SeedComment \<or> k = Reaction"

definition item_ok :: "plan_env \<Rightarrow> (string \<times> string) set \<Rightarrow> plan_item \<Rightarrow> bool" where
  "item_ok env ks i \<longleftrightarrow> known env (it_signer i) \<and> it_owner i = owner_in env (it_signer i) \<and>
     (it_hlc i \<noteq> None \<longleftrightarrow> content_kind (it_kind i)) \<and> (it_age i \<noteq> None \<longleftrightarrow> content_kind (it_kind i)) \<and>
     (if content_kind (it_kind i)
      then \<exists>comm. (comm, it_signer i) \<in> ks \<and> it_path i = general_space comm
      else \<exists>subject. it_path i = attestations_path (it_owner i) subject)"

lemma post_knownD:
  assumes "post_known env p"
  shows "known env (sp_author p)" and "cm \<in> set (sp_comments p) \<Longrightarrow> known env (cs_author cm)"
    and "u \<in> set (sp_upvotes p) \<Longrightarrow> known env (up_by u)"
  using assms by (auto simp: post_known_def)

lemma participants_inI:
  assumes "(comm, p) \<in> set cps"
  shows "(comm, sp_author p) \<in> participants_in cps"
    and "cm \<in> set (sp_comments p) \<Longrightarrow> (comm, cs_author cm) \<in> participants_in cps"
    and "u \<in> set (sp_upvotes p) \<Longrightarrow> (comm, up_by u) \<in> participants_in cps"
  using assms by (force simp: participants_in_def post_participants_def)+

lemma content_items_ok:
  assumes kn: "\<forall>(comm, p)\<in>set cps. post_known env p"
  shows "\<forall>i\<in>set (all_posts api env cps). it_kind i = SeedPost \<and> item_ok env (participants_in cps) i"
    and "\<forall>i\<in>set (all_comments api env cps). it_kind i = SeedComment \<and> item_ok env (participants_in cps) i"
    and "\<forall>i\<in>set (all_reactions api env cps). it_kind i = Reaction \<and> item_ok env (participants_in cps) i"
proof -
  show "\<forall>i\<in>set (all_posts api env cps). it_kind i = SeedPost \<and> item_ok env (participants_in cps) i"
    using kn by (fastforce simp: all_posts_def post_item_def Let_def item_ok_def content_kind_def
        dest: post_knownD participants_inI)
  show "\<forall>i\<in>set (all_comments api env cps). it_kind i = SeedComment \<and> item_ok env (participants_in cps) i"
  proof
    fix i assume "i \<in> set (all_comments api env cps)"
    then obtain comm p k cm where cp: "(comm, p) \<in> set cps" and "(k, cm) \<in> set (enumerate 0 (sp_comments p))"
      and i: "i = comment_item api env comm p k cm (owner_in env (cs_author cm))"
      by (auto simp: all_comments_def comment_items_def)
    then have "cm \<in> set (sp_comments p)" by (auto simp: in_set_enumerate_eq)
    then show "it_kind i = SeedComment \<and> item_ok env (participants_in cps) i"
      using participants_inI(2) [OF cp] post_knownD(2) [of env p cm] kn cp
      by (auto simp: i comment_item_def Let_def item_ok_def content_kind_def)
  qed
  show "\<forall>i\<in>set (all_reactions api env cps). it_kind i = Reaction \<and> item_ok env (participants_in cps) i"
  proof
    fix i assume "i \<in> set (all_reactions api env cps)"
    then obtain comm p u where cp: "(comm, p) \<in> set cps" and u: "u \<in> set (sp_upvotes p)"
      and i: "i = reaction_item api env comm p u (owner_in env (up_by u))"
      by (auto simp: all_reactions_def reaction_items_def)
    then show "it_kind i = Reaction \<and> item_ok env (participants_in cps) i"
      using participants_inI(3) [OF cp u] post_knownD(3) [OF _ u, of env] kn
      by (auto simp: i reaction_item_def Let_def item_ok_def content_kind_def)
  qed
qed

lemma attestation_item_ok:
  "attestation_item api env k f t ty i a l = Inr y \<Longrightarrow> \<not> content_kind k \<Longrightarrow>
   it_kind y = k \<and> item_ok env ks y"
  by (auto simp: attestation_item_def res_bind_Inr email_of_def item_ok_def owner_in_def known_def)

lemma membership_item_ok:
  "membership_item api env x = Inr y \<Longrightarrow>
   it_kind y = Membership \<and> item_ok env ks y \<and> it_signer y = snd (fst x) \<and> it_id y = ''membership-'' @ fst (fst x)"
  by (cases x, auto simp: membership_item_def res_bind_Inr email_of_def item_ok_def owner_in_def known_def
      content_kind_def) blast

definition contents_shape :: "corpus \<Rightarrow> item_kind list" where
  "contents_shape c =
     replicate (card (participants_in (corpus_posts (communities c)))) Membership @
     replicate (st_posts (stats c)) SeedPost @ replicate (st_comments (stats c)) SeedComment @
     replicate (st_reactions (stats c)) Reaction @ replicate (st_vouches (stats c)) Vouch @
     replicate (st_badges (stats c)) Badge"

lemma oldest_first_kind:
  "\<forall>i\<in>set xs. it_kind i = k \<Longrightarrow> map it_kind (oldest_first xs) = replicate (length xs) k"
  using replicate_kind [of "oldest_first xs" it_kind k] by (simp add: oldest_first_def)

lemma list_all2_input: "list_all2 P xs ys \<Longrightarrow> x \<in> set xs \<Longrightarrow> \<exists>y\<in>set ys. P x y"
  by (induction rule: list_all2_induct) auto

lemma membership_of_participant:
  assumes m: "list_all2 (\<lambda>x y. membership_item api env x = Inr y) ps ms"
    and k: "map fst ps = sorted_list_of_set (participants_in cps)" "(comm, h) \<in> participants_in cps"
  shows "\<exists>m\<in>set ms. it_kind m = Membership \<and> it_signer m = h \<and> it_id m = ''membership-'' @ comm"
proof -
  have "finite (participants_in cps)" by (auto simp: participants_in_def post_participants_def)
  then have "(comm, h) \<in> set (map fst ps)" unfolding k(1) using k(2) by simp
  then obtain x where x: "x \<in> set ps" "fst x = (comm, h)" by auto
  then obtain y where "y \<in> set ms" "membership_item api env x = Inr y"
    using list_all2_input [OF m] by blast
  then show ?thesis using membership_item_ok [of api env x y] x(2) by auto
qed

lemma phase_kinds:
  assumes "\<forall>(comm, p)\<in>set (corpus_posts (communities c)). post_known env p"
  shows "map it_kind (oldest_first (all_posts api env (corpus_posts (communities c)))) =
      replicate (st_posts (stats c)) SeedPost"
    and "map it_kind (oldest_first (all_comments api env (corpus_posts (communities c)))) =
      replicate (st_comments (stats c)) SeedComment"
    and "map it_kind (oldest_first (all_reactions api env (corpus_posts (communities c)))) =
      replicate (st_reactions (stats c)) Reaction"
  using oldest_first_kind [of _ SeedPost] oldest_first_kind [of _ SeedComment]
    oldest_first_kind [of _ Reaction] content_items_ok [OF assms, of api]
    item_counts [where api = api and env = env and c = c] by simp_all

lemma plan_shape:
  assumes ok: "corpus_ok c" and b: "build_plan api c dmn now clamp = Inr plan"
  defines "env \<equiv> plan_env_of c dmn now clamp" and "cps \<equiv> corpus_posts (communities c)"
  shows "map it_kind (pl_items plan) = contents_shape c"
    and "\<forall>i\<in>set (pl_items plan). item_ok env (participants_in cps) i"
    and "\<forall>(comm, h)\<in>participants_in cps. \<exists>m\<in>set (pl_items plan). it_kind m = Membership \<and>
      it_signer m = h \<and> it_id m = ''membership-'' @ comm"
proof -
  obtain acc ms vs bs where 1:
    "build_plan api c dmn now clamp = Inr (plan_of c dmn clamp acc ms vs bs)"
    "pa_posts acc = all_posts api env cps" "pa_comments acc = all_comments api env cps"
    "pa_reactions acc = all_reactions api env cps"
    "map fst (pa_participants acc) = sorted_list_of_set (participants_in cps)"
    "list_all2 (\<lambda>x y. membership_item api env x = Inr y) (pa_participants acc) ms"
    "list_all2 (\<lambda>x y. vouch_item api env x = Inr y) (vouches c) vs"
    "list_all2 (\<lambda>x y. badge_item api env x = Inr y) (badges c) bs"
    by (rule build_plan_parts [OF ok, where api = api and dmn = dmn and now = now and clamp = clamp])
       (simp add: env_def cps_def)
  have plan: "pl_items plan = ms @ oldest_first (all_posts api env cps) @ oldest_first (all_comments api env cps) @
      oldest_first (all_reactions api env cps) @ vs @ bs"
    using b 1(1-4) by (auto simp: plan_of_def)
  have known: "\<forall>(comm, p)\<in>set cps. post_known env p"
    using corpus_ok_known(1) [OF ok, of dmn now clamp] by (auto simp: cps_def corpus_posts_def env_def)
  note content = content_items_ok [OF this, of api]
  have m: "\<forall>i\<in>set ms. it_kind i = Membership \<and> item_ok env (participants_in cps) i"
    using list_all2_outputs [OF 1(6)] membership_item_ok by blast
  have v: "\<forall>i\<in>set vs. it_kind i = Vouch \<and> item_ok env (participants_in cps) i"
    using list_all2_outputs [OF 1(7)] attestation_item_ok [of api env Vouch]
    by (fastforce simp: vouch_item_def content_kind_def)
  have g: "\<forall>i\<in>set bs. it_kind i = Badge \<and> item_ok env (participants_in cps) i"
    using list_all2_outputs [OF 1(8)] attestation_item_ok [of api env Badge]
    by (fastforce simp: badge_item_def content_kind_def)
  have "length (map fst (pa_participants acc)) = card (participants_in cps)"
    unfolding 1(5) by simp
  then have len: "length ms = card (participants_in cps)" "length vs = st_vouches (stats c)"
    "length bs = st_badges (stats c)"
    using 1(6-8) by (auto simp: stats_def dest: list_all2_lengthD)
  have ks: "map it_kind ms = replicate (length ms) Membership" "map it_kind vs = replicate (length vs) Vouch"
    "map it_kind bs = replicate (length bs) Badge"
    using m v g by (auto intro: replicate_kind)
  show "map it_kind (pl_items plan) = contents_shape c"
    using phase_kinds [OF known [unfolded cps_def], of api] by (simp add: plan contents_shape_def ks len cps_def)
  show "\<forall>i\<in>set (pl_items plan). item_ok env (participants_in cps) i"
    unfolding plan using m v g content by auto
  show "\<forall>(comm, h)\<in>participants_in cps. \<exists>m\<in>set (pl_items plan). it_kind m = Membership \<and>
      it_signer m = h \<and> it_id m = ''membership-'' @ comm"
    using membership_of_participant [OF 1(6,5)] plan by fastforce
qed

text \<open>C23: Every valid corpus has a plan.  Its writes are all memberships first, then as many posts,
  comments, upvotes, vouches and badges as the corpus has; each is signed by a persona and owned by
  that persona's identity; exactly the content carries a time stamp, lies in the space of a
  community, and its author's membership in that community is among the memberships; the
  attestations lie in their issuer's own namespace.  Planning again at another time gives the same
  writes to the same objects in the same order, so that a second run overwrites and never
  duplicates.\<close>
theorem build_plan_correct:
  assumes "corpus_ok c"
  shows "\<exists>plan. build_plan api c dmn now clamp = Inr plan \<and>
    map it_kind (pl_items plan) = contents_shape c \<and>
    (\<forall>i\<in>set (pl_items plan).
      (\<exists>p\<in>set (personas c). it_signer i = pe_handle p \<and> it_owner i = identity_email p dmn) \<and>
      (it_hlc i \<noteq> None \<longleftrightarrow> content_kind (it_kind i)) \<and>
      (if content_kind (it_kind i)
       then \<exists>comm. it_path i = general_space comm \<and>
         (\<exists>m\<in>set (pl_items plan). it_kind m = Membership \<and> it_signer m = it_signer i \<and>
            it_id m = ''membership-'' @ comm)
       else \<exists>subject. it_path i = attestations_path (it_owner i) subject)) \<and>
    (\<forall>now' plan'. build_plan api c dmn now' clamp = Inr plan' \<longrightarrow>
      map ident (pl_items plan') = map ident (pl_items plan))"
proof -
  obtain plan where p: "build_plan api c dmn now clamp = Inr plan"
    by (rule build_plan_parts [OF assms, where api = api and dmn = dmn and now = now and clamp = clamp])
  let ?env = "plan_env_of c dmn now clamp"
  have dist: "distinct (map pe_handle (personas c))" using assms by (simp add: corpus_ok_def Let_def)
  note shape = plan_shape [OF assms p]
  have "(\<exists>p\<in>set (personas c). it_signer i = pe_handle p \<and> it_owner i = identity_email p dmn) \<and>
      (it_hlc i \<noteq> None \<longleftrightarrow> content_kind (it_kind i)) \<and>
      (if content_kind (it_kind i)
       then \<exists>comm. it_path i = general_space comm \<and>
         (\<exists>m\<in>set (pl_items plan). it_kind m = Membership \<and> it_signer m = it_signer i \<and>
            it_id m = ''membership-'' @ comm)
       else \<exists>subject. it_path i = attestations_path (it_owner i) subject)"
    if i: "i \<in> set (pl_items plan)" for i
  proof -
    have ok: "item_ok ?env (participants_in (corpus_posts (communities c))) i" using shape(2) i by blast
    then obtain q where q: "q \<in> set (personas c)" "it_signer i = pe_handle q"
      by (auto simp: item_ok_def plan_env_known)
    then have "it_owner i = identity_email q dmn" using ok plan_env_owner [OF dist] by (simp add: item_ok_def)
    then show ?thesis using ok q shape(3) by (auto simp: item_ok_def split: if_splits)
  qed
  then show ?thesis using p shape(1) plan_repeatable [OF assms _ p] by blast
qed

definition demo_corpus :: corpus where
  "demo_corpus =
     \<lparr>personas = [\<lparr>pe_handle = ''asha'', pe_external_email = None\<rparr>,
        \<lparr>pe_handle = ''bo'', pe_external_email = Some ''bo@example.com''\<rparr>],
      communities = [\<lparr>co_id = ''cooks'', co_posts =
        [\<lparr>sp_slug = ''pies'', sp_author = ''asha'', sp_age = 30, sp_body = ''hi'', sp_via_agent = False,
          sp_comments = [\<lparr>cs_author = ''bo'', cs_age = 5, cs_body = ''yo'', cs_via_agent = False\<rparr>],
          sp_upvotes = [\<lparr>up_by = ''bo'', up_age = 1\<rparr>]\<rparr>]\<rparr>],
      vouches = [\<lparr>vo_from = ''bo'', vo_to = ''asha'', vo_age = 1\<rparr>],
      badges = [\<lparr>ba_from = ''asha'', ba_to = ''bo'', ba_type = ''founding-member'', ba_age = 2\<rparr>]\<rparr>"

lemma demo_corpus_ok: "corpus_ok demo_corpus"
  by code_simp

lemma build_plan_correct_witness:
  "\<exists>plan. build_plan demo_app demo_corpus ''m.p'' 1800000000000 True = Inr plan \<and>
     map it_kind (pl_items plan) = [Membership, Membership, SeedPost, SeedComment, Reaction, Vouch, Badge]"
proof -
  have "participants_in (corpus_posts (communities demo_corpus)) = {(''cooks'', ''asha''), (''cooks'', ''bo'')}"
    by (simp add: participants_in_def post_participants_def corpus_posts_def demo_corpus_def)
  then have "contents_shape demo_corpus =
      [Membership, Membership, SeedPost, SeedComment, Reaction, Vouch, Badge]"
    by (simp add: contents_shape_def stats_def demo_corpus_def numeral_2_eq_2)
  then show ?thesis
    using build_plan_correct [OF demo_corpus_ok, of demo_app "''m.p''" 1800000000000 True] by auto
qed

end
