(* ===== verification/App_Seed_Run_Props.thy ===== *)
theory App_Seed_Run_Props
  imports App_Seed_Run App_Seed_Plan_Props
begin

text \<open>
  What running a seed plan guarantees: a submission is bounded and retried only for rate limits, the
  writes go out in the order of the plan, and the authoring lag is restored whatever comes of them.
\<close>

section \<open>One submission\<close>

definition accepted :: "http_reply \<Rightarrow> bool" where
  "accepted r \<longleftrightarrow> (case r of Replied status _ \<Rightarrow> is_success status | _ \<Rightarrow> False)"

definition rate_limited :: "http_reply \<Rightarrow> bool" where
  "rate_limited r \<longleftrightarrow>
     (case r of Replied status body \<Rightarrow> \<not> is_success status \<and> submit_retryable status body | _ \<Rightarrow> False)"

lemma submit_loop_again:
  "rate_limited (send api sent (PostWire (seed_submit_url daemon) w)) \<Longrightarrow>
   submit_loop api daemon w label (b # bs) sent =
     submit_loop api daemon w label bs (sent @ [PostWire (seed_submit_url daemon) w])"
  by (cases "send api sent (PostWire (seed_submit_url daemon) w)")
     (simp_all add: submit_loop.simps [of api daemon w label "b # bs"] rate_limited_def)

lemma submit_loop_last:
  assumes "\<not> (rate_limited (send api sent (PostWire (seed_submit_url daemon) w)) \<and> backoff \<noteq> [])"
  shows "snd (submit_loop api daemon w label backoff sent) = sent @ [PostWire (seed_submit_url daemon) w]"
    and "fst (submit_loop api daemon w label backoff sent) = Inr () \<longleftrightarrow>
      accepted (send api sent (PostWire (seed_submit_url daemon) w))"
  using assms
  by (subst submit_loop.simps; auto simp: rate_limited_def accepted_def Let_def split: http_reply.splits)+

lemma backoff_length [simp]: "length RETRY_BACKOFF_S = 6"
  by (simp add: RETRY_BACKOFF_S_def)

lemma backoff_sum: "sum_list (take n RETRY_BACKOFF_S) \<le> 126"
proof -
  have "sum_list (take n RETRY_BACKOFF_S) \<le> sum_list (take n RETRY_BACKOFF_S @ drop n RETRY_BACKOFF_S)"
    unfolding sum_list_append by simp
  then show ?thesis by (simp add: RETRY_BACKOFF_S_def)
qed

text \<open>
  The loop sends one call again and again: after \<open>n\<close> rate-limited replies comes the reply that
  decides.
\<close>

definition tries :: "('sk, 'pk, 'sig) app_api \<Rightarrow> http_call list \<Rightarrow> http_call \<Rightarrow> nat \<Rightarrow> nat \<Rightarrow> bool" where
  "tries api sent call limit n \<longleftrightarrow>
     n \<le> limit \<and> (\<forall>k<n. rate_limited (send api (sent @ replicate k call) call)) \<and>
     (n = limit \<or> \<not> rate_limited (send api (sent @ replicate n call) call))"

lemma tries_Suc:
  assumes "rate_limited (send api sent call)" and "tries api (sent @ [call]) call limit n"
  shows "tries api sent call (Suc limit) (Suc n)"
  using assms unfolding tries_def
  by (auto simp: less_Suc_eq_0_disj all_conj_distrib)

lemma submit_loop_tries:
  "\<exists>n. tries api sent (PostWire (seed_submit_url daemon) w) (length backoff) n \<and>
     snd (submit_loop api daemon w label backoff sent) =
       sent @ replicate (Suc n) (PostWire (seed_submit_url daemon) w) \<and>
     (fst (submit_loop api daemon w label backoff sent) = Inr () \<longleftrightarrow>
       accepted (send api (sent @ replicate n (PostWire (seed_submit_url daemon) w))
         (PostWire (seed_submit_url daemon) w)))"
proof (induction backoff arbitrary: sent)
  case Nil
  let ?c = "PostWire (seed_submit_url daemon) w"
  show ?case using submit_loop_last [of api sent daemon w "[]" label]
    by (intro exI [of _ 0]) (simp add: tries_def)
next
  case (Cons b bs)
  let ?c = "PostWire (seed_submit_url daemon) w"
  show ?case
  proof (cases "rate_limited (send api sent ?c)")
    case True
    then have more: "submit_loop api daemon w label (b # bs) sent =
        submit_loop api daemon w label bs (sent @ [?c])"
      by (rule submit_loop_again)
    from Cons obtain n where "tries api (sent @ [?c]) ?c (length bs) n"
      "snd (submit_loop api daemon w label bs (sent @ [?c])) = (sent @ [?c]) @ replicate (Suc n) ?c"
      "(fst (submit_loop api daemon w label bs (sent @ [?c])) = Inr ()) =
        accepted (send api ((sent @ [?c]) @ replicate n ?c) ?c)" by blast
    then show ?thesis using tries_Suc [OF True]
      by (intro exI [of _ "Suc n"]) (simp add: more)
  next
    case False
    then show ?thesis using submit_loop_last [of api sent daemon w "b # bs" label]
      by (intro exI [of _ 0]) (simp add: tries_def)
  qed
qed

lemma seed_submit_sends:
  "\<exists>n\<le>6. snd (seed_submit api daemon w label sent) =
     sent @ replicate (Suc n) (PostWire (seed_submit_url daemon) w)"
  using submit_loop_tries [of api sent daemon w RETRY_BACKOFF_S label]
  by (auto simp: seed_submit_def tries_def)

lemma seed_submit_accepted:
  assumes "accepted (send api sent (PostWire (seed_submit_url daemon) w))"
  shows "seed_submit api daemon w label sent = (Inr (), sent @ [PostWire (seed_submit_url daemon) w])"
  using assms unfolding seed_submit_def
  by (subst submit_loop.simps) (auto simp: accepted_def Let_def split: http_reply.splits)

text \<open>C24: A submission ends after at most seven posts of the same wire, which is at most 126
  seconds of waiting.  Every post but the last was answered with a rate limit; it succeeds exactly
  when the last was accepted, and it gives up on a rate limit only after the whole schedule.\<close>
theorem seed_submit_bounded:
  "\<exists>n. tries api sent (PostWire (seed_submit_url daemon) w) 6 n \<and>
     sum_list (take n RETRY_BACKOFF_S) \<le> 126 \<and>
     snd (seed_submit api daemon w label sent) =
       sent @ replicate (Suc n) (PostWire (seed_submit_url daemon) w) \<and>
     (fst (seed_submit api daemon w label sent) = Inr () \<longleftrightarrow>
       accepted (send api (sent @ replicate n (PostWire (seed_submit_url daemon) w))
         (PostWire (seed_submit_url daemon) w)))"
  using submit_loop_tries [of api sent daemon w RETRY_BACKOFF_S label] backoff_sum
  by (simp add: seed_submit_def)

text \<open>The daemon is rate-limited for the first two posts of a wire.\<close>

definition busy_app :: "(string, string, string) app_api" where
  "busy_app = demo_app\<lparr>send := (\<lambda>sent c. if length sent < 2 then Replied 500 ''DA: 429'' else Replied 200 [])\<rparr>"

lemma seed_submit_bounded_witness:
  "seed_submit busy_app ''d'' ''w'' ''l'' [] = (Inr (), replicate 3 (PostWire (seed_submit_url ''d'') ''w''))"
proof -
  let ?c = "PostWire (seed_submit_url ''d'') ''w''"
  have r: "rate_limited (send busy_app sent ?c) \<longleftrightarrow> length sent < 2"
    "accepted (send busy_app sent ?c) \<longleftrightarrow> 2 \<le> length sent" for sent
    by (auto simp: rate_limited_def accepted_def busy_app_def is_success_def submit_retryable_def prefix_def)
  obtain n where n: "tries busy_app [] ?c 6 n"
    "snd (seed_submit busy_app ''d'' ''w'' ''l'' []) = replicate (Suc n) ?c"
    "fst (seed_submit busy_app ''d'' ''w'' ''l'' []) = Inr () \<longleftrightarrow> accepted (send busy_app (replicate n ?c) ?c)"
    using seed_submit_bounded [of busy_app "[]" "''d''" "''w''" "''l''"] by auto
  from n(1) have "\<not> n < 2" unfolding tries_def r by auto
  moreover from n(1) have "\<forall>k<n. k < 2" unfolding tries_def r by simp
  ultimately have "n = 2" by (metis less_irrefl linorder_neqE_nat)
  then show ?thesis using n(2,3) r(2) by (auto simp: prod_eq_iff numeral_eq_Suc)
qed

section \<open>The lag and the writes\<close>

definition lag_calls ::
  "('sk, 'pk, 'sig) app_api \<Rightarrow> string \<Rightarrow> 'sk option \<Rightarrow> int \<Rightarrow> string list \<Rightarrow> http_call list" where
  "lag_calls api daemon sys_key lag cs =
     (case sys_key of None \<Rightarrow> []
      | Some sys \<Rightarrow> map (\<lambda>c. PostWire (seed_submit_url daemon) (space_config api sys c lag)) cs)"

definition lags_accepted ::
  "('sk, 'pk, 'sig) app_api \<Rightarrow> string \<Rightarrow> 'sk option \<Rightarrow> string list \<Rightarrow> bool" where
  "lags_accepted api daemon sys_key cs \<longleftrightarrow>
     (\<forall>sent lag. \<forall>call\<in>set (lag_calls api daemon sys_key lag cs). accepted (send api sent call))"

lemma set_lags_accepted:
  "lags_accepted api daemon (Some sys) cs \<Longrightarrow>
   set_lags api daemon sys lag verb cs sent = (Inr (), sent @ lag_calls api daemon (Some sys) lag cs)"
proof (induction cs arbitrary: sent)
  case (Cons c cs)
  have "lags_accepted api daemon (Some sys) cs" using Cons.prems by (auto simp: lags_accepted_def lag_calls_def)
  moreover have "accepted (send api sent (PostWire (seed_submit_url daemon) (space_config api sys c lag)))"
    using Cons.prems by (auto simp: lags_accepted_def lag_calls_def)
  ultimately show ?case using Cons.IH by (simp add: and_then_def seed_submit_accepted lag_calls_def)
qed (simp add: lag_calls_def done_with_def)

lemma with_sys_accepted:
  "lags_accepted api daemon sys_key cs \<Longrightarrow>
   with_sys sys_key (\<lambda>sys. set_lags api daemon sys lag verb cs) sent =
     (Inr (), sent @ lag_calls api daemon sys_key lag cs)"
  by (cases sys_key) (simp_all add: with_sys_def set_lags_accepted, simp add: lag_calls_def done_with_def)

definition post_calls :: "string \<Rightarrow> nat list \<Rightarrow> string list \<Rightarrow> http_call list" where
  "post_calls daemon ns ws =
     concat (map2 (\<lambda>n w. replicate (Suc n) (PostWire (seed_submit_url daemon) w)) ns ws)"

text \<open>The calls are those of the first items, in order, each at most seven times.\<close>

definition posts_of ::
  "('sk, 'pk, 'sig) app_api \<Rightarrow> string \<Rightarrow> (string \<times> 'sk provisioned) list \<Rightarrow> plan_item list \<Rightarrow>
   http_call list \<Rightarrow> bool" where
  "posts_of api daemon ps items mid \<longleftrightarrow>
     (\<exists>ns ws. length ns = length items \<and> (\<forall>n\<in>set ns. n \<le> 6) \<and>
        map (item_wire api ps) items = map Inr ws \<and> mid = post_calls daemon ns ws)"

lemma posts_of_Nil [simp]: "posts_of api daemon ps [] mid \<longleftrightarrow> mid = []"
  by (auto simp: posts_of_def post_calls_def)

lemma posts_of_Cons:
  assumes "item_wire api ps i = Inr w" and "n \<le> 6" and "posts_of api daemon ps is mid"
  shows "posts_of api daemon ps (i # is) (replicate (Suc n) (PostWire (seed_submit_url daemon) w) @ mid)"
proof -
  from assms(3) obtain ns ws where "length ns = length is" "\<forall>n\<in>set ns. n \<le> 6"
    "map (item_wire api ps) is = map Inr ws" "mid = post_calls daemon ns ws"
    by (auto simp: posts_of_def)
  then show ?thesis using assms(1,2) unfolding posts_of_def
    by (intro exI [of _ "n # ns"] exI [of _ "w # ws"]) (simp add: post_calls_def)
qed

lemma submit_items_posts:
  "\<exists>k mid. k \<le> length items \<and> snd (submit_items api daemon ps items sent) = sent @ mid \<and>
     posts_of api daemon ps (take k items) mid \<and>
     (fst (submit_items api daemon ps items sent) = Inr () \<longrightarrow> k = length items)"
proof (induction items arbitrary: sent)
  case (Cons i "is")
  show ?case
  proof (cases "item_wire api ps i")
    case (Inl e)
    then show ?thesis by (intro exI [of _ 0] exI [of _ "[]"]) (simp add: and_then_def lift_def)
  next
    case (Inr w)
    let ?c = "PostWire (seed_submit_url daemon) w"
    obtain n where n: "n \<le> 6" "snd (seed_submit api daemon w (it_label i) sent) = sent @ replicate (Suc n) ?c"
      using seed_submit_sends by blast
    obtain r where s: "seed_submit api daemon w (it_label i) sent = (r, sent @ replicate (Suc n) ?c)"
      using n(2) by (cases "seed_submit api daemon w (it_label i) sent") simp
    show ?thesis
    proof (cases r)
      case (Inl e)
      then show ?thesis using Inr s n(1) posts_of_Cons [OF Inr n(1), of daemon "[]" "[]"]
        by (intro exI [of _ 1] exI [of _ "replicate (Suc n) ?c"]) (simp add: and_then_def lift_def)
    next
      case ok: (Inr u)
      obtain k mid where km: "k \<le> length is"
        "snd (submit_items api daemon ps is (sent @ replicate (Suc n) ?c)) = (sent @ replicate (Suc n) ?c) @ mid"
        "posts_of api daemon ps (take k is) mid"
        "fst (submit_items api daemon ps is (sent @ replicate (Suc n) ?c)) = Inr () \<longrightarrow> k = length is"
        using Cons.IH by blast
      have "submit_items api daemon ps (i # is) sent = submit_items api daemon ps is (sent @ replicate (Suc n) ?c)"
        using Inr s ok by (simp add: and_then_def lift_def)
      then show ?thesis using km posts_of_Cons [OF Inr n(1) km(3)]
        by (intro exI [of _ "Suc k"] exI [of _ "replicate (Suc n) ?c @ mid"]) simp
    qed
  qed
qed (simp add: done_with_def)

lemma seed_writes_restore:
  assumes "lags_accepted api daemon sys_key (pl_communities plan)"
  shows "\<exists>k mid. k \<le> length (pl_items plan) \<and>
    snd (seed_writes api daemon plan sys_key ps sent) =
      sent @ lag_calls api daemon sys_key WIDENED_LAG_S (pl_communities plan) @ mid @
        lag_calls api daemon sys_key GENESIS_LAG_S (pl_communities plan) \<and>
    posts_of api daemon ps (take k (pl_items plan)) mid \<and>
    (fst (seed_writes api daemon plan sys_key ps sent) = Inr () \<longrightarrow> k = length (pl_items plan))"
proof -
  let ?s = "sent @ lag_calls api daemon sys_key WIDENED_LAG_S (pl_communities plan)"
  obtain k mid where km: "k \<le> length (pl_items plan)"
    "snd (submit_items api daemon ps (pl_items plan) ?s) = ?s @ mid"
    "posts_of api daemon ps (take k (pl_items plan)) mid"
    "fst (submit_items api daemon ps (pl_items plan) ?s) = Inr () \<longrightarrow> k = length (pl_items plan)"
    using submit_items_posts by blast
  have "seed_writes api daemon plan sys_key ps sent =
      (fst (submit_items api daemon ps (pl_items plan) ?s),
       (?s @ mid) @ lag_calls api daemon sys_key GENESIS_LAG_S (pl_communities plan))"
    using km(2) by (cases "submit_items api daemon ps (pl_items plan) ?s")
      (simp add: seed_writes_def and_then_def attempt_def with_sys_accepted [OF assms] lift_def)
  then show ?thesis using km by (intro exI [of _ k] exI [of _ mid]) simp
qed

section \<open>The command\<close>

lemma seed_execute_cases:
  "seed_execute api lib env read args plan dmn now sent =
     (case seed_setup api lib env read args plan dmn now sent of
        (Inl e, s1) \<Rightarrow> (Inl e, s1)
      | (Inr (sys_key, ps), s1) \<Rightarrow> seed_writes api (sg_daemon args) plan sys_key ps s1)"
  by (simp add: seed_execute_def and_then_def case_prod_beta split: sum.split)

lemma seed_corpus_ok: "seed_corpus lib txl read args = Inr c \<Longrightarrow> corpus_ok c"
  by (auto simp: seed_corpus_def corpus_parse_def res_bind_Inr validate_Inr)

lemma build_plan_total:
  assumes "corpus_ok c"
  shows "\<exists>plan. build_plan api c dmn now clamp = Inr plan"
  using build_plan_parts [OF assms] by metis

lemma seed_run_cases:
  "seed_run api lib txl env read args now sent =
     (case seed_corpus lib txl read args of
        Inl e \<Rightarrow> (Inl e, sent)
      | Inr c \<Rightarrow>
          let plan = projr (build_plan api c (domain_of (sg_idp args)) now (sg_sys_key args = None)) in
          if \<not> sg_execute args then (Inr (), sent)
          else seed_execute api lib env read args plan (domain_of (sg_idp args)) now sent)"
proof (cases "seed_corpus lib txl read args")
  case (Inr c)
  then obtain plan where "build_plan api c (domain_of (sg_idp args)) now (sg_sys_key args = None) = Inr plan"
    using build_plan_total seed_corpus_ok by blast
  then show ?thesis using Inr by (simp add: seed_run_def and_then_def lift_def done_with_def Let_def)
qed (simp add: seed_run_def and_then_def lift_def)

section \<open>Every writer is provisioned under the address it writes as\<close>

definition plan_mail :: "seed_plan \<Rightarrow> string \<Rightarrow> string \<Rightarrow> string" where
  "plan_mail plan dmn h =
     (case map_of (pl_external_emails plan) h of Some e \<Rightarrow> e | None \<Rightarrow> h @ ''@'' @ dmn)"

lemma provision_one_email:
  "provision_one api lib env args plan tok dmn h sent = (Inr p, s1) \<Longrightarrow> pv_email p = plan_mail plan dmn h"
  by (auto simp: provision_one_def provision_external_def provision_persona_def plan_mail_def and_then_Inr
      Let_def split: option.splits)

lemma provision_all_emails:
  "provision_all api lib env args plan tok dmn acc hs sent = (Inr ps, s1) \<Longrightarrow>
   \<forall>h p. map_of acc h = Some p \<longrightarrow> pv_email p = plan_mail plan dmn h \<Longrightarrow>
   (\<forall>h p. map_of ps h = Some p \<longrightarrow> pv_email p = plan_mail plan dmn h) \<and>
   (\<forall>h. h \<in> set hs \<or> map_of acc h \<noteq> None \<longrightarrow> map_of ps h \<noteq> None)"
proof (induction hs arbitrary: acc sent)
  case (Cons h hs)
  then obtain p s2 where p: "provision_one api lib env args plan tok dmn h sent = (Inr p, s2)"
    "provision_all api lib env args plan tok dmn (obj_insert h p acc) hs s2 = (Inr ps, s1)"
    by (auto simp: and_then_Inr)
  have "\<forall>h' q. map_of (obj_insert h p acc) h' = Some q \<longrightarrow> pv_email q = plan_mail plan dmn h'"
    using Cons.prems(2) provision_one_email [OF p(1)] by auto
  from Cons.IH [OF p(2) this] show ?case by auto
qed (auto simp: done_with_def)

lemma plan_mail_identity:
  assumes ok: "corpus_ok c" and b: "build_plan api c dmn now clamp = Inr plan" and p: "p \<in> set (personas c)"
  shows "plan_mail plan dmn (pe_handle p) = identity_email p dmn"
proof -
  have d: "distinct (map pe_handle (personas c))" using ok by (simp add: corpus_ok_def Let_def)
  have e: "pl_external_emails plan = fold (\<lambda>(h, e). obj_insert h e) (external_pairs c) []"
    using b by (auto simp: build_plan_def Let_def res_bind_Inr)
  have sub: "distinct (map fst (List.map_filter (\<lambda>p. map_option (\<lambda>e. (pe_handle p, e)) (pe_external_email p)) ps)) \<and>
      fst ` set (List.map_filter (\<lambda>p. map_option (\<lambda>e. (pe_handle p, e)) (pe_external_email p)) ps) \<subseteq> pe_handle ` set ps"
    if "distinct (map pe_handle ps)" for ps
    using that by (induction ps) (auto simp: map_filter_simps split: option.splits)
  have dp: "distinct (map fst (rev (external_pairs c)))"
    using sub [OF d] by (simp add: external_pairs_def rev_map [symmetric])
  have "map_of (rev (external_pairs c)) (pe_handle p) = pe_external_email p"
  proof (cases "pe_external_email p")
    case (Some x)
    then have "(pe_handle p, x) \<in> set (external_pairs c)"
      using p by (force simp: external_pairs_def List.map_filter_def)
    then show ?thesis using dp Some by (simp add: map_of_eq_Some_iff)
  next
    case None
    have "q = p" if "q \<in> set (personas c)" "pe_handle q = pe_handle p" for q
      using d p that by (auto simp: distinct_map inj_on_def)
    then have "pe_handle p \<notin> fst ` set (external_pairs c)"
      using None by (force simp: external_pairs_def List.map_filter_def)
    then show ?thesis using None by (simp add: map_of_eq_None_iff)
  qed
  then show ?thesis by (simp add: plan_mail_def e mk_obj_get_fold identity_email_def split: option.split)
qed

lemma setup_provisions:
  assumes ok: "corpus_ok c" and b: "build_plan api c dmn now clamp = Inr plan"
    and s: "seed_setup api lib env read args plan dmn now sent = (Inr (sys_key, ps), s1)"
  shows "\<forall>i\<in>set (pl_items plan). \<exists>p. map_of ps (it_signer i) = Some p \<and> pv_email p = it_owner i"
proof
  fix i assume i: "i \<in> set (pl_items plan)"
  from s obtain tok s2 where "provision_all api lib env args plan tok dmn [] (pl_personas plan) s2 = (Inr ps, s1)"
    by (auto simp: seed_setup_def and_then_Inr)
  from provision_all_emails [OF this]
  have m: "\<forall>h p. map_of ps h = Some p \<longrightarrow> pv_email p = plan_mail plan dmn h"
    "\<forall>h\<in>set (pl_personas plan). map_of ps h \<noteq> None" by auto
  have pers: "pl_personas plan = map pe_handle (personas c)"
    using b by (auto simp: build_plan_def Let_def res_bind_Inr)
  have d: "distinct (map pe_handle (personas c))" using ok by (simp add: corpus_ok_def Let_def)
  have io: "item_ok (plan_env_of c dmn now clamp) (participants_in (corpus_posts (communities c))) i"
    using plan_shape(2) [OF ok b] i by blast
  then obtain q where q: "q \<in> set (personas c)" "it_signer i = pe_handle q"
    by (auto simp: item_ok_def plan_env_known)
  then obtain p where "map_of ps (it_signer i) = Some p" using m(2) pers by auto
  moreover have "it_owner i = identity_email q dmn" using io q plan_env_owner [OF d] by (simp add: item_ok_def)
  ultimately show "\<exists>p. map_of ps (it_signer i) = Some p \<and> pv_email p = it_owner i"
    using m(1) plan_mail_identity [OF ok b q(1)] q(2) by auto
qed

text \<open>What an executed run does after its preparation.\<close>

lemma seed_execute_restores:
  assumes ok: "corpus_ok c" and b: "build_plan api c dmn now clamp = Inr plan"
    and e: "seed_execute api lib env read args plan dmn now sent = (r, sent')"
    and s: "seed_setup api lib env read args plan dmn now sent = (Inr (sys_key, ps), s1)"
    and accepts: "\<forall>key comm lag s.
      accepted (send api s (PostWire (seed_submit_url (sg_daemon args)) (space_config api key comm lag)))"
  shows "(sys_key = None \<longleftrightarrow> sg_sys_key args = None) \<and>
    (\<forall>i\<in>set (pl_items plan). \<exists>p. map_of ps (it_signer i) = Some p \<and> pv_email p = it_owner i) \<and>
    (\<exists>k mid. k \<le> length (pl_items plan) \<and>
       sent' = s1 @ lag_calls api (sg_daemon args) sys_key WIDENED_LAG_S (map co_id (communities c)) @
         mid @ lag_calls api (sg_daemon args) sys_key GENESIS_LAG_S (map co_id (communities c)) \<and>
       posts_of api (sg_daemon args) ps (take k (pl_items plan)) mid \<and>
       (r = Inr () \<longrightarrow> k = length (pl_items plan)))"
proof (intro conjI)
  have w: "seed_writes api (sg_daemon args) plan sys_key ps s1 = (r, sent')"
    using e s by (simp add: seed_execute_cases)
  have comms: "pl_communities plan = map co_id (communities c)"
    using b by (auto simp: build_plan_def Let_def res_bind_Inr)
  have "lags_accepted api (sg_daemon args) sys_key (pl_communities plan)"
    using accepts by (auto simp: lags_accepted_def lag_calls_def split: option.splits)
  from seed_writes_restore [OF this, of ps s1]
  show "\<exists>k mid. k \<le> length (pl_items plan) \<and>
       sent' = s1 @ lag_calls api (sg_daemon args) sys_key WIDENED_LAG_S (map co_id (communities c)) @
         mid @ lag_calls api (sg_daemon args) sys_key GENESIS_LAG_S (map co_id (communities c)) \<and>
       posts_of api (sg_daemon args) ps (take k (pl_items plan)) mid \<and>
       (r = Inr () \<longrightarrow> k = length (pl_items plan))"
    unfolding w comms by simp
  show "sys_key = None \<longleftrightarrow> sg_sys_key args = None"
    using s by (auto simp: seed_setup_def and_then_Inr res_bind_Inr split: option.splits)
qed (rule setup_provisions [OF ok b s])

text \<open>C25: A dry run sends nothing.  An executed run plans a valid corpus; if its preparation fails
  it ends there, and otherwise every writer of the plan is provisioned under the address the write
  is owned by.  Then it widens the authoring lag of every community (if it has the sys key), posts
  the first writes of the plan in order, each at most seven times, and at last restores the lag of
  every community, whether all writes succeeded or not; it succeeds only after the last write.
  This is for a daemon that accepts the changes of the lag.\<close>
theorem seed_run_restores:
  assumes run: "seed_run api lib txl env read args now sent = (r, sent')"
    and accepts: "\<forall>key comm lag s.
      accepted (send api s (PostWire (seed_submit_url (sg_daemon args)) (space_config api key comm lag)))"
  shows "(case seed_corpus lib txl read args of
      Inl e \<Rightarrow> r = Inl e \<and> sent' = sent
    | Inr c \<Rightarrow> \<exists>plan. build_plan api c (domain_of (sg_idp args)) now (sg_sys_key args = None) = Inr plan \<and>
        (if \<not> sg_execute args then r = Inr () \<and> sent' = sent
         else case seed_setup api lib env read args plan (domain_of (sg_idp args)) now sent of
           (Inl e, s1) \<Rightarrow> r = Inl e \<and> sent' = s1
         | (Inr (sys_key, ps), s1) \<Rightarrow>
             (sys_key = None \<longleftrightarrow> sg_sys_key args = None) \<and>
             (\<forall>i\<in>set (pl_items plan). \<exists>p. map_of ps (it_signer i) = Some p \<and> pv_email p = it_owner i) \<and>
             (\<exists>k mid. k \<le> length (pl_items plan) \<and>
                sent' = s1 @ lag_calls api (sg_daemon args) sys_key WIDENED_LAG_S (map co_id (communities c)) @
                  mid @ lag_calls api (sg_daemon args) sys_key GENESIS_LAG_S (map co_id (communities c)) \<and>
                posts_of api (sg_daemon args) ps (take k (pl_items plan)) mid \<and>
                (r = Inr () \<longrightarrow> k = length (pl_items plan)))))"
proof (cases "seed_corpus lib txl read args")
  case (Inl e)
  then show ?thesis using run by (simp add: seed_run_cases)
next
  case c: (Inr c)
  let ?dmn = "domain_of (sg_idp args)"
  have ok: "corpus_ok c" using c by (rule seed_corpus_ok)
  obtain plan where b: "build_plan api c ?dmn now (sg_sys_key args = None) = Inr plan"
    using build_plan_total [OF ok] by blast
  show ?thesis
  proof (cases "sg_execute args")
    case False
    then show ?thesis using run c b by (simp add: seed_run_cases)
  next
    case True
    then have e: "seed_execute api lib env read args plan ?dmn now sent = (r, sent')"
      using run c b by (simp add: seed_run_cases)
    show ?thesis
    proof (cases "\<exists>sys_key ps s1. seed_setup api lib env read args plan ?dmn now sent = (Inr (sys_key, ps), s1)")
      case True
      then obtain sys_key ps s1
        where su: "seed_setup api lib env read args plan ?dmn now sent = (Inr (sys_key, ps), s1)" by blast
      show ?thesis using seed_execute_restores [OF ok b e su accepts] su \<open>sg_execute args\<close> c b by simp
    next
      case False
      then obtain err s1 where su: "seed_setup api lib env read args plan ?dmn now sent = (Inl err, s1)"
        by (cases "seed_setup api lib env read args plan ?dmn now sent", rename_tac x s1, case_tac x) auto
      then show ?thesis using e \<open>sg_execute args\<close> c b by (simp add: seed_execute_cases)
    qed
  qed
qed

text \<open>A daemon and provider that accept everything, for the demo corpus.\<close>

definition demo_seed_lib :: "string seed_lib" where
  "demo_seed_lib = \<lparr>pair_generate = (\<lambda>sent. ''s''), pair_public = (\<lambda>s. s), key_generate = (\<lambda>sent. ''k''),
     proof_decode = Inr, decode_dnssec = (\<lambda>b. Inr \<lparr>sd_needs_refresh = False, sd_proof = None\<rparr>),
     decode_provision = (\<lambda>b. Inr \<lparr>sv_success = True, sv_cert = ''c''\<rparr>),
     decode_corpus = (\<lambda>b. Inr demo_corpus), default_corpus = []\<rparr>"

definition demo_seed_args :: seed_args where
  "demo_seed_args = \<lparr>sg_idp = ''https://m.p/'', sg_daemon = ''http://d'', sg_broker = ''https://b.c'',
     sg_audience = ''a'', sg_corpus = None, sg_sys_key = Some ''k'', sg_execute = True,
     sg_admin_token_env = ''T'', sg_broker_token_env = ''U''\<rparr>"

definition demo_text :: text_lib where
  "demo_text = \<lparr>tl_lower = (\<lambda>s. s), tl_show = (\<lambda>x. [])\<rparr>"

definition demo_sys_file :: "string \<Rightarrow> (string, string) res" where
  "demo_sys_file path = Inr (''ed25519:'' @ replicate 32 CHR ''a'')"

lemma demo_sends: "send demo_app sent call = Replied 200 []"
  by (simp add: demo_app_def)

lemma demo_cert: "cert_request demo_app demo_seed_lib call a b w d sent = (Inr ''c'', sent @ [call])"
  by (simp add: cert_request_def and_then_def tool_send_def lift_def demo_sends is_success_def res_bind_def
      map_err_def demo_seed_lib_def)

lemma demo_provision_all:
  "\<exists>ps s1. provision_all demo_app demo_seed_lib (\<lambda>_. Some ''t'') args plan tok dmn acc hs sent = (Inr ps, s1)"
proof (induction hs arbitrary: acc sent)
  case (Cons h hs)
  have "\<exists>p s1. provision_one demo_app demo_seed_lib (\<lambda>_. Some ''t'') args plan tok dmn h sent = (Inr p, s1)"
    by (auto simp: provision_one_def provision_external_def provision_persona_def demo_cert and_then_def lift_def
        done_with_def ok_or_def Let_def split: option.split)
  then obtain p s1 where
    "provision_one demo_app demo_seed_lib (\<lambda>_. Some ''t'') args plan tok dmn h sent = (Inr p, s1)" by blast
  then show ?case using Cons.IH by (simp add: and_then_def)
qed (simp add: done_with_def)

lemma demo_fresh: "seed_dnssec_fresh demo_app demo_seed_lib d dmn now sent =
    (Inr (), sent @ [HttpGet (seed_dnssec_url d dmn now)])"
  by (simp add: seed_dnssec_fresh_def dnssec_check_def and_then_def tool_send_def lift_def demo_sends
      error_status_def map_err_def demo_seed_lib_def done_with_def)

definition demo_setup :: "seed_plan \<Rightarrow> string \<Rightarrow> int \<Rightarrow> (string + string option \<times> (string \<times> string provisioned) list) \<times> http_call list" where
  "demo_setup plan dmn now =
     seed_setup demo_app demo_seed_lib (\<lambda>_. Some ''t'') demo_sys_file demo_seed_args plan dmn now []"

definition demo_provisioned :: "seed_plan \<Rightarrow> string \<Rightarrow> int \<Rightarrow> (string \<times> string provisioned) list" where
  "demo_provisioned plan dmn now = snd (projr (fst (demo_setup plan dmn now)))"

definition demo_prepared :: "seed_plan \<Rightarrow> string \<Rightarrow> int \<Rightarrow> http_call list" where
  "demo_prepared plan dmn now = snd (demo_setup plan dmn now)"

lemma demo_setup_eq:
  "demo_setup plan dmn now =
     (Inr (Some (replicate 32 CHR ''a''), demo_provisioned plan dmn now), demo_prepared plan dmn now)"
proof -
  have k: "load_signing_key_file demo_app demo_sys_file ''k'' = Inr (replicate 32 CHR ''a'')" by code_simp
  let ?l0 = "[HttpGet (seed_dnssec_url (sg_daemon demo_seed_args) dmn (i64_quot now 1000))]"
  let ?l1 = "if pl_externals plan = [] then ?l0 else ?l0 @ [HttpGet (seed_dnssec_url (sg_daemon demo_seed_args)
      (domain_of (sg_broker demo_seed_args)) (i64_quot now 1000))]"
  obtain ps s1 where p: "provision_all demo_app demo_seed_lib (\<lambda>_. Some ''t'') demo_seed_args plan ''t'' dmn []
      (pl_personas plan) ?l1 = (Inr ps, s1)"
    using demo_provision_all by blast
  have b: "client_built demo_app sent = (Inr (), sent)" for sent
    by (simp add: client_built_def lift_def map_err_def demo_app_def)
  have s: "sg_sys_key demo_seed_args = Some ''k''" by (simp add: demo_seed_args_def)
  have "demo_setup plan dmn now = (Inr (Some (replicate 32 CHR ''a''), ps), s1)"
    using p k by (simp add: demo_setup_def seed_setup_def and_then_def lift_def ok_or_def res_bind_def demo_fresh
        b s done_with_def split: if_splits)
  then show ?thesis by (simp add: demo_provisioned_def demo_prepared_def)
qed

lemma seed_run_restores_witness:
  "\<exists>pre mid. snd (seed_run demo_app demo_seed_lib demo_text (\<lambda>_. Some ''t'') demo_sys_file demo_seed_args
       1800000000000 []) =
     pre @ lag_calls demo_app ''http://d'' (Some (replicate 32 CHR ''a'')) WIDENED_LAG_S [''cooks''] @ mid @
       lag_calls demo_app ''http://d'' (Some (replicate 32 CHR ''a'')) GENESIS_LAG_S [''cooks'']"
proof -
  obtain r sent' where run: "seed_run demo_app demo_seed_lib demo_text (\<lambda>_. Some ''t'') demo_sys_file
      demo_seed_args 1800000000000 [] = (r, sent')" by fastforce
  have c: "seed_corpus demo_seed_lib demo_text demo_sys_file demo_seed_args = Inr demo_corpus"
    using demo_corpus_ok
    by (simp add: seed_corpus_def corpus_parse_def res_bind_Inr validate_Inr demo_seed_args_def demo_seed_lib_def)
  have acc: "accepted (send demo_app s call)" for s call
    by (simp add: demo_sends accepted_def is_success_def)
  have d: "sg_execute demo_seed_args" "sg_daemon demo_seed_args = ''http://d''"
    by (simp_all add: demo_seed_args_def)
  have comms: "map co_id (communities demo_corpus) = [''cooks'']" by (simp add: demo_corpus_def)
  from seed_run_restores [OF run, unfolded c sum.case d comms, folded demo_setup_def] acc
  obtain plan mid where "sent' = demo_prepared plan (domain_of (sg_idp demo_seed_args)) 1800000000000 @
      lag_calls demo_app ''http://d'' (Some (replicate 32 CHR ''a'')) WIDENED_LAG_S [''cooks''] @ mid @
      lag_calls demo_app ''http://d'' (Some (replicate 32 CHR ''a'')) GENESIS_LAG_S [''cooks'']"
    by (auto simp: demo_setup_eq d(1))
  then show ?thesis unfolding run by auto
qed

end
