(* ===== verification/App_Login_Props.thy ===== *)
theory App_Login_Props
  imports App_Login App_Seed_Run_Props
begin

text \<open>
  What the command line's identity guarantees: a login stores nothing without a grant and is read
  back as it was stored, and a post is attributed to the grantor of the stored grant.
\<close>

section \<open>The stored login\<close>

definition login_path :: "env \<Rightarrow> string" where
  "login_path env = projr (device_credential_path env)"

lemma write_private_cases:
  assumes "write_private lib path txt d = (r, d')"
  obtains (written) "r = Inr ()" "os_error lib path = None" "d' = d(path \<mapsto> private_file d path txt)"
  | (cut) n where "r \<noteq> Inr ()" "disk_full lib path txt = Some n" "d' = d(path \<mapsto> private_file d path (take n txt))"
  | (refused) "r \<noteq> Inr ()" "d' = d"
  using assms by (auto simp: write_private_def split: option.splits)

lemma save_login_cases:
  assumes "save_login lib env s d = (r, d')"
  obtains (written) "r = Inr ()" "device_credential_path env = Inr (login_path env)"
      "os_error lib (login_path env) = None"
      "d' = d(login_path env \<mapsto> private_file d (login_path env) (login_encode lib s))"
  | (cut) n where "r \<noteq> Inr ()" "device_credential_path env = Inr (login_path env)"
      "disk_full lib (login_path env) (login_encode lib s) = Some n"
      "d' = d(login_path env \<mapsto> private_file d (login_path env) (take n (login_encode lib s)))"
  | (refused) "r \<noteq> Inr ()" "d' = d"
proof (cases "device_credential_path env")
  case (Inl e)
  then show ?thesis using assms refused by (auto simp: save_login_def and_then_def lift_def)
next
  case (Inr path)
  then have p: "device_credential_path env = Inr (login_path env)" by (simp add: login_path_def)
  then have "write_private lib (login_path env) (login_encode lib s) d = (r, d')"
    using assms by (simp add: save_login_def and_then_lift)
  then show ?thesis by (cases rule: write_private_cases) (auto intro: written [OF _ p] cut [OF _ p] refused)
qed

lemma load_saved:
  assumes "save_login lib env s d = (Inr (), d')" and "login_decode lib (login_encode lib s) = Inr s"
  shows "load_login lib env d' = (Inr s, d')"
  using assms(1)
proof (cases rule: save_login_cases)
  case written
  then show ?thesis using assms(2)
    by (simp add: load_login_def and_then_lift map_err_def private_file_def)
qed simp_all

lemma load_login_disk: "snd (load_login lib env d) = d"
  by (auto simp: load_login_def and_then_def lift_def split: sum.splits option.splits)

lemma store_login_cases:
  assumes "store_login lib env c gs d = (r, d')"
  obtains s where "sl_credential s = Some c" "sl_grants s = gs"
    "and_then (save_login lib env s) (\<lambda>_. lift (login_report_check lib s)) d = (r, d')"
proof -
  define s where "s = (case fst (load_login lib env d) of Inr s \<Rightarrow> s | Inl _ \<Rightarrow> no_login)
    \<lparr>sl_credential := Some c, sl_grants := gs\<rparr>"
  have "and_then (save_login lib env s) (\<lambda>_. lift (login_report_check lib s)) d = (r, d')"
    using assms load_login_disk [of lib env d]
    by (cases "load_login lib env d") (simp add: store_login_def attempt_def Let_def s_def)
  then show ?thesis by (rule that [rotated 2]) (simp_all add: s_def)
qed

lemma login_run_cases:
  assumes "login_run lib env read args st = (r, st')"
  obtains (stopped) "r \<noteq> Inr ()" "cl_disk st' = cl_disk st"
  | (approved) preset al c gs where "scope_parse (la_scope args) = Inr preset"
      "approved_login_for lib (la_broker args) (login_ask args preset (host_name env read)) (cl_sent st) =
         (Inr al, cl_sent st')"
      "login_result args al = Inr (c, gs)" "store_login lib env c gs (cl_disk st) = (r, cl_disk st')"
proof (cases "scope_parse (la_scope args)")
  case (Inl e)
  then show ?thesis using assms stopped by (auto simp: login_run_def and_then_lift)
next
  case (Inr preset)
  obtain x sent where ask: "approved_login_for lib (la_broker args) (login_ask args preset (host_name env read))
      (cl_sent st) = (x, sent)" by fastforce
  consider "\<exists>e. x = Inl e" | al e where "x = Inr al" "login_result args al = Inl e"
    | al c gs where "x = Inr al" "login_result args al = Inr (c, gs)"
    by (cases x) (auto, metis old.sum.exhaust prod.collapse)
  then show ?thesis
  proof cases
    case 3
    then have "store_login lib env c gs (cl_disk st) = (r, cl_disk st')" "sent = cl_sent st'"
      using assms Inr ask by (auto simp: login_run_def and_then_lift and_then_def [of "on_wire _"] on_wire_def
          on_disk_run_def split: prod.splits)
    then show ?thesis using approved [OF Inr] ask 3 by blast
  qed (use assms Inr ask stopped in \<open>auto simp: login_run_def and_then_lift and_then_def [of "on_wire _"] on_wire_def\<close>)
qed

lemma login_report_check_Inr:
  "login_report_check lib s = Inr () \<longleftrightarrow>
   (\<exists>ag. login_agent lib s = Inr ag) \<and> (\<forall>g\<in>set (sl_grants s). \<exists>a. grantor lib g = Inr a)"
proof -
  have "res_fold (\<lambda>_ g. res_bind (grantor lib g) (\<lambda>_. Inr ())) () gs = Inr () \<longleftrightarrow>
      (\<forall>g\<in>set gs. \<exists>a. grantor lib g = Inr a)" for gs
    by (induction gs) (auto simp: res_bind_Inr)
  then show ?thesis by (auto simp: login_report_check_def res_bind_Inr)
qed

lemma login_result_Inr:
  "login_result args al = Inr (c, gs) \<Longrightarrow>
   c = (case la_idp args of Some i \<Rightarrow> (al_credential al)\<lparr>cr_idp := i\<rparr> | None \<Rightarrow> al_credential al) \<and>
   gs = delivered_grants (al_grants al) \<and> gs \<noteq> []"
  by (auto simp: login_result_def Let_def split: if_splits)

lemma scope_delete:
  "scope_parse s = Inr preset \<Longrightarrow> ''action:delete'' \<in> set (scopes_for preset) \<longleftrightarrow> s = ''admin''"
  by (auto simp: scope_parse_def scopes_for_def split: if_splits)

lemma grantor_for_known:
  "login_report_check lib s = Inr () \<Longrightarrow> g \<in> set (sl_grants s) \<Longrightarrow>
   \<exists>a g'. grantor_for lib s (gr_audience g) = Inr a \<and> g' \<in> set (sl_grants s) \<and>
     gr_audience g' = gr_audience g \<and> grantor lib g' = Inr a"
proof -
  assume ok: "login_report_check lib s = Inr ()" and g: "g \<in> set (sl_grants s)"
  obtain g' where g': "find (\<lambda>h. gr_audience h = gr_audience g) (sl_grants s) = Some g'"
    using g find_None_iff2 [of "\<lambda>h. gr_audience h = gr_audience g" "sl_grants s"]
    by (cases "find (\<lambda>h. gr_audience h = gr_audience g) (sl_grants s)") auto
  then have in': "g' \<in> set (sl_grants s)" "gr_audience g' = gr_audience g"
    using find_Some_set [OF g'] by blast+
  then obtain a where "grantor lib g' = Inr a" using ok unfolding login_report_check_Inr by blast
  then show ?thesis using g' in' by (auto simp: grantor_for_def res_bind_def ok_or_def)
qed

text \<open>C30: A login that fails before its approval, or whose approval brings no usable grant, leaves the
  disk as it was.  Otherwise it touches one file, the stored login: the approved credential (with the
  identity provider the user named) and at least one grant.  The file is made with mode 600 when it is
  new; one that is there already keeps its mode, whatever it is.  When the write is cut short, the file
  holds the beginning of the new login and the old one is lost; else it loads back as it was stored.
  When the login succeeds, its agent can be built and every granted audience has a grantor to post as.
  Deleting is asked for under the preset \<open>admin\<close> only, and what goes to the network is what the
  provisioning client sends.\<close>
theorem login_stores_grants:
  assumes "login_run lib env read args st = (r, st')"
  shows "(r \<noteq> Inr () \<and> cl_disk st' = cl_disk st) \<or>
    (\<exists>path preset al c s txt m.
       device_credential_path env = Inr path \<and> scope_parse (la_scope args) = Inr preset \<and>
       (''action:delete'' \<in> set (scopes_for preset) \<longleftrightarrow> la_scope args = ''admin'') \<and>
       approved_login_for lib (la_broker args) (login_ask args preset (host_name env read)) (cl_sent st) =
         (Inr al, cl_sent st') \<and>
       c = (case la_idp args of Some i \<Rightarrow> (al_credential al)\<lparr>cr_idp := i\<rparr> | None \<Rightarrow> al_credential al) \<and>
       sl_credential s = Some c \<and> sl_grants s = delivered_grants (al_grants al) \<and> sl_grants s \<noteq> [] \<and>
       cl_disk st' = (cl_disk st)(path \<mapsto> \<lparr>df_text = txt, df_mode = m\<rparr>) \<and>
       m = (case cl_disk st path of Some f \<Rightarrow> df_mode f | None \<Rightarrow> 384) \<and>
       (r \<noteq> Inr () \<and> (\<exists>n. disk_full lib path (login_encode lib s) = Some n \<and> txt = take n (login_encode lib s)) \<or>
        txt = login_encode lib s \<and>
        (login_decode lib (login_encode lib s) = Inr s \<longrightarrow>
           load_login lib env (cl_disk st') = (Inr s, cl_disk st')) \<and>
        (r = Inr () \<longrightarrow> (\<exists>ag. login_agent lib s = Inr ag) \<and>
           (\<forall>g\<in>set (sl_grants s). \<exists>a. grantor_for lib s (gr_audience g) = Inr a))))"
  using assms
proof (cases rule: login_run_cases)
  case (approved preset al c gs)
  note res = login_result_Inr [OF approved(3)]
  from approved(4) obtain s where s: "sl_credential s = Some c" "sl_grants s = gs"
    "and_then (save_login lib env s) (\<lambda>_. lift (login_report_check lib s)) (cl_disk st) = (r, cl_disk st')"
    by (rule store_login_cases)
  obtain q d where q: "save_login lib env s (cl_disk st) = (q, d)" by fastforce
  then have after: "d = cl_disk st'" "if q = Inr () then r = login_report_check lib s else r \<noteq> Inr ()"
    using s(3) by (cases q; auto simp: and_then_def lift_def)+
  from q show ?thesis
  proof (cases rule: save_login_cases)
    case written
    have "login_decode lib (login_encode lib s) = Inr s \<longrightarrow> load_login lib env d = (Inr s, d)"
      using load_saved [OF q [unfolded written(1)]] by blast
    moreover have "r = Inr () \<longrightarrow> (\<exists>ag. login_agent lib s = Inr ag) \<and>
        (\<forall>g\<in>set (sl_grants s). \<exists>a. grantor_for lib s (gr_audience g) = Inr a)"
      using after(2) written(1) login_report_check_Inr grantor_for_known by metis
    ultimately show ?thesis
      using approved(1,2) res s(1,2) after(1) written scope_delete [OF approved(1)]
      by (intro disjI2 exI [of _ "login_path env"] exI [of _ preset] exI [of _ al] exI [of _ c] exI [of _ s]
          exI [of _ "login_encode lib s"]) (auto simp: private_file_def)
  next
    case (cut n)
    then show ?thesis
      using approved(1,2) res s(1,2) after scope_delete [OF approved(1)]
      by (intro disjI2 exI [of _ "login_path env"] exI [of _ preset] exI [of _ al] exI [of _ c] exI [of _ s]
          exI [of _ "take n (login_encode lib s)"]) (auto simp: private_file_def)
  next
    case refused
    then show ?thesis using after by simp
  qed
qed simp

text \<open>A login with one approved grant, on an empty disk.\<close>

definition demo_credential :: device_credential where
  "demo_credential = \<lparr>cr_device_key = ''k'', cr_device_cert = ''c'', cr_idp = ''https://m.p'',
     cr_access_mint = None, cr_identity = Some ''kim@m.p''\<rparr>"

definition demo_login :: stored_login where
  "demo_login = \<lparr>sl_credential = Some demo_credential,
     sl_grants = [\<lparr>gr_audience = ''sbo'', gr_warrant = ''w'', gr_config_cert = ''g''\<rparr>]\<rparr>"

definition demo_mint :: http_call where
  "demo_mint = PostJson ''https://m.p/access/mint'' JNull"

definition demo_login_lib :: "string login_lib" where
  "demo_login_lib = \<lparr>da_new = (\<lambda>c. Inr []), da_add_grant = (\<lambda>ag w c. Inr ''sbo''), da_email = (\<lambda>ag. ''kim@m.p''),
     da_audiences = (\<lambda>ag. [ag]), da_assertion_seed = (\<lambda>ag a sent. (Inr (''a.p~b~w~a.p'', replicate 32 CHR ''s''), [demo_mint])),
     da_assertion = (\<lambda>ag a sent. (Inr ''p'', [demo_mint])), warrant_parties = (\<lambda>w. Inr (''kim@m.p'', ''kim@m.p'')),
     cert_parse = (\<lambda>c. Inl []), load_credential = (\<lambda>p. Inr demo_credential),
     request_provision = (\<lambda>ask sent. (Inr ''pending'', [PostJson (pk_broker ask @ ''/agent-provision/request'') JNull])),
     await_approval = (\<lambda>p sent. (Inr \<lparr>al_credential = demo_credential, al_grants = [(''sbo'', ''w~g'')],
       al_grants_denied = None\<rparr>, [PostJson ''https://b.c/agent-provision/poll'' JNull])),
     login_decode = (\<lambda>t. Inr demo_login), login_encode = (\<lambda>s. ''login''), payload_b64 = Inr,
     dir_error = (\<lambda>p. None), os_error = (\<lambda>p. None), disk_full = (\<lambda>p t. None), clock_ms = (\<lambda>sent. 5000), clock_s = (\<lambda>sent. 5)\<rparr>"

definition demo_login_args :: login_args where
  "demo_login_args = \<lparr>la_broker = ''https://b.c'', la_idp = None, la_audience = ''sbo'', la_scope = ''post'',
     la_handle = None\<rparr>"

definition no_files :: cli_state where
  "no_files = \<lparr>cl_disk = Map.empty, cl_sent = []\<rparr>"

lemma login_stores_grants_witness:
  "\<exists>m st'. login_run demo_login_lib (\<lambda>_. Some ''/h'') Inl demo_login_args no_files = (Inr (), st') \<and>
     cl_disk st' = [''/h/device-credential.json'' \<mapsto> \<lparr>df_text = ''login'', df_mode = m\<rparr>] \<and> m = 384 \<and>
     length (cl_sent st') = 2"
proof -
  let ?run = "login_run demo_login_lib (\<lambda>_. Some ''/h'') Inl demo_login_args no_files"
  have "fst ?run = Inr ()" by code_simp
  then have r: "?run = (Inr (), snd ?run)" by (metis prod.collapse)
  have l: "length (cl_sent (snd ?run)) = 2" by code_simp
  have p: "device_credential_path (\<lambda>_. Some ''/h'') = Inr ''/h/device-credential.json''" by code_simp
  have "\<exists>m. cl_disk (snd ?run) = [''/h/device-credential.json'' \<mapsto> \<lparr>df_text = ''login'', df_mode = m\<rparr>] \<and> m = 384"
    using login_stores_grants [OF r] p by (auto simp: demo_login_lib_def no_files_def)
  then show ?thesis using r l by blast
qed

end
