(* ===== verification/App_Post_Props.thy ===== *)
theory App_Post_Props
  imports App_Login_Props
begin

text \<open>
  What \<open>mingo post\<close> guarantees: a dry run only mints an access certificate, and a post that is reported goes out once,
  after the proofs it needs, owned by the grantor of the stored grant.
\<close>

section \<open>What a successful post has sent\<close>

text \<open>One freshness check for each issuer, each followed by the posts of at most one proof.\<close>

inductive fresh_checks :: "string \<Rightarrow> string list \<Rightarrow> http_call list \<Rightarrow> bool" for daemon where
  no_checks: "fresh_checks daemon [] []"
| one_check: "fresh_checks daemon ds cs \<Longrightarrow> k \<le> 7 \<Longrightarrow>
    fresh_checks daemon (d # ds) (HttpGet (seed_dnssec_url daemon d now) #
      replicate k (PostWire (seed_submit_url daemon) w) @ cs)"

inductive_simps fresh_checks_Nil [simp]: "fresh_checks daemon [] cs"
inductive_simps fresh_checks_Cons: "fresh_checks daemon (d # ds) cs"

lemma refresh_proof_log:
  assumes "refresh_proof api lib daemon dmn p sent = (Inr (), sent')"
  obtains k w where "k \<le> 7" "sent' = sent @ replicate k (PostWire (seed_submit_url daemon) w)"
proof -
  from assms obtain w label where "seed_submit api daemon w label sent = (Inr (), sent')"
    by (auto simp: refresh_proof_def and_then_Inr)
  then obtain n where "n \<le> 6" "sent' = sent @ replicate (Suc n) (PostWire (seed_submit_url daemon) w)"
    using seed_submit_sends [of api daemon w label sent] by auto
  then show ?thesis using that [of "Suc n" w] by simp
qed

lemma seed_fresh_log:
  assumes "seed_dnssec_fresh api lib daemon dmn now sent = (Inr (), sent')"
  obtains k w where "k \<le> 7"
    "sent' = sent @ HttpGet (seed_dnssec_url daemon dmn now) # replicate k (PostWire (seed_submit_url daemon) w)"
proof -
  from assms obtain resp s1 where c: "dnssec_check api lib (seed_dnssec_url daemon dmn now) sent = (Inr resp, s1)"
    and n: "(case (if sd_needs_refresh resp then sd_proof resp else None) of None \<Rightarrow> done_with ()
      | Some p \<Rightarrow> refresh_proof api lib daemon dmn p) s1 = (Inr (), sent')"
    by (auto simp: seed_dnssec_fresh_def and_then_Inr)
  have s1: "s1 = sent @ [HttpGet (seed_dnssec_url daemon dmn now)]"
    using c by (auto simp: dnssec_check_def and_then_Inr tool_send_def)
  show ?thesis
  proof (cases "if sd_needs_refresh resp then sd_proof resp else None")
    case None
    then show ?thesis using n s1 that [of 0] by simp
  next
    case (Some p)
    then have "refresh_proof api lib daemon dmn p s1 = (Inr (), sent')" using n by simp
    then show ?thesis
    proof (rule refresh_proof_log)
      fix k w
      assume "k \<le> 7" "sent' = s1 @ replicate k (PostWire (seed_submit_url daemon) w)"
      then show thesis using s1 that [of k w] by simp
    qed
  qed
qed

lemma refresh_issuers_log:
  "refresh_issuers api slib lib daemon ds sent = (Inr (), sent') \<Longrightarrow>
   \<exists>cs. fresh_checks daemon ds cs \<and> sent' = sent @ cs"
proof (induction ds arbitrary: sent)
  case (Cons d ds)
  from Cons.prems obtain s1 where f: "seed_dnssec_fresh api slib daemon d (clock_s lib sent) sent = (Inr (), s1)"
    and r: "refresh_issuers api slib lib daemon ds s1 = (Inr (), sent')"
    by (auto simp: and_then_Inr)
  from Cons.IH [OF r] obtain cs where cs: "fresh_checks daemon ds cs" "sent' = s1 @ cs" by blast
  from f show ?case
  proof (rule seed_fresh_log)
    fix k w
    assume k: "k \<le> 7" and s1: "s1 = sent @ HttpGet (seed_dnssec_url daemon d (clock_s lib sent)) #
      replicate k (PostWire (seed_submit_url daemon) w)"
    show ?thesis using one_check [OF cs(1) k, of d "clock_s lib sent" w] cs(2) s1 by auto
  qed
qed simp

definition shown_view ::
  "('sk, 'pk, 'sig) app_api \<Rightarrow> (string \<Rightarrow> (string, object_view) res) \<Rightarrow> http_call list \<Rightarrow> string \<Rightarrow> object_view option" where
  "shown_view api decode sent url =
     (case send api sent (HttpGet url) of
        Replied status body \<Rightarrow> if is_success status then (case decode body of Inr v \<Rightarrow> Some v | Inl _ \<Rightarrow> None) else None
      | _ \<Rightarrow> None)"

definition attributed :: "object_view \<Rightarrow> string" where
  "attributed v = (case ov_owner_ref v of Some o' \<Rightarrow> o' | None \<Rightarrow> ov_creator v)"

lemma not_found_failure: "is_success status \<Longrightarrow> status \<noteq> 404"
  by (auto simp: is_success_def)

lemma read_object_shown:
  "snd (read_object api decode daemon path i sent) = sent @ [HttpGet (read_url api daemon path i)] \<and>
   (\<forall>v. fst (read_object api decode daemon path i sent) = Inr (Some v) \<longleftrightarrow>
      shown_view api decode sent (read_url api daemon path i) = Some v)"
  by (auto simp: read_object_def shown_view_def and_then_def tool_send_def lift_def map_err_def res_bind_def
      not_found_failure split: http_reply.splits sum.splits)

text \<open>The reads end with the first that shows the object.\<close>

lemma read_back_log:
  "\<exists>k\<le>n. (let url = read_url api daemon path i in
     (\<forall>j. Suc j < k \<longrightarrow> shown_view api decode (sent @ replicate j (HttpGet url)) url = None) \<and>
     (case (if k = 0 then None else shown_view api decode (sent @ replicate (k - 1) (HttpGet url)) url) of
        Some v \<Rightarrow> read_back api decode daemon path i n sent =
          (Inr (AttributedTo (attributed v)), sent @ replicate k (HttpGet url))
      | None \<Rightarrow> k = n \<and> read_back api decode daemon path i n sent = (Inr NotConfirmed, sent @ replicate k (HttpGet url))))"
proof (induction n arbitrary: sent)
  case (Suc n)
  define url where "url = read_url api daemon path i"
  note ro = read_object_shown [of api decode daemon path i sent, folded url_def]
  obtain r where r: "read_object api decode daemon path i sent = (r, sent @ [HttpGet url])"
    using ro by (metis prod.collapse)
  show ?case
  proof (cases "shown_view api decode sent url")
    case (Some v)
    then have "r = Inr (Some v)" using ro r by simp
    then show ?thesis using r Some
      by (intro exI [of _ 1]) (simp add: url_def [symmetric] attempt_def done_with_def attributed_def Let_def)
  next
    case None
    then have "\<forall>v. r \<noteq> Inr (Some v)" using ro r by simp
    then have step: "read_back api decode daemon path i (Suc n) sent =
        read_back api decode daemon path i n (sent @ [HttpGet url])"
      using r by (auto simp: attempt_def split: sum.split option.split)
    from Suc.IH [of "sent @ [HttpGet url]", folded url_def]
    obtain k where k: "k \<le> n" "\<forall>j. Suc j < k \<longrightarrow> shown_view api decode ((sent @ [HttpGet url]) @ replicate j (HttpGet url)) url = None"
      "case (if k = 0 then None else shown_view api decode ((sent @ [HttpGet url]) @ replicate (k - 1) (HttpGet url)) url) of
        Some v \<Rightarrow> read_back api decode daemon path i n (sent @ [HttpGet url]) =
          (Inr (AttributedTo (attributed v)), (sent @ [HttpGet url]) @ replicate k (HttpGet url))
      | None \<Rightarrow> k = n \<and> read_back api decode daemon path i n (sent @ [HttpGet url]) =
          (Inr NotConfirmed, (sent @ [HttpGet url]) @ replicate k (HttpGet url))"
      by (auto simp: Let_def)
    have app: "(sent @ [HttpGet url]) @ replicate j (HttpGet url) = sent @ replicate (Suc j) (HttpGet url)" for j
      by simp
    have early: "shown_view api decode (sent @ replicate j (HttpGet url)) url = None" if "Suc j < Suc k" for j
      using that None k(2) unfolding app by (cases j) auto
    show ?thesis using k(1,3) early None step unfolding app
      by (intro exI [of _ "Suc k"]) (cases k; auto simp: url_def [symmetric] Let_def split: option.splits)
  qed
qed (simp add: done_with_def)

lemma device_message_fields:
  "device_message api seed pres spec = Inr msg \<Longrightarrow>
   well_signed api (key_of_bytes api seed) msg \<and> m_auth_cert msg = Some pres \<and>
   m_auth_warrant msg = None \<and> m_payload msg = Some (ws_payload spec) \<and> m_hlc msg = ws_hlc spec \<and>
   (\<exists>owner. id_new api (ws_owner spec) = Inr owner \<and> m_owner msg = Some owner) \<and>
   path_parse api (ws_path spec) = Inr (m_path msg)"
  by (auto simp: device_message_def res_bind_Inr sign_with_def Let_def well_signed_def)

lemma sign_as_logged_in_Inr:
  assumes "sign_as_logged_in api lib s audience spec sent = (Inr (wire, issuers), sent')"
  obtains ag pres seed made msg where "login_agent lib s = Inr ag" "audience \<in> set (da_audiences lib ag)"
    "da_assertion_seed lib ag audience sent = (Inr (pres, seed), made)" "sent' = sent @ made" "device_message api seed pres spec = Inr msg"
    "wire = wire_serialize api msg" "device_issuers api lib pres = Inr issuers"
  using assms
  by (auto simp: sign_as_logged_in_def and_then_Inr library_def map_err_Inr res_bind_Inr assemble_device_wire_def
      list_all_iff split: if_splits prod.splits)

lemma post_execute_log:
  assumes "post_execute api slib lib decode args spec wire issuers sent = (Inr out, sent')"
  obtains cs where "fresh_checks (po_daemon args) issuers cs"
    "accepted (send api (sent @ cs) (PostWire (seed_submit_url (po_daemon args)) wire))"
    "read_back api decode (po_daemon args) (ws_path spec) (ws_id spec) READ_BACKS
       (sent @ cs @ [PostWire (seed_submit_url (po_daemon args)) wire]) = (Inr out, sent')"
proof -
  from assms obtain s1 s2 where r: "refresh_issuers api slib lib (po_daemon args) issuers sent = (Inr (), s1)"
    and p: "post_submit api (po_daemon args) wire s1 = (Inr (), s2)"
    and b: "read_back api decode (po_daemon args) (ws_path spec) (ws_id spec) READ_BACKS s2 = (Inr out, sent')"
    by (auto simp: post_execute_def and_then_Inr)
  obtain cs where cs: "fresh_checks (po_daemon args) issuers cs" "s1 = sent @ cs"
    using refresh_issuers_log [OF r] by blast
  have "accepted (send api s1 (PostWire (seed_submit_url (po_daemon args)) wire)) \<and>
      s2 = s1 @ [PostWire (seed_submit_url (po_daemon args)) wire]"
    using p by (auto simp: post_submit_def and_then_Inr tool_send_def accepted_def split: http_reply.splits if_splits)
  then show ?thesis using that [OF cs(1)] b cs(2) by simp
qed

text \<open>After \<open>before\<close> come at most twenty reads, up to the first that shows the object.\<close>

definition reads_end ::
  "('sk, 'pk, 'sig) app_api \<Rightarrow> (string \<Rightarrow> (string, object_view) res) \<Rightarrow> string \<Rightarrow> http_call list \<Rightarrow>
   http_call list \<Rightarrow> post_outcome \<Rightarrow> bool" where
  "reads_end api decode url before sent' out \<longleftrightarrow>
     (\<exists>k\<le>20. sent' = before @ replicate k (HttpGet url) \<and>
        (\<forall>j. Suc j < k \<longrightarrow> shown_view api decode (before @ replicate j (HttpGet url)) url = None) \<and>
        (out = NotConfirmed \<and> k = 20 \<or>
         (\<exists>v. 0 < k \<and> shown_view api decode (before @ replicate (k - 1) (HttpGet url)) url = Some v \<and>
            out = AttributedTo (attributed v))))"

lemma read_back_ends:
  assumes "read_back api decode daemon path i READ_BACKS before = (Inr out, sent')"
  shows "reads_end api decode (read_url api daemon path i) before sent' out"
proof -
  define url where "url = read_url api daemon path i"
  obtain k where k: "k \<le> 20" "\<forall>j. Suc j < k \<longrightarrow> shown_view api decode (before @ replicate j (HttpGet url)) url = None"
    "case (if k = 0 then None else shown_view api decode (before @ replicate (k - 1) (HttpGet url)) url) of
        Some v \<Rightarrow> out = AttributedTo (attributed v) \<and> sent' = before @ replicate k (HttpGet url)
      | None \<Rightarrow> k = 20 \<and> out = NotConfirmed \<and> sent' = before @ replicate k (HttpGet url)"
    using read_back_log [of 20 api daemon path i decode before,
        folded url_def, unfolded Let_def assms [unfolded READ_BACKS_def] prod.inject sum.inject]
    by (elim exE conjE) (rule that)
  from k(3) have "sent' = before @ replicate k (HttpGet url)" and
    "out = NotConfirmed \<and> k = 20 \<or>
     (\<exists>v. 0 < k \<and> shown_view api decode (before @ replicate (k - 1) (HttpGet url)) url = Some v \<and>
        out = AttributedTo (attributed v))"
    by (auto split: option.splits if_splits)
  with k(1,2) show ?thesis unfolding reads_end_def url_def by blast
qed

text \<open>What was signed for a post by the stored login \<open>s\<close>, with the presentation \<open>pres\<close> that was
  minted after the calls \<open>sent\<close>, with the calls \<open>made\<close>.\<close>

definition signed_post ::
  "('sk, 'pk, 'sig) app_api \<Rightarrow> 'ag login_lib \<Rightarrow> stored_login \<Rightarrow> string \<Rightarrow> write_spec \<Rightarrow> http_call list \<Rightarrow>
   http_call list \<Rightarrow> string \<Rightarrow> ('pk, 'sig) message \<Rightarrow> bool" where
  "signed_post api lib s audience spec sent made pres msg \<longleftrightarrow>
     (\<exists>ag seed owner. login_agent lib s = Inr ag \<and>
        da_assertion_seed lib ag audience sent = (Inr (pres, seed), made) \<and>
        device_message api seed pres spec = Inr msg \<and> well_signed api (key_of_bytes api seed) msg \<and>
        m_auth_cert msg = Some pres \<and> id_new api (ws_owner spec) = Inr owner \<and> m_owner msg = Some owner \<and>
        path_parse api (ws_path spec) = Inr (m_path msg))"

lemma sign_as_logged_in_signed:
  assumes "sign_as_logged_in api lib s audience spec sent = (Inr (wire, issuers), sent')"
  obtains made pres msg where "signed_post api lib s audience spec sent made pres msg" "sent' = sent @ made"
    "wire = wire_serialize api msg" "device_issuers api lib pres = Inr issuers"
proof -
  from assms obtain ag pres seed made msg where m: "login_agent lib s = Inr ag" "audience \<in> set (da_audiences lib ag)"
    "da_assertion_seed lib ag audience sent = (Inr (pres, seed), made)" "sent' = sent @ made"
    "device_message api seed pres spec = Inr msg"
    "wire = wire_serialize api msg" "device_issuers api lib pres = Inr issuers"
    by (rule sign_as_logged_in_Inr)
  have "signed_post api lib s audience spec sent made pres msg"
    using m(1,3,5) device_message_fields [OF m(5)] unfolding signed_post_def by blast
  then show ?thesis using that m(4,6,7) by blast
qed

text \<open>The calls that signing with a stored login can make.\<close>

definition minting :: "'ag login_lib \<Rightarrow> stored_login \<Rightarrow> string \<Rightarrow> http_call list \<Rightarrow> http_call list set" where
  "minting lib s audience sent =
     {made. made = [] \<or> (\<exists>ag. login_agent lib s = Inr ag \<and> made = snd (da_assertion_seed lib ag audience sent))}"

lemma sign_as_logged_in_mints:
  "\<exists>made\<in>minting lib s audience sent. snd (sign_as_logged_in api lib s audience spec sent) = sent @ made"
proof (cases "login_agent lib s")
  case (Inr ag)
  show ?thesis
  proof (cases "audience \<in> set (da_audiences lib ag)")
    case True
    have "snd (sign_as_logged_in api lib s audience spec sent) = sent @ snd (da_assertion_seed lib ag audience sent)"
      using True Inr by (auto simp: sign_as_logged_in_def and_then_lift list_all_iff and_then_def [of "library _ _"]
          library_def lift_def done_with_def and_then_def split: prod.split sum.split)
    then show ?thesis using Inr by (auto simp: minting_def)
  next
    case False
    then have "list_all (\<lambda>a. a \<noteq> audience) (da_audiences lib ag)" by (auto simp: list_all_iff)
    then show ?thesis using Inr
      by (intro bexI [of _ "[]"]) (simp_all add: sign_as_logged_in_def and_then_lift fail_with_def minting_def)
  qed
qed (auto simp: sign_as_logged_in_def and_then_lift minting_def)

lemma post_run_Inr:
  assumes "post_run api slib lib decode env d args sent = (Inr out, sent')" "po_execute args"
  obtains s user wire issuers sent1 where "fst (load_login lib env d) = Inr s"
    "grantor_for lib s (po_audience args) = Inr user"
    "sign_as_logged_in api lib s (po_audience args) (post_spec api args user (clock_ms lib sent)) sent =
      (Inr (wire, issuers), sent1)"
    "post_execute api slib lib decode args (post_spec api args user (clock_ms lib sent)) wire issuers sent1 =
      (Inr out, sent')"
  using assms by (auto simp: post_run_def and_then_Inr Let_def)

lemma post_dry_mints:
  assumes "\<not> po_execute args"
  obtains "snd (post_run api slib lib decode env d args sent) = sent"
  | s made where "fst (load_login lib env d) = Inr s" "made \<in> minting lib s (po_audience args) sent"
      "snd (post_run api slib lib decode env d args sent) = sent @ made"
proof (cases "fst (load_login lib env d)")
  case (Inl e)
  then show ?thesis using that(1) by (simp add: post_run_def and_then_lift)
next
  case (Inr s)
  show ?thesis
  proof (cases "login_agent lib s")
    case (Inl e)
    then show ?thesis using that(1) Inr by (simp add: post_run_def and_then_lift)
  next
    case ag: (Inr ag)
    show ?thesis
    proof (cases "grantor_for lib s (po_audience args)")
      case (Inl e)
      then show ?thesis using that(1) Inr ag by (simp add: post_run_def and_then_lift)
    next
      case user: (Inr user)
      obtain made where m: "made \<in> minting lib s (po_audience args) sent"
        "snd (sign_as_logged_in api lib s (po_audience args) (post_spec api args user (clock_ms lib sent)) sent) =
           sent @ made"
        using sign_as_logged_in_mints by blast
      then have "snd (post_run api slib lib decode env d args sent) = sent @ made"
        using Inr ag user assms
        by (auto simp: post_run_def and_then_lift Let_def and_then_def [of "sign_as_logged_in _ _ _ _ _"] done_with_def
            split: prod.splits sum.splits)
      then show ?thesis using that(2) Inr m(1) by blast
    qed
  qed
qed

text \<open>C31: Posting without \<open>--execute\<close> sends nothing but what the minting of an access certificate for the
  stored login sends.  A post that is reported has sent, in this order, the minting of its access
  certificate, a freshness check for each issuer of its presentation (the access certificate's and the
  configuration certificate's), one write, and at most twenty reads of it.  The write is signed with
  the key of the access certificate and carries the presentation; its owner is the grantor of the
  stored grant for the audience, and the daemon accepted it.  The attribution that is reported is the
  one the last read showed, and no earlier read showed the object.\<close>
theorem post_attribution:
  "(\<not> po_execute args \<longrightarrow> snd (post_run api slib lib decode env d args sent) = sent \<or>
     (\<exists>s made. fst (load_login lib env d) = Inr s \<and> made \<in> minting lib s (po_audience args) sent \<and>
        snd (post_run api slib lib decode env d args sent) = sent @ made)) \<and>
   (\<forall>out sent'. post_run api slib lib decode env d args sent = (Inr out, sent') \<and> po_execute args \<longrightarrow>
     (\<exists>s user spec made pres msg issuers cs.
        fst (load_login lib env d) = Inr s \<and> grantor_for lib s (po_audience args) = Inr user \<and>
        spec = post_spec api args user (clock_ms lib sent) \<and> ws_owner spec = user \<and> ws_path spec = post_place args \<and>
        signed_post api lib s (po_audience args) spec sent made pres msg \<and>
        device_issuers api lib pres = Inr issuers \<and> fresh_checks (po_daemon args) issuers cs \<and>
        accepted (send api (sent @ made @ cs)
          (PostWire (seed_submit_url (po_daemon args)) (wire_serialize api msg))) \<and>
        reads_end api decode (read_url api (po_daemon args) (post_place args) (ws_id spec))
          (sent @ made @ cs @ [PostWire (seed_submit_url (po_daemon args)) (wire_serialize api msg)]) sent' out))"
proof (intro conjI impI allI; (elim conjE)?)
  assume "\<not> po_execute args"
  then show "snd (post_run api slib lib decode env d args sent) = sent \<or>
     (\<exists>s made. fst (load_login lib env d) = Inr s \<and> made \<in> minting lib s (po_audience args) sent \<and>
        snd (post_run api slib lib decode env d args sent) = sent @ made)"
    by (rule post_dry_mints) blast+
next
  fix out sent'
  assume run: "post_run api slib lib decode env d args sent = (Inr out, sent')" and "po_execute args"
  then obtain s user wire issuers sent1 where s: "fst (load_login lib env d) = Inr s"
    "grantor_for lib s (po_audience args) = Inr user"
    and sg: "sign_as_logged_in api lib s (po_audience args) (post_spec api args user (clock_ms lib sent)) sent =
      (Inr (wire, issuers), sent1)"
    and ex: "post_execute api slib lib decode args (post_spec api args user (clock_ms lib sent)) wire issuers sent1 =
      (Inr out, sent')"
    by (rule post_run_Inr)
  define spec where "spec = post_spec api args user (clock_ms lib sent)"
  have sp: "ws_owner spec = user" "ws_path spec = post_place args" by (simp_all add: spec_def post_spec_def)
  from sg obtain made pres msg where m: "signed_post api lib s (po_audience args) spec sent made pres msg"
    "sent1 = sent @ made" "wire = wire_serialize api msg" "device_issuers api lib pres = Inr issuers"
    unfolding spec_def by (rule sign_as_logged_in_signed)
  from ex [unfolded m(2)] obtain cs where cs: "fresh_checks (po_daemon args) issuers cs"
    "accepted (send api ((sent @ made) @ cs) (PostWire (seed_submit_url (po_daemon args)) wire))"
    "read_back api decode (po_daemon args) (ws_path spec) (ws_id spec) READ_BACKS
       ((sent @ made) @ cs @ [PostWire (seed_submit_url (po_daemon args)) wire]) = (Inr out, sent')"
    unfolding spec_def by (rule post_execute_log)
  show "\<exists>s user spec made pres msg issuers cs.
        fst (load_login lib env d) = Inr s \<and> grantor_for lib s (po_audience args) = Inr user \<and>
        spec = post_spec api args user (clock_ms lib sent) \<and> ws_owner spec = user \<and> ws_path spec = post_place args \<and>
        signed_post api lib s (po_audience args) spec sent made pres msg \<and>
        device_issuers api lib pres = Inr issuers \<and> fresh_checks (po_daemon args) issuers cs \<and>
        accepted (send api (sent @ made @ cs)
          (PostWire (seed_submit_url (po_daemon args)) (wire_serialize api msg))) \<and>
        reads_end api decode (read_url api (po_daemon args) (post_place args) (ws_id spec))
          (sent @ made @ cs @ [PostWire (seed_submit_url (po_daemon args)) (wire_serialize api msg)]) sent' out"
    using s spec_def sp m(1,4) cs(1) cs(2) [unfolded m(3) append_assoc]
      read_back_ends [OF cs(3) [unfolded m(3) sp(2) append_assoc]] by blast
qed

text \<open>A post by the login of before, to a daemon that shows the object at once.\<close>

definition demo_post :: post_args where
  "demo_post = \<lparr>po_community = ''cooks'', po_space = ''general'', po_text = ''hi'', po_audience = ''sbo'',
     po_daemon = ''http://d'', po_execute = True\<rparr>"

definition demo_post_app :: "(string, string, string) app_api" where
  "demo_post_app = demo_app\<lparr>parse_json := (\<lambda>s. Inr (mk_obj [(''iss'', JStr s)]))\<rparr>"

definition demo_view :: "string \<Rightarrow> (string, object_view) res" where
  "demo_view body = Inr \<lparr>ov_creator = ''k'', ov_owner_ref = Some ''kim@m.p'', ov_confirmed = True\<rparr>"

definition demo_disk :: disk where
  "demo_disk = [''/h/device-credential.json'' \<mapsto> \<lparr>df_text = ''login'', df_mode = 384\<rparr>]"

definition demo_post_run :: "post_args \<Rightarrow> (string + post_outcome) \<times> http_call list" where
  "demo_post_run args = post_run demo_post_app demo_seed_lib demo_login_lib demo_view (\<lambda>_. Some ''/h'') demo_disk args []"

lemma demo_post_app_send [simp]: "send demo_post_app sent c = Replied 200 []"
  by (simp add: demo_post_app_def demo_app_def)

lemma demo_read_back:
  "read_back demo_post_app demo_view daemon path i READ_BACKS sent =
     (Inr (AttributedTo ''kim@m.p''), sent @ [HttpGet (read_url demo_post_app daemon path i)])"
proof -
  have n: "READ_BACKS = Suc 19" by (simp add: READ_BACKS_def)
  show ?thesis
    unfolding n read_back.simps(2)
    by (simp add: attempt_def read_object_def and_then_def tool_send_def lift_def is_success_def demo_view_def
         map_err_def res_bind_def done_with_def del: read_back.simps)
qed

lemma demo_refresh_issuer:
  "refresh_issuers demo_post_app demo_seed_lib demo_login_lib daemon [x] sent =
     (Inr (), sent @ [HttpGet (seed_dnssec_url daemon x 5)])"
  by (simp add: seed_dnssec_fresh_def dnssec_check_def and_then_def tool_send_def lift_def error_status_def
      map_err_def demo_seed_lib_def done_with_def demo_login_lib_def)

lemma demo_post_sent: "\<exists>sent'. demo_post_run demo_post = (Inr (AttributedTo ''kim@m.p''), sent')"
proof -
  have l: "fst (load_login demo_login_lib (\<lambda>_. Some ''/h'') demo_disk) = Inr demo_login" by code_simp
  have ag: "login_agent demo_login_lib demo_login = Inr ''sbo''" by code_simp
  have g: "grantor_for demo_login_lib demo_login ''sbo'' = Inr ''kim@m.p''" by code_simp
  have "\<exists>wire. sign_as_logged_in demo_post_app demo_login_lib demo_login ''sbo'' spec [] =
      (Inr (wire, [''p'']), [demo_mint])" for spec
  proof -
    have "device_issuers demo_post_app demo_login_lib ''a.p~b~w~a.p'' = Inr [''p'']" by code_simp
    then show ?thesis using ag
      by (simp add: sign_as_logged_in_def and_then_lift library_def and_then_def assemble_device_wire_def
          device_message_def demo_login_lib_def demo_post_app_def demo_app_def res_bind_def map_err_def lift_def
          done_with_def)
  qed
  then obtain wire where w: "sign_as_logged_in demo_post_app demo_login_lib demo_login ''sbo''
      (post_spec demo_post_app demo_post ''kim@m.p'' (clock_ms demo_login_lib [])) [] =
      (Inr (wire, [''p'']), [demo_mint])" by blast
  have n: "new_client demo_post_app = Inr ()" by (simp add: demo_post_app_def demo_app_def)
  show ?thesis
    using l ag g w
    by (simp add: demo_post_run_def post_run_def and_then_def lift_def Let_def post_execute_def n
        demo_refresh_issuer post_submit_def tool_send_def is_success_def demo_read_back demo_post_def del: refresh_issuers.simps)
qed

lemma post_attribution_witness:
  "(\<exists>sent' msg. demo_post_run demo_post = (Inr (AttributedTo ''kim@m.p''), sent') \<and>
      m_owner msg = Some ''kim@m.p'' \<and>
      PostWire (seed_submit_url ''http://d'') (wire_serialize demo_post_app msg) \<in> set sent') \<and>
   set (snd (demo_post_run (demo_post\<lparr>po_execute := False\<rparr>))) \<subseteq> {demo_mint}"
proof
  obtain sent' where r: "demo_post_run demo_post = (Inr (AttributedTo ''kim@m.p''), sent')"
    using demo_post_sent by blast
  have l: "fst (load_login demo_login_lib (\<lambda>_. Some ''/h'') demo_disk) = Inr demo_login" by code_simp
  have g: "grantor_for demo_login_lib demo_login ''sbo'' = Inr ''kim@m.p''" by code_simp
  have p: "po_execute demo_post" "po_audience demo_post = ''sbo''" "po_daemon demo_post = ''http://d''"
    by (simp_all add: demo_post_def)
  have i: "id_new demo_post_app x = Inr x" for x by (simp add: demo_post_app_def demo_app_def)
  have "\<exists>msg. m_owner msg = Some ''kim@m.p'' \<and>
      PostWire (seed_submit_url ''http://d'') (wire_serialize demo_post_app msg) \<in> set sent'"
    using post_attribution [of demo_post demo_post_app demo_seed_lib demo_login_lib demo_view "\<lambda>_. Some ''/h''"
        demo_disk "[]"] r l g p i
    by (auto simp: demo_post_run_def signed_post_def reads_end_def)
  then show "\<exists>sent' msg. demo_post_run demo_post = (Inr (AttributedTo ''kim@m.p''), sent') \<and>
      m_owner msg = Some ''kim@m.p'' \<and>
      PostWire (seed_submit_url ''http://d'') (wire_serialize demo_post_app msg) \<in> set sent'"
    using r by blast
  have m: "minting demo_login_lib s a sent \<subseteq> {[], [demo_mint]}" for s a sent
    by (auto simp: minting_def demo_login_lib_def)
  show "set (snd (demo_post_run (demo_post\<lparr>po_execute := False\<rparr>))) \<subseteq> {demo_mint}"
    using m post_attribution [of "demo_post\<lparr>po_execute := False\<rparr>" demo_post_app demo_seed_lib demo_login_lib
        demo_view "\<lambda>_. Some ''/h''" demo_disk "[]"]
    by (fastforce simp: demo_post_run_def)
qed

end
