(* ===== verification/App_Live_Props.thy ===== *)
theory App_Live_Props
  imports App_Live_Scenarios App_Seed_Run_Props
begin

text \<open>Where a live test writes, whatever the servers answer.\<close>

section \<open>Where a live test writes\<close>

text \<open>
  A run has throwaway identities, whose handles begin with \<open>livetest-\<close>.  \<open>ap\<close> says whether the run
  includes the scenario \<open>S6\<close>, which alone acts as somebody else: as the issuer of the live community
  \<open>cooks\<close>, to appoint one throwaway identity a moderator.
\<close>

definition test_address :: "string \<Rightarrow> string \<Rightarrow> string" where
  "test_address dmn name = (''livetest-'' @ name) @ ''@'' @ dmn"

definition test_target :: "bool \<Rightarrow> string \<Rightarrow> string \<Rightarrow> string \<Rightarrow> string \<Rightarrow> bool" where
  "test_target ap dmn runid p i \<longleftrightarrow>
     p = space \<and> (\<exists>t. i = ''livetest-'' @ runid @ ''-'' @ t) \<or>
     (\<exists>t. p = space @ ''livetest-'' @ runid @ ''-'' @ t) \<and> i = ''_policy'' \<or>
     (\<exists>t. p = ''/livetest-p234-'' @ runid @ ''-'' @ t) \<and> i = ''root'' \<or>
     (\<exists>a. p = attestation_place (test_address dmn a) (test_address dmn a)) \<and> i = ''membership-cooks'' \<or>
     ap \<and> p = attestation_place (''cooks@'' @ dmn) (test_address dmn ''s6-mod'') \<and> i = ''role:moderator:cooks''"

definition wire_at :: "('sk, 'pk, 'sig) app_api \<Rightarrow> (string \<Rightarrow> string \<Rightarrow> bool) \<Rightarrow> string \<Rightarrow> bool" where
  "wire_at api ok w \<longleftrightarrow> (\<exists>msg p i. w = wire_serialize api msg \<and> path_parse api p = Inr (m_path msg) \<and>
     id_new api i = Inr (m_id msg) \<and> ok p i)"

definition test_handle :: "bool \<Rightarrow> string \<Rightarrow> bool" where
  "test_handle ap h \<longleftrightarrow> (\<exists>t. h = ''livetest-'' @ t) \<or> ap \<and> h = ''cooks''"

definition test_call :: "bool \<Rightarrow> ('sk, 'pk, 'sig) app_api \<Rightarrow> string \<Rightarrow> string \<Rightarrow> http_call \<Rightarrow> bool" where
  "test_call ap api dmn runid c \<longleftrightarrow> (case c of
       HttpGet _ \<Rightarrow> True
     | PostJson _ _ \<Rightarrow> False
     | PostAdmin _ _ body \<Rightarrow> (\<exists>h. test_handle ap h \<and> jget ''handle'' body = Some (JStr h) \<and>
         jget ''external_email'' body = Some (JStr (h @ ''.seed@sandmill.org'')))
     | PostWire _ w \<Rightarrow> wire_at api (test_target ap dmn runid) w)"

definition live_safe :: "bool \<Rightarrow> ('sk, 'pk, 'sig) live_ctx \<Rightarrow> http_call list \<Rightarrow> live_state \<Rightarrow> bool" where
  "live_safe ap ctx pre st \<longleftrightarrow>
     (\<exists>cs. ls_sent st = pre @ cs \<and> (\<forall>c\<in>set cs. test_call ap (lx_api ctx) (lx_domain ctx) (lx_runid ctx) c)) \<and>
     (\<forall>(p, i)\<in>set (ls_policies st). test_target ap (lx_domain ctx) (lx_runid ctx) p i)"

lemma keeps_and_then_post:
  assumes "keeps I m" and "\<And>s x s'. m s = (Inr x, s') \<Longrightarrow> Q x" and "\<And>x. Q x \<Longrightarrow> keeps I (f x)"
  shows "keeps I (and_then m f)"
proof
  fix s
  assume s: "I s"
  obtain r s' where m: "m s = (r, s')" by (cases "m s")
  then have s': "I s'" using keepsD [OF assms(1) s] by simp
  show "I (snd (and_then m f s))"
  proof (cases r)
    case (Inr x)
    then show ?thesis using m keepsD [OF assms(3) [OF assms(2)] s'] by (simp add: and_then_def)
  qed (use m s' in \<open>simp add: and_then_def\<close>)
qed

definition looks :: "('s \<Rightarrow> bool) \<Rightarrow> ('s \<Rightarrow> 'a \<times> 's) \<Rightarrow> bool" where
  "looks I l \<longleftrightarrow> (\<forall>s. I s \<longrightarrow> I (snd (l s)))"

lemma keeps_look_run [keeps_rules]: "looks I l \<Longrightarrow> keeps I (look_run l)"
  by (auto simp: keeps_def looks_def look_run_def split: prod.split)

lemma looks_done_late [keeps_rules]: "looks I (done_late out)"
  by (simp add: looks_def done_late_def)

lemma looks_poll [keeps_rules]:
  assumes "looks I look" and "looks I late"
  shows "looks I (live_poll ctx look late t)"
proof -
  have "looks I look \<Longrightarrow> looks I late \<Longrightarrow> I st \<Longrightarrow> I (snd (live_poll ctx look late t st))" for st
  proof (induction ctx look late t st rule: live_poll.induct)
    case (1 ctx look late t st)
    obtain x st' where l: "look st = (x, st')" by (cases "look st")
    then have "I st'" using 1(2,4) by (auto simp: looks_def)
    then show ?case using 1 l
      by (cases x) (auto simp: live_poll.simps [of ctx look late t st] looks_def Let_def)
  qed
  then show ?thesis using assms by (simp add: looks_def)
qed

lemma keeps_live_get [keeps_rules]: "keeps (live_safe ap ctx pre) (live_get ctx path i)"
  by (auto simp: keeps_def live_get_def and_then_def live_send_def on_net_def tool_send_def lift_def live_safe_def
      test_call_def)

lemma keeps_head [keeps_rules]: "keeps (live_safe ap ctx pre) (head_block ctx)"
  by (auto simp: keeps_def head_block_def and_then_def live_send_def on_net_def tool_send_def lift_def live_safe_def
      test_call_def)

lemma looks_head_or: "looks (live_safe ap ctx pre) (head_or ctx b)"
  using keeps_head [of ap ctx pre] by (auto simp: keeps_def looks_def head_or_def split: prod.split)

lemma looks_get:
  assumes "\<And>st. snd (l st) = snd (live_get ctx path i st)"
  shows "looks (live_safe ap ctx pre) l"
  using keeps_live_get [of ap ctx pre path i] assms by (simp add: keeps_def looks_def)

lemma looks_checks [keeps_rules]:
  "looks (live_safe ap ctx pre) (look_present ctx path i want)"
  "looks (live_safe ap ctx pre) (absent_now ctx path i)"
  "looks (live_safe ap ctx pre) (absent_late ctx path i)"
  "looks (live_safe ap ctx pre) (look_deleted ctx path i)"
  "looks (live_safe ap ctx pre) (look_version ctx path i old)"
  by (rule looks_get [of _ ctx path i];
      simp add: look_present_def absent_now_def absent_late_def look_deleted_def look_version_def
        split: prod.split)+

lemma looks_absent [keeps_rules]: "looks (live_safe ap ctx pre) (look_absent ctx path i sub)"
  using looks_head_or [of ap ctx pre "su_base sub"] keeps_live_get [of ap ctx pre path i]
  by (auto simp: looks_def keeps_def look_absent_def split: prod.splits)

lemma looks_polls [keeps_rules]:
  "looks (live_safe ap ctx pre) (settle_present ctx path i want)"
  "looks (live_safe ap ctx pre) (settle_absent ctx path i sub)"
  "looks (live_safe ap ctx pre) (wait_deleted ctx path i sub)"
  "looks (live_safe ap ctx pre) (wait_version_change ctx path i old)"
  by (auto simp: settle_present_def settle_absent_def wait_deleted_def wait_version_change_def intro!: keeps_rules)

lemma keeps_wait_for_head [keeps_rules]: "keeps (live_safe ap ctx pre) (wait_for_head ctx target)"
proof -
  have "live_safe ap ctx pre st \<Longrightarrow> live_safe ap ctx pre (wait_head_from ctx target t st)" for t st
  proof (induction ctx target t st rule: wait_head_from.induct)
    case (1 ctx target t st)
    obtain h st' where h: "head_or ctx 0 st = (h, st')" by (cases "head_or ctx 0 st")
    then have "live_safe ap ctx pre st'" using looks_head_or [of ap ctx pre 0] 1(2) by (auto simp: looks_def)
    then show ?case using 1 h by (auto simp: wait_head_from.simps [of ctx target t st])
  qed
  then show ?thesis by (simp add: keeps_def wait_for_head_def)
qed

lemma assembled_at:
  assumes "assemble_write api key cert warrant path i schema ctype payload owner hlc = Inr w" and "ok path i"
  shows "wire_at api ok w"
  using assms write_message_fields [of api key cert warrant path i schema ctype payload owner hlc]
  by (auto simp: assemble_write_def res_bind_Inr wire_at_def)

lemma deleted_at:
  assumes "assemble_delete api key cert path i schema owner = Inr w" and "ok path i"
  shows "wire_at api ok w"
proof -
  from assms(1) obtain msg where "owned_delete_message api key cert path i schema owner = Inr msg"
    and w: "w = wire_serialize api msg"
    by (auto simp: assemble_delete_def res_bind_Inr)
  then have "path_parse api path = Inr (m_path msg) \<and> id_new api i = Inr (m_id msg)"
    by (auto simp: owned_delete_message_def res_bind_Inr sign_with_def)
  then show ?thesis using w assms(2) by (auto simp: wire_at_def)
qed

abbreviation target :: "bool \<Rightarrow> ('sk, 'pk, 'sig) live_ctx \<Rightarrow> string \<Rightarrow> string \<Rightarrow> bool" where
  "target ap ctx \<equiv> test_target ap (lx_domain ctx) (lx_runid ctx)"

lemma keeps_live_submit:
  assumes "wire_at (lx_api ctx) (target ap ctx) w"
  shows "keeps (live_safe ap ctx pre) (live_submit ctx w label)"
proof
  fix st
  assume st: "live_safe ap ctx pre st"
  obtain b st1 where h: "head_or ctx 0 st = (b, st1)" by (cases "head_or ctx 0 st")
  then have "live_safe ap ctx pre st1" using looks_head_or [of ap ctx pre 0] st by (auto simp: looks_def)
  then show "live_safe ap ctx pre (snd (live_submit ctx w label st))" using h assms
    by (auto simp: live_submit_def and_then_def live_send_def on_net_def tool_send_def lift_def live_safe_def
        test_call_def)
qed

lemma keeps_submit_after:
  assumes "\<And>w. r = Inr w \<Longrightarrow> wire_at (lx_api ctx) (target ap ctx) w"
  shows "keeps (live_safe ap ctx pre) (and_then (lift r) (\<lambda>w. live_submit ctx w label))"
  by (rule keeps_and_then_post [where Q = "wire_at (lx_api ctx) (target ap ctx)"])
     (auto intro: keeps_rules keeps_live_submit assms)

lemma keeps_notes [keeps_rules]:
  "keeps (live_safe ap ctx pre) (note_written p i)"
  "keeps (live_safe ap ctx pre) (live_now ctx)"
  "keeps (live_safe ap ctx pre) (throwaway_owner ctx)"
  by (simp_all add: keeps_def note_written_def live_now_def live_safe_def throwaway_owner_def)

lemma keeps_note_policy: "target ap ctx p i \<Longrightarrow> keeps (live_safe ap ctx pre) (note_policy p i)"
  by (auto simp: keeps_def note_policy_def live_safe_def)

abbreviation tester :: "('sk, 'pk, 'sig) live_ctx \<Rightarrow> string \<Rightarrow> 'sk provisioned \<Rightarrow> bool" where
  "tester ctx name p \<equiv> pv_email p = test_address (lx_domain ctx) name"

lemma keeps_provision_persona:
  assumes "test_handle ap h"
  shows "keeps (live_safe ap ctx pre) (on_net (provision_persona (lx_api ctx) (lx_seed ctx) (lx_idp ctx) (lx_token ctx) h
    (lx_domain ctx)))"
proof -
  have "test_call ap (lx_api ctx) (lx_domain ctx) (lx_runid ctx) (provision_call (lx_seed ctx) idp tok h secret)"
    for idp tok secret
    using assms by (auto simp: test_call_def provision_call_def)
  then show ?thesis
    by (auto simp: keeps_def on_net_def provision_persona_def cert_request_def and_then_def tool_send_def lift_def
        live_safe_def done_with_def Let_def split: prod.splits sum.splits)
qed

lemma provision_persona_email:
  "on_net (provision_persona api lib idp tok h dmn) st = (Inr p, st') \<Longrightarrow> pv_email p = h @ ''@'' @ dmn"
  by (auto simp: on_net_def provision_persona_def and_then_Inr Let_def split: prod.splits)

lemma keeps_with_tester [keeps_rules]:
  assumes "\<And>p. tester ctx name p \<Longrightarrow> keeps (live_safe ap ctx pre) (f p)"
  shows "keeps (live_safe ap ctx pre) (and_then (live_provision ctx name) f)"
proof (rule keeps_and_then_post [where Q = "tester ctx name"])
  show "keeps (live_safe ap ctx pre) (live_provision ctx name)"
    unfolding live_provision_def by (rule keeps_provision_persona) (simp add: test_handle_def)
  fix s x s'
  assume "live_provision ctx name s = (Inr x, s')"
  then show "tester ctx name x" using provision_persona_email unfolding live_provision_def test_address_def by blast
qed (rule assms)

lemma keeps_with_issuer:
  assumes ap and "\<And>p. pv_email p = ''cooks@'' @ lx_domain ctx \<Longrightarrow> keeps (live_safe ap ctx pre) (f p)"
  shows "keeps (live_safe ap ctx pre) (and_then (issuer_persona ctx) f)"
proof (rule keeps_and_then_post [where Q = "\<lambda>p. pv_email p = ''cooks@'' @ lx_domain ctx"])
  show "keeps (live_safe ap ctx pre) (issuer_persona ctx)"
    unfolding issuer_persona_def by (intro keeps_attempt keeps_provision_persona keeps_lift) (simp add: test_handle_def assms(1))
  fix s x s'
  assume "issuer_persona ctx s = (Inr x, s')"
  then show "pv_email x = ''cooks@'' @ lx_domain ctx"
    using provision_persona_email [of "lx_api ctx" "lx_seed ctx" "lx_idp ctx" "lx_token ctx" "''cooks''" "lx_domain ctx" s]
    by (auto simp: issuer_persona_def attempt_def split: prod.splits)
qed (rule assms(2))

lemma target_space: "target ap ctx space (oid ctx name)"
  by (auto simp: test_target_def oid_def)

lemma target_attestation:
  "tester ctx name p \<Longrightarrow>
   target ap ctx (attestation_place (pv_email p) (pv_email p)) (''membership-'' @ ''cooks'')"
  "tester ctx ''s6-mod'' p \<Longrightarrow> pv_email q = ''cooks@'' @ lx_domain ctx \<Longrightarrow>
   target True ctx (attestation_place (pv_email q) (pv_email p)) ''role:moderator:cooks''"
  by (auto simp: test_target_def)

lemma target_policy: "target ap ctx (p234_base ctx t @ x) ''root''" "target ap ctx (p234_base ctx t) ''root''"
  by (auto simp: test_target_def p234_base_def)

lemma keeps_persona_write:
  assumes "target ap ctx path i"
  shows "keeps (live_safe ap ctx pre) (and_then (lift (persona_write ctx actor path i schema payload owner))
    (\<lambda>w. live_submit ctx w label))"
  by (rule keeps_submit_after) (auto simp: persona_write_def intro: assembled_at assms)

lemma keeps_write_then:
  assumes "\<And>w. r = Inr w \<Longrightarrow> wire_at (lx_api ctx) (target ap ctx) w" and "\<And>x. keeps (live_safe ap ctx pre) (f x)"
  shows "keeps (live_safe ap ctx pre) (and_then (lift r) (\<lambda>w. and_then (live_submit ctx w label) f))"
  by (rule keeps_and_then_post [where Q = "wire_at (lx_api ctx) (target ap ctx)"])
     (auto intro: keeps_rules keeps_live_submit assms)

lemma persona_write_at:
  "persona_write ctx actor path i schema payload owner = Inr w \<Longrightarrow> target ap ctx path i \<Longrightarrow>
   wire_at (lx_api ctx) (target ap ctx) w"
  by (simp add: persona_write_def assembled_at)

lemma keeps_write_post: "keeps (live_safe ap ctx pre) (write_post ctx actor (oid ctx name) body)"
  unfolding write_post_def
  by (intro keeps_and_then [OF keeps_notes(2)] keeps_write_then keeps_and_then [OF keeps_notes(1)] keeps_done)
     (erule persona_write_at, rule target_space)

lemma keeps_join [keeps_rules]:
  assumes "tester ctx name p"
  shows "keeps (live_safe ap ctx pre) (join_and_confirm ctx p ''cooks'')"
proof -
  have "keeps (live_safe ap ctx pre) (self_issue_membership ctx p ''cooks'')"
    unfolding self_issue_membership_def Let_def
    by (intro keeps_and_then [OF keeps_notes(2)] keeps_persona_write target_attestation(1) [OF assms])
  then show ?thesis unfolding join_and_confirm_def require_present_def Let_def by (intro keeps_rules)
qed

lemma keeps_require [keeps_rules]: "keeps (live_safe ap ctx pre) (require_present ctx path i what)"
  unfolding require_present_def by (intro keeps_rules)

lemma keeps_hash [keeps_rules]: "keeps (live_safe ap ctx pre) (hash_now ctx path)"
  unfolding hash_now_def live_hash_def by (intro keeps_rules)

lemma keeps_refused [keeps_rules]:
  "keeps (live_safe ap ctx pre) m \<Longrightarrow> keeps (live_safe ap ctx pre) (refused sub txt m)"
  "keeps (live_safe ap ctx pre) m \<Longrightarrow> keeps (live_safe ap ctx pre) (denied sub txt m)"
  unfolding denied_def refused_def by (auto intro: keeps_rules)

lemma keeps_write_delete [keeps_rules]: "keeps (live_safe ap ctx pre) (write_delete ctx actor space (oid ctx name) schema)"
  unfolding write_delete_def by (rule keeps_submit_after) (blast intro: deleted_at target_space)

lemma keeps_sys_install:
  assumes "target ap ctx path i"
  shows "keeps (live_safe ap ctx pre) (sys_install ctx path i policy label)"
  unfolding sys_install_def
proof (rule keeps_and_then_post [where Q = "\<lambda>(w, h). wire_at (lx_api ctx) (target ap ctx) w"])
  show "keeps (live_safe ap ctx pre) (lift (sys_wire ctx path i policy))" by (rule keeps_lift)
  fix s x s'
  assume "lift (sys_wire ctx path i policy) s = (Inr x, s')"
  then show "case x of (w, h) \<Rightarrow> wire_at (lx_api ctx) (target ap ctx) w"
    by (auto simp: sys_wire_def res_bind_Inr Let_def intro: assembled_at assms)
next
  fix x :: "string \<times> string"
  assume "case x of (w, h) \<Rightarrow> wire_at (lx_api ctx) (target ap ctx) w"
  then show "keeps (live_safe ap ctx pre) (case x of (w, h) \<Rightarrow> and_then (live_submit ctx w label)
      (\<lambda>sub. and_then (note_policy path i) (\<lambda>_. done_with (sub, h))))"
    by (auto intro!: keeps_and_then keeps_live_submit keeps_note_policy keeps_done assms)
qed

lemmas keeps_policy_install [keeps_rules] =
  keeps_sys_install [OF target_policy(1)] keeps_sys_install [OF target_policy(2)]

lemma keeps_verdicts [keeps_rules]:
  "looks (live_safe ap ctx pre) l \<Longrightarrow> keeps (live_safe ap ctx pre) (applied sub l)"
  "keeps (live_safe ap ctx pre) (amended ctx path old sub)"
  "keeps (live_safe ap ctx pre) (update_denied ctx (p234_base ctx t @ x) policy label)"
  unfolding applied_def amended_def update_denied_def by (auto intro!: keeps_rules)

lemma keeps_with_sys_key [keeps_rules]:
  "keeps (live_safe ap ctx pre) m \<Longrightarrow> keeps (live_safe ap ctx pre) (with_sys_key ctx m)"
  unfolding with_sys_key_def by (intro keeps_rules)

lemma keeps_timeout [keeps_rules]:
  "(\<And>txt. keeps I (f txt)) \<Longrightarrow> keeps I m \<Longrightarrow>
   keeps I (case out of Pass \<Rightarrow> m | Fail _ \<Rightarrow> m | Timeout t \<Rightarrow> f t | Skip _ \<Rightarrow> m | Broken _ \<Rightarrow> m)"
  by (cases out) auto

text \<open>The rules for the steps of a scenario, the special ones first.\<close>

lemmas live_steps =
  keeps_with_tester keeps_with_sys_key keeps_refused keeps_timeout
  keeps_write_post keeps_join keeps_require keeps_hash keeps_write_delete keeps_policy_install keeps_verdicts
  keeps_notes keeps_wait_for_head keeps_look_run looks_polls keeps_and_then keeps_done keeps_if keeps_prod

lemma keeps_s1: "keeps (live_safe ap ctx pre) (s1_capture_fix ctx)"
proof -
  have "target ap ctx (space @ oid ctx n @ ''/'') ''_policy''" for n by (auto simp: test_target_def oid_def)
  then have "keeps (live_safe ap ctx pre) (and_then (lift (assemble_policy ctx p (space @ oid ctx n @ ''/'')))
      (\<lambda>w. and_then (live_submit ctx w label) f))" if "\<And>x. keeps (live_safe ap ctx pre) (f x)" for p n label f
    by (intro keeps_write_then that) (auto simp: assemble_policy_def intro: persona_write_at)
  note capture = this
  show ?thesis unfolding s1_capture_fix_def Let_def
    by (intro keeps_with_tester keeps_and_then [OF keeps_join] capture keeps_and_then [OF keeps_notes(1)]
        keeps_look_run looks_polls)
qed

lemma keeps_content_scenarios:
  "keeps (live_safe ap ctx pre) (s2_non_member_denied ctx)"
  "keeps (live_safe ap ctx pre) (s3_member_can_post ctx)"
  "keeps (live_safe ap ctx pre) (s5_author_delete ctx)"
  "keeps (live_safe ap ctx pre) (s7_non_moderator_delete ctx)"
  unfolding s2_non_member_denied_def s3_member_can_post_def s5_author_delete_def s7_non_moderator_delete_def Let_def
  by (intro live_steps; assumption)+

lemma keeps_policy_scenarios:
  "keeps (live_safe ap ctx pre) (s9_pinning_immunity ctx)"
  "keeps (live_safe ap ctx pre) (s10_creation_pin_latest ctx)"
  "keeps (live_safe ap ctx pre) (s11_forward_only ctx)"
  "keeps (live_safe ap ctx pre) (s12_descendant_constraint ctx)"
  "keeps (live_safe ap ctx pre) (s13_no_pin ctx)"
  unfolding s9_pinning_immunity_def s9_updates_def s10_creation_pin_latest_def s11_forward_only_def
    s12_descendant_constraint_def s13_no_pin_def Let_def
  by (intro live_steps)+

lemma keeps_s4: "keeps (live_safe ap ctx pre) (s4_owner_only_update ctx)"
proof -
  have hijack: "keeps (live_safe ap ctx pre) (and_then (lift (persona_write ctx p space (oid ctx n) schema payload owner))
      (\<lambda>w. and_then (live_submit ctx w label) f))" if "\<And>x. keeps (live_safe ap ctx pre) (f x)"
    for p n schema payload owner label f
    by (intro keeps_write_then that) (erule persona_write_at, rule target_space)
  show ?thesis unfolding s4_owner_only_update_def Let_def
    by (intro keeps_with_tester keeps_and_then [OF keeps_join] keeps_and_then [OF keeps_write_post] keeps_refused
        keeps_and_then [OF keeps_require] keeps_and_then [OF keeps_notes(2)] hijack)
       (intro live_steps | assumption)+
qed

lemma keeps_s6: "keeps (live_safe True ctx pre) (s6_moderator_delete ctx)"
proof -
  have appoint: "keeps (live_safe True ctx pre) (write_attestation ctx q (pv_email p) ''role:moderator:cooks'' v)"
    if "tester ctx ''s6-mod'' p" "pv_email q = ''cooks@'' @ lx_domain ctx" for p q v
    unfolding write_attestation_def Let_def
    by (intro keeps_and_then [OF keeps_notes(2)] keeps_persona_write target_attestation(2) [OF that])
  show ?thesis unfolding s6_moderator_delete_def Let_def
    by (intro keeps_with_issuer [OF TrueI] live_steps appoint | assumption)+
qed

lemma keeps_run_scenario: "i = ''S6'' \<longrightarrow> ap \<Longrightarrow> keeps (live_safe ap ctx pre) (run_scenario ctx i)"
  using keeps_s6 unfolding run_scenario_def
  by (intro keeps_if keeps_done keeps_s1 keeps_content_scenarios keeps_s4 keeps_policy_scenarios) simp

lemma keeps_run_all:
  "\<forall>s\<in>set ss. sc_id s = ''S6'' \<longrightarrow> ap \<Longrightarrow> keeps (live_safe ap ctx pre) (run_all ctx ss)"
proof (induction ss)
  case (Cons s ss)
  then show ?case unfolding run_all.simps Let_def
    by (intro keeps_attempt keeps_if keeps_done keeps_run_scenario keeps_and_then) auto
qed (auto intro: keeps_done)

lemma keeps_sweep:
  "\<forall>(p, i)\<in>set ps. target ap ctx p i \<Longrightarrow> keeps (live_safe ap ctx pre) (sweep ctx ps)"
proof (induction ps rule: sweep.induct)
  case (2 ctx path i ps)
  have "keeps (live_safe ap ctx pre) (sys_delete_policy ctx path i)"
    unfolding sys_delete_policy_def using 2(2)
    by (intro keeps_and_then keeps_lift keeps_prod keeps_submit_after) (auto intro: deleted_at)
  then show ?case using 2 by (auto intro!: keeps_attempt)
qed (auto intro: keeps_done)

lemma keeps_cleanup: "keeps (live_safe ap ctx pre) (cleanup ctx)"
proof
  fix st
  assume st: "live_safe ap ctx pre st"
  then have "\<forall>(p, i)\<in>set (rev (ls_policies st)). target ap ctx p i" by (auto simp: live_safe_def)
  then show "live_safe ap ctx pre (snd (cleanup ctx st))"
    using keepsD [OF keeps_sweep st] st by (simp add: cleanup_def)
qed

section \<open>The whole run\<close>

lemma refresh_proof_posts:
  "\<exists>cs. snd (refresh_proof api lib daemon dmn p sent) = sent @ cs \<and>
     (\<forall>c\<in>set cs. \<exists>url w. c = PostWire url w \<and> wire_at api (\<lambda>p i. p = ''/sys/dnssec/'' \<and> i = dmn) w)"
proof (cases "proof_decode lib p")
  case (Inl e)
  then show ?thesis by (simp add: refresh_proof_def and_then_def lift_def map_err_def)
next
  case (Inr pb)
  show ?thesis
  proof (cases "assemble_write api (key_generate lib sent) None None ''/sys/dnssec/'' dmn ''dnssec.v1''
      ''application/octet-stream'' pb None None")
    case (Inr w)
    then have "wire_at api (\<lambda>p i. p = ''/sys/dnssec/'' \<and> i = dmn) w" by (rule assembled_at) simp
    moreover obtain n where "snd (seed_submit api daemon w (''dnssec refresh ('' @ dmn @ '')'') sent) =
        sent @ replicate (Suc n) (PostWire (seed_submit_url daemon) w)"
      using seed_submit_sends by blast
    ultimately show ?thesis using \<open>proof_decode lib p = Inr pb\<close> Inr
      by (intro exI [of _ "replicate (Suc n) (PostWire (seed_submit_url daemon) w)"])
         (auto simp: refresh_proof_def and_then_def lift_def map_err_def)
  qed (use Inr in \<open>simp add: refresh_proof_def and_then_def lift_def map_err_def\<close>)
qed

definition proof_call :: "('sk, 'pk, 'sig) app_api \<Rightarrow> string \<Rightarrow> http_call \<Rightarrow> bool" where
  "proof_call api dmn c \<longleftrightarrow> (case c of
       HttpGet _ \<Rightarrow> True
     | PostWire _ w \<Rightarrow> wire_at api (\<lambda>p i. p = ''/sys/dnssec/'' \<and> i = dmn) w
     | _ \<Rightarrow> False)"

lemma seed_fresh_last:
  "snd (seed_dnssec_fresh api lib daemon dmn now sent) = snd (dnssec_check api lib (seed_dnssec_url daemon dmn now) sent) \<or>
   (\<exists>p. snd (seed_dnssec_fresh api lib daemon dmn now sent) =
      snd (refresh_proof api lib daemon dmn p (snd (dnssec_check api lib (seed_dnssec_url daemon dmn now) sent))))"
proof -
  obtain r s1 where c: "dnssec_check api lib (seed_dnssec_url daemon dmn now) sent = (r, s1)"
    by (cases "dnssec_check api lib (seed_dnssec_url daemon dmn now) sent")
  show ?thesis
  proof (cases r)
    case (Inr resp)
    define x where "x = (if sd_needs_refresh resp then sd_proof resp else None)"
    have "seed_dnssec_fresh api lib daemon dmn now sent =
        (case x of None \<Rightarrow> done_with () | Some p \<Rightarrow> refresh_proof api lib daemon dmn p) s1"
      using c Inr unfolding seed_dnssec_fresh_def and_then_def x_def by simp
    then show ?thesis using c by (cases x) (auto simp: done_with_def)
  qed (use c in \<open>simp add: seed_dnssec_fresh_def and_then_def\<close>)
qed

lemma seed_fresh_posts:
  "\<exists>cs. snd (seed_dnssec_fresh api lib daemon dmn now sent) = sent @ cs \<and> (\<forall>c\<in>set cs. proof_call api dmn c)"
proof -
  let ?g = "HttpGet (seed_dnssec_url daemon dmn now)"
  have c: "snd (dnssec_check api lib (seed_dnssec_url daemon dmn now) sent) = sent @ [?g]"
    by (simp add: dnssec_check_def and_then_def tool_send_def lift_def)
  have g: "proof_call api dmn ?g" by (simp add: proof_call_def)
  from seed_fresh_last [of api lib daemon dmn now sent, unfolded c]
  consider "snd (seed_dnssec_fresh api lib daemon dmn now sent) = sent @ [?g]"
    | p where "snd (seed_dnssec_fresh api lib daemon dmn now sent) = snd (refresh_proof api lib daemon dmn p (sent @ [?g]))"
    by blast
  then show ?thesis
  proof cases
    case 1
    then show ?thesis using g by (intro exI [of _ "[?g]"]) simp
  next
    case 2
    obtain cs where "snd (refresh_proof api lib daemon dmn p (sent @ [?g])) = (sent @ [?g]) @ cs"
      "\<forall>c\<in>set cs. \<exists>url w. c = PostWire url w \<and> wire_at api (\<lambda>p i. p = ''/sys/dnssec/'' \<and> i = dmn) w"
      using refresh_proof_posts by blast
    then show ?thesis using 2 g by (intro exI [of _ "?g # cs"]) (auto simp: proof_call_def)
  qed
qed

definition live_start :: "http_call list \<Rightarrow> live_state" where
  "live_start sent = \<lparr>ls_sent = sent, ls_written = [], ls_policies = []\<rparr>"

lemma scenarios_and_cleanup_calls:
  assumes "\<forall>s\<in>set chosen. sc_id s = ''S6'' \<longrightarrow> ap"
  shows "\<exists>cs. ls_sent (snd (and_then (run_all ctx chosen) (\<lambda>results.
      and_then (if keep then done_with () else cleanup ctx) (\<lambda>_. done_with results)) (live_start sent))) = sent @ cs \<and>
    (\<forall>c\<in>set cs. test_call ap (lx_api ctx) (lx_domain ctx) (lx_runid ctx) c)"
proof -
  have "keeps (live_safe ap ctx sent) (and_then (run_all ctx chosen) (\<lambda>results.
      and_then (if keep then done_with () else cleanup ctx) (\<lambda>_. done_with results)))"
    by (intro keeps_and_then keeps_run_all [OF assms] keeps_if keeps_done keeps_cleanup)
  then have "live_safe ap ctx sent (snd (and_then (run_all ctx chosen) (\<lambda>results.
      and_then (if keep then done_with () else cleanup ctx) (\<lambda>_. done_with results)) (live_start sent)))"
    by (rule keepsD) (simp add: live_safe_def live_start_def)
  then show ?thesis by (auto simp: live_safe_def)
qed

lemma live_execute_calls:
  assumes "\<forall>s\<in>set chosen. sc_id s = ''S6'' \<longrightarrow> ap"
  shows "\<exists>pre cs runid. ls_sent (snd (live_execute api slib lib env read args dmn chosen (live_start sent))) = sent @ pre @ cs \<and>
     (\<forall>c\<in>set pre. proof_call api dmn c) \<and> (\<forall>c\<in>set cs. test_call ap api dmn runid c)"
proof (cases "env (lg_admin_token_env args) = None \<or> new_client api \<noteq> Inr ()")
  case True
  then have "snd (live_execute api slib lib env read args dmn chosen (live_start sent)) = live_start sent"
    by (cases "env (lg_admin_token_env args)"; cases "new_client api")
       (auto simp: live_execute_def and_then_def lift_def ok_or_def on_net_def client_built_def map_err_def
         live_start_def)
  then show ?thesis by (intro exI [of _ "[]"]) (simp add: live_start_def)
next
  case False
  then obtain tok where tok: "env (lg_admin_token_env args) = Some tok" and nc: "new_client api = Inr ()" by auto
  obtain r sent1 where f: "seed_dnssec_fresh api slib (lg_daemon args) dmn (unix_s lib sent) sent = (r, sent1)"
    by (cases "seed_dnssec_fresh api slib (lg_daemon args) dmn (unix_s lib sent) sent")
  obtain pre where pre: "sent1 = sent @ pre" "\<forall>c\<in>set pre. proof_call api dmn c"
    using seed_fresh_posts [of api slib "lg_daemon args" dmn "unix_s lib sent" sent] f by auto
  show ?thesis
  proof (cases r)
    case (Inl e)
    then have "ls_sent (snd (live_execute api slib lib env read args dmn chosen (live_start sent))) = sent1"
      using tok nc f
      by (simp add: live_execute_def and_then_def lift_def ok_or_def on_net_def client_built_def map_err_def
          live_start_def)
    then show ?thesis using pre by (intro exI [of _ pre] exI [of _ "[]"]) simp
  next
    case (Inr u)
    define ctx where "ctx = \<lparr>lx_api = api, lx_seed = slib, lx_lib = lib, lx_idp = lg_idp args, lx_daemon = lg_daemon args,
           lx_token = tok, lx_domain = dmn, lx_runid = make_runid api (key_generate slib sent1),
           lx_sys = (case load_sys_key api env read (lg_sys_key_file args) of Inr k \<Rightarrow> Some k | Inl _ \<Rightarrow> None)\<rparr>"
    have e: "live_execute api slib lib env read args dmn chosen (live_start sent) =
        and_then (run_all ctx chosen) (\<lambda>results.
          and_then (if lg_keep args then done_with () else cleanup ctx) (\<lambda>_. done_with results)) (live_start sent1)"
      using tok nc f Inr
      by (simp add: live_execute_def and_then_def [of "lift _"] and_then_def [of "on_net _"] lift_def ok_or_def
          on_net_def client_built_def map_err_def live_start_def ctx_def Let_def)
    obtain cs where "ls_sent (snd (live_execute api slib lib env read args dmn chosen (live_start sent))) = sent1 @ cs"
      "\<forall>c\<in>set cs. test_call ap api dmn (lx_runid ctx) c"
      unfolding e using scenarios_and_cleanup_calls [OF assms, of ctx "lg_keep args" sent1] by (auto simp: ctx_def)
    then show ?thesis using pre by (intro exI [of _ pre] exI [of _ cs] exI [of _ "lx_runid ctx"]) simp
  qed
qed

text \<open>Whether the appointing scenario is among the chosen ones.\<close>

definition appoints :: "live_args \<Rightarrow> bool" where
  "appoints args \<longleftrightarrow> (\<exists>s\<in>set scenarios. sc_id s = ''S6'' \<and> selected s (lg_only args))"

text \<open>C32: A live test without \<open>--execute\<close> sends nothing.  Whatever the servers answer and whichever
  scenarios run, fail or are swept up, every call of a live test is a read, the freshness proof of its
  domain, the provisioning of a \<open>livetest-\<close> handle under an address at \<open>sandmill.org\<close>, or one of these
  writes: a \<open>livetest-\<close> object of this run or a policy below one in the general space of \<open>cooks\<close>, a
  policy below \<open>/livetest-p234-\<close> of this run, or the membership of \<open>cooks\<close> that a \<open>livetest-\<close> identity
  states of itself.  Only when the scenario \<open>S6\<close> is chosen there are two more: the provisioning of the
  issuer of the live community \<open>cooks\<close>, and one attestation of that issuer, which makes
  \<open>livetest-s6-mod\<close> a moderator of it.\<close>
theorem livetest_confined:
  "(\<not> lg_execute args \<longrightarrow> snd (live_run api slib lib env read args (live_start sent)) = live_start sent) \<and>
   (\<exists>pre cs runid. ls_sent (snd (live_run api slib lib env read args (live_start sent))) = sent @ pre @ cs \<and>
      (\<forall>c\<in>set pre. proof_call api (domain_of (lg_idp args)) c) \<and>
      (\<forall>c\<in>set cs. test_call (appoints args) api (domain_of (lg_idp args)) runid c))"
proof (intro conjI impI)
  assume "\<not> lg_execute args"
  then show "snd (live_run api slib lib env read args (live_start sent)) = live_start sent"
    by (simp add: live_run_def fail_with_def done_with_def Let_def)
next
  let ?chosen = "filter (\<lambda>s. selected s (lg_only args)) scenarios"
  have ap: "\<forall>s\<in>set ?chosen. sc_id s = ''S6'' \<longrightarrow> appoints args" by (auto simp: appoints_def)
  have "ls_sent (snd (live_run api slib lib env read args (live_start sent))) = sent \<or>
      ls_sent (snd (live_run api slib lib env read args (live_start sent))) =
        ls_sent (snd (live_execute api slib lib env read args (domain_of (lg_idp args)) ?chosen (live_start sent)))"
    by (auto simp: live_run_def Let_def fail_with_def done_with_def and_then_def live_start_def
        split: prod.splits sum.splits)
  then show "\<exists>pre cs runid. ls_sent (snd (live_run api slib lib env read args (live_start sent))) = sent @ pre @ cs \<and>
      (\<forall>c\<in>set pre. proof_call api (domain_of (lg_idp args)) c) \<and>
      (\<forall>c\<in>set cs. test_call (appoints args) api (domain_of (lg_idp args)) runid c)"
  proof
    assume "ls_sent (snd (live_run api slib lib env read args (live_start sent))) = sent"
    then show ?thesis by (intro exI [of _ "[]"]) simp
  qed (simp only: live_execute_calls [OF ap])
qed

end
