(* ===== verification/App_Live_Verdicts.thy ===== *)
theory App_Live_Verdicts
  imports App_Live_Props
begin

text \<open>
  What the verdicts of a live test rest on: every poll ends after a bounded number of looks, and it
  passes on what the daemon showed at the last one.
\<close>

section \<open>A look\<close>

definition seen :: "('sk, 'pk, 'sig) live_ctx \<Rightarrow> http_call list \<Rightarrow> string \<Rightarrow> string \<Rightarrow> (string, live_view option) res" where
  "seen ctx sent path i =
     (case send (lx_api ctx) sent (HttpGet (live_url ctx path i)) of
       Replied status body \<Rightarrow>
         if status = 404 then Inr None
         else if error_status status then Inl ''get_object''
         else res_bind (map_err (\<lambda>_. ''parsing object'') (decode_view (lx_lib ctx) body)) (\<lambda>v. Inr (Some v))
     | _ \<Rightarrow> Inl ''get_object'')"

definition head_seen :: "('sk, 'pk, 'sig) live_ctx \<Rightarrow> http_call list \<Rightarrow> nat \<Rightarrow> nat" where
  "head_seen ctx sent b =
     (case send (lx_api ctx) sent (HttpGet (head_url ctx)) of
       Replied status body \<Rightarrow>
         if error_status status then b
         else (case decode_root (lx_lib ctx) body of Inr n \<Rightarrow> n | Inl _ \<Rightarrow> b)
     | _ \<Rightarrow> b)"

definition after_calls :: "live_state \<Rightarrow> http_call list \<Rightarrow> live_state" where
  "after_calls st cs = st\<lparr>ls_sent := ls_sent st @ cs\<rparr>"

lemma after_calls_simps [simp]:
  "ls_sent (after_calls st cs) = ls_sent st @ cs"
  "after_calls (after_calls st cs) ds = after_calls st (cs @ ds)"
  "after_calls st [] = st"
  by (simp_all add: after_calls_def)

lemma live_get_seen:
  "live_get ctx path i st = (seen ctx (ls_sent st) path i, after_calls st [HttpGet (live_url ctx path i)])"
  by (simp add: live_get_def seen_def and_then_def live_send_def on_net_def tool_send_def lift_def after_calls_def)

lemma head_or_seen:
  "head_or ctx b st = (head_seen ctx (ls_sent st) b, after_calls st [HttpGet (head_url ctx)])"
  by (auto simp: head_or_def head_block_def head_seen_def and_then_def live_send_def on_net_def tool_send_def lift_def
      after_calls_def map_err_def split: http_reply.splits sum.splits)

section \<open>A poll\<close>

lemma poll_ends:
  assumes "\<And>s. look s = (v (ls_sent s), after_calls s cs)"
  shows "POLL_MS * j \<le> t \<Longrightarrow> j \<le> 36 \<Longrightarrow>
    \<exists>k. j + k \<le> 36 \<and> (\<forall>m<k. v (ls_sent st @ concat (replicate m cs)) = None) \<and>
      (case v (ls_sent st @ concat (replicate k cs)) of
         Some out \<Rightarrow> live_poll ctx look late t st = (out, after_calls st (concat (replicate (Suc k) cs)))
       | None \<Rightarrow> live_poll ctx look late t st = late (after_calls st (concat (replicate (Suc k) cs))))"
proof (induction "SETTLE_MS + POLL_MS - t" arbitrary: j t st rule: less_induct)
  case less
  let ?t = "t + spent (lx_lib ctx) (ls_sent st) (ls_sent (after_calls st cs))"
  have now: "look st = (v (ls_sent st), after_calls st cs)" by (rule assms)
  note step = live_poll.simps [of ctx look late t st]
  show ?case
  proof (cases "v (ls_sent st) = None \<and> \<not> SETTLE_MS \<le> ?t")
    case False
    then show ?thesis using less(3) step now
      by (intro exI [of _ 0]) (auto split: option.splits simp: Let_def)
  next
    case True
    then have more: "live_poll ctx look late t st = live_poll ctx look late (?t + POLL_MS) (after_calls st cs)"
      using step now by (simp add: Let_def)
    have j: "POLL_MS * Suc j \<le> ?t + POLL_MS" "Suc j \<le> 36"
      using less(2) True by (auto simp: POLL_MS_def SETTLE_MS_def)
    have d: "SETTLE_MS + POLL_MS - (?t + POLL_MS) < SETTLE_MS + POLL_MS - t"
      using True by (auto simp: POLL_MS_def)
    from less(1) [OF d j, of "after_calls st cs"] obtain k where k: "Suc j + k \<le> 36"
      "\<forall>m<k. v (ls_sent (after_calls st cs) @ concat (replicate m cs)) = None"
      "case v (ls_sent (after_calls st cs) @ concat (replicate k cs)) of
         Some out \<Rightarrow> live_poll ctx look late (?t + POLL_MS) (after_calls st cs) =
           (out, after_calls (after_calls st cs) (concat (replicate (Suc k) cs)))
       | None \<Rightarrow> live_poll ctx look late (?t + POLL_MS) (after_calls st cs) =
           late (after_calls (after_calls st cs) (concat (replicate (Suc k) cs)))"
      by blast
    have "v (ls_sent st @ concat (replicate m cs)) = None" if "m < Suc k" for m
      using that k(2) True by (cases m) auto
    then show ?thesis using k(1,3) more
      by (intro exI [of _ "Suc k"]) (cases "v (ls_sent st @ concat (replicate (Suc k) cs))"; simp)
  qed
qed

lemma poll_pass:
  assumes "\<And>s. look s = (v (ls_sent s), after_calls s cs)" and "live_poll ctx look late 0 st = (out, st')"
  obtains k where "k \<le> 36" "v (ls_sent st @ concat (replicate k cs)) = Some out"
      "st' = after_calls st (concat (replicate (Suc k) cs))"
    | k where "k \<le> 36" "v (ls_sent st @ concat (replicate k cs)) = None"
      "late (after_calls st (concat (replicate (Suc k) cs))) = (out, st')"
proof -
  obtain k where k: "k \<le> 36" "case v (ls_sent st @ concat (replicate k cs)) of
      Some out \<Rightarrow> live_poll ctx look late 0 st = (out, after_calls st (concat (replicate (Suc k) cs)))
    | None \<Rightarrow> live_poll ctx look late 0 st = late (after_calls st (concat (replicate (Suc k) cs)))"
    using poll_ends [where j = 0 and t = 0 and st = st and ctx = ctx and late = late, OF assms(1)] by auto
  show ?thesis
  proof (cases "v (ls_sent st @ concat (replicate k cs))")
    case None
    then show ?thesis using that(2) [OF k(1)] k(2) assms(2) by simp
  next
    case (Some x)
    then show ?thesis using that(1) [OF k(1)] k(2) assms(2) by simp
  qed
qed

lemma concat_single: "concat (replicate k [x]) = replicate k x"
  by (induction k) auto

section \<open>The polls of the live test\<close>

definition gets :: "('sk, 'pk, 'sig) live_ctx \<Rightarrow> string \<Rightarrow> string \<Rightarrow> nat \<Rightarrow> http_call list" where
  "gets ctx path i k = replicate k (HttpGet (live_url ctx path i))"

definition present_as :: "live_view \<Rightarrow> string option \<Rightarrow> bool" where
  "present_as v want \<longleftrightarrow> lv_confirmed v \<and>
     (case want of None \<Rightarrow> True | Some w \<Rightarrow> or_empty (str_field ''body'' (lv_value v)) = w)"

lemma poll_gets:
  assumes look: "\<And>s. look s = (v (ls_sent s), after_calls s [HttpGet (live_url ctx path i)])"
    and run: "live_poll ctx look (done_late quit) 0 st = (out, st')"
    and pass: "\<And>sent. v sent = Some Pass \<Longrightarrow> P sent" and "quit \<noteq> Pass"
  shows "\<exists>k\<le>36. st' = after_calls st (gets ctx path i (Suc k)) \<and>
    (out = Pass \<longrightarrow> P (ls_sent st @ gets ctx path i k))"
  using run
proof (cases rule: poll_pass [OF look, consumes 1, case_names shown gave_up])
  case (shown k)
  then show ?thesis using pass by (intro exI [of _ k]) (auto simp: gets_def concat_single)
next
  case (gave_up k)
  then show ?thesis using assms(4) by (intro exI [of _ k]) (auto simp: gets_def concat_single done_late_def)
qed

lemma settle_present_pass:
  assumes "settle_present ctx path i want st = (out, st')"
  shows "\<exists>k\<le>36. st' = after_calls st (gets ctx path i (Suc k)) \<and>
    (out = Pass \<longrightarrow> (\<exists>v. seen ctx (ls_sent st @ gets ctx path i k) path i = Inr (Some v) \<and> present_as v want))"
proof -
  define v where "v = (\<lambda>sent. fst (look_present ctx path i want \<lparr>ls_sent = sent, ls_written = [], ls_policies = []\<rparr>))"
  have l: "look_present ctx path i want s = (v (ls_sent s), after_calls s [HttpGet (live_url ctx path i)])" for s
    by (simp add: look_present_def v_def live_get_seen)
  have pass: "v sent = Some Pass \<Longrightarrow> \<exists>w. seen ctx sent path i = Inr (Some w) \<and> present_as w want" for sent
    by (auto simp: v_def look_present_def live_get_seen present_as_def Let_def
        split: sum.splits option.splits if_splits)
  show ?thesis
    by (rule poll_gets [OF l assms [unfolded settle_present_def] pass]) simp_all
qed

lemma wait_deleted_pass:
  assumes "wait_deleted ctx path i sub st = (out, st')" and "su_accepted sub"
  shows "\<exists>k\<le>36. st' = after_calls st (gets ctx path i (Suc k)) \<and>
    (out = Pass \<longrightarrow> seen ctx (ls_sent st @ gets ctx path i k) path i = Inr None)"
proof -
  define v where "v = (\<lambda>sent. fst (look_deleted ctx path i \<lparr>ls_sent = sent, ls_written = [], ls_policies = []\<rparr>))"
  have l: "look_deleted ctx path i s = (v (ls_sent s), after_calls s [HttpGet (live_url ctx path i)])" for s
    by (simp add: look_deleted_def v_def live_get_seen)
  have pass: "v sent = Some Pass \<Longrightarrow> seen ctx sent path i = Inr None" for sent
    by (auto simp: v_def look_deleted_def live_get_seen split: sum.splits option.splits)
  have "live_poll ctx (look_deleted ctx path i)
      (done_late (Timeout (''object still present at '' @ path @ i @ dash @ ''delete never took effect''))) 0 st = (out, st')"
    using assms by (simp add: wait_deleted_def)
  then show ?thesis by (rule poll_gets [OF l _ pass]) simp_all
qed

lemma wait_version_pass:
  assumes "wait_version_change ctx path i old st = (out, st')"
  shows "\<exists>k\<le>36. st' = after_calls st (gets ctx path i (Suc k)) \<and>
    (out = Pass \<longrightarrow> (\<exists>v. seen ctx (ls_sent st @ gets ctx path i k) path i = Inr (Some v) \<and>
       lv_confirmed v \<and> lv_object_hash v \<noteq> old))"
proof -
  define v where "v = (\<lambda>sent. fst (look_version ctx path i old \<lparr>ls_sent = sent, ls_written = [], ls_policies = []\<rparr>))"
  have l: "look_version ctx path i old s = (v (ls_sent s), after_calls s [HttpGet (live_url ctx path i)])" for s
    by (simp add: look_version_def v_def live_get_seen)
  have pass: "v sent = Some Pass \<Longrightarrow>
      \<exists>w. seen ctx sent path i = Inr (Some w) \<and> lv_confirmed w \<and> lv_object_hash w \<noteq> old" for sent
    by (auto simp: v_def look_version_def live_get_seen split: sum.splits option.splits if_splits)
  show ?thesis
    by (rule poll_gets [OF l assms [unfolded wait_version_change_def] pass]) simp_all
qed

text \<open>A look for absence reads the head first.\<close>

definition head_gets :: "('sk, 'pk, 'sig) live_ctx \<Rightarrow> string \<Rightarrow> string \<Rightarrow> nat \<Rightarrow> http_call list" where
  "head_gets ctx path i k = concat (replicate k [HttpGet (head_url ctx), HttpGet (live_url ctx path i)])"

definition gone_for_good ::
  "('sk, 'pk, 'sig) live_ctx \<Rightarrow> http_call list \<Rightarrow> string \<Rightarrow> string \<Rightarrow> submitted \<Rightarrow> bool" where
  "gone_for_good ctx sent path i sub \<longleftrightarrow>
     final_head sub \<le> head_seen ctx sent (su_base sub) \<and>
     seen ctx (sent @ [HttpGet (head_url ctx)]) path i = Inr None"

lemma settle_absent_pass:
  assumes "settle_absent ctx path i sub st = (out, st')" and "su_accepted sub"
  shows "\<exists>k\<le>36. (st' = after_calls st (head_gets ctx path i (Suc k)) \<or>
        out \<noteq> Pass \<and> st' = after_calls st (head_gets ctx path i (Suc k) @ gets ctx path i 1)) \<and>
    (out = Pass \<longrightarrow> gone_for_good ctx (ls_sent st @ head_gets ctx path i k) path i sub)"
proof -
  define v where "v = (\<lambda>sent. fst (look_absent ctx path i sub \<lparr>ls_sent = sent, ls_written = [], ls_policies = []\<rparr>))"
  have l: "look_absent ctx path i sub s =
      (v (ls_sent s), after_calls s [HttpGet (head_url ctx), HttpGet (live_url ctx path i)])" for s
    by (simp add: look_absent_def v_def live_get_seen head_or_seen)
  have pass: "v sent = Some Pass \<Longrightarrow> gone_for_good ctx sent path i sub" for sent
    by (auto simp: v_def look_absent_def live_get_seen head_or_seen gone_for_good_def
        split: sum.splits option.splits if_splits)
  from assms have "live_poll ctx (look_absent ctx path i sub) (absent_late ctx path i) 0 st = (out, st')"
    by (simp add: settle_absent_def)
  then show ?thesis
  proof (cases rule: poll_pass [OF l, consumes 1, case_names shown gave_up])
    case (shown k)
    then show ?thesis using pass by (intro exI [of _ k]) (auto simp: head_gets_def)
  next
    case (gave_up k)
    then show ?thesis
      by (intro exI [of _ k])
         (auto simp: head_gets_def gets_def absent_late_def live_get_seen split: sum.splits option.splits)
  qed
qed

text \<open>C33: Every poll of a live test ends after at most 37 looks, whatever the daemon answers and however
  long it takes.  It passes only on what the daemon showed at the last look: an object confirmed, with
  the body that was asked for, with another hash than before, or gone; and a write that was accepted
  counts as disregarded only when the object was gone after the head had been read two blocks beyond
  the submission.\<close>
theorem live_verdicts_sound:
  "(\<forall>want out st'. settle_present ctx path i want st = (out, st') \<longrightarrow>
     (\<exists>k\<le>36. st' = after_calls st (gets ctx path i (Suc k)) \<and>
        (out = Pass \<longrightarrow> (\<exists>v. seen ctx (ls_sent st @ gets ctx path i k) path i = Inr (Some v) \<and> present_as v want)))) \<and>
   (\<forall>sub out st'. settle_absent ctx path i sub st = (out, st') \<and> su_accepted sub \<longrightarrow>
     (\<exists>k\<le>36. (st' = after_calls st (head_gets ctx path i (Suc k)) \<or>
          out \<noteq> Pass \<and> st' = after_calls st (head_gets ctx path i (Suc k) @ gets ctx path i 1)) \<and>
        (out = Pass \<longrightarrow> gone_for_good ctx (ls_sent st @ head_gets ctx path i k) path i sub))) \<and>
   (\<forall>sub out st'. wait_deleted ctx path i sub st = (out, st') \<and> su_accepted sub \<longrightarrow>
     (\<exists>k\<le>36. st' = after_calls st (gets ctx path i (Suc k)) \<and>
        (out = Pass \<longrightarrow> seen ctx (ls_sent st @ gets ctx path i k) path i = Inr None))) \<and>
   (\<forall>old out st'. wait_version_change ctx path i old st = (out, st') \<longrightarrow>
     (\<exists>k\<le>36. st' = after_calls st (gets ctx path i (Suc k)) \<and>
        (out = Pass \<longrightarrow> (\<exists>v. seen ctx (ls_sent st @ gets ctx path i k) path i = Inr (Some v) \<and>
           lv_confirmed v \<and> lv_object_hash v \<noteq> old))))"
  by (intro conjI allI impI)
     (erule settle_present_pass, (erule conjE, erule settle_absent_pass, assumption),
      (erule conjE, erule wait_deleted_pass, assumption), erule wait_version_pass)

text \<open>A daemon whose objects are all confirmed.\<close>

definition demo_live_lib :: live_lib where
  "demo_live_lib = \<lparr>decode_view = (\<lambda>b. Inr \<lparr>lv_confirmed = True, lv_block = 7, lv_value = JNull,
       lv_object_hash = ''h''\<rparr>), decode_root = (\<lambda>b. Inr 7), unix_s = (\<lambda>sent. 5), spent = (\<lambda>a b. 10),
     debug_text = (\<lambda>s. s), debug_texts = concat\<rparr>"

definition demo_live_ctx :: "(string, string, string) live_ctx" where
  "demo_live_ctx = \<lparr>lx_api = demo_app, lx_seed = demo_seed_lib, lx_lib = demo_live_lib, lx_idp = ''https://m.p'',
     lx_daemon = ''http://d'', lx_token = ''t'', lx_domain = ''m.p'', lx_runid = ''r'', lx_sys = None\<rparr>"

lemma live_verdicts_sound_witness:
  "\<exists>st' k. settle_present demo_live_ctx space ''x'' None (live_start []) = (Pass, st') \<and>
     st' = after_calls (live_start []) (gets demo_live_ctx space ''x'' (Suc k)) \<and> k \<le> 36 \<and>
     (\<exists>v. seen demo_live_ctx (gets demo_live_ctx space ''x'' k) space ''x'' = Inr (Some v) \<and> lv_confirmed v)"
proof -
  have "fst (settle_present demo_live_ctx space ''x'' None (live_start [])) = Pass" by code_simp
  then obtain st' where r: "settle_present demo_live_ctx space ''x'' None (live_start []) = (Pass, st')"
    by (metis prod.collapse)
  from live_verdicts_sound [of demo_live_ctx space "''x''" "live_start []"] r
  obtain k where "k \<le> 36" "st' = after_calls (live_start []) (gets demo_live_ctx space ''x'' (Suc k))"
    "\<exists>v. seen demo_live_ctx (ls_sent (live_start []) @ gets demo_live_ctx space ''x'' k) space ''x'' = Inr (Some v) \<and>
       present_as v None" by blast
  then show ?thesis using r by (auto simp: live_start_def present_as_def)
qed

section \<open>A run of the live test\<close>

definition demo_live_args :: live_args where
  "demo_live_args = \<lparr>lg_idp = ''https://m.p'', lg_daemon = ''http://d'', lg_admin_token_env = ''T'',
     lg_sys_key_file = ''k'', lg_only = [''s2''], lg_keep = False, lg_execute = True\<rparr>"

lemma livetest_confined_witness:
  "\<exists>pre cs runid. ls_sent (snd (live_run demo_app demo_seed_lib demo_live_lib (\<lambda>_. Some ''t'') Inl demo_live_args
       (live_start []))) = pre @ cs \<and> length (pre @ cs) = 6 \<and>
     (\<forall>c\<in>set cs. test_call False demo_app ''m.p'' runid c)"
proof -
  let ?fin = "snd (live_run demo_app demo_seed_lib demo_live_lib (\<lambda>_. Some ''t'') Inl demo_live_args (live_start []))"
  have n: "length (ls_sent ?fin) = 6" by code_simp
  have d: "domain_of (lg_idp demo_live_args) = ''m.p''" by code_simp
  have ap: "appoints demo_live_args = False" by code_simp
  from livetest_confined [of demo_live_args demo_app demo_seed_lib demo_live_lib "\<lambda>_. Some ''t''" Inl "[]", unfolded d ap]
  obtain pre cs runid where "ls_sent ?fin = [] @ pre @ cs" "\<forall>c\<in>set cs. test_call False demo_app ''m.p'' runid c"
    by blast
  then show ?thesis using n by auto
qed

end
