(* ===== verification/App_Cli_Props.thy ===== *)
theory App_Cli_Props
  imports App_Cli App_Post_Props App_Live_Verdicts App_Seed_Run_Props
begin

text \<open>
  What the command line writes on this machine and what it sends.  The commands are looked at one by
  one for the files they change and, without \<open>--execute\<close>, for the calls they send; the laws are put
  together over the dispatch.
\<close>

section \<open>Files\<close>

lemma write_disk_cases:
  obtains (Failed) e where "write_disk lib path t d = (Inl e, d)" "os_error (cl_login lib) path \<noteq> None"
  | (Written) m where "write_disk lib path t d = (Inr (), d(path \<mapsto> \<lparr>df_text = t, df_mode = m\<rparr>))"
      "os_error (cl_login lib) path = None"
  by (cases "os_error (cl_login lib) path") (auto simp: write_disk_def)

lemma write_disk_Inr:
  "write_disk lib path t d = (Inr (), d') \<longleftrightarrow> os_error (cl_login lib) path = None \<and>
     d' = d(path \<mapsto> \<lparr>df_text = t, df_mode = (case d path of Some f \<Rightarrow> df_mode f | None \<Rightarrow> new_mode lib)\<rparr>)"
  by (auto simp: write_disk_def split: option.splits)

lemma on_disk_run_Inr:
  "on_disk_run m st = (Inr x, st') \<longleftrightarrow> (\<exists>d. m (cl_disk st) = (Inr x, d) \<and> st' = st\<lparr>cl_disk := d\<rparr>)"
  by (auto simp: on_disk_run_def split: prod.splits)

lemma read_written:
  "os_error (cl_login lib) path = None \<Longrightarrow> d path = Some f \<Longrightarrow> read_disk lib d path = Inr (df_text f)"
  by (simp add: read_disk_def)

section \<open>The files of the genesis\<close>

text \<open>The keys that the keyring and the generator yield, and what the libraries are documented to do:
  hex and JSON text are read back as they were written, and a key is its 32 bytes.\<close>

definition keys_of :: "('sk, 'ag) cli_lib \<Rightarrow> 'sk set" where
  "keys_of lib = {k. (\<exists>a. signing_key lib a = Inr k) \<or> (\<exists>sent. k = key_generate (cl_seed lib) sent)}"

definition key_text_ok :: "('sk, 'pk, 'sig) app_api \<Rightarrow> ('sk, 'ag) cli_lib \<Rightarrow> bool" where
  "key_text_ok api lib \<longleftrightarrow>
     (\<forall>s. parse_json api (pretty_text lib (mk_obj [(''secret_key'', JStr s)])) =
        Inr (mk_obj [(''secret_key'', JStr s)])) \<and>
     (\<forall>k\<in>keys_of lib. length (key_bytes lib k) = 32 \<and> key_of_bytes api (key_bytes lib k) = k \<and>
        hex_decode api (trim (hex_encode api (key_bytes lib k))) = Inr (key_bytes lib k))"

lemma load_key_file:
  assumes "key_text_ok api lib" "k \<in> keys_of lib"
    and "read path = Inr (pretty_text lib (key_file_json api lib k))"
  shows "load_domain_key_file api read path = Inr k"
  using assms by (simp add: load_domain_key_file_def key_file_json_def key_text_ok_def res_bind_def map_err_def
      ok_or_def str_field_def)

lemma checkpoint_key_known: "genesis_checkpoint_key lib opts sent = Inr k \<Longrightarrow> k \<in> keys_of lib"
  by (auto simp: genesis_checkpoint_key_def keys_of_def alias_key_def res_bind_Inr split: option.splits)

lemma genesis_wire_Inr:
  assumes "genesis_wire api lib opts st = Inr (wire, ck)"
  obtains a sk dk ev ws where "alias_key lib (go_key opts) = Inr (a, sk)"
    "genesis_domain_key api lib (cl_disk st) opts a = Inr dk"
    "genesis_checkpoint_key lib opts (cl_sent st) = Inr ck"
    "genesis_evidence lib (cl_disk st) opts = Inr ev"
    "genesis_writes api dk sk ck (go_domain opts) (genesis_broker opts) (starter_communities (go_domain opts))
       (unix_now lib (cl_sent st)) ev = Inr ws"
    "wire = emit_all api ws"
  using assms by (auto simp: genesis_wire_def mingo_genesis_def res_bind_Inr)

lemma genesis_command_Inr:
  assumes "genesis_command api lib opts st = (Inr (), st')"
  obtains wire ck m1 m2 where "genesis_wire api lib opts st = Inr (wire, ck)"
    "os_error (cl_login lib) (go_out opts) = None" "os_error (cl_login lib) (go_checkpoint_key_out opts) = None"
    "st' = st\<lparr>cl_disk := (cl_disk st)(go_out opts \<mapsto> \<lparr>df_text = wire, df_mode = m1\<rparr>,
       go_checkpoint_key_out opts \<mapsto> \<lparr>df_text = pretty_text lib (key_file_json api lib ck), df_mode = m2\<rparr>)\<rparr>"
  using assms by (auto simp: genesis_command_def and_then_Inr on_disk_run_Inr write_disk_Inr)

lemma genesis_command_Inl:
  assumes "genesis_command api lib opts st = (Inl e, st')"
  shows "st' = st \<or> (\<exists>wire ck m. genesis_wire api lib opts st = Inr (wire, ck) \<and>
    os_error (cl_login lib) (go_checkpoint_key_out opts) \<noteq> None \<and>
    st' = st\<lparr>cl_disk := (cl_disk st)(go_out opts \<mapsto> \<lparr>df_text = wire, df_mode = m\<rparr>)\<rparr>)"
proof (cases "genesis_wire api lib opts st")
  case (Inl e')
  then show ?thesis using assms by (simp add: genesis_command_def and_then_def lift_def)
next
  case (Inr p)
  obtain wire ck where p: "p = (wire, ck)" by fastforce
  have r: "on_disk_run (and_then (write_disk lib (go_out opts) wire) (\<lambda>_. write_disk lib (go_checkpoint_key_out opts)
      (pretty_text lib (key_file_json api lib ck)))) st = (Inl e, st')"
    using assms Inr p by (simp add: genesis_command_def and_then_def [of "lift _"] lift_def)
  show ?thesis
    using r Inr p
    by (cases rule: write_disk_cases [of lib "go_out opts" wire "cl_disk st"])
       (auto simp: on_disk_run_def and_then_def write_disk_def split: option.splits)
qed

text \<open>The batch ends with the root policy, which lets the key create checkpoints.\<close>

definition checkpoint_granted ::
  "('sk, 'pk, 'sig) app_api \<Rightarrow> ('sk, 'pk, 'sig) genesis_write list \<Rightarrow> 'sk \<Rightarrow> bool" where
  "checkpoint_granted api ws ck \<longleftrightarrow>
     (\<exists>root policy. last ws = Signed root \<and> path_parse api ''/sys/policies/'' = Inr (m_path root) \<and>
        m_payload root = Some (json_text api policy) \<and>
        grants_of policy (to_key (key_string api ck)) ''create'' (JStr ''/sys/checkpoints/**''))"

lemma checkpoint_grant:
  "grants_of (root_policy_payload dnssec k ck) (to_key ck) ''create'' (JStr ''/sys/checkpoints/**'')"
proof -
  have "grant (to_key ck) [''create''] ''/sys/checkpoints/**'' \<in>
      set (entries ''grants'' (root_policy_payload dnssec k ck))"
    by (simp add: root_policy_payload_def entries_def)
  then show ?thesis unfolding grants_of_def
    by (rule bexI [rotated]) (simp only: grant_fields list.map list.set, simp)
qed

lemma genesis_checkpoint_granted:
  assumes "genesis_writes api dk sk ck dmn broker cs created ev = Inr ws"
  shows "checkpoint_granted api ws ck"
  using genesis_writes_ends [OF assms] checkpoint_grant unfolding checkpoint_granted_def by blast

definition genesis_saved ::
  "('sk, 'pk, 'sig) app_api \<Rightarrow> ('sk, 'ag) cli_lib \<Rightarrow> genesis_options \<Rightarrow> cli_state \<Rightarrow> disk \<Rightarrow> bool" where
  "genesis_saved api lib opts st d \<longleftrightarrow>
     (\<exists>a sk dk ck ev ws. alias_key lib (go_key opts) = Inr (a, sk) \<and>
        genesis_writes api dk sk ck (go_domain opts) (genesis_broker opts) (starter_communities (go_domain opts))
          (unix_now lib (cl_sent st)) ev = Inr ws \<and>
        read_disk lib d (go_out opts) = Inr (emit_all api ws) \<and>
        load_domain_key_file api (read_disk lib d) (go_checkpoint_key_out opts) = Inr ck \<and>
        checkpoint_granted api ws ck)"

lemma genesis_command_saves:
  assumes lib: "key_text_ok api lib" and a: "go_out opts \<noteq> go_checkpoint_key_out opts"
    and w: "genesis_wire api lib opts st = Inr (wire, ck)"
    and os: "os_error (cl_login lib) (go_out opts) = None" "os_error (cl_login lib) (go_checkpoint_key_out opts) = None"
  shows "genesis_saved api lib opts st ((cl_disk st)(go_out opts \<mapsto> \<lparr>df_text = wire, df_mode = m1\<rparr>,
    go_checkpoint_key_out opts \<mapsto> \<lparr>df_text = pretty_text lib (key_file_json api lib ck), df_mode = m2\<rparr>))"
    (is "genesis_saved api lib opts st ?d")
proof -
  from w obtain a sk dk ev ws where g: "alias_key lib (go_key opts) = Inr (a, sk)"
    "genesis_checkpoint_key lib opts (cl_sent st) = Inr ck"
    "genesis_writes api dk sk ck (go_domain opts) (genesis_broker opts) (starter_communities (go_domain opts))
       (unix_now lib (cl_sent st)) ev = Inr ws" "wire = emit_all api ws"
    by (rule genesis_wire_Inr)
  have out: "read_disk lib ?d (go_out opts) = Inr (emit_all api ws)"
    using a by (simp add: read_disk_def os g(4))
  have "read_disk lib ?d (go_checkpoint_key_out opts) = Inr (pretty_text lib (key_file_json api lib ck))"
    by (simp add: read_disk_def os)
  then have "load_domain_key_file api (read_disk lib ?d) (go_checkpoint_key_out opts) = Inr ck"
    by (rule load_key_file [OF lib checkpoint_key_known [OF g(2)]])
  then show ?thesis unfolding genesis_saved_def using g(1,3) out genesis_checkpoint_granted [OF g(3)] by blast
qed


text \<open>One key for everything, in a JSON text that is the secret alone.\<close>

definition demo_key :: string where
  "demo_key = replicate 32 CHR ''k''"

definition demo_cli_app :: "(string, string, string) app_api" where
  "demo_cli_app = demo_app\<lparr>parse_json := (\<lambda>s. Inr (mk_obj [(''secret_key'', JStr s)]))\<rparr>"

definition demo_cli_lib :: "(string, string) cli_lib" where
  "demo_cli_lib = \<lparr>keyring_open = Inr (), resolve_alias = (\<lambda>a. Inr ''default''), signing_key = (\<lambda>a. Inr demo_key),
     key_bytes = (\<lambda>k. k), pretty_text = (\<lambda>j. case str_field ''secret_key'' j of None \<Rightarrow> [] | Some s \<Rightarrow> s),
     new_mode = 420, unix_now = (\<lambda>sent. Some 5), latency = (\<lambda>n. 0), rfc3339_s = Inl,
     object_decode = demo_view, cl_text = demo_text,
     cl_seed = demo_seed_lib\<lparr>key_generate := (\<lambda>sent. demo_key)\<rparr>, cl_login = demo_login_lib,
     cl_live = demo_live_lib\<rparr>"

definition demo_genesis :: genesis_options where
  "demo_genesis = \<lparr>go_domain = ''m.p'', go_broker = None, go_key = None, go_domain_key = None,
     go_domain_key_file = None, go_checkpoint_key = None, go_checkpoint_key_out = ''c.json'',
     go_dnssec_evidence = None, go_out = ''g.wire''\<rparr>"

lemma demo_keys: "key_text_ok demo_cli_app demo_cli_lib"
proof -
  have t: "trim demo_key = demo_key" "length demo_key = 32" by code_simp+
  show ?thesis using t
    by (auto simp: key_text_ok_def keys_of_def demo_cli_app_def demo_app_def demo_cli_lib_def demo_seed_lib_def
        str_field_def)
qed

lemma demo_genesis_run: "\<exists>d. genesis_command demo_cli_app demo_cli_lib demo_genesis no_files =
    (Inr (), no_files\<lparr>cl_disk := d\<rparr>)"
proof -
  have "\<exists>ws. genesis_writes demo_cli_app demo_key demo_key demo_key dmn b cs c None = Inr ws" for dmn b cs c
    by (simp add: genesis_writes_def domain_message_def sys_message_def demo_cli_app_def
        checkpointer_message_def root_policy_message_def genesis_message_def res_bind_def demo_app_def Let_def)
  then obtain ws where ws: "genesis_writes demo_cli_app demo_key demo_key demo_key (go_domain demo_genesis)
      (genesis_broker demo_genesis) (starter_communities (go_domain demo_genesis)) (Some 5) None = Inr ws" by blast
  have f: "go_key demo_genesis = None" "go_domain_key demo_genesis = None" "go_domain_key_file demo_genesis = None"
    "go_checkpoint_key demo_genesis = None" "go_dnssec_evidence demo_genesis = None"
    by (simp_all add: demo_genesis_def)
  have l: "resolve_alias demo_cli_lib x = Inr ''default''" "signing_key demo_cli_lib y = Inr demo_key"
    "unix_now demo_cli_lib z = Some 5" "key_generate (cl_seed demo_cli_lib) z = demo_key" for x y z
    by (simp_all add: demo_cli_lib_def)
  have "genesis_wire demo_cli_app demo_cli_lib demo_genesis no_files = Inr (emit_all demo_cli_app ws, demo_key)"
    using ws by (simp add: genesis_wire_def alias_key_def genesis_domain_key_def genesis_checkpoint_key_def
        genesis_evidence_def mingo_genesis_def res_bind_def f l)
  moreover have "os_error (cl_login demo_cli_lib) p = None" for p
    by (simp add: demo_cli_lib_def demo_login_lib_def)
  ultimately show ?thesis
    by (auto simp: genesis_command_def and_then_def lift_def on_disk_run_def write_disk_def)
qed


end
