(* ===== verification/App_Cli_Dry.thy ===== *)
theory App_Cli_Dry
  imports App_Cli_Props
begin

text \<open>
  What a command can touch: the files it names, and the network without \<open>--execute\<close>.
\<close>

section \<open>Calls that only read\<close>

definition only_reads :: "http_call list \<Rightarrow> http_call list \<Rightarrow> bool" where
  "only_reads s0 s \<longleftrightarrow> (\<exists>rs. s = s0 @ map HttpGet rs)"

lemma only_reads_refl [simp]: "only_reads s s"
  unfolding only_reads_def by (rule exI [of _ "[]"]) simp

lemma only_reads_get [simp]: "only_reads s0 s \<Longrightarrow> only_reads s0 (s @ [HttpGet u])"
  unfolding only_reads_def by (metis append_assoc list.simps(8,9) map_append)

lemma keeps_get: "keeps (only_reads s0) (tool_send api (HttpGet u))"
  by (simp add: keeps_def tool_send_def)

lemmas reads_rules = keeps_get keeps_rules

lemma keeps_let: "(\<And>y. keeps I (f y)) \<Longrightarrow> keeps I (let y = x in f y)"
  by simp

lemma keeps_client: "keeps I (client_built api)"
  unfolding client_built_def by (rule keeps_lift)

lemma layer_reads: "\<not> al_execute args \<Longrightarrow> keeps (only_reads s0) (add_policy_layer_run api env read args)"
  unfolding add_policy_layer_run_def fetch_for_layer_def
  by (intro keeps_client keeps_let reads_rules) simp_all

lemma admin_reads: "\<not> sa_execute args \<Longrightarrow> keeps (only_reads s0) (set_root_admin_run api env read args)"
  unfolding set_root_admin_run_def fetch_root_policy_def
  by (intro keeps_client keeps_let reads_rules) simp_all

lemma community_reads:
  assumes "\<not> cc_execute args"
  shows "keeps (only_reads s0) (create_community_run api env read args lat now)"
  unfolding create_community_run_def exists_now_def create_checked_def
  by (intro keeps_client keeps_let reads_rules) (simp_all add: assms)

lemma seed_dry: "\<not> sg_execute args \<Longrightarrow> keeps I (seed_run api lib txl env read args now_ms)"
  unfolding seed_run_def by (intro keeps_let reads_rules) simp_all

lemma appoint_dry: "\<not> am_execute args \<Longrightarrow> keeps I (appoint_run api lib rfc env args now now1)"
  unfolding appoint_run_def by (intro keeps_let reads_rules) simp_all

lemma live_dry: "\<not> lg_execute args \<Longrightarrow> keeps I (live_run api slib lib env read args)"
  unfolding live_run_def Let_def by (auto simp: keeps_def fail_with_def done_with_def)

section \<open>The dispatch\<close>

text \<open>The commands that act on their own account, and the files that a command writes.\<close>

fun executes :: "command \<Rightarrow> bool" where
  "executes (PostCommand args) = po_execute args"
| "executes (SeedCommand args) = sg_execute args"
| "executes (AppointModerator args dry) = am_execute args"
| "executes (LiveTest args) = lg_execute args"
| "executes (CreateCommunity args attested) = cc_execute args"
| "executes (AddPolicyLayer args) = al_execute args"
| "executes (SetRootAdmin args) = sa_execute args"
| "executes c = False"

fun outputs :: "env \<Rightarrow> command \<Rightarrow> string set" where
  "outputs env (Genesis opts) = {go_out opts, go_checkpoint_key_out opts}"
| "outputs env (Login args) = {p. device_credential_path env = Inr p}"
| "outputs env (OpenCommunity opts) = {oo_out opts}"
| "outputs env c = {}"

text \<open>
  What a command can send without \<open>--execute\<close>.  Three commands look at the chain first; a login has
  no such flag and provisions its agent, with one request and the wait for its approval; a post has
  been signed, for which an access certificate is minted.
\<close>

definition provisioning :: "'ag login_lib \<Rightarrow> provision_ask \<Rightarrow> http_call list \<Rightarrow> http_call list set" where
  "provisioning lib ask sent =
     (case request_provision lib ask sent of
        (Inl _, asked) \<Rightarrow> {asked}
      | (Inr pending, asked) \<Rightarrow> {asked @ snd (await_approval lib pending (sent @ asked))})"

fun unasked :: "('sk, 'ag) cli_lib \<Rightarrow> env \<Rightarrow> command \<Rightarrow> cli_state \<Rightarrow> http_call list set" where
  "unasked lib env (CreateCommunity args attested) st = range (map HttpGet)"
| "unasked lib env (AddPolicyLayer args) st = range (map HttpGet)"
| "unasked lib env (SetRootAdmin args) st = range (map HttpGet)"
| "unasked lib env (Login args) st = {[]} \<union>
     (\<Union>preset\<in>{p. scope_parse (la_scope args) = Inr p}. provisioning (cl_login lib)
        (login_ask args preset (host_name env (read_disk lib (cl_disk st)))) (cl_sent st))"
| "unasked lib env (PostCommand args) st = {[]} \<union>
     (\<Union>s\<in>{s. fst (load_login (cl_login lib) env (cl_disk st)) = Inr s}.
        minting (cl_login lib) s (po_audience args) (cl_sent st))"
| "unasked lib env c st = {[]}"

definition confined :: "bool \<Rightarrow> http_call list set \<Rightarrow> string set \<Rightarrow> cli_state \<Rightarrow> cli_state \<Rightarrow> bool" where
  "confined acts calls out st st' \<longleftrightarrow>
     (\<forall>p. p \<notin> out \<longrightarrow> cl_disk st' p = cl_disk st p) \<and>
     (\<not> acts \<longrightarrow> (\<exists>made\<in>calls. cl_sent st' = cl_sent st @ made))"

lemma confined_refl: "[] \<in> calls \<Longrightarrow> confined acts calls out st st"
  by (auto simp: confined_def)

lemma unasked_nothing: "[] \<in> unasked lib env c st"
  by (cases c) (auto simp: image_iff intro: exI [of _ "[]"])

lemma confined_silent [simp]: "confined acts calls out st (snd (reported f m st)) \<longleftrightarrow> confined acts calls out st (snd (m st))"
  by (simp add: reported_def and_then_def done_with_def split: prod.split sum.split)

lemma confined_disk:
  assumes "\<And>p. p \<notin> out \<Longrightarrow> snd (m (cl_disk st)) p = cl_disk st p" and "[] \<in> calls"
  shows "confined acts calls out st (snd (on_disk_run m st))"
  using assms by (auto simp: confined_def on_disk_run_def split: prod.split intro: bexI [of _ "[]"])

lemma confined_wire:
  assumes "\<not> acts \<Longrightarrow> \<exists>made\<in>calls. snd (m (cl_sent st)) = cl_sent st @ made"
  shows "confined acts calls out st (snd (on_wire m st))"
  using assms by (auto simp: confined_def on_wire_def split: prod.splits)

lemma confined_dry:
  assumes "\<And>I. \<not> acts \<Longrightarrow> keeps I m"
  shows "confined acts {[]} out st (snd (on_wire m st))"
proof (rule confined_wire)
  assume n: "\<not> acts"
  show "\<exists>made\<in>{[]}. snd (m (cl_sent st)) = cl_sent st @ made"
    using keepsD [OF assms [OF n, of "\<lambda>s. s = cl_sent st"]] by simp
qed

lemma confined_reads:
  assumes "\<And>s0. \<not> acts \<Longrightarrow> keeps (only_reads s0) m"
  shows "confined acts (range (map HttpGet)) out st (snd (on_wire m st))"
proof (rule confined_wire)
  assume n: "\<not> acts"
  show "\<exists>made\<in>range (map HttpGet). snd (m (cl_sent st)) = cl_sent st @ made"
    using keepsD [OF assms [OF n, of "cl_sent st"] only_reads_refl] by (auto simp: only_reads_def)
qed

lemma confined_live:
  assumes "\<And>I. \<not> acts \<Longrightarrow> keeps I m"
  shows "confined acts {[]} out st (snd (on_live m st))"
proof -
  let ?s = "\<lparr>ls_sent = cl_sent st, ls_written = [], ls_policies = []\<rparr>"
  have "\<not> acts \<Longrightarrow> snd (m ?s) = ?s" using keepsD [OF assms, of "\<lambda>s. s = ?s"] by simp
  then show ?thesis by (auto simp: confined_def on_live_def split: prod.splits)
qed

lemma write_disk_elsewhere: "p \<noteq> path \<Longrightarrow> snd (write_disk lib path t d) p = d p"
  by (auto simp: write_disk_def split: option.split)

lemma genesis_confined: "confined False {[]} {go_out opts, go_checkpoint_key_out opts} st (snd (genesis_command api lib opts st))"
proof (cases "genesis_wire api lib opts st")
  case (Inl e)
  then show ?thesis by (simp add: genesis_command_def and_then_def lift_def confined_refl)
next
  case (Inr x)
  have "confined False {[]} {go_out opts, go_checkpoint_key_out opts} st (snd (on_disk_run (
      and_then (write_disk lib (go_out opts) wire) (\<lambda>_. write_disk lib (go_checkpoint_key_out opts) t)) st))" for wire t
    by (rule confined_disk) (auto simp: and_then_def write_disk_def split: option.split)
  then show ?thesis using Inr
    by (simp add: genesis_command_def and_then_def [of "lift _"] lift_def split: prod.split)
qed

lemma open_confined: "confined False {[]} {oo_out opts} st (snd (open_community api lib opts st))"
proof (cases "alias_key lib (oo_key opts)")
  case (Inr x)
  have "confined False {[]} {oo_out opts} st (snd (on_disk_run (write_disk lib (oo_out opts) t) st))" for t
    by (rule confined_disk) (simp_all add: write_disk_elsewhere)
  then show ?thesis using Inr
    by (simp add: open_community_def and_then_def lift_def split: prod.split)
qed (simp add: open_community_def and_then_def lift_def confined_refl)

lemma provisioning_sends:
  "\<exists>made\<in>provisioning lib ask sent. snd (approved_login_for lib broker ask sent) = sent @ made"
  by (cases "request_provision lib ask sent"; cases "fst (request_provision lib ask sent)")
     (auto simp: provisioning_def approved_login_for_def and_then_def library_def map_err_def split: prod.split)

lemma and_then_lift_state: "snd (and_then m (\<lambda>x. lift (f x)) d) = snd (m d)"
  by (simp add: and_then_def lift_def split: prod.split sum.split)

lemma store_login_elsewhere:
  assumes "device_credential_path env \<noteq> Inr p"
  shows "snd (store_login lib env c gs d) p = d p"
proof -
  have "snd (save_login lib env s d) p = d p" for s
    using assms by (auto simp: save_login_def and_then_def lift_def write_private_def split: sum.split option.split)
  moreover obtain r d' where l: "store_login lib env c gs d = (r, d')" by fastforce
  moreover from l obtain s where "and_then (save_login lib env s) (\<lambda>_. lift (login_report_check lib s)) d = (r, d')"
    by (rule store_login_cases)
  then have "d' = snd (save_login lib env s d)"
    using and_then_lift_state [of "save_login lib env s" "\<lambda>_. login_report_check lib s" d] by simp
  ultimately show ?thesis by simp
qed

lemma login_confined:
  "confined False (unasked lib env (Login args) st) (outputs env (Login args)) st
     (snd (login_run (cl_login lib) env (read_disk lib (cl_disk st)) args st))"
proof (cases "scope_parse (la_scope args)")
  case (Inl e)
  then show ?thesis by (auto simp: login_run_def and_then_lift intro!: confined_refl)
next
  case (Inr preset)
  let ?ask = "login_ask args preset (host_name env (read_disk lib (cl_disk st)))"
  obtain r sent where a: "approved_login_for (cl_login lib) (la_broker args) ?ask (cl_sent st) = (r, sent)" by fastforce
  obtain made where m: "made \<in> provisioning (cl_login lib) ?ask (cl_sent st)" "sent = cl_sent st @ made"
    using provisioning_sends [of "cl_login lib" ?ask "cl_sent st" "la_broker args"] a by auto
  have "cl_sent (snd (login_run (cl_login lib) env (read_disk lib (cl_disk st)) args st)) = sent \<and>
      (\<forall>p. p \<notin> outputs env (Login args) \<longrightarrow>
        cl_disk (snd (login_run (cl_login lib) env (read_disk lib (cl_disk st)) args st)) p = cl_disk st p)"
    using Inr a store_login_elsewhere [of env _ "cl_login lib"]
    by (auto simp: login_run_def and_then_lift and_then_def [of "on_wire _"] on_wire_def on_disk_run_def
        split: prod.split sum.split) (metis snd_conv)+
  then show ?thesis using Inr m by (auto simp: confined_def)
qed

lemma post_confined:
  "confined (po_execute args) (unasked lib env (PostCommand args) st) out st
     (snd (on_wire (post_run api slib (cl_login lib) decode env (cl_disk st) args) st))"
proof (rule confined_wire)
  assume "\<not> po_execute args"
  then show "\<exists>made\<in>unasked lib env (PostCommand args) st.
      snd (post_run api slib (cl_login lib) decode env (cl_disk st) args (cl_sent st)) = cl_sent st @ made"
    by (rule post_dry_mints [where api = api and slib = slib and lib = "cl_login lib" and decode = decode
          and env = env and d = "cl_disk st" and sent = "cl_sent st"]) auto
qed

lemma whoami_confined: "[] \<in> calls \<Longrightarrow> confined acts calls out st (snd (on_disk_run (login_whoami lib env now) st))"
proof (rule confined_disk)
  have "keeps (\<lambda>d. d = cl_disk st) (login_whoami lib env now)"
    unfolding login_whoami_def by (intro keeps_let keeps_rules) (simp add: keeps_def load_login_disk)
  from keepsD [OF this]
  show "snd (login_whoami lib env now (cl_disk st)) p = cl_disk st p" for p by simp
qed

lemma confined_mono: "confined acts calls out st st' \<Longrightarrow> (acts \<Longrightarrow> acts') \<Longrightarrow> confined acts' calls out st st'"
  by (auto simp: confined_def)

text \<open>Only the flag makes a command act.\<close>

lemma executes_flag: "command_of name g = Some c \<Longrightarrow> executes c \<Longrightarrow> flag g ''execute''"
  by (auto simp: command_of_def bind_eq_Some_conv subcommands_def genesis_given_def login_given_def post_given_def
      open_given_def seed_given_def appoint_given_def live_given_def create_given_def layer_given_def admin_given_def
      split: if_splits list.splits option.splits)

lemma run_command_confined:
  "confined (executes c) (unasked lib env c st) (outputs env c) st (snd (run_command api lib env c st))"
proof (cases c)
  case (Login args)
  then show ?thesis using login_confined by (simp add: run_command_def Let_def del: unasked.simps outputs.simps)
next
  case (PostCommand args)
  then show ?thesis using post_confined by (simp add: run_command_def Let_def del: unasked.simps)
qed (simp add: run_command_def Let_def genesis_confined open_confined whoami_confined;
     (intro confined_reads confined_dry confined_live)?;
     simp add: layer_reads admin_reads community_reads seed_dry appoint_dry live_dry)+

text \<open>C35: A command changes no file but its outputs: the two files of the genesis, the stored login, the
  wire of an open community.  Without the flag \<open>--execute\<close>, creating a community, adding a layer and
  setting the admins send nothing but GETs; a login, which has no such flag, sends what the
  provisioning client sends for one request and the wait for its approval; a post sends at most what
  the minting of an access certificate for the stored login sends; and every other command, seeding,
  appointing a moderator and the live test included, sends nothing.\<close>
theorem cli_confined:
  assumes "command_of name g = Some c"
  shows "confined (flag g ''execute'') (unasked lib env c st) (outputs env c) st (snd (mingo_main api lib env c st))"
proof -
  have "confined (executes c) (unasked lib env c st) (outputs env c) st (snd (mingo_main api lib env c st))"
    using run_command_confined [of c lib env st api] confined_refl [OF unasked_nothing [of lib env c st]]
    by (simp add: mingo_main_def and_then_lift split: sum.split)
  then show ?thesis using executes_flag [OF assms] by (rule confined_mono)
qed

definition nothing_given :: given where
  "nothing_given = \<lparr>gv_option = Map.empty, gv_repeated = (\<lambda>n. []), gv_flags = [], gv_positional = []\<rparr>"

text \<open>A live test and a login with no options at all.\<close>

lemma cli_confined_witness:
  "\<exists>c l. command_of ''live-test'' nothing_given = Some c \<and> command_of ''login'' nothing_given = Some l \<and>
     cl_sent (snd (mingo_main demo_cli_app demo_cli_lib Map.empty c no_files)) = [] \<and>
     set (cl_sent (snd (mingo_main demo_cli_app demo_cli_lib Map.empty l no_files))) \<subseteq>
       {PostJson (DEFAULT_BROKER @ ''/agent-provision/request'') JNull, PostJson ''https://b.c/agent-provision/poll'' JNull}"
proof -
  have c: "command_of ''live-test'' nothing_given = live_given nothing_given"
    and l: "command_of ''login'' nothing_given = login_given nothing_given"
    by (simp_all add: command_of_def subcommands_def)
  obtain args where a: "live_given nothing_given = Some (LiveTest args)" by (simp add: live_given_def)
  obtain log where b: "login_given nothing_given = Some (Login log)" "la_broker log = DEFAULT_BROKER"
    by (simp add: login_given_def option_or_def nothing_given_def)
  have f: "\<not> flag nothing_given ''execute''" by (simp add: flag_def nothing_given_def)
  have asked: "set made \<subseteq> {PostJson (DEFAULT_BROKER @ ''/agent-provision/request'') JNull,
      PostJson ''https://b.c/agent-provision/poll'' JNull}"
    if "made \<in> unasked demo_cli_lib Map.empty (Login log) no_files" for made
    using that b(2) by (auto simp: provisioning_def demo_cli_lib_def demo_login_lib_def login_ask_def split: if_splits)
  have "confined False (unasked demo_cli_lib Map.empty (Login log) no_files) {p. device_credential_path Map.empty = Inr p}
      no_files (snd (mingo_main demo_cli_app demo_cli_lib Map.empty (Login log) no_files))"
    using cli_confined [OF trans [OF l b(1)], of demo_cli_lib Map.empty no_files demo_cli_app] f by simp
  then have login: "set (cl_sent (snd (mingo_main demo_cli_app demo_cli_lib Map.empty (Login log) no_files))) \<subseteq>
      {PostJson (DEFAULT_BROKER @ ''/agent-provision/request'') JNull, PostJson ''https://b.c/agent-provision/poll'' JNull}"
    using asked unfolding confined_def by (fastforce simp: no_files_def simp del: unasked.simps)
  show ?thesis
    using cli_confined [OF trans [OF c a], of demo_cli_lib Map.empty no_files demo_cli_app] f c a l b(1) login
    by (simp add: confined_def no_files_def)
qed

end
