(* ===== verification/Idp_Poster_Props.thy ===== *)
theory Idp_Poster_Props
  imports Idp_Poster
begin

text \<open>
  What the poster does with a user's authority: which approvals it keeps, that nothing is signed
  without a live grant that authors as the user, that every write waits for a confirmed fresh
  attribution proof, and how a grant is given up.
\<close>

section \<open>Logs of calls\<close>

text \<open>The log has a call of which the reply satisfied \<open>P\<close> when it was made.\<close>

definition answered :: "net \<Rightarrow> http_call list \<Rightarrow> http_call \<Rightarrow> (http_reply \<Rightarrow> bool) \<Rightarrow> bool" where
  "answered net log c P \<longleftrightarrow> (\<exists>pre. prefix (pre @ [c]) log \<and> P (net pre c))"

lemma answered_mono: "answered net log c P \<Longrightarrow> prefix log log' \<Longrightarrow> answered net log' c P"
  unfolding answered_def by (meson prefix_order.trans)

lemma answered_last: "P (net log c) \<Longrightarrow> answered net (log @ [c]) c P"
  unfolding answered_def by blast

definition succeeded :: "http_reply \<Rightarrow> bool" where
  "succeeded r \<longleftrightarrow> (\<exists>s t. r = Replied s t \<and> is_success s)"

text \<open>The daemon confirmed the domain's proof as fresh, or accepted a refreshed one.\<close>

definition fresh_confirmed ::
  "('sk, 'pk, 'sig, 'agent) poster_api \<Rightarrow> 'sk \<Rightarrow> string \<Rightarrow> int \<Rightarrow> string \<Rightarrow> http_call list \<Rightarrow> bool" where
  "fresh_confirmed api ephemeral daemon now dmn log \<longleftrightarrow>
     (\<exists>info. answered (send api) log (HttpGet (dnssec_url daemon dmn now))
        (\<lambda>r. \<exists>s t. r = Replied s t \<and> is_success s \<and> decode_dnssec api t = Inr info) \<and>
      (\<not> needs_refresh info \<or>
       (\<exists>p pf. proof_b64 info = Some p \<and> b64url_decode api (trim p) = Inr pf \<and>
          answered (send api) log
            (PostWire (daemon @ ''/v1/submit'') (set_dnssec api ephemeral dmn pf)) succeeded)))"

lemma fresh_confirmed_mono:
  "fresh_confirmed api e d n x log \<Longrightarrow> prefix log log' \<Longrightarrow> fresh_confirmed api e d n x log'"
  unfolding fresh_confirmed_def by (blast intro: answered_mono)

lemma http_send_eq: "http_send api c w = (Inr (send api (calls w) c), w\<lparr>calls := calls w @ [c]\<rparr>)"
  by (simp add: http_send_def)

lemma get_dnssec_Inr:
  "get_dnssec api daemon dmn now w = (Inr info, w') \<Longrightarrow>
   w' = w\<lparr>calls := calls w @ [HttpGet (dnssec_url daemon dmn now)]\<rparr> \<and>
   (\<exists>s t. send api (calls w) (HttpGet (dnssec_url daemon dmn now)) = Replied s t \<and> is_success s \<and>
      decode_dnssec api t = Inr info)"
  by (auto simp: get_dnssec_def Let_def and_then_Inr http_send_eq split: http_reply.splits if_splits)

lemma submit_wire_Inr:
  "submit_wire api daemon wire w = (Inr v, w') \<Longrightarrow>
   w' = w\<lparr>calls := calls w @ [PostWire (daemon @ ''/v1/submit'') wire]\<rparr> \<and>
   succeeded (send api (calls w) (PostWire (daemon @ ''/v1/submit'') wire))"
  by (auto simp: submit_wire_def and_then_Inr http_send_eq succeeded_def
      split: http_reply.splits if_splits)

lemma attempt_lift_Inr:
  "attempt m (\<lambda>r. and_then (lift (map_err f r)) g) w = (Inr y, w') \<longleftrightarrow>
   (\<exists>x w1. m w = (Inr x, w1) \<and> g x w1 = (Inr y, w'))"
  by (auto simp: attempt_def and_then_def lift_def map_err_def split: prod.splits sum.splits)

lemma ensure_dnssec_fresh_Inr:
  assumes "ensure_dnssec_fresh api e daemon now dmn w = (Inr u, w')"
  shows "db w' = db w \<and> prefix (calls w) (calls w') \<and> fresh_confirmed api e daemon now dmn (calls w')"
proof -
  let ?g = "HttpGet (dnssec_url daemon dmn now)"
  obtain info w1 where g: "get_dnssec api daemon dmn now w = (Inr info, w1)"
    and rest: "(if \<not> needs_refresh info then done_with ()
      else case proof_b64 info of
        None \<Rightarrow> fail_with (Internal (''the DNSSEC attribution proof for '' @ quoted dmn @
                 '' is stale and could not be refreshed'' @ on_your_behalf))
      | Some p \<Rightarrow>
         and_then (lift (map_err (\<lambda>e. Internal (''decode dnssec proof for '' @ dmn @ '': '' @ e))
                     (b64url_decode api (trim p)))) (\<lambda>pf.
         attempt (submit_wire api daemon (set_dnssec api e dmn pf)) (\<lambda>r.
         and_then (lift (map_err (\<lambda>e. Internal (
             ''could not refresh the DNSSEC attribution proof for '' @ quoted dmn @
             on_your_behalf @ '': '' @ app_error_text e)) r)) (\<lambda>_. done_with ())))) w1 = (Inr u, w')"
    using assms unfolding ensure_dnssec_fresh_def attempt_lift_Inr by blast
  note get = get_dnssec_Inr [OF g]
  then have a: "answered (send api) (calls w1) ?g
      (\<lambda>r. \<exists>s t. r = Replied s t \<and> is_success s \<and> decode_dnssec api t = Inr info)"
    by (auto intro: answered_last)
  show ?thesis
  proof (cases "needs_refresh info")
    case False
    then have "w' = w1" using rest by simp
    then show ?thesis using get a False by (auto simp: fresh_confirmed_def)
  next
    case True
    then obtain p pf where p: "proof_b64 info = Some p" "b64url_decode api (trim p) = Inr pf"
        and s: "\<exists>v. submit_wire api daemon (set_dnssec api e dmn pf) w1 = (Inr v, w')"
      using rest by (auto simp: and_then_Inr attempt_lift_Inr split: option.splits)
    let ?s = "PostWire (daemon @ ''/v1/submit'') (set_dnssec api e dmn pf)"
    have w': "w' = w1\<lparr>calls := calls w1 @ [?s]\<rparr>" "succeeded (send api (calls w1) ?s)"
      using s submit_wire_Inr by blast+
    have "answered (send api) (calls w') ?s succeeded" using w' by (simp add: answered_last)
    moreover have "prefix (calls w1) (calls w')" using w' by simp
    ultimately have "fresh_confirmed api e daemon now dmn (calls w')"
      unfolding fresh_confirmed_def using p a answered_mono by blast
    then show ?thesis using get w' by auto
  qed
qed

lemma ensure_all_Inr:
  "ensure_all api e daemon now ds w = (Inr u, w') \<Longrightarrow>
   db w' = db w \<and> prefix (calls w) (calls w') \<and>
   (\<forall>d \<in> set ds. fresh_confirmed api (e d) daemon (now d) d (calls w'))"
proof (induction ds arbitrary: w)
  case (Cons d ds)
  then obtain w1 where 1: "ensure_dnssec_fresh api (e d) daemon (now d) d w = (Inr (), w1)"
      and 2: "ensure_all api e daemon now ds w1 = (Inr u, w')"
    by (auto simp: and_then_Inr)
  note * = ensure_dnssec_fresh_Inr [OF 1] Cons.IH [OF 2]
  then have "prefix (calls w) (calls w')" by (meson prefix_order.trans)
  then show ?case using * fresh_confirmed_mono by auto
qed simp

section \<open>Signing on a user's behalf\<close>

text \<open>The account's grant is live and authors as its public identity.\<close>

definition live_grant ::
  "config \<Rightarrow> ('sk, 'pk, 'sig, 'agent) poster_api \<Rightarrow> int \<Rightarrow> int \<Rightarrow> store \<Rightarrow> poster_warrant \<Rightarrow> bool" where
  "live_grant cfg api i now st w \<longleftrightarrow> warrant_at i st = Some w \<and> now < pw_expires_at w \<and>
     pw_device_seed w \<noteq> None \<and> pw_device_cert w \<noteq> None \<and> pw_idp w \<noteq> None \<and>
     (\<exists>r. row_by_id i st = Some r \<and>
        warrant_authors_as api (pw_warrant w) (public_identity (account_from_row r) (domain cfg)))"

lemma on_db_get_warrant [simp]:
  "on_db (get_poster_warrant i) w = (Inr (warrant_at i (db w)), w)"
  by (simp add: on_db_def get_poster_warrant_def warrant_at_def map_err_def)

lemma on_db_get_pending [simp]:
  "on_db (get_poster_pending i) w = (Inr (pending_at i (db w)), w)"
  by (simp add: on_db_def get_poster_pending_def pending_at_def map_err_def)

lemma on_db_get_account_eq:
  "on_db (get_account i) w = (Inr (map_option account_from_row (row_by_id i (db w))), w)"
  by (simp add: on_db_def get_account_def map_err_def)

lemma checked_warrant_Inr:
  "checked_warrant cfg api i now w = (Inr (wt, cred), w') \<longleftrightarrow>
   w' = w \<and> live_grant cfg api i now (db w) wt \<and>
   cred = \<lparr>cr_device_key = the (pw_device_seed wt), cr_device_cert = the (pw_device_cert wt),
     cr_idp = the (pw_idp wt), cr_access_mint = pw_access_mint wt,
     cr_identity = Some (poster_identity (domain cfg))\<rparr>"
proof (cases "warrant_at i (db w)")
  case (Some x)
  show ?thesis
  proof (cases "pw_expires_at x \<le> now")
    case True
    then show ?thesis using Some
      by (auto simp: checked_warrant_def and_then_def lift_def ok_or_def fail_with_def live_grant_def)
  next
    case False
    show ?thesis
      by (cases "pw_device_seed x"; cases "pw_device_cert x"; cases "pw_idp x";
          cases "row_by_id i (db w)")
         (use Some False in \<open>auto simp: checked_warrant_def and_then_def lift_def ok_or_def
            fail_with_def done_with_def live_grant_def on_db_get_account_eq split: if_splits\<close>)
  qed
qed (auto simp: checked_warrant_def and_then_def lift_def ok_or_def live_grant_def)

lemma checked_warrant_Inl: "fst (checked_warrant cfg api i now w) = Inl e \<Longrightarrow>
   snd (checked_warrant cfg api i now w) = w"
  by (auto simp: checked_warrant_def and_then_def lift_def fail_with_def done_with_def ok_or_def
      on_db_get_account_eq split: option.splits if_splits)

text \<open>Minting an access certificate changes nothing but the log of calls.\<close>

lemma present_state:
  "present api w cred st = (r, st') \<Longrightarrow> \<exists>minting. st' = st\<lparr>calls := calls st @ minting\<rparr>"
proof -
  have "\<exists>minting. s = s\<lparr>calls := calls s @ minting\<rparr>" for s :: poster_world
    by (rule exI [of _ "[]"]) simp
  then show "present api w cred st = (r, st') \<Longrightarrow> ?thesis"
    by (auto simp: present_def and_then_def lift_def map_err_def ok_or_def
        split: prod.splits sum.splits option.splits)
qed

lemma poster_message_fields:
  "poster_message api key act req owner pres millis = Inr msg \<Longrightarrow>
   m_action msg = act \<and> m_signing_key msg = key_public api key \<and> m_auth_cert msg = Some pres \<and>
   id_new api owner = Inr (the (m_owner msg)) \<and> m_owner msg \<noteq> None \<and>
   path_parse api (sb_path req) = Inr (m_path msg) \<and> id_new api (sb_id req) = Inr (m_id msg) \<and>
   m_payload msg = Some (sb_payload req) \<and> m_content_hash msg = Some (sha256 api (sb_payload req)) \<and>
   m_signature msg = signature_of api key (msg\<lparr>m_signature := placeholder_sig api\<rparr>)"
  by (auto simp: poster_message_def res_bind_def map_err_def sign_with_def split: sum.splits)

lemma forward_Inr:
  "forward api daemon i wire w = (Inr v, w') \<Longrightarrow>
   w' = w\<lparr>calls := calls w @ [PostWire (daemon @ ''/v1/submit'') wire]\<rparr> \<and>
   succeeded (send api (calls w) (PostWire (daemon @ ''/v1/submit'') wire))"
  using submit_wire_Inr [of api daemon wire w]
  by (auto simp: forward_def attempt_def done_with_def fail_with_def
      split: prod.splits sum.splits if_splits)

text \<open>The steps of a successful submission.\<close>

lemma submit_run:
  assumes "submit cfg api e jar now now1 now2 millis req w = (Inr v, w')"
  obtains sid i wt cred pres seed issuers act msg minting w2 where
    "jar = Some sid" "session_owner sid now (db w) = Some i"
    "live_grant cfg api i now1 (db w) wt" "cr_identity cred = Some (poster_identity (domain cfg))"
    "present api wt cred w = (Inr (pres, seed), w\<lparr>calls := calls w @ minting\<rparr>)"
    "presentation_issuers api pres = Inr issuers"
    "ensure_all api e (daemon_url cfg) now2 issuers (w\<lparr>calls := calls w @ minting\<rparr>) = (Inr (), w2)"
    "signable_action (sb_action req) = Inr act"
    "poster_message api (key_of_bytes api seed) act req (pw_user_email wt) pres millis = Inr msg"
    "forward api (daemon_url cfg) i (wire_serialize api msg) w2 = (Inr v, w')"
proof -
  obtain sid i where s: "jar = Some sid" "session_owner sid now (db w) = Some i"
    and r1: "and_then (checked_warrant cfg api i now1) (\<lambda>(wt, cred).
     and_then (present api wt cred) (\<lambda>(presentation, access_seed).
     and_then (lift (presentation_issuers api presentation)) (\<lambda>issuers.
     and_then (ensure_all api e (daemon_url cfg) now2 issuers) (\<lambda>_.
     and_then (lift (signable_action (sb_action req))) (\<lambda>act.
     and_then (lift (poster_message api (key_of_bytes api access_seed) act req (pw_user_email wt)
         presentation millis)) (\<lambda>msg.
     forward api (daemon_url cfg) i (wire_serialize api msg))))))) w = (Inr v, w')"
    using assms unfolding submit_def and_then_Inr [of "require_session jar now"] require_session_Inr
    by blast
  then obtain wt cred where cw: "live_grant cfg api i now1 (db w) wt"
      "cr_identity cred = Some (poster_identity (domain cfg))"
    and r2: "and_then (present api wt cred) (\<lambda>(presentation, access_seed).
     and_then (lift (presentation_issuers api presentation)) (\<lambda>issuers.
     and_then (ensure_all api e (daemon_url cfg) now2 issuers) (\<lambda>_.
     and_then (lift (signable_action (sb_action req))) (\<lambda>act.
     and_then (lift (poster_message api (key_of_bytes api access_seed) act req (pw_user_email wt)
         presentation millis)) (\<lambda>msg.
     forward api (daemon_url cfg) i (wire_serialize api msg)))))) w = (Inr v, w')"
    unfolding and_then_Inr [of "checked_warrant cfg api i now1"]
    by (force simp: checked_warrant_Inr)
  from r2 obtain pres seed issuers w1 w2 act msg where
      p1: "present api wt cred w = (Inr (pres, seed), w1)" and
      pi: "presentation_issuers api pres = Inr issuers" and
      en1: "ensure_all api e (daemon_url cfg) now2 issuers w1 = (Inr (), w2)" and
      act: "signable_action (sb_action req) = Inr act" and
      msg: "poster_message api (key_of_bytes api seed) act req (pw_user_email wt) pres millis = Inr msg" and
      fw: "forward api (daemon_url cfg) i (wire_serialize api msg) w2 = (Inr v, w')"
    by (auto simp: and_then_Inr)
  obtain minting where "w1 = w\<lparr>calls := calls w @ minting\<rparr>" using present_state [OF p1] by blast
  then have p: "present api wt cred w = (Inr (pres, seed), w\<lparr>calls := calls w @ minting\<rparr>)"
    and en: "ensure_all api e (daemon_url cfg) now2 issuers (w\<lparr>calls := calls w @ minting\<rparr>) = (Inr (), w2)"
    using p1 en1 by simp_all
  show ?thesis using that [OF s cw p pi en act msg fw] .
qed

text \<open>C12: When a submission succeeds, the session's account had a live grant that authors as its
  public identity; after the calls that minted its access certificate, every issuer of the
  presentation had a proof confirmed fresh (or refreshed), and the last call sent to the daemon is the wire of one message: a post or a delete, as
  asked, of the asked path, id and payload, owned by the identity of the grant, signed by the
  access key of the presentation it carries, and accepted.  The store is unchanged.\<close>

theorem submit_sound:
  assumes "submit cfg api e jar now now1 now2 millis req w = (Inr v, w')"
  shows "\<exists>sid i wt cred pres seed minting issuers act msg log.
    jar = Some sid \<and> session_owner sid now (db w) = Some i \<and> live_grant cfg api i now1 (db w) wt \<and>
    present api wt cred w = (Inr (pres, seed), w\<lparr>calls := calls w @ minting\<rparr>) \<and>
    cr_identity cred = Some (poster_identity (domain cfg)) \<and>
    presentation_issuers api pres = Inr issuers \<and>
    (\<forall>d \<in> set issuers. fresh_confirmed api (e d) (daemon_url cfg) (now2 d) d log) \<and>
    signable_action (sb_action req) = Inr act \<and>
    poster_message api (key_of_bytes api seed) act req (pw_user_email wt) pres millis = Inr msg \<and>
    calls w' = log @ [PostWire (daemon_url cfg @ ''/v1/submit'') (wire_serialize api msg)] \<and>
    prefix (calls w @ minting) log \<and>
    succeeded (send api log (PostWire (daemon_url cfg @ ''/v1/submit'') (wire_serialize api msg))) \<and>
    m_action msg = act \<and> id_new api (pw_user_email wt) = Inr (the (m_owner msg)) \<and>
    m_signing_key msg = key_public api (key_of_bytes api seed) \<and> m_auth_cert msg = Some pres \<and>
    db w' = db w"
proof (rule submit_run [OF assms])
  fix sid i wt cred pres seed issuers act msg minting w2
  assume s: "jar = Some sid" "session_owner sid now (db w) = Some i" "live_grant cfg api i now1 (db w) wt"
      "cr_identity cred = Some (poster_identity (domain cfg))" 
      "present api wt cred w = (Inr (pres, seed), w\<lparr>calls := calls w @ minting\<rparr>)"
      "presentation_issuers api pres = Inr issuers" "signable_action (sb_action req) = Inr act"
      "poster_message api (key_of_bytes api seed) act req (pw_user_email wt) pres millis = Inr msg"
    and en: "ensure_all api e (daemon_url cfg) now2 issuers (w\<lparr>calls := calls w @ minting\<rparr>) = (Inr (), w2)"
    and fw: "forward api (daemon_url cfg) i (wire_serialize api msg) w2 = (Inr v, w')"
  have "prefix (calls w @ minting) (calls w2)" "db w2 = db w"
      "\<forall>d \<in> set issuers. fresh_confirmed api (e d) (daemon_url cfg) (now2 d) d (calls w2)"
    using ensure_all_Inr [OF en] by auto
  moreover have "calls w' = calls w2 @ [PostWire (daemon_url cfg @ ''/v1/submit'') (wire_serialize api msg)]"
      "succeeded (send api (calls w2) (PostWire (daemon_url cfg @ ''/v1/submit'') (wire_serialize api msg)))"
      "db w' = db w2"
    using forward_Inr [OF fw] by auto
  ultimately show ?thesis using s poster_message_fields [OF s(8)] by fastforce
qed

text \<open>Without a live grant of the session's account that authors as its public identity, a
  submission is refused before anything is sent: no call is made and the account data is unchanged.\<close>

theorem submit_needs_grant:
  assumes "submit cfg api e jar now now1 now2 millis req w = (r, w')"
    and "\<not> (\<exists>sid i wt. jar = Some sid \<and> session_owner sid now (db w) = Some i \<and>
      live_grant cfg api i now1 (db w) wt)"
  shows "(\<exists>err. r = Inl err) \<and> calls w' = calls w \<and> accounts (db w') = accounts (db w) \<and>
    warrants (db w') = warrants (db w)"
proof (cases "require_session jar now w")
  case (Pair rs w1)
  show ?thesis
  proof (cases rs)
    case (Inl err)
    then have "r = Inl err" "w' = w1" using assms(1) Pair by (auto simp: submit_def and_then_def)
    moreover have "calls w1 = calls w \<and> accounts (db w1) = accounts (db w) \<and> warrants (db w1) = warrants (db w)"
      using Pair by (cases jar)
        (auto simp: require_session_def and_then_def lift_def ok_or_def on_db_session
          session_lookup_def account_for_session_def done_with_def delete_session_def split: option.splits)
    ultimately show ?thesis by simp
  next
    case (Inr i)
    then obtain sid where sid: "jar = Some sid" "session_owner sid now (db w) = Some i" "w1 = w"
      using Pair by (auto simp: require_session_Inr)
    then have no: "\<not> (\<exists>wt. live_grant cfg api i now1 (db w) wt)" using assms(2) by blast
    obtain rc wc where c: "checked_warrant cfg api i now1 w = (rc, wc)" by fastforce
    obtain err where err: "rc = Inl err"
    proof (cases rc)
      case (Inr x)
      then show ?thesis using c no by (cases x) (auto simp: checked_warrant_Inr)
    qed auto
    then have "wc = w" using checked_warrant_Inl [of cfg api i now1 w err] c by simp
    then show ?thesis using assms(1) Pair Inr sid c err by (auto simp: submit_def and_then_def)
  qed
qed

section \<open>Getting and losing a grant\<close>

lemma on_db_clear_pending [simp]:
  "on_db (clear_poster_pending i) w = (Inr (), w\<lparr>db := clear_pending i (db w)\<rparr>)"
  by (simp add: on_db_def clear_poster_pending_def clear_pending_def map_err_def)

lemma on_db_set_warrant [simp]:
  "on_db (set_poster_warrant i a b c d e f g h k now) w =
   (Inr (), w\<lparr>db := put_warrant i (a, b, c, d, e, f, g, h, k, now) (db w)\<rparr>)"
  by (simp add: on_db_def set_poster_warrant_def put_warrant_def map_err_def)

lemma on_db_set_pending [simp]:
  "on_db (set_poster_pending i a b c d e now) w =
   (Inr (), w\<lparr>db := put_pending i (a, b, c, d, e, now) (db w)\<rparr>)"
  by (simp add: on_db_def set_poster_pending_def put_pending_def map_err_def)

lemma on_db_delete_warrant [simp]:
  "on_db (delete_poster_warrant i) w = (Inr (), w\<lparr>db := clear_warrant i (db w)\<rparr>)"
  by (simp add: on_db_def delete_poster_warrant_def clear_warrant_def map_err_def)

lemma warrants_frame [simp]:
  "warrant_at i (clear_pending j st) = warrant_at i st"
  "warrant_at i (put_pending j x st) = warrant_at i st"
  "pending_at i (put_warrant j y st) = pending_at i st"
  "pending_at i (clear_warrant j st) = pending_at i st"
  by (auto simp: warrant_at_def pending_at_def clear_pending_def put_pending_def put_warrant_def
      clear_warrant_def clear_poster_pending_def set_poster_pending_def set_poster_warrant_def
      delete_poster_warrant_def split: prod.splits)

lemma post_json_raw_Inr:
  "post_json_raw api url body w = (Inr (s, v), w') \<Longrightarrow>
   \<exists>txt. send api (calls w) (PostJson url body) = Replied s txt \<and> v = json_or_raw api txt"
  by (auto simp: post_json_raw_def and_then_def http_send_eq lift_def split: http_reply.splits)

lemma post_json_raw_state:
  "post_json_raw api url body w = (r, w') \<Longrightarrow> w' = w\<lparr>calls := calls w @ [PostJson url body]\<rparr>"
  by (auto simp: post_json_raw_def and_then_def http_send_eq lift_def split: http_reply.splits)

lemma poll_completed_changes:
  assumes "poll_completed cfg api ks i now1 now2 e seed body w = (r, w')"
    and "warrant_at j (db w') \<noteq> warrant_at j (db w)"
  shows "\<exists>tail wc cert. j = i \<and> completed_tail body = Inr tail \<and>
    warrant_parse api (hd (split_on CHR ''~'' tail)) = Inr wc \<and>
    eq_ignore_ascii_case (wc_grantor wc) e \<and> wc_grantee wc = poster_identity (domain cfg) \<and>
    poster_device_cert cfg ks now1 = Inr cert \<and> r = Inr (PollStatus ''approved'') \<and> calls w' = calls w \<and>
    db w' = clear_pending i (put_warrant i (e, tail, wc_audience wc, wc_exp wc, seed, cert,
      POSTER_HOLDER, origin_for (domain cfg), Some (mint_url cfg), now2) (db w))"
proof -
  obtain tail where t: "completed_tail body = Inr tail"
    using assms by (cases "completed_tail body") (auto simp: poll_completed_def and_then_def lift_def)
  obtain wc where wc: "warrant_parse api (hd (split_on CHR ''~'' tail)) = Inr wc"
    using assms t by (cases "warrant_parse api (hd (split_on CHR ''~'' tail))")
      (auto simp: poll_completed_def and_then_def lift_def map_err_def)
  have d: "eq_ignore_ascii_case (wc_grantor wc) e \<and> wc_grantee wc = poster_identity (domain cfg)"
    using assms t wc
    by (auto simp: poll_completed_def and_then_def lift_def map_err_def done_with_def split: if_splits)
  obtain cert where c: "poster_device_cert cfg ks now1 = Inr cert"
    using assms t wc d by (cases "poster_device_cert cfg ks now1")
      (auto simp: poll_completed_def and_then_def lift_def map_err_def)
  have w': "r = Inr (PollStatus ''approved'')" "calls w' = calls w" "db w' = clear_pending i (put_warrant i (e, tail,
      wc_audience wc, wc_exp wc, seed, cert, POSTER_HOLDER, origin_for (domain cfg),
      Some (mint_url cfg), now2) (db w))"
    using assms(1) t wc d c
    by (auto simp: poll_completed_def and_then_def lift_def map_err_def done_with_def)
  then have "j = i" using assms(2) by (auto simp: warrant_table.look_put split: if_splits)
  then show ?thesis using t wc d c w' by blast
qed

text \<open>What a poll asks the broker.\<close>

definition poll_call :: "config \<Rightarrow> poster_pending \<Rightarrow> http_call" where
  "poll_call cfg p = PostJson (origin_for (broker_domain cfg) @ ''/agent-provision/poll'')
     (mk_obj [(''code'', JStr (pp_code p))])"

text \<open>A poll that changes a warrant reaches the completed branch, under the session's own account.\<close>

lemma poll_run:
  assumes "poll cfg api ks jar now now1 now2 w = (r, w')"
    and "warrant_at j (db w') \<noteq> warrant_at j (db w)"
  obtains sid i p seed code reply body wp where "jar = Some sid" "session_owner sid now (db w) = Some i"
    "pending_at i (db w) = Some p" "pp_device_seed p = Some seed" "db wp = db w"
    "poll_completed cfg api ks i now1 now2 (pp_user_email p) seed body wp = (r, w')"
    "as_str (jindex ''status'' body) = Some ''completed''" "body = json_or_raw api reply" "code \<noteq> 429"
    "send api (calls w) (poll_call cfg p) = Replied code reply" "calls wp = calls w @ [poll_call cfg p]"
proof -
  obtain rs w0 where rs: "require_session jar now w = (rs, w0)" by fastforce
  have same: "warrant_at i (db w0) = warrant_at i (db w)" for i
    using rs by (cases jar)
      (auto simp: require_session_def and_then_def lift_def ok_or_def on_db_session warrant_at_def
        session_lookup_def account_for_session_def done_with_def delete_session_def split: option.splits)
  obtain i where i: "rs = Inr i"
    using assms rs same by (cases rs) (auto simp: poll_def and_then_def)
  then obtain sid where sid: "jar = Some sid" "session_owner sid now (db w) = Some i" "w0 = w"
    using rs by (auto simp: require_session_Inr)
  obtain p where p: "pending_at i (db w) = Some p"
    using assms rs i sid by (cases "pending_at i (db w)") (auto simp: poll_def and_then_def done_with_def)
  obtain seed where seed: "pp_device_seed p = Some seed"
    using assms rs i sid p by (cases "pp_device_seed p") (auto simp: poll_def and_then_def done_with_def)
  let ?url = "origin_for (broker_domain cfg) @ ''/agent-provision/poll''"
  let ?body = "mk_obj [(''code'', JStr (pp_code p))]"
  obtain rp wp where rp: "post_json_raw api ?url ?body w = (rp, wp)" by fastforce
  then have wp: "db wp = db w" "calls wp = calls w @ [poll_call cfg p]"
    using post_json_raw_state by (fastforce simp: poll_call_def)+
  obtain s body where b: "rp = Inr (s, body)"
    using assms rs i sid p seed rp wp by (cases rp) (auto simp: poll_def and_then_def)
  have cmp: "poll_completed cfg api ks i now1 now2 (pp_user_email p) seed body wp = (r, w')"
      "as_str (jindex ''status'' body) = Some ''completed''" "s \<noteq> 429"
    using assms rs i sid p seed rp b wp
    by (auto simp: poll_def and_then_def done_with_def Let_def split: if_splits option.splits)
  obtain reply where "send api (calls w) (poll_call cfg p) = Replied s reply" "body = json_or_raw api reply"
    using post_json_raw_Inr [OF rp [unfolded b]] by (auto simp: poll_call_def)
  then show ?thesis using that sid(1,2) p seed wp cmp by blast
qed

text \<open>C13: A poll changes a warrant only for the session's own account, only while its request is
  pending, and only into the approval that the broker reports as completed in its answer to this very
  poll, the one call the poll makes, with the code of the pending request.  The warrant stored is the
  one in that answer; it names the requesting identity (up to ASCII case) as grantor and this
  service's poster as grantee, and is stored with its own audience and expiry; the pending request is
  then gone.\<close>

theorem poll_stores_only_delegation:
  assumes "poll cfg api ks jar now now1 now2 w = (r, w')"
    and "warrant_at j (db w') \<noteq> warrant_at j (db w)"
  shows "\<exists>sid p seed tail wc cert code reply body. jar = Some sid \<and> session_owner sid now (db w) = Some j \<and>
    pending_at j (db w) = Some p \<and> pp_device_seed p = Some seed \<and>
    send api (calls w) (poll_call cfg p) = Replied code reply \<and> code \<noteq> 429 \<and>
    body = json_or_raw api reply \<and> calls w' = calls w @ [poll_call cfg p] \<and>
    completed_tail body = Inr tail \<and> jindex ''status'' body = JStr ''completed'' \<and>
    warrant_parse api (hd (split_on CHR ''~'' tail)) = Inr wc \<and>
    eq_ignore_ascii_case (wc_grantor wc) (pp_user_email p) \<and>
    wc_grantee wc = poster_identity (domain cfg) \<and> poster_device_cert cfg ks now1 = Inr cert \<and>
    warrant_at j (db w') = Some \<lparr>pw_user_email = pp_user_email p, pw_warrant = tail,
      pw_audience = wc_audience wc, pw_expires_at = wc_exp wc, pw_device_seed = Some seed,
      pw_device_cert = Some cert, pw_holder = Some POSTER_HOLDER,
      pw_idp = Some (origin_for (domain cfg)), pw_access_mint = Some (mint_url cfg)\<rparr> \<and>
    pending_at j (db w') = None \<and> r = Inr (PollStatus ''approved'')"
proof -
  obtain sid i p seed code reply body wp where sid: "jar = Some sid" "session_owner sid now (db w) = Some i"
    and p: "pending_at i (db w) = Some p" and seed: "pp_device_seed p = Some seed" and wp: "db wp = db w"
    and cmp: "poll_completed cfg api ks i now1 now2 (pp_user_email p) seed body wp = (r, w')"
      "as_str (jindex ''status'' body) = Some ''completed''"
    and rep: "body = json_or_raw api reply" "code \<noteq> 429"
      "send api (calls w) (poll_call cfg p) = Replied code reply" "calls wp = calls w @ [poll_call cfg p]"
    using assms by (rule poll_run)
  obtain tail wc cert where
      "j = i" "completed_tail body = Inr tail" "warrant_parse api (hd (split_on CHR ''~'' tail)) = Inr wc"
      "eq_ignore_ascii_case (wc_grantor wc) (pp_user_email p)"
      "wc_grantee wc = poster_identity (domain cfg)" "poster_device_cert cfg ks now1 = Inr cert"
      "r = Inr (PollStatus ''approved'')" "calls w' = calls wp" and
      db': "db w' = clear_pending i (put_warrant i (pp_user_email p, tail, wc_audience wc, wc_exp wc,
        seed, cert, POSTER_HOLDER, origin_for (domain cfg), Some (mint_url cfg), now2) (db w))"
    using poll_completed_changes [OF cmp(1)] assms(2) wp by metis
  moreover have "warrant_at i (db w') = Some (warrant_of_args (pp_user_email p, tail, wc_audience wc,
      wc_exp wc, seed, cert, POSTER_HOLDER, origin_for (domain cfg), Some (mint_url cfg), now2))"
    by (simp add: db' warrant_table.look_put)
  moreover have "pending_at i (db w') = None" by (simp add: db' pending_table.look_clear)
  moreover have "jindex ''status'' body = JStr ''completed''"
    using cmp(2) by (cases "jindex ''status'' body") auto
  ultimately show ?thesis using sid p seed rep
    by (intro exI [of _ sid] exI [of _ p] exI [of _ seed] exI [of _ tail] exI [of _ wc]
        exI [of _ cert] exI [of _ code] exI [of _ reply] exI [of _ body]) (simp add: warrant_of_args_def)
qed

lemma contains_text_prefix: "prefix pat s \<Longrightarrow> contains_text pat s"
  by (cases s) auto

lemma contains_text_append: "contains_text pat s \<Longrightarrow> contains_text pat (a @ s)"
  by (induction a) auto

lemma contains_text_iff: "contains_text pat s \<longleftrightarrow> (\<exists>a b. s = a @ pat @ b)"
proof
  show "contains_text pat s \<Longrightarrow> \<exists>a b. s = a @ pat @ b"
  proof (induction s)
    case (Cons x s)
    then show ?case by (auto simp: prefix_def) (metis append_Cons append_Nil)+
  qed auto
qed (auto simp: contains_text_append contains_text_prefix)

text \<open>The searched word survives the escaping.\<close>

lemma debug_keeps_revocation:
  "contains_text ''revocation:'' txt \<Longrightarrow> contains_text ''revocation:'' (error_debug (BadRequest txt))"
proof -
  assume "contains_text ''revocation:'' txt"
  then obtain a b where t: "txt = a @ ''revocation:'' @ b" using contains_text_iff by blast
  have "concat (map debug_char ''revocation:'') = ''revocation:''" by code_simp
  then have "concat (map debug_char txt) =
      concat (map debug_char a) @ ''revocation:'' @ concat (map debug_char b)"
    unfolding t map_append concat_append by simp
  then have "error_debug (BadRequest txt) = (''BadRequest('' @ [CHR 0x22] @ concat (map debug_char a)) @
      ''revocation:'' @ (concat (map debug_char b) @ [CHR 0x22] @ '')'')"
    by (simp add: debug_string_def)
  then show "contains_text ''revocation:'' (error_debug (BadRequest txt))" using contains_text_iff by blast
qed

lemma on_db_status:
  "status cfg api jar now now1 w = (Inr st, w') \<Longrightarrow> session_owner (the jar) now (db w) = Some i \<Longrightarrow>
   warrant_at i (db w) = None \<Longrightarrow> \<not> ps_enabled st"
  by (auto simp: status_def and_then_Inr require_session_Inr Let_def on_db_get_account_eq)

text \<open>When the daemon refuses a forwarded write with a revocation, the stored grant of that
  account alone is deleted and the caller is told to re-enable, so the account's status is not
  enabled from then on; any other refusal leaves every grant in place.  Disabling deletes the
  grant and the pending request of the session's account and touches no other.\<close>

theorem grant_given_up:
  assumes "send api (calls w) (PostWire (daemon @ ''/v1/submit'') wire) = Replied code txt"
    and "\<not> is_success code" "forward api daemon i wire w = (r, w')"
    and "contains_text ''revocation:'' txt"
    and "disable jar now v = (Inr (), v')" "jar = Some sid" "session_owner sid now (db v) = Some j"
  shows "r = Inl (BadRequest revoked_text) \<and> warrant_at i (db w') = None \<and>
    (\<forall>k. k \<noteq> i \<longrightarrow> warrant_at k (db w') = warrant_at k (db w)) \<and>
    (\<forall>c jar' n n1 st w2. session_owner (the jar') n (db w') = Some i \<longrightarrow>
       status c api jar' n n1 w' = (Inr st, w2) \<longrightarrow> \<not> ps_enabled st) \<and>
    warrant_at j (db v') = None \<and> pending_at j (db v') = None \<and>
    (\<forall>k. k \<noteq> j \<longrightarrow> warrant_at k (db v') = warrant_at k (db v) \<and> pending_at k (db v') = pending_at k (db v))"
proof -
  have e: "submit_wire api daemon wire w = (Inl (BadRequest (''daemon submit '' @ status_text api code @
      '': '' @ txt)), w\<lparr>calls := calls w @ [PostWire (daemon @ ''/v1/submit'') wire]\<rparr>)"
    using assms(1,2) by (simp add: submit_wire_def and_then_def http_send_eq lift_def)
  have "contains_text ''revocation:'' (''daemon submit '' @ status_text api code @ '': '' @ txt)"
    using assms(4) contains_text_append by blast
  note ct = debug_keeps_revocation [OF this]
  have w: "r = Inl (BadRequest revoked_text)" "db w' = clear_warrant i (db w)"
    using assms(3) ct by (auto simp: forward_def attempt_def e fail_with_def)
  have v: "db v' = clear_pending j (clear_warrant j (db v))"
    using assms(5-7) by (auto simp: disable_def and_then_Inr require_session_Inr)
  show ?thesis using w v on_db_status [of _ api _ _ _ w' _ _ i]
    by (auto simp: warrant_table.look_clear pending_table.look_clear)
qed

text \<open>Asking again while the pending request is live.\<close>

lemma enable_again:
  assumes "row_by_id i (db w) = Some row" "session_owner sid n (db w) = Some i"
    and "pending_at i (db w) = Some p" "pp_verification_uri p = Some uri" "pp_device_seed p \<noteq> None"
    and "pp_user_email p = public_identity (account_from_row row) (domain cfg)"
    and "i64_add n1 60 < pp_expires_at p"
  shows "enable cfg api ks (Some sid) n n1 n2 w = (Inr uri, w)"
proof -
  have "require_session (Some sid) n w = (Inr i, w)" using assms by (simp add: require_session_Inr)
  then show ?thesis using assms
    by (auto simp: enable_def and_then_def on_db_get_account_eq lift_def ok_or_def Let_def
        reusable_def done_with_def)
qed

text \<open>After a successful enable request there is a pending request of the session's account with
  the returned address; until a minute before it lapses, asking again with a live session hands out
  the same address without any call and without changing anything, and no other account's pending
  request is touched.\<close>

theorem enable_idempotent:
  assumes "enable cfg api ks jar now now1 now2 w = (Inr uri, w1)"
  shows "\<exists>sid i p. jar = Some sid \<and> session_owner sid now (db w) = Some i \<and>
    pending_at i (db w1) = Some p \<and> pp_verification_uri p = Some uri \<and>
    (\<forall>n n1 n2. session_owner sid n (db w1) = Some i \<longrightarrow> i64_add n1 60 < pp_expires_at p \<longrightarrow>
       enable cfg api ks jar n n1 n2 w1 = (Inr uri, w1)) \<and>
    (\<forall>j. j \<noteq> i \<longrightarrow> pending_at j (db w1) = pending_at j (db w))"
proof -
  obtain sid i row where s: "jar = Some sid" "session_owner sid now (db w) = Some i"
      "row_by_id i (db w) = Some row"
    using assms by (auto simp: enable_def and_then_Inr require_session_Inr on_db_get_account_eq)
  let ?e = "public_identity (account_from_row row) (domain cfg)"
  note again = enable_again [where sid = sid and i = i and row = row and cfg = cfg and api = api and ks = ks]
  show ?thesis
  proof (cases "Option.bind (pending_at i (db w)) (\<lambda>p. reusable p ?e now1)")
    case (Some u)
    then obtain p where p: "pending_at i (db w) = Some p" "reusable p ?e now1 = Some u"
      by (auto simp: bind_eq_Some_conv)
    have "w1 = w" "u = uri"
      using assms s Some
      by (auto simp: enable_def and_then_Inr require_session_Inr on_db_get_account_eq Let_def)
    then show ?thesis using s p again [of w _ p]
      by (auto simp: reusable_def split: option.splits if_splits)
  next
    case None
    then obtain resp w0 where pj: "post_json api (decode_provision api)
        (origin_for (broker_domain cfg) @ ''/agent-provision/request'') (provision_body cfg ks ?e) w = (Inr resp, w0)"
      and w1: "w1 = w0\<lparr>db := put_pending i (?e, pv_code resp, pv_uri resp,
        i64_add now1 (pv_expires_in resp), b64url_encode api (secret_bytes ks (poster_key ks)), now2) (db w0)\<rparr>"
      and uri: "uri = pv_uri resp"
      using assms s
      by (auto simp: enable_def and_then_Inr require_session_Inr on_db_get_account_eq Let_def)
    have d0: "db w0 = db w" using pj by (auto simp: post_json_def and_then_Inr http_send_eq)
    let ?p = "pending_of_args (?e, pv_code resp, pv_uri resp, i64_add now1 (pv_expires_in resp),
      b64url_encode api (secret_bytes ks (poster_key ks)), now2)"
    have pa: "pending_at i (db w1) = Some ?p" by (simp add: w1 pending_table.look_put)
    have "row_by_id i (db w1) = Some row"
      using s by (simp add: w1 d0 put_pending_def set_poster_pending_def row_by_id_def)
    then have "enable cfg api ks jar n n1 n2 w1 = (Inr uri, w1)"
      if "session_owner sid n (db w1) = Some i" "i64_add n1 60 < pp_expires_at ?p" for n n1 n2
      unfolding s(1) using that pa uri by (intro again [of w1 _ ?p]) (simp_all add: pending_of_args_def)
    moreover have "\<forall>j. j \<noteq> i \<longrightarrow> pending_at j (db w1) = pending_at j (db w)"
      by (simp add: w1 d0 pending_table.look_put)
    ultimately show ?thesis using s pa uri
      by (intro exI [of _ sid] exI [of _ i] exI [of _ ?p]) (simp add: pending_of_args_def)
  qed
qed

section \<open>Freshness fails closed\<close>

lemma ensure_dnssec_effects:
  assumes "ensure_dnssec_fresh api e daemon now dmn w = (r, w')"
  shows "length (calls w') \<le> length (calls w) + 2 \<and> db w' = db w \<and>
      (\<forall>err. r = Inl err \<longrightarrow> app_error_status err = 500)"
proof -
  have g: "calls (snd (get_dnssec api daemon dmn now w)) = calls w @ [HttpGet (dnssec_url daemon dmn now)]"
      "db (snd (get_dnssec api daemon dmn now w)) = db w"
    by (simp_all add: get_dnssec_def Let_def and_then_def http_send_eq lift_def)
  have s: "calls (snd (submit_wire api daemon x v)) = calls v @ [PostWire (daemon @ ''/v1/submit'') x]"
      "db (snd (submit_wire api daemon x v)) = db v" for x v
    by (simp_all add: submit_wire_def and_then_def http_send_eq lift_def)
  show ?thesis
  proof (cases "get_dnssec api daemon dmn now w")
    case (Pair rg w1)
    then have w1: "calls w1 = calls w @ [HttpGet (dnssec_url daemon dmn now)]" "db w1 = db w"
      using g by simp_all
    show ?thesis
    proof (cases "\<exists>info p x. rg = Inr info \<and> needs_refresh info \<and> proof_b64 info = Some p \<and>
        b64url_decode api (trim p) = Inr x")
      case True
      then obtain info p x where t: "rg = Inr info" "needs_refresh info" "proof_b64 info = Some p"
        "b64url_decode api (trim p) = Inr x" by blast
      obtain rs w2 where sw: "submit_wire api daemon (set_dnssec api e dmn x) w1 = (rs, w2)" by fastforce
      have "w' = w2" "\<forall>err. r = Inl err \<longrightarrow> app_error_status err = 500"
        using assms Pair t sw
        by (auto simp: ensure_dnssec_fresh_def attempt_def and_then_def lift_def map_err_def
            done_with_def split: sum.splits)
      moreover have "calls w2 = calls w1 @ [PostWire (daemon @ ''/v1/submit'') (set_dnssec api e dmn x)]"
          "db w2 = db w1"
        using s [of "set_dnssec api e dmn x" w1] sw by simp_all
      ultimately show ?thesis using w1 by simp
    next
      case False
      then have "w' = w1 \<and> (\<forall>err. r = Inl err \<longrightarrow> app_error_status err = 500)"
        using assms Pair
        by (auto simp: ensure_dnssec_fresh_def attempt_def and_then_def lift_def map_err_def
            done_with_def fail_with_def split: sum.splits option.splits if_splits)
      then show ?thesis using w1 by simp
    qed
  qed
qed

text \<open>C14: The freshness check succeeds only when the daemon confirmed the proof or accepted a refreshed
  one; a stale proof that the daemon gave no replacement for, an unreachable daemon, an unreadable
  answer and a refused refresh are all internal errors.  It makes at most two calls and leaves the
  store alone.\<close>

theorem ensure_dnssec_fail_closed:
  assumes "ensure_dnssec_fresh api e daemon now dmn w = (r, w')"
  shows "(r = Inr () \<longrightarrow> fresh_confirmed api e daemon now dmn (calls w')) \<and>
    (\<forall>err. r = Inl err \<longrightarrow> app_error_status err = 500) \<and>
    length (calls w') \<le> length (calls w) + 2 \<and> db w' = db w \<and>
    (\<forall>info w1. get_dnssec api daemon dmn now w = (Inr info, w1) \<longrightarrow> needs_refresh info \<longrightarrow>
       proof_b64 info = None \<longrightarrow> (\<exists>m. r = Inl (Internal m)) \<and> w' = w1)"
proof (intro conjI)
  show "r = Inr () \<longrightarrow> fresh_confirmed api e daemon now dmn (calls w')"
    using assms by (auto dest: ensure_dnssec_fresh_Inr)
  note c = ensure_dnssec_effects [OF assms]
  from c show "\<forall>err. r = Inl err \<longrightarrow> app_error_status err = 500" by blast
  from c show "length (calls w') \<le> length (calls w) + 2" by blast
  from c show "db w' = db w" by blast
  show "\<forall>info w1. get_dnssec api daemon dmn now w = (Inr info, w1) \<longrightarrow> needs_refresh info \<longrightarrow>
      proof_b64 info = None \<longrightarrow> (\<exists>m. r = Inl (Internal m)) \<and> w' = w1"
    using assms by (auto simp: ensure_dnssec_fresh_def attempt_def and_then_def lift_def map_err_def
        fail_with_def)
qed

section \<open>A concrete poster\<close>

definition demo_net :: "nat \<Rightarrow> net" where
  "demo_net code log c = (case c of
     HttpGet _ \<Rightarrow> Replied 200 ''fresh''
   | PostJson _ _ \<Rightarrow> Replied 200 ''done''
   | PostWire _ _ \<Rightarrow> Replied code ''revocation: config cert'')"

definition demo_poster :: "nat \<Rightarrow> (string, string, string, unit) poster_api" where
  "demo_poster code = \<lparr>key_of_bytes = (\<lambda>s. s), key_public = (\<lambda>s. s), placeholder_sig = [],
     signature_of = (\<lambda>k m. k), wire_serialize = (\<lambda>m. m_path m @ m_id m @ m_signature m),
     sha256 = (\<lambda>s. s), path_parse = Inr, id_new = Inr, set_dnssec = (\<lambda>k d p. d @ p),
     send = demo_net code, status_text = show_int \<circ> int,
     parse_json = (\<lambda>s. if s = ''p'' then Inr (mk_obj [(''scopes'', JArr [JStr ''as:kim@m.p''])])
       else if s = ''done'' then Inr (mk_obj [(''status'', JStr ''completed''),
         (''grants'', JArr [mk_obj [(''warrant'', JStr ''h.p.s~cfg'')]])])
       else Inr JNull),
     decode_provision = (\<lambda>_. Inr \<lparr>pv_code = ''code'', pv_uri = ''uri'', pv_expires_in = 600\<rparr>),
     decode_dnssec = (\<lambda>_. Inr \<lparr>needs_refresh = False, proof_b64 = None\<rparr>),
     b64url_encode = (\<lambda>s. s), b64url_decode = Inr,
     warrant_parse = (\<lambda>_. Inr \<lparr>wc_grantor = ''kim@m.p'', wc_grantee = ''mingo-poster@m.p'',
       wc_audience = ''db'', wc_exp = 9000\<rparr>),
     access_cert_iss = (\<lambda>_. Inr ''m.p''), device_cert_iss = (\<lambda>_. Inr ''m.p''),
     agent_new = (\<lambda>_. Inr ()), agent_add_grant = (\<lambda>_ _ _. Inr ()),
     agent_assertion = (\<lambda>_ _ _. (Inr (''a~b~c~d'', ''seed''), []))\<rparr>"

definition granted_world :: poster_world where
  "granted_world = \<lparr>db = (db kim_world)\<lparr>warrants := [1 \<mapsto> \<lparr>pw_user_email = ''kim@m.p'',
       pw_warrant = ''h.p.s~cfg'', pw_audience = ''db'', pw_expires_at = 9000, pw_device_seed = Some ''s'',
       pw_device_cert = Some ''c'', pw_holder = Some ''h'', pw_idp = Some ''i'', pw_access_mint = None,
       pw_created_at = 5\<rparr>]\<rparr>, set_cookies = [], dns_queries = 0, calls = []\<rparr>"

lemma granted_session: "session_owner ''s'' 200 (db granted_world) = Some 1"
  using example_session by (simp add: granted_world_def kim_world_def session_owner_def)

lemma granted_row: "row_by_id 1 (db granted_world) = Some \<lparr>acc_id = 1, external_email = ''a@x'',
    handle = Some ''kim'', identity_mode = None, acc_created_at = 5\<rparr>"
  by (simp add: row_by_id_def granted_world_def kim_world_def)

lemma granted_warrant: "warrant_at 1 (db granted_world) = Some \<lparr>pw_user_email = ''kim@m.p'',
    pw_warrant = ''h.p.s~cfg'', pw_audience = ''db'', pw_expires_at = 9000, pw_device_seed = Some ''s'',
    pw_device_cert = Some ''c'', pw_holder = Some ''h'', pw_idp = Some ''i'', pw_access_mint = None\<rparr>"
  by (simp add: warrant_at_def granted_world_def warrant_from_row_def poster_warrant.truncate_def)

lemma demo_authors: "warrant_authors_as (demo_poster code) ''h.p.s~cfg'' ''kim@m.p''"
proof -
  have 1: "split_once CHR ''~'' ''h.p.s~cfg'' = Some (''h.p.s'', ''cfg'')"
    "nth_opt (split_on CHR ''.'' ''h.p.s'') 1 = Some ''p''" by code_simp+
  show ?thesis
    by (simp add: warrant_authors_as_def warrant_payload_def 1 demo_poster_def scope_text_def nth_opt_def)
qed

lemma granted_live: "live_grant example_config (demo_poster code) 1 300 (db granted_world)
    \<lparr>pw_user_email = ''kim@m.p'',
    pw_warrant = ''h.p.s~cfg'', pw_audience = ''db'', pw_expires_at = 9000, pw_device_seed = Some ''s'',
    pw_device_cert = Some ''c'', pw_holder = Some ''h'', pw_idp = Some ''i'', pw_access_mint = None\<rparr>"
  using demo_authors
  by (simp add: live_grant_def granted_warrant granted_row public_identity_def address_def
      account_from_row_def example_config_def)

definition demo_submit :: submit_req where
  "demo_submit = \<lparr>sb_action = None, sb_path = ''/u/kim@m.p/'', sb_id = ''x1'', sb_schema = ''post.v1'',
     sb_content_type = None, sb_payload = ''hi'', sb_hlc = None, sb_prev = None\<rparr>"

lemma demo_present:
  "present (demo_poster code) wt cred w = (Inr (''a~b~c~d'', ''seed''), w)"
  if "pw_warrant wt = ''h.p.s~cfg''"
proof -
  have 1: "split_once CHR ''~'' ''h.p.s~cfg'' = Some (''h.p.s'', ''cfg'')" by code_simp
  show ?thesis
    by (simp add: present_def and_then_def lift_def map_err_def ok_or_def that 1 demo_poster_def)
qed

lemma demo_ensure:
  "ensure_all (demo_poster code) e d n [''m.p''] w =
   (Inr (), w\<lparr>calls := calls w @ [HttpGet (dnssec_url d ''m.p'' (n ''m.p''))]\<rparr>)"
  by (simp add: ensure_dnssec_fresh_def get_dnssec_def Let_def and_then_def attempt_def lift_def
      map_err_def http_send_eq demo_poster_def demo_net_def is_success_def done_with_def)

lemma demo_submit_run:
  "\<exists>v w'. submit example_config (demo_poster 200) (\<lambda>_. ''eph'') (Some ''s'') 200 300 (\<lambda>_. 300) 5 demo_submit granted_world
     = (Inr v, w')"
proof -
  have s: "require_session (Some ''s'') 200 granted_world = (Inr 1, granted_world)"
    using granted_session by (simp add: require_session_Inr)
  obtain cred where c: "checked_warrant example_config (demo_poster 200) 1 300 granted_world = (Inr
      (\<lparr>pw_user_email = ''kim@m.p'', pw_warrant = ''h.p.s~cfg'', pw_audience = ''db'',
        pw_expires_at = 9000, pw_device_seed = Some ''s'', pw_device_cert = Some ''c'',
        pw_holder = Some ''h'', pw_idp = Some ''i'', pw_access_mint = None\<rparr>, cred), granted_world)"
    using granted_live checked_warrant_Inr by blast
  have i: "presentation_issuers (demo_poster 200) ''a~b~c~d'' = Inr [''m.p'']" by code_simp
  have m: "\<exists>msg. poster_message (demo_poster 200) k Post demo_submit own p 5 = Inr msg" for k own p
    by (simp add: poster_message_def res_bind_def map_err_def demo_poster_def)
  have f: "\<exists>v w'. forward (demo_poster 200) d j x w = (Inr v, w')" for d j x w
    by (simp add: forward_def attempt_def submit_wire_def and_then_def http_send_eq lift_def
        demo_poster_def demo_net_def is_success_def done_with_def)
  have a: "signable_action (sb_action demo_submit) = Inr Post"
    by (simp add: signable_action_def demo_submit_def)
  obtain msg where "poster_message (demo_poster 200) (key_of_bytes (demo_poster 200) ''seed'') Post
      demo_submit ''kim@m.p'' ''a~b~c~d'' 5 = Inr msg" using m by blast
  then show ?thesis
    using f by (simp add: submit_def and_then_def s c demo_present i demo_ensure a lift_def
        del: ensure_all.simps)
qed

theorem submit_sound_witness:
  "\<exists>v w' wire log. submit example_config (demo_poster 200) (\<lambda>_. ''eph'') (Some ''s'') 200 300 (\<lambda>_. 300) 5 demo_submit
     granted_world = (Inr v, w') \<and> calls w' = log @ [PostWire ''https://d/v1/submit'' wire]"
proof -
  obtain v w' where r: "submit example_config (demo_poster 200) (\<lambda>_. ''eph'') (Some ''s'') 200 300 (\<lambda>_. 300) 5
      demo_submit granted_world = (Inr v, w')" using demo_submit_run by blast
  have "\<exists>log wire. calls w' = log @ [PostWire (daemon_url example_config @ ''/v1/submit'') wire]"
    using submit_sound [OF r] by blast
  then show ?thesis using r by (auto simp: example_config_def)
qed

theorem submit_needs_grant_witness:
  "calls (snd (submit example_config (demo_poster 200) (\<lambda>_. ''eph'') (Some ''s'') 200 9000 (\<lambda>_. 300) 5 demo_submit
     granted_world)) = []"
proof -
  have "\<not> (\<exists>sid i wt. Some ''s'' = Some sid \<and> session_owner sid 200 (db granted_world) = Some i \<and>
      live_grant example_config (demo_poster 200) i 9000 (db granted_world) wt)"
    using granted_session granted_warrant by (auto simp: live_grant_def)
  from submit_needs_grant [OF prod.collapse [symmetric] this] show ?thesis
    by (simp add: granted_world_def)
qed

theorem ensure_dnssec_fail_closed_witness:
  "fresh_confirmed (demo_poster 200) ''eph'' ''https://d'' 300 ''m.p''
     (calls (snd (ensure_dnssec_fresh (demo_poster 200) ''eph'' ''https://d'' 300 ''m.p'' granted_world)))"
proof -
  have "fst (ensure_dnssec_fresh (demo_poster 200) ''eph'' ''https://d'' 300 ''m.p'' granted_world) = Inr ()"
    by (simp add: ensure_dnssec_fresh_def get_dnssec_def Let_def and_then_def attempt_def lift_def
        map_err_def http_send_eq demo_poster_def demo_net_def is_success_def done_with_def)
  from ensure_dnssec_fail_closed [OF prod.collapse [symmetric], THEN conjunct1, THEN mp, OF this]
  show ?thesis .
qed

definition demo_keys :: "(unit, string, string, (string, string) device_claims, unit) poster_keys" where
  "demo_keys = \<lparr>certs = \<lparr>pk_from_base64 = Inr, pk_to_base64 = (\<lambda>k. k), kp_public = (\<lambda>_. ''idp''),
     holder_new = Inr, dc_create = (\<lambda>c _ now. Inr ''cert''), dc_parse = (\<lambda>_. Inl []),
     dc_verify = (\<lambda>_ pk. False), dc_claims = (\<lambda>c. c), dc_is_expired = (\<lambda>_ t. False),
     dc_authorizes = (\<lambda>c e. False), ar_parse = (\<lambda>_. Inl []), ar_verify = (\<lambda>_ pk. False),
     ar_claims = (\<lambda>_. \<lparr>ar_domain = [], ar_identity = [], ar_holder = [], ar_access_key = []\<rparr>),
     ar_is_expired = (\<lambda>_ _. False), ac_create = (\<lambda>c _ _. Inl []),
     DEVICE_CERT_VALIDITY_DAYS = 90, ACCESS_CERT_VALIDITY_HOURS = 24\<rparr>,
     idp_key = (), poster_key = (), secret_bytes = (\<lambda>_. ''seed'')\<rparr>"

definition pending_world :: poster_world where
  "pending_world = \<lparr>db = (db kim_world)\<lparr>pendings := [1 \<mapsto> \<lparr>pr_user_email = ''kim@m.p'', pr_code = ''co'',
     pr_verification_uri = Some ''uri'', pr_expires_at = Some 900, pr_device_seed = Some ''s'',
     pr_created_at = 5\<rparr>]\<rparr>, set_cookies = [], dns_queries = 0, calls = []\<rparr>"

lemma pending_session: "session_owner ''s'' 200 (db pending_world) = Some 1"
  using example_session by (simp add: pending_world_def kim_world_def session_owner_def)

lemma pending_row: "pending_at 1 (db pending_world) = Some \<lparr>pp_user_email = ''kim@m.p'', pp_code = ''co'',
    pp_verification_uri = Some ''uri'', pp_expires_at = 900, pp_device_seed = Some ''s''\<rparr>"
  by (simp add: pending_at_def pending_world_def pending_from_row_def)

lemma demo_poll:
  "\<exists>w'. poll example_config (demo_poster 200) demo_keys (Some ''s'') 200 300 301 pending_world =
     (Inr (PollStatus ''approved''), w') \<and> warrant_at 1 (db w') \<noteq> None"
proof -
  have s: "require_session (Some ''s'') 200 pending_world = (Inr 1, pending_world)"
    using pending_session by (simp add: require_session_Inr)
  have t: "jindex ''status'' (json_or_raw (demo_poster 200) ''done'') = JStr ''completed''"
    "completed_tail (json_or_raw (demo_poster 200) ''done'') = Inr ''h.p.s~cfg''" by code_simp+
  have p: "post_json_raw (demo_poster 200) u b w = (Inr (200, json_or_raw (demo_poster 200) ''done''),
      w\<lparr>calls := calls w @ [PostJson u b]\<rparr>)" for u b w
    by (simp add: post_json_raw_def and_then_def http_send_eq lift_def)
       (simp add: demo_poster_def demo_net_def)
  have g: "eq_ignore_ascii_case ''kim@m.p'' ''kim@m.p''" "poster_identity (domain example_config) = ''mingo-poster@m.p''"
    by code_simp+
  have c: "poster_device_cert example_config demo_keys 300 = Inr ''cert''"
    by (simp add: poster_device_cert_def demo_keys_def res_bind_def map_err_def)
  have wp: "warrant_parse (demo_poster 200) x = Inr \<lparr>wc_grantor = ''kim@m.p'',
      wc_grantee = ''mingo-poster@m.p'', wc_audience = ''db'', wc_exp = 9000\<rparr>" for x
    by (simp add: demo_poster_def)
  show ?thesis
    by (simp add: poll_def and_then_def s pending_row p t poll_completed_def lift_def map_err_def wp g c
        Let_def done_with_def warrant_table.look_put)
qed

theorem poll_stores_only_delegation_witness:
  "\<exists>w' wt. poll example_config (demo_poster 200) demo_keys (Some ''s'') 200 300 301 pending_world =
     (Inr (PollStatus ''approved''), w') \<and> warrant_at 1 (db w') = Some wt \<and>
     pw_user_email wt = ''kim@m.p'' \<and> pending_at 1 (db w') = None"
proof -
  obtain w' where w': "poll example_config (demo_poster 200) demo_keys (Some ''s'') 200 300 301
      pending_world = (Inr (PollStatus ''approved''), w')" "warrant_at 1 (db w') \<noteq> None"
    using demo_poll by blast
  then have "warrant_at 1 (db w') \<noteq> warrant_at 1 (db pending_world)"
    by (simp add: warrant_at_def pending_world_def kim_world_def example_store_def)
  from poll_stores_only_delegation [OF w'(1) this] pending_row show ?thesis using w'(1) by auto
qed

theorem grant_given_up_witness:
  "warrant_at 1 (db (snd (forward (demo_poster 403) ''https://d'' 1 ''wire'' granted_world))) = None \<and>
   pending_at 1 (db (snd (disable (Some ''s'') 200 pending_world))) = None"
proof -
  have "send (demo_poster 403) (calls granted_world) (PostWire (''https://d'' @ ''/v1/submit'') ''wire'') =
      Replied 403 ''revocation: config cert''"
    by (simp add: demo_poster_def demo_net_def)
  moreover have "\<not> is_success 403" by (simp add: is_success_def)
  moreover have "contains_text ''revocation:'' ''revocation: config cert''" by code_simp
  moreover have "disable (Some ''s'') 200 pending_world =
      (Inr (), snd (disable (Some ''s'') 200 pending_world))"
    using pending_session by (simp add: disable_def and_then_def require_session_Inr [THEN iffD2])
  ultimately show ?thesis
    using grant_given_up [OF _ _ prod.collapse [symmetric], of "demo_poster 403" granted_world "''https://d''"
        "''wire''" 403 "''revocation: config cert''"] pending_session by blast
qed

theorem enable_idempotent_witness:
  "enable example_config (demo_poster 200) demo_keys (Some ''s'') 200 201 202 pending_world =
     (Inr ''uri'', pending_world)"
proof -
  have s: "require_session (Some ''s'') 200 pending_world = (Inr 1, pending_world)"
    using pending_session by (simp add: require_session_Inr)
  have r: "row_by_id 1 (db pending_world) = Some \<lparr>acc_id = 1, external_email = ''a@x'',
      handle = Some ''kim'', identity_mode = None, acc_created_at = 5\<rparr>"
    by (simp add: row_by_id_def pending_world_def kim_world_def)
  have e: "enable example_config (demo_poster 200) demo_keys (Some ''s'') 200 201 202 pending_world =
      (Inr ''uri'', pending_world)"
    by (simp add: enable_def and_then_def s on_db_get_account_eq r lift_def ok_or_def Let_def pending_row
        reusable_def public_identity_def account_from_row_def address_def example_config_def
        i64_add_def wrap64_def done_with_def)
  then show ?thesis
    using enable_idempotent [OF e] pending_row pending_session by (auto simp: i64_add_def wrap64_def)
qed

end
