(* ===== verification/Idp_Router.thy ===== *)
theory Idp_Router
  imports Idp_Poster_Props
begin

text \<open>
  The service as a whole (\<open>mingo-idp/src/lib.rs\<close>): which request reaches which handler, and what
  holds of the store after any sequence of requests.
\<close>

section \<open>Routing\<close>

datatype http_method = GET | HEAD | POST | OPTIONS | OTHER

datatype endpoint =
    WellKnown | SessionFromPresentation | WhoAmI | Logout | ClaimHandle | UseExternal
  | DeviceCertBatch | AgentDeviceCert | PosterEnable | PosterPoll | PosterStatus | PosterDisable
  | PosterSubmit | AdminSeed | AdminDeleteAccount | AccessMint

definition route_table :: "(string \<times> http_method \<times> endpoint) list" where
  "route_table =
     [(''/.well-known/browserid'', GET, WellKnown),
      (''/session/from-presentation'', POST, SessionFromPresentation),
      (''/whoami'', GET, WhoAmI),
      (''/logout'', POST, Logout),
      (''/claim_handle'', POST, ClaimHandle),
      (''/use_external'', POST, UseExternal),
      (''/device_cert'', POST, DeviceCertBatch),
      (''/agent_device_cert'', POST, AgentDeviceCert),
      (''/poster/enable'', POST, PosterEnable),
      (''/poster/poll'', POST, PosterPoll),
      (''/poster/status'', GET, PosterStatus),
      (''/poster/disable'', POST, PosterDisable),
      (''/poster/submit'', POST, PosterSubmit),
      (''/admin/seed'', POST, AdminSeed),
      (''/admin/delete-account'', POST, AdminDeleteAccount),
      (''/access/mint'', POST, AccessMint)]"

text \<open>Only the mint answers cross-origin requests.\<close>

definition cors_allowed :: "endpoint \<Rightarrow> bool" where
  "cors_allowed e \<longleftrightarrow> e = AccessMint"

text \<open>
  A handler of \<open>get\<close> also answers a HEAD, and the layer around the mint answers every OPTIONS there
  itself, as a preflight.
\<close>

datatype routed =
    Handler endpoint
  | CorsPreflight
  | MethodNotAllowed
  | DeviceAuthorizePage
  | StaticFiles

definition route :: "http_method \<Rightarrow> string \<Rightarrow> routed" where
  "route m path =
     (case map_of route_table path of
        Some (m', e) \<Rightarrow>
          if cors_allowed e \<and> m = OPTIONS then CorsPreflight
          else if m = m' \<or> (m = HEAD \<and> m' = GET) then Handler e
          else MethodNotAllowed
      | None \<Rightarrow> if path = ''/device-authorize'' then DeviceAuthorizePage else StaticFiles)"

section \<open>Requests\<close>

record ('p, 'k, 'sk, 'spk, 'sig, 'agent, 'kp, 'pk, 'h, 'dc, 'ar) service =
  sv_lower :: "string \<Rightarrow> string"
  sv_config :: config
  sv_presentations :: "('p, 'k) presentation_api"
  sv_dns :: "(string, 'k dns) res"
  sv_poster :: "('sk, 'spk, 'sig, 'agent) poster_api"
  sv_keys :: "('kp, 'pk, 'h, 'dc, 'ar) poster_keys"
  sv_ephemeral :: "string \<Rightarrow> 'sk"

text \<open>A request with the session cookie or the admin header it carries, the times at which its
  handler reads the clock and the random ids it would draw.\<close>

datatype request =
    ReqSignIn string string string int int
  | ReqWhoAmI "string option" int
  | ReqLogout "string option" int
  | ReqClaim "string option" int string
  | ReqUseExternal "string option" int
  | ReqDeviceCert "string option" int device_cert_req
  | ReqAgentCert "string option" int agent_cert_req
  | ReqEnable "string option" int int int
  | ReqPoll "string option" int int int
  | ReqStatus "string option" int int
  | ReqDisable "string option" int
  | ReqSubmit "string option" int int "string \<Rightarrow> int" int submit_req
  | ReqSeed "string option" string string int
  | ReqDelete "string option" string

fun serve ::
  "('p, 'k, 'sk, 'spk, 'sig, 'agent, 'kp, 'pk, 'h, 'dc, 'ar) service \<Rightarrow> request \<Rightarrow>
   poster_world \<Rightarrow> poster_world" where
  "serve sv (ReqSignIn pres sid csrf t0 t1) w = snd (session_from_presentation (sv_lower sv)
     (sv_config sv) (sv_presentations sv) (sv_dns sv) pres sid csrf t0 t1 w)"
| "serve sv (ReqWhoAmI jar now) w = snd (whoami jar now w)"
| "serve sv (ReqLogout jar now) w = snd (logout (sv_config sv) jar now w)"
| "serve sv (ReqClaim jar now raw) w = snd (claim_handle (sv_lower sv) (sv_config sv) jar now raw w)"
| "serve sv (ReqUseExternal jar now) w = snd (use_external jar now w)"
| "serve sv (ReqDeviceCert jar now req) w =
     snd (device_cert (sv_config sv) (certs (sv_keys sv)) (idp_key (sv_keys sv)) jar now req w)"
| "serve sv (ReqAgentCert jar now req) w = snd (agent_device_cert (sv_lower sv) (sv_config sv)
     (certs (sv_keys sv)) (idp_key (sv_keys sv)) jar now req w)"
| "serve sv (ReqEnable jar now n1 n2) w =
     snd (enable (sv_config sv) (sv_poster sv) (sv_keys sv) jar now n1 n2 w)"
| "serve sv (ReqPoll jar now n1 n2) w =
     snd (poll (sv_config sv) (sv_poster sv) (sv_keys sv) jar now n1 n2 w)"
| "serve sv (ReqStatus jar now n1) w = snd (status (sv_config sv) (sv_poster sv) jar now n1 w)"
| "serve sv (ReqDisable jar now) w = snd (disable jar now w)"
| "serve sv (ReqSubmit jar now n1 n2 ms req) w =
     snd (submit (sv_config sv) (sv_poster sv) (sv_ephemeral sv) jar now n1 n2 ms req w)"
| "serve sv (ReqSeed hdr e h now) w = snd (admin_seed (sv_lower sv) (sv_config sv) hdr e h now w)"
| "serve sv (ReqDelete hdr e) w = snd (admin_delete_account (sv_lower sv) (sv_config sv) hdr e w)"

section \<open>What every request keeps\<close>

definition own_domain :: "string \<Rightarrow> string \<Rightarrow> bool" where
  "own_domain d e \<longleftrightarrow> eq_ignore_ascii_case (after_last_at e) d"

definition emails_external :: "string \<Rightarrow> store \<Rightarrow> bool" where
  "emails_external d st \<longleftrightarrow> (\<forall>r \<in> set (accounts st). \<not> own_domain d (external_email r))"

text \<open>Lowering a text does not move it into the service's domain.  (Unicode has characters that
  lower to ASCII letters, the Kelvin sign to k, so this depends on the domain.)\<close>

definition lowers_apart :: "(string \<Rightarrow> string) \<Rightarrow> string \<Rightarrow> bool" where
  "lowers_apart U d \<longleftrightarrow> (\<forall>e. own_domain d (to_lowercase U e) \<longrightarrow> own_domain d e)"

definition good_store :: "string \<Rightarrow> store \<Rightarrow> bool" where
  "good_store d st \<longleftrightarrow> wf_store st \<and> refs_known st \<and> handles_valid st \<and> emails_external d st"

text \<open>The condition under which an operation keeps all of it, and the invariant with the account ids
  that a handler has been given so far.\<close>

fun op_ok :: "(string \<Rightarrow> string) \<Rightarrow> string \<Rightarrow> db_op \<Rightarrow> store \<Rightarrow> bool" where
  "op_ok U d (FindOrCreate e now) st = (\<not> own_domain d e)"
| "op_ok U d (SetHandle i h) st = valid_name False (to_lowercase U h)"
| "op_ok U d op st = admissible op st"

definition good_with :: "string \<Rightarrow> int set \<Rightarrow> store \<Rightarrow> bool" where
  "good_with d ids st \<longleftrightarrow> good_store d st \<and> (\<forall>i \<in> ids. known_id i st)"

lemma op_ok_admissible: "op_ok U d op st \<Longrightarrow> admissible op st"
  by (cases op) simp_all

lemma exec_accounts_subset:
  assumes "\<And>e now. op \<noteq> FindOrCreate e now" "\<And>i h. op \<noteq> SetHandle i h"
    and "r \<in> set (accounts (exec U op st))"
  obtains r0 where "r0 \<in> set (accounts st)" "handle r = handle r0" "external_email r = external_email r0"
proof (cases op)
  case (SetIdentityMode i m)
  then show ?thesis using assms(3) that by (auto simp: set_identity_mode_def split: if_splits)
next
  case (DeleteAccount e)
  then show ?thesis using assms(3) that
    by (auto simp: delete_account_def Let_def split: option.splits)
next
  case (CreateAgent i n now)
  then show ?thesis using assms(3) that
    by (cases rule: create_agent_cases [of U n st i now]) auto
qed (use assms that in \<open>auto simp: create_session_def delete_session_def delete_account_sessions_def
      account_for_session_def and_then_def done_with_def revoke_agent_identity_def
      set_poster_pending_def clear_poster_pending_def set_poster_warrant_def
      delete_poster_warrant_def split: option.splits if_splits\<close>)

lemma good_exec:
  assumes U: "lowers_apart U d" and g: "good_store d st" and ok: "op_ok U d op st"
  shows "good_store d (exec U op st)"
proof -
  have wf: "wf_store (exec U op st)" "refs_known (exec U op st)"
    using g exec_keeps_wf exec_keeps_refs op_ok_admissible [OF ok] by (auto simp: good_store_def)
  have old: "handles_valid st" "emails_external d st" using g by (simp_all add: good_store_def)
  have "handles_valid (exec U op st) \<and> emails_external d (exec U op st)"
  proof (cases "(\<exists>e now. op = FindOrCreate e now) \<or> (\<exists>i h. op = SetHandle i h)")
    case False
    then show ?thesis using old exec_accounts_subset [of op _ U st]
      unfolding handles_valid_def emails_external_def by metis
  next
    case True
    then show ?thesis
    proof (elim disjE exE)
      fix e now assume op: "op = FindOrCreate e now"
      then have "\<not> own_domain d (to_lowercase U e)" using ok U by (auto simp: lowers_apart_def)
      then show ?thesis using old op
        by (auto simp: find_or_create_state insert_account_def handles_valid_def emails_external_def
            split: option.splits)
    next
      fix i h assume op: "op = SetHandle i h"
      then have v: "valid_name False (to_lowercase U h)" using ok by simp
      show ?thesis
        by (cases rule: set_handle_cases [of U h st i])
           (use old op v in \<open>auto simp: handles_valid_def emails_external_def\<close>)
    qed
  qed
  then show ?thesis using wf by (simp add: good_store_def)
qed

lemma good_with_exec:
  "lowers_apart U d \<Longrightarrow> good_with d ids st \<Longrightarrow> op_ok U d op st \<Longrightarrow> good_with d ids (exec U op st)"
  using good_exec exec_known by (simp add: good_with_def)

text \<open>Each database call of a handler as a step that keeps it.\<close>

abbreviation keeps_good :: "string \<Rightarrow> int set \<Rightarrow> (poster_world, 'e, 'a) run \<Rightarrow> bool" where
  "keeps_good d ids m \<equiv> keeps (\<lambda>w. good_with d ids (db w)) m"

lemma keeps_good_op:
  assumes "lowers_apart U d" "\<And>st. good_with d ids st \<Longrightarrow> op_ok U d op st"
    and "\<And>st. snd (m st) = exec U op st"
  shows "keeps_good d ids (on_db m)"
  by (rule keepsI) (simp add: assms good_with_exec)

lemma keeps_good_reader: "(\<And>st. snd (m st) = st) \<Longrightarrow> keeps_good d ids (on_db m)"
  by (rule keepsI) simp

lemma keeps_good_readers [keeps_rules]:
  "keeps_good d ids (on_db (get_account i))"
  "keeps_good d ids (on_db (get_poster_pending i))"
  "keeps_good d ids (on_db (get_poster_warrant i))"
  by (auto intro!: keeps_good_reader simp: get_account_def get_poster_pending_def get_poster_warrant_def)

lemma keeps_good_known:
  assumes "lowers_apart U d" "i \<in> ids"
  shows "keeps_good d ids (on_db (create_session i s c now))"
    and "keeps_good d ids (on_db (set_poster_pending i e1 e2 e3 x e4 now))"
    and "keeps_good d ids (on_db (set_poster_warrant i f1 f2 f3 x f4 f5 f6 f7 f8 now))"
proof -
  have known: "good_with d ids st \<Longrightarrow> known_id i st" for st
    using assms(2) by (simp add: good_with_def)
  show "keeps_good d ids (on_db (create_session i s c now))"
    by (rule keeps_good_op [OF assms(1), where op = "CreateSession i s c now"]) (simp_all add: known)
  show "keeps_good d ids (on_db (set_poster_pending i e1 e2 e3 x e4 now))"
    by (rule keeps_good_op [OF assms(1), where op = "SetPending i e1 e2 e3 x e4 now"]) (simp_all add: known)
  show "keeps_good d ids (on_db (set_poster_warrant i f1 f2 f3 x f4 f5 f6 f7 f8 now))"
    by (rule keeps_good_op [OF assms(1), where op = "SetWarrant i f1 f2 f3 x f4 f5 f6 f7 f8 now"])
       (simp_all add: known)
qed

lemma keeps_good_ops:
  assumes "lowers_apart U d"
  shows "keeps_good d ids (on_db (set_identity_mode i m))"
    and "keeps_good d ids (on_db (delete_account U e))"
    and "keeps_good d ids (on_db (delete_session s))"
    and "keeps_good d ids (on_db (delete_account_sessions i))"
    and "keeps_good d ids (on_db (account_for_session s now))"
    and "keeps_good d ids (on_db (clear_poster_pending i))"
    and "keeps_good d ids (on_db (delete_poster_warrant i))"
  using assms
  by (auto intro: keeps_good_op [where op = "SetIdentityMode i m" and U = U]
      keeps_good_op [where op = "DeleteAccount e" and U = U]
      keeps_good_op [where op = "DeleteSession s" and U = U]
      keeps_good_op [where op = "DeleteAccountSessions i" and U = U]
      keeps_good_op [where op = "AccountForSession s now" and U = U]
      keeps_good_op [where op = "ClearPending i" and U = U]
      keeps_good_op [where op = "DeleteWarrant i" and U = U])

section \<open>Handlers keep it\<close>

lemma keeps_db_same: "(\<And>w. db (snd (m w)) = db w) \<Longrightarrow> keeps_good d ids m"
  by (simp add: keeps_def)

lemma keeps_bind_lift:
  "(\<And>x. r = Inr x \<Longrightarrow> keeps I (f x)) \<Longrightarrow> keeps I (and_then (lift r) f)"
  by (cases r) (auto simp: keeps_def and_then_def lift_def)

lemma keeps_bind_session:
  assumes U: "lowers_apart U d" and f: "\<And>i. keeps_good d (insert i ids) (f i)"
  shows "keeps_good d ids (and_then (require_session jar now) f)"
proof (rule keepsI)
  fix w :: poster_world
  assume g: "good_with d ids (db w)"
  show "good_with d ids (db (snd (and_then (require_session jar now) f w)))"
  proof (cases "require_session jar now w")
    case (Pair r w')
    show ?thesis
    proof (cases r)
      case (Inl e)
      have "keeps_good d ids (require_session jar now)"
        unfolding require_session_def
        by (intro keeps_and_then keeps_lift keeps_good_ops(5) [OF U])
      then have "good_with d ids (db w')" using g Pair keepsD by fastforce
      then show ?thesis using Pair Inl by (simp add: and_then_def)
    next
      case (Inr i)
      then obtain sid where "session_owner sid now (db w) = Some i" "w' = w"
        using Pair by (auto simp: require_session_Inr)
      then have "i \<in> ref_ids (db w)"
        by (auto simp: session_owner_def ref_ids_def image_iff ran_def split: option.splits if_splits)
      then have "known_id i (db w)" using g by (simp add: good_with_def good_store_def refs_known_def)
      then have "good_with d (insert i ids) (db w)" using g by (simp add: good_with_def)
      then have "good_with d (insert i ids) (db (snd (f i w)))" by (rule keepsD [OF f])
      then show ?thesis using Pair Inr \<open>w' = w\<close> by (simp add: and_then_def good_with_def)
    qed
  qed
qed

lemma keeps_bind_account:
  assumes U: "lowers_apart U d" and rej: "reject_own_domain e d = Inr u"
    and f: "\<And>a. keeps_good d (insert (acc_id a) ids) (f a)"
  shows "keeps_good d ids (and_then (on_db (find_or_create_account U e now)) f)"
proof (rule keepsI)
  have e: "\<not> own_domain d e"
    using rej by (auto simp: reject_own_domain_def own_domain_def split: if_splits)
  fix w :: poster_world
  assume g: "good_with d ids (db w)"
  obtain r st where r: "find_or_create_account U e now (db w) = (r, st)" by fastforce
  have st: "st = exec U (FindOrCreate e now) (db w)" using r by simp
  have g': "good_with d ids st" unfolding st by (rule good_with_exec [OF U g]) (simp add: e)
  show "good_with d ids (db (snd (and_then (on_db (find_or_create_account U e now)) f w)))"
  proof (cases r)
    case (Inl x)
    then show ?thesis using r g' by (simp add: and_then_def on_db_def map_err_def)
  next
    case (Inr a)
    have "wf_store (db w)" using g by (simp add: good_with_def good_store_def)
    then obtain row where row: "wf_store st" "row_by_email (to_lowercase U e) st = Some row"
        "acc_id row = acc_id a"
      using find_or_create_Inr r Inr by blast
    then have "row \<in> set (accounts st)" by (simp add: row_by_email_eq)
    then have "known_id (acc_id a) st"
      using wf_storeD(1) [OF row(1)] row(3) by (force simp: ids_fresh_def known_id_def)
    then have "good_with d (insert (acc_id a) ids) (db (w\<lparr>db := st\<rparr>))" using g' by (simp add: good_with_def)
    then have "good_with d (insert (acc_id a) ids) (db (snd (f a (w\<lparr>db := st\<rparr>))))" by (rule keepsD [OF f])
    then show ?thesis using r Inr by (simp add: and_then_def on_db_def map_err_def good_with_def)
  qed
qed

lemma keeps_good_set_handle:
  assumes "lowers_apart U d" "lowering U" "normalize_handle U raw = Inr h"
  shows "keeps_good d ids (on_db (set_handle U i h))"
proof (rule keeps_good_op [OF assms(1), where op = "SetHandle i h"])
  have v: "valid_name False h"
    using assms(3) normalize_name_Inr [OF assms(2)] by (auto simp: normalize_handle_def)
  then show "op_ok U d (SetHandle i h) st" for st by (simp add: valid_name_lower)
qed simp

lemma keeps_http [simp]: "keeps_good d ids (http_send api c)"
  by (rule keeps_db_same) (simp add: http_send_def)

lemma keeps_calls:
  "keeps_good d ids (post_json api dec url body)"
  "keeps_good d ids (post_json_raw api url body)"
  "keeps_good d ids (submit_wire api daemon wire)"
  "keeps_good d ids (get_dnssec api daemon dmn n)"
  unfolding post_json_def post_json_raw_def submit_wire_def get_dnssec_def Let_def
  by (intro keeps_and_then keeps_http keeps_lift)+

lemma keeps_ensure: "keeps_good d ids (ensure_dnssec_fresh api e daemon now dmn)"
  unfolding ensure_dnssec_fresh_def
  by (intro keeps_attempt keeps_and_then keeps_calls keeps_lift keeps_if keeps_done keeps_option
      keeps_fail)

lemma keeps_ensure_all: "keeps_good d ids (ensure_all api e daemon now ds)"
  by (induction ds) (auto intro: keeps_done keeps_and_then keeps_ensure)

lemma keeps_sign_in:
  assumes "lowers_apart U (domain cfg)"
  shows "keeps_good (domain cfg) {} (session_from_presentation U cfg api fetcher pres sid csrf t0 t1)"
  unfolding session_from_presentation_def
  by (rule keeps_bind_lift keeps_bind_account [OF assms] keeps_good_known(1) [OF assms]
      keeps_on_dns keeps_cookies keeps_prod keeps_done keeps_and_then insertI1 | assumption)+

lemma keeps_seed:
  assumes "lowers_apart U (domain cfg)" "lowering U"
  shows "keeps_good (domain cfg) {} (admin_seed U cfg hdr e raw now)"
  unfolding admin_seed_def
  by (rule keeps_bind_lift keeps_bind_account [OF assms(1)] keeps_good_set_handle [OF assms]
      keeps_if keeps_fail keeps_done keeps_and_then | assumption)+

lemma keeps_claim:
  assumes "lowers_apart U d" "lowering U"
  shows "keeps_good d {} (claim_handle U cfg jar now raw)"
  unfolding claim_handle_def
  by (rule keeps_bind_lift keeps_bind_session [OF assms(1)] keeps_good_set_handle [OF assms]
      keeps_good_ops(1) [OF assms(1)] keeps_if keeps_fail keeps_done keeps_and_then | assumption)+

lemma keeps_session_handlers:
  assumes U: "lowers_apart U d"
  shows "keeps_good d {} (use_external jar now)"
    and "keeps_good d {} (whoami jar now)"
    and "keeps_good d {} (logout cfg jar now)"
    and "keeps_good d {} (admin_delete_account U cfg hdr e)"
    and "keeps_good d {} (disable jar now)"
    and "keeps_good d {} (status cfg papi jar now n1)"
    and "keeps_good d {} (device_cert cfg api kp jar now req)"
    and "keeps_good d {} (agent_device_cert U cfg api kp jar now areq)"
proof -
  show "keeps_good d {} (use_external jar now)"
    unfolding use_external_def
    by (intro keeps_bind_session [OF U] keeps_and_then keeps_good_ops [OF U] keeps_good_readers keeps_lift)
  have rs: "keeps_good d {} (require_session jar now)"
    unfolding require_session_def by (intro keeps_and_then keeps_lift keeps_good_ops(5) [OF U])
  show "keeps_good d {} (whoami jar now)"
    unfolding whoami_def
    by (intro keeps_attempt rs keeps_sum keeps_good_readers keeps_done)
  show "keeps_good d {} (logout cfg jar now)"
    unfolding logout_def
    by (intro keeps_and_then keeps_option keeps_done keeps_good_ops [OF U] keeps_cookies)
  show "keeps_good d {} (admin_delete_account U cfg hdr e)"
    unfolding admin_delete_account_def
    by (intro keeps_and_then keeps_lift keeps_if keeps_fail keeps_good_ops [OF U])
  show "keeps_good d {} (disable jar now)"
    unfolding disable_def
    by (intro keeps_bind_session [OF U] keeps_and_then keeps_good_ops [OF U])
  show "keeps_good d {} (status cfg papi jar now n1)"
    unfolding status_def Let_def
    by (intro keeps_bind_session [OF U] keeps_and_then keeps_good_readers keeps_lift keeps_done)
  show "keeps_good d {} (device_cert cfg api kp jar now req)"
    unfolding device_cert_def Let_def
    by (intro keeps_bind_session [OF U] keeps_and_then keeps_good_readers keeps_lift keeps_done)
  show "keeps_good d {} (agent_device_cert U cfg api kp jar now areq)"
    unfolding agent_device_cert_def Let_def
    by (intro keeps_bind_session [OF U] keeps_and_then keeps_good_readers keeps_lift keeps_done
        keeps_prod keeps_if keeps_fail)
qed

lemma keeps_enable:
  assumes "lowers_apart U d"
  shows "keeps_good d {} (enable cfg api ks jar now n1 n2)"
  unfolding enable_def Let_def
  by (rule keeps_bind_lift keeps_bind_session [OF assms] keeps_good_readers keeps_calls
      keeps_good_known(2) [OF assms] keeps_option keeps_done keeps_and_then insertI1 | assumption)+

lemma keeps_poll:
  assumes "lowers_apart U d"
  shows "keeps_good d {} (poll cfg api ks jar now n1 n2)"
  unfolding poll_def poll_completed_def Let_def
  by (rule keeps_bind_lift keeps_bind_session [OF assms] keeps_good_readers keeps_calls
      keeps_good_known(3) [OF assms] keeps_good_ops [OF assms] keeps_option keeps_done keeps_prod
      keeps_if keeps_and_then insertI1 | assumption)+

lemma keeps_checked: "keeps_good d ids (checked_warrant cfg api i now)"
  unfolding checked_warrant_def
  by (rule keeps_bind_lift keeps_good_readers keeps_fail keeps_option keeps_done keeps_prod keeps_if
      keeps_and_then | simp)+

lemma keeps_present: "keeps_good d ids (present api w cred)"
proof (rule keeps_db_same)
  fix w' :: poster_world
  show "db (snd (present api w cred w')) = db w'"
    using present_state [of api w cred w' "fst (present api w cred w')" "snd (present api w cred w')"] by auto
qed

lemma keeps_forward:
  assumes "lowers_apart U d"
  shows "keeps_good d ids (forward api daemon i wire)"
  unfolding forward_def
  by (rule keeps_attempt keeps_calls keeps_sum keeps_done keeps_if keeps_good_ops [OF assms] keeps_fail)+

lemma keeps_submit:
  assumes "lowers_apart U d"
  shows "keeps_good d {} (submit cfg api e jar now n1 n2 ms req)"
  unfolding submit_def
  by (rule keeps_bind_lift keeps_bind_session [OF assms] keeps_checked keeps_present keeps_ensure_all
      keeps_forward [OF assms] keeps_prod keeps_and_then)+

lemma serve_keeps:
  assumes "lowers_apart (sv_lower sv) (domain (sv_config sv))" "lowering (sv_lower sv)"
    and "good_store (domain (sv_config sv)) (db w)"
  shows "good_store (domain (sv_config sv)) (db (serve sv req w))"
proof -
  have g: "good_with (domain (sv_config sv)) {} (db w)" using assms(3) by (simp add: good_with_def)
  note ks = keeps_sign_in [OF assms(1)] keeps_seed [OF assms(1,2)] keeps_claim [OF assms(1,2)]
    keeps_session_handlers [OF assms(1)] keeps_enable [OF assms(1)] keeps_poll [OF assms(1)]
    keeps_submit [OF assms(1)]
  have "good_with (domain (sv_config sv)) {} (db (serve sv req w))"
    by (cases req) (simp_all only: serve.simps ks [THEN keepsD, OF g])
  then show ?thesis by (simp add: good_with_def)
qed

lemma good_empty: "good_store d empty_store"
  using wf_store_empty
  by (simp add: good_store_def handles_valid_def emails_external_def) (simp add: empty_store_def)

interpretation service_sys: invariant_system
    "\<lambda>w. db w = empty_store"
    "\<lambda>_ _. lowers_apart (sv_lower sv) (domain (sv_config sv)) \<and> lowering (sv_lower sv)"
    "serve sv" "\<lambda>w. good_store (domain (sv_config sv)) (db w)"
  for sv
  by unfold_locales (simp_all add: serve_keeps good_empty)

abbreviation service_reaches ::
  "('p, 'k, 'sk, 'spk, 'sig, 'agent, 'kp, 'pk, 'h, 'dc, 'ar) service \<Rightarrow> poster_world \<Rightarrow> bool" where
  "service_reaches sv \<equiv> reaches (\<lambda>w. db w = empty_store) (\<lambda>_ _. True) (serve sv)"

text \<open>C11: After any sequence of requests to a service started on an empty database, whatever the
  network, the broker and DNS answer, the store keeps its constraints, every claimed handle is a
  valid unreserved name (never \<open>sys\<close> or \<open>sys-*\<close>) that exactly one account has and no agent has, and
  no account signs in with an address of the service's own domain.\<close>

theorem service_store_good:
  assumes "lowers_apart (sv_lower sv) (domain (sv_config sv))" "lowering (sv_lower sv)"
    and "service_reaches sv w"
  shows "wf_store (db w) \<and> refs_known (db w) \<and>
    (\<forall>r \<in> set (accounts (db w)). \<not> own_domain (domain (sv_config sv)) (external_email r) \<and>
      (\<forall>h. handle r = Some h \<longrightarrow> valid_name False h \<and> h \<noteq> ''sys'' \<and> \<not> prefix ''sys-'' h \<and>
         (\<forall>r' \<in> set (accounts (db w)). handle r' = Some h \<longrightarrow> r' = r) \<and>
         agent_by_name h (db w) = None))"
proof -
  have "(\<lambda>(_ :: request) (_ :: poster_world). lowers_apart (sv_lower sv) (domain (sv_config sv)) \<and>
      lowering (sv_lower sv)) = (\<lambda>_ _. True)" using assms by simp
  then have g: "good_store (domain (sv_config sv)) (db w)"
    using service_sys.reaches_inv [of sv w] assms(3) by simp
  then have wf: "wf_store (db w)" by (simp add: good_store_def)
  have "agent_by_name h (db w) = None" if "r \<in> set (accounts (db w))" "handle r = Some h" for r h
    using wf_storeD(5) [OF wf] that by (auto simp: agent_by_name_None namespace_disjoint_def)
  then show ?thesis using g handle_owner [OF wf]
    by (auto simp: good_store_def handles_valid_def emails_external_def valid_name_def
        handle_is_reserved_def)
qed

text \<open>Every endpoint has exactly one path, everything that can change the store is a POST, only the
  mint is open to cross-origin calls and their preflights, and no request to \<open>/admin/provision\<close>
  (which the seeding tools post to) reaches a handler.\<close>

lemma route_Handler: "route m p = Handler e \<longleftrightarrow>
  (\<exists>m'. (p, m', e) \<in> set route_table \<and> (m = m' \<or> m = HEAD \<and> m' = GET))"
proof -
  have d: "distinct (map fst route_table)" by code_simp
  have no: False if "map_of route_table p = Some (OPTIONS, e)" for p e
    using map_of_SomeD [OF that] by (auto simp: route_table_def)
  have "route m p = Handler e \<longleftrightarrow> (\<exists>m'. map_of route_table p = Some (m', e) \<and> (m = m' \<or> m = HEAD \<and> m' = GET))"
    using no by (cases "map_of route_table p") (auto simp: route_def split: if_splits)
  then show ?thesis using map_of_eq_Some_iff [OF d] by simp
qed

theorem routing_correct:
  "(\<forall>e. \<exists>!p. \<exists>m. route m p = Handler e) \<and>
   (\<forall>m p e. route m p = Handler e \<longrightarrow> e \<notin> {WellKnown, WhoAmI, PosterStatus} \<longrightarrow> m = POST) \<and>
   (\<forall>e. cors_allowed e \<longleftrightarrow> (\<exists>m. route m ''/access/mint'' = Handler e)) \<and>
   (\<forall>m p. route m p = CorsPreflight \<longleftrightarrow> m = OPTIONS \<and> p = ''/access/mint'') \<and>
   (\<forall>m. route m ''/admin/provision'' = StaticFiles)"
proof (intro conjI)
  have "distinct (map (snd \<circ> snd) route_table)" by code_simp
  then have one: "p = q" if "(p, m, e) \<in> set route_table" "(q, n, e) \<in> set route_table" for p q m n e
    using that unfolding distinct_map inj_on_def by fastforce
  show "\<forall>e. \<exists>!p. \<exists>m. route m p = Handler e"
  proof
    fix e
    have "\<exists>p m. (p, m, e) \<in> set route_table" by (cases e) (simp_all add: route_table_def)
    then show "\<exists>!p. \<exists>m. route m p = Handler e" unfolding route_Handler using one by blast
  qed
  show "\<forall>m p e. route m p = Handler e \<longrightarrow> e \<notin> {WellKnown, WhoAmI, PosterStatus} \<longrightarrow> m = POST"
    unfolding route_Handler by (auto simp: route_table_def)
  show "\<forall>e. cors_allowed e \<longleftrightarrow> (\<exists>m. route m ''/access/mint'' = Handler e)"
    unfolding route_Handler cors_allowed_def by (auto simp: route_table_def)
  have mint: "map_of route_table ''/access/mint'' = Some (POST, AccessMint)" by code_simp
  have at: "p = ''/access/mint''" if "map_of route_table p = Some (m, AccessMint)" for m p
    using one [OF map_of_SomeD [OF that] map_of_SomeD [OF mint]] .
  have "route m p = CorsPreflight \<longleftrightarrow> m = OPTIONS \<and> p = ''/access/mint''" for m p
  proof (cases "map_of route_table p")
    case None
    then show ?thesis using mint by (auto simp: route_def)
  next
    case (Some x)
    obtain m' e where x: "x = (m', e)" by (cases x)
    have "e = AccessMint \<longleftrightarrow> p = ''/access/mint''"
    proof
      assume "e = AccessMint"
      then show "p = ''/access/mint''" using at [of p m'] Some x by blast
    qed (use mint Some x in simp)
    then show ?thesis by (simp add: route_def cors_allowed_def Some x) blast
  qed
  then show "\<forall>m p. route m p = CorsPreflight \<longleftrightarrow> m = OPTIONS \<and> p = ''/access/mint''" by blast
  have "map_of route_table ''/admin/provision'' = None" by code_simp
  then show "\<forall>m. route m ''/admin/provision'' = StaticFiles" by (simp add: route_def)
qed

text \<open>The paths that the discovery document names are served.\<close>

lemma discovery_served:
  "map (route POST) [DEVICE_CERT_PATH, ACCESS_CERT_PATH] = [Handler DeviceCertBatch, Handler AccessMint] \<and>
   route GET DEVICE_AUTHORIZATION_PATH = DeviceAuthorizePage"
  by code_simp

text \<open>Witness: a service whose sign-in is the example presentation, and two requests to it.\<close>

definition demo_service :: "(string, string, string, string, string, unit, unit, string, string,
    (string, string) device_claims, unit) service" where
  "demo_service = \<lparr>sv_lower = map to_ascii_lowercase, sv_config = example_config,
     sv_presentations = example_api, sv_dns = Inr example_dns, sv_poster = demo_poster 200,
     sv_keys = demo_keys, sv_ephemeral = (\<lambda>_. ''eph'')\<rparr>"

definition empty_world :: poster_world where
  "empty_world = \<lparr>db = empty_store, set_cookies = [], dns_queries = 0, calls = []\<rparr>"

lemma lower_at: "to_ascii_lowercase c = CHR ''@'' \<longleftrightarrow> c = CHR ''@''"
proof (cases "is_ascii_uppercase c")
  case True
  then have "byte (to_ascii_lowercase c) \<noteq> 64" "byte c \<noteq> 64"
    by (simp_all add: to_ascii_lowercase_def is_ascii_uppercase_def)
  then have "to_ascii_lowercase c \<noteq> CHR ''@''" "c \<noteq> CHR ''@''" by auto
  then show ?thesis by simp
qed (simp add: to_ascii_lowercase_def)

lemma lower_idem: "to_ascii_lowercase (to_ascii_lowercase c) = to_ascii_lowercase c"
  using not_upper_lowered [of c] by (simp add: to_ascii_lowercase_def)

lemma split_on_lower:
  "split_on CHR ''@'' (map to_ascii_lowercase s) = map (map to_ascii_lowercase) (split_on CHR ''@'' s)"
  by (induction s) (auto simp: lower_at split: list.split)

lemma lowers_apart_ascii: "lowers_apart (map to_ascii_lowercase) d"
proof -
  have "to_lowercase (map to_ascii_lowercase) e = map to_ascii_lowercase e" for e
    by (simp add: to_lowercase_def)
  then show ?thesis
    by (simp add: lowers_apart_def own_domain_def after_last_at_def split_on_lower last_map
        eq_ignore_ascii_case_def comp_def lower_idem)
qed

theorem service_store_good_witness:
  "wf_store (db (serve demo_service (ReqClaim (Some ''s2'') 300 ''Kim'')
     (serve demo_service (ReqSignIn ''kim@x'' ''s2'' ''c2'' 200 201) empty_world)))"
proof -
  have "service_reaches demo_service (serve demo_service (ReqClaim (Some ''s2'') 300 ''Kim'')
     (serve demo_service (ReqSignIn ''kim@x'' ''s2'' ''c2'' 200 201) empty_world))"
    by (intro reaches.intros) (simp_all add: empty_world_def)
  then show ?thesis
    using service_store_good [of demo_service] lowers_apart_ascii lowering_ascii
    by (simp add: demo_service_def del: serve.simps)
qed

theorem routing_correct_witness:
  "route POST ''/claim_handle'' = Handler ClaimHandle \<and> route GET ''/claim_handle'' = MethodNotAllowed \<and>
   route HEAD ''/whoami'' = Handler WhoAmI \<and> (\<forall>m. route m ''/admin/provision'' = StaticFiles)"
proof -
  have "route POST ''/claim_handle'' = Handler ClaimHandle" "route GET ''/claim_handle'' = MethodNotAllowed"
    "route HEAD ''/whoami'' = Handler WhoAmI" by code_simp+
  then show ?thesis using routing_correct by blast
qed

end
