(* ===== verification/App_Two_Writer.thy ===== *)
theory App_Two_Writer
  imports App_Login
begin

text \<open>
  The production harness of the space policy (\<open>mingo-app/examples/two_writer_collision.rs\<close>): two test
  members, a post of the first, the attempt of the second to overwrite it, a control post and a read
  back; the verdict is the exit code.  The sleeps between the steps and the printing are left out; an
  \<open>expect\<close> that fails is an error value.
\<close>

definition DAEMON :: string where "DAEMON = ''https://da.sandmill.org''"

definition IDP :: string where "IDP = ''https://mingo.place''"

definition TEST_DOMAIN :: string where "TEST_DOMAIN = ''mingo.place''"

definition COMMUNITY :: string where "COMMUNITY = ''cooks''"

record 'sk test_member =
  tm_handle :: string
  tm_email :: string
  tm_key :: 'sk
  tm_cert :: string

section \<open>Steps\<close>

definition tw_provision ::
  "('sk, 'pk, 'sig) app_api \<Rightarrow> 'sk seed_lib \<Rightarrow> string \<Rightarrow> string \<Rightarrow> 'sk test_member tool" where
  "tw_provision api lib admin_token handle sent =
     (let secret = pair_generate lib sent in
      and_then (tool_send api (PostAdmin (IDP @ ''/admin/provision'') admin_token
         (mk_obj [(''external_email'', JStr (handle @ ''.seed@sandmill.org'')), (''handle'', JStr handle),
            (''pubkey'', pubkey_json lib secret)]))) (\<lambda>reply. lift (case reply of
         Replied status body \<Rightarrow>
           if \<not> is_success status
           then Inl (''provision '' @ handle @ '' failed: HTTP '' @ status_text api status @ '': '' @ body)
           else res_bind (parse_json api body) (\<lambda>parsed.
             res_bind (ok_or (str_field ''cert'' parsed) (''provision '' @ handle @ '': no cert in '' @ body)) (\<lambda>cert.
             Inr \<lparr>tm_handle = handle, tm_email = handle @ ''@'' @ TEST_DOMAIN, tm_key = key_of_bytes api secret,
                  tm_cert = cert\<rparr>))
       | _ \<Rightarrow> Inl ''sending'')) sent)"

definition tw_submit_call :: "string \<Rightarrow> http_call" where
  "tw_submit_call wire_bytes = PostWire (DAEMON @ ''/v1/submit'') wire_bytes"

definition tw_submit :: "('sk, 'pk, 'sig) app_api \<Rightarrow> string \<Rightarrow> string tool" where
  "tw_submit api wire_bytes =
     and_then (tool_send api (tw_submit_call wire_bytes)) (\<lambda>reply. lift (case reply of
       Replied status body \<Rightarrow>
         if is_success status then Inr body
         else Inl (''HTTP '' @ status_text api status @ '': '' @ body)
     | _ \<Rightarrow> Inl ''transport error''))"

definition join_wire ::
  "('sk, 'pk, 'sig) app_api \<Rightarrow> 'sk test_member \<Rightarrow> int \<Rightarrow> (string, string) res" where
  "join_wire api m now =
     (let addr = tm_email m in
      assemble_write api (tm_key m) (Some (tm_cert m)) None (''/u/'' @ addr @ ''/attestations/'' @ addr @ ''/'')
        (''membership-'' @ COMMUNITY) ''attestation.v1'' ''application/json''
        (json_text api (attestation_json addr (''membership:'' @ COMMUNITY)
           (mk_obj [(''community'', JStr COMMUNITY), (''via'', JStr ''collision-test'')]) (i64_sub now 1800) addr))
        (Some addr) None)"

definition join_community :: "('sk, 'pk, 'sig) app_api \<Rightarrow> 'sk test_member \<Rightarrow> int \<Rightarrow> unit tool" where
  "join_community api m now =
     and_then (lift (join_wire api m now)) (\<lambda>wire_bytes.
     and_then (tw_submit api wire_bytes) (\<lambda>_. done_with ()))"

definition post_wire ::
  "('sk, 'pk, 'sig) app_api \<Rightarrow> 'sk test_member \<Rightarrow> string \<Rightarrow> string \<Rightarrow> string \<Rightarrow> string \<Rightarrow> int \<Rightarrow> (string, string) res" where
  "post_wire api m path i body hlc created =
     assemble_write api (tm_key m) (Some (tm_cert m)) None path i ''post.v1'' ''application/json''
       (json_text api (mk_obj [(''body'', JStr body), (''parent'', JNull), (''created_at'', JNum created)]))
       (Some (tm_email m)) (Some hlc)"

section \<open>The run\<close>

text \<open>\<open>{:x}\<close>\<close>

fun hex_digits :: "nat \<Rightarrow> string" where
  "hex_digits n = (if n < 16 then [b36_digit n] else hex_digits (n div 16) @ [b36_digit (n mod 16)])"

declare hex_digits.simps [simp del]

definition run_suffix :: "int \<Rightarrow> string" where
  "run_suffix now_ms = hex_digits (nat (now_ms mod 2 ^ 24))"

definition collision_path :: string where
  "collision_path = ''/communities/'' @ COMMUNITY @ ''/spaces/general/''"

definition collision_id :: "int \<Rightarrow> string" where
  "collision_id now_ms = ''collision-test-'' @ run_suffix now_ms"

definition control_id :: "int \<Rightarrow> string" where
  "control_id now_ms = ''control-'' @ run_suffix now_ms"

definition read_back_url :: "('sk, 'pk, 'sig) app_api \<Rightarrow> int \<Rightarrow> string" where
  "read_back_url api now_ms = with_query api (DAEMON @ ''/v1/object'')
     [(''path'', collision_path), (''id'', collision_id now_ms)]"

text \<open>Who the object read back belongs to; \<open>None\<close> when it could not be read.\<close>

definition occupant :: "('sk, 'pk, 'sig) app_api \<Rightarrow> http_reply \<Rightarrow> string option" where
  "occupant api reply =
     (case reply of
        Replied status body \<Rightarrow>
          if error_status status then None
          else (case parse_json api body of
              Inl e \<Rightarrow> None
            | Inr obj \<Rightarrow> Some (case str_field ''owner_ref'' obj of Some c \<Rightarrow> c
                | None \<Rightarrow> (case str_field ''creator'' obj of Some c \<Rightarrow> c | None \<Rightarrow> ''<none>'')))
      | _ \<Rightarrow> None)"

definition members ::
  "('sk, 'pk, 'sig) app_api \<Rightarrow> 'sk seed_lib \<Rightarrow> string \<Rightarrow> int \<Rightarrow> ('sk test_member \<times> 'sk test_member) tool" where
  "members api lib admin_token now =
     and_then (tw_provision api lib admin_token ''collisiontesta'') (\<lambda>a.
     and_then (tw_provision api lib admin_token ''collisiontestb'') (\<lambda>b.
     and_then (join_community api a now) (\<lambda>_.
     and_then (join_community api b now) (\<lambda>_. done_with (a, b)))))"

text \<open>The four checks, in order; each is whether it passed.\<close>

definition tw_checks ::
  "('sk, 'pk, 'sig) app_api \<Rightarrow> 'sk test_member \<Rightarrow> 'sk test_member \<Rightarrow> int \<Rightarrow> bool list tool" where
  "tw_checks api a b now_ms =
     (let created = physical_ms now_ms 0; later = i64_add created 5000; panics = map_err (\<lambda>_. ''assemble'') in
      and_then (lift (panics (post_wire api a collision_path (collision_id now_ms)
          (''A'' @ [CHR 0x27] @ ''s original post'' @ dash @ ''the rightful occupant.'') (hlc_at now_ms 0) created)))
        (\<lambda>a_wire.
      attempt (tw_submit api a_wire) (\<lambda>ra.
      and_then (lift (panics (post_wire api b collision_path (collision_id now_ms)
          (''B'' @ [CHR 0x27] @ ''s overwrite attempt'' @ dash @ ''MUST be rejected.'') (show_int later @ ''.0'') later)))
        (\<lambda>b_wire.
      attempt (tw_submit api b_wire) (\<lambda>rb.
      and_then (lift (panics (post_wire api b collision_path (control_id now_ms)
          (''B'' @ [CHR 0x27] @ ''s own control post'' @ dash @ ''proves B is an authorized member.'') (hlc_at now_ms 0)
          created)))
        (\<lambda>ctl_wire.
      attempt (tw_submit api ctl_wire) (\<lambda>rc.
      and_then (tool_send api (HttpGet (read_back_url api now_ms))) (\<lambda>reply.
      done_with [\<not> isl ra, isl rb, \<not> isl rc, occupant api reply = Some (tm_email a)]))))))))"

definition two_writer_main ::
  "('sk, 'pk, 'sig) app_api \<Rightarrow> 'sk seed_lib \<Rightarrow> env \<Rightarrow> int \<Rightarrow> nat tool" where
  "two_writer_main api lib env now_ms =
     (case env ''MINGO_ADMIN_TOKEN'' of
        None \<Rightarrow> done_with 2
      | Some t \<Rightarrow>
          if t = [] then done_with 2
          else and_then (client_built api) (\<lambda>_.
            attempt (members api lib t (i64_quot now_ms 1000)) (\<lambda>r.
            case r of
              Inl e \<Rightarrow> done_with 1
            | Inr (a, b) \<Rightarrow> and_then (tw_checks api a b now_ms)
                (\<lambda>checks. done_with (if list_all (\<lambda>x. x) checks then 0 else 1)))))"

end
