(* ===== verification/App_Two_Writer_Props.thy ===== *)
theory App_Two_Writer_Props
  imports App_Two_Writer App_Seed_Run_Props
begin

text \<open>
  What the verdict of the harness means: which replies of the daemon lead to the exit code 0.
\<close>

definition submit_result :: "('sk, 'pk, 'sig) app_api \<Rightarrow> string \<Rightarrow> http_call list \<Rightarrow> (string, string) res" where
  "submit_result api wire_bytes sent = fst (tw_submit api wire_bytes sent)"

lemma tw_submit_eq: "tw_submit api w sent = (submit_result api w sent, sent @ [tw_submit_call w])"
  by (auto simp: submit_result_def tw_submit_def and_then_def tool_send_def lift_def)

lemma isl_submit_result [simp]:
  "isl (submit_result api w sent) \<longleftrightarrow> \<not> accepted (send api sent (tw_submit_call w))"
  by (auto simp: submit_result_def tw_submit_def and_then_def tool_send_def lift_def accepted_def split: http_reply.split)

lemma attempt_submit [simp]:
  "attempt (tw_submit api w) f sent = f (submit_result api w sent) (sent @ [tw_submit_call w])"
  by (simp add: attempt_def tw_submit_eq)

text \<open>A post of the harness: where it is, and in whose name.\<close>

definition test_post ::
  "('sk, 'pk, 'sig) app_api \<Rightarrow> 'sk test_member \<Rightarrow> string \<Rightarrow> string \<Rightarrow> ('pk, 'sig) message \<Rightarrow> bool" where
  "test_post api m i hlc msg \<longleftrightarrow>
     path_parse api collision_path = Inr (m_path msg) \<and> id_new api i = Inr (m_id msg) \<and>
     m_signing_key msg = key_public api (tm_key m) \<and> m_auth_cert msg = Some (tm_cert m) \<and>
     (\<exists>owner. id_new api (tm_email m) = Inr owner \<and> m_owner msg = Some owner) \<and> m_hlc msg = Some hlc"

lemma post_wire_Inr:
  assumes "post_wire api m collision_path i body hlc created = Inr wire_bytes"
  obtains msg where "test_post api m i hlc msg" "wire_bytes = wire_serialize api msg"
proof -
  from assms obtain msg payload where w: "write_message api (tm_key m) (Some (tm_cert m)) None collision_path i ''post.v1''
      ''application/json'' payload (Some (tm_email m)) (Some hlc) = Inr msg" "wire_bytes = wire_serialize api msg"
    by (auto simp: post_wire_def assemble_write_def res_bind_Inr)
  have "test_post api m i hlc msg" using write_message_fields [OF w(1)] by (auto simp: test_post_def)
  then show ?thesis using that w(2) by blast
qed

text \<open>The messages of the three posts, and the log before each call.\<close>

definition overwrite_tried ::
  "('sk, 'pk, 'sig) app_api \<Rightarrow> 'sk test_member \<Rightarrow> 'sk test_member \<Rightarrow> int \<Rightarrow> string \<Rightarrow> string \<Rightarrow> string \<Rightarrow> bool" where
  "overwrite_tried api a b now_ms wa wb wc \<longleftrightarrow>
     (\<exists>ma mb mc. wa = wire_serialize api ma \<and> wb = wire_serialize api mb \<and> wc = wire_serialize api mc \<and>
        test_post api a (collision_id now_ms) (show_int (physical_ms now_ms 0) @ ''.0'') ma \<and>
        test_post api b (collision_id now_ms) (show_int (i64_add (physical_ms now_ms 0) 5000) @ ''.0'') mb \<and>
        test_post api b (control_id now_ms) (show_int (physical_ms now_ms 0) @ ''.0'') mc)"

definition all_passed ::
  "('sk, 'pk, 'sig) app_api \<Rightarrow> string \<Rightarrow> int \<Rightarrow> http_call list \<Rightarrow> string \<Rightarrow> string \<Rightarrow> string \<Rightarrow> bool" where
  "all_passed api owner now_ms s wa wb wc \<longleftrightarrow>
     accepted (send api s (tw_submit_call wa)) \<and>
     \<not> accepted (send api (s @ [tw_submit_call wa]) (tw_submit_call wb)) \<and>
     accepted (send api (s @ [tw_submit_call wa, tw_submit_call wb]) (tw_submit_call wc)) \<and>
     occupant api (send api (s @ [tw_submit_call wa, tw_submit_call wb, tw_submit_call wc])
       (HttpGet (read_back_url api now_ms))) = Some owner"

definition check_calls :: "('sk, 'pk, 'sig) app_api \<Rightarrow> int \<Rightarrow> string \<Rightarrow> string \<Rightarrow> string \<Rightarrow> http_call list" where
  "check_calls api now_ms wa wb wc =
     [tw_submit_call wa, tw_submit_call wb, tw_submit_call wc, HttpGet (read_back_url api now_ms)]"

lemma tw_checks_Inr:
  assumes "tw_checks api a b now_ms s = (Inr checks, s')"
  obtains wa wb wc where "overwrite_tried api a b now_ms wa wb wc" "s' = s @ check_calls api now_ms wa wb wc"
    "list_all (\<lambda>x. x) checks \<longleftrightarrow> all_passed api (tm_email a) now_ms s wa wb wc"
proof -
  let ?c = "physical_ms now_ms 0"
  from assms obtain wa wb wc ta tb tc where
    a: "post_wire api a collision_path (collision_id now_ms) ta (show_int ?c @ ''.0'') ?c = Inr wa" and
    b: "post_wire api b collision_path (collision_id now_ms) tb (show_int (i64_add ?c 5000) @ ''.0'')
        (i64_add ?c 5000) = Inr wb" and
    c: "post_wire api b collision_path (control_id now_ms) tc (show_int ?c @ ''.0'') ?c = Inr wc" and
    e: "s' = s @ check_calls api now_ms wa wb wc"
      "checks = [accepted (send api s (tw_submit_call wa)), \<not> accepted (send api (s @ [tw_submit_call wa]) (tw_submit_call wb)),
        accepted (send api (s @ [tw_submit_call wa, tw_submit_call wb]) (tw_submit_call wc)),
        occupant api (send api (s @ [tw_submit_call wa, tw_submit_call wb, tw_submit_call wc])
          (HttpGet (read_back_url api now_ms))) = Some (tm_email a)]"
    by (auto simp: tw_checks_def Let_def and_then_lift and_then_def [of "tool_send _ _"] tool_send_def done_with_def
        map_err_def hlc_at_def check_calls_def split: sum.splits)
  obtain ma where ma: "test_post api a (collision_id now_ms) (show_int ?c @ ''.0'') ma" "wa = wire_serialize api ma"
    using a(1) by (rule post_wire_Inr)
  obtain mb where mb: "test_post api b (collision_id now_ms) (show_int (i64_add ?c 5000) @ ''.0'') mb"
    "wb = wire_serialize api mb" using b(1) by (rule post_wire_Inr)
  obtain mc where mc: "test_post api b (control_id now_ms) (show_int ?c @ ''.0'') mc" "wc = wire_serialize api mc"
    using c(1) by (rule post_wire_Inr)
  have "overwrite_tried api a b now_ms wa wb wc" unfolding overwrite_tried_def using ma mb mc by blast
  moreover have "list_all (\<lambda>x. x) checks \<longleftrightarrow> all_passed api (tm_email a) now_ms s wa wb wc"
    by (simp add: e(2) all_passed_def)
  ultimately show ?thesis using that e(1) by blast
qed

lemma tw_provision_email:
  assumes "tw_provision api lib t h s = (Inr m, s')"
  shows "tm_email m = h @ ''@mingo.place''"
  using assms
  by (auto simp: tw_provision_def Let_def and_then_def tool_send_def lift_def res_bind_def ok_or_def TEST_DOMAIN_def
      split: http_reply.splits if_splits sum.splits option.splits)

lemma members_emails:
  assumes "members api lib t now s = (Inr (a, b), s1)"
  shows "tm_email a = ''collisiontesta@mingo.place'' \<and> tm_email b = ''collisiontestb@mingo.place''"
proof -
  from assms obtain x y where "tw_provision api lib t ''collisiontesta'' s = (Inr a, x)"
    "tw_provision api lib t ''collisiontestb'' x = (Inr b, y)"
    by (auto simp: members_def and_then_Inr)
  then show ?thesis using tw_provision_email by fastforce
qed

lemma two_writer_cases:
  assumes "two_writer_main api lib env now_ms sent = (Inr code, sent')"
  obtains (NoToken) "code = 2" "\<nexists>t. env ''MINGO_ADMIN_TOKEN'' = Some t \<and> t \<noteq> []"
  | (NoMembers) t e where "code = 1" "env ''MINGO_ADMIN_TOKEN'' = Some t"
      "members api lib t (i64_quot now_ms 1000) sent = (Inl e, sent')"
  | (Checked) t a b s checks where "env ''MINGO_ADMIN_TOKEN'' = Some t" "t \<noteq> []" "new_client api = Inr ()"
      "members api lib t (i64_quot now_ms 1000) sent = (Inr (a, b), s)"
      "tw_checks api a b now_ms s = (Inr checks, sent')" "code = (if list_all (\<lambda>x. x) checks then 0 else 1)"
proof (cases "\<exists>t. env ''MINGO_ADMIN_TOKEN'' = Some t \<and> t \<noteq> []")
  case False
  then show ?thesis using assms NoToken by (auto simp: two_writer_main_def split: option.splits if_splits)
next
  case True
  then obtain t where t: "env ''MINGO_ADMIN_TOKEN'' = Some t" "t \<noteq> []" by blast
  obtain r s where m: "members api lib t (i64_quot now_ms 1000) sent = (r, s)" by fastforce
  have n: "new_client api = Inr ()"
    and c: "(case r of Inl e \<Rightarrow> done_with 1 | Inr (a, b) \<Rightarrow> and_then (tw_checks api a b now_ms)
        (\<lambda>checks. done_with (if list_all (\<lambda>x. x) checks then 0 else 1))) s = (Inr code, sent')"
    using assms t m by (auto simp: two_writer_main_def client_built_def and_then_Inr attempt_def simp del: One_nat_def)
  show ?thesis
  proof (cases r)
    case (Inl e)
    then show ?thesis using NoMembers [OF _ t(1)] c m by simp
  next
    case (Inr p)
    then show ?thesis using Checked [OF t n] c m by (cases p) (auto simp: and_then_Inr)
  qed
qed

lemma check_calls_inj: "check_calls api n wa wb wc = check_calls api n wa' wb' wc' \<longleftrightarrow> wa = wa' \<and> wb = wb' \<and> wc = wc'"
  by (auto simp: check_calls_def tw_submit_call_def)

text \<open>C39: The harness ends with 0 exactly when both test members could be made and joined, the daemon
  accepted the post of the first, did not accept the second's newer write to the same place, accepted
  the second's own post, and then named the first as the owner at that place.  Nothing else is sent
  after the set-up.  (A write that never reached the daemon counts as not accepted.)\<close>
theorem two_writer_verdict:
  assumes run: "two_writer_main api lib env now_ms sent = (Inr code, sent')"
  shows "code = 0 \<longleftrightarrow> (\<exists>t a b s wa wb wc. env ''MINGO_ADMIN_TOKEN'' = Some t \<and> t \<noteq> [] \<and>
      members api lib t (i64_quot now_ms 1000) sent = (Inr (a, b), s) \<and>
      tm_email a \<noteq> tm_email b \<and> overwrite_tried api a b now_ms wa wb wc \<and>
      all_passed api ''collisiontesta@mingo.place'' now_ms s wa wb wc \<and>
      sent' = s @ check_calls api now_ms wa wb wc)" (is "_ \<longleftrightarrow> ?passed")
  using run
proof (cases rule: two_writer_cases)
  case (Checked t a b s checks)
  obtain wa wb wc where w: "overwrite_tried api a b now_ms wa wb wc" "sent' = s @ check_calls api now_ms wa wb wc"
    "list_all (\<lambda>x. x) checks \<longleftrightarrow> all_passed api (tm_email a) now_ms s wa wb wc"
    using Checked(5) by (rule tw_checks_Inr)
  have e: "tm_email a = ''collisiontesta@mingo.place''" "tm_email b = ''collisiontestb@mingo.place''"
    using members_emails [OF Checked(4)] by blast+
  have "code = 0 \<longleftrightarrow> all_passed api ''collisiontesta@mingo.place'' now_ms s wa wb wc"
    using Checked(6) w(3) e(1) by simp
  moreover have "?passed \<longleftrightarrow> all_passed api ''collisiontesta@mingo.place'' now_ms s wa wb wc"
  proof
    assume "?passed"
    then show "all_passed api ''collisiontesta@mingo.place'' now_ms s wa wb wc"
      using Checked(1,4) w(2) by (auto simp: check_calls_inj)
  next
    assume p: "all_passed api ''collisiontesta@mingo.place'' now_ms s wa wb wc"
    have "tm_email a \<noteq> tm_email b" using e by simp
    then show "?passed" using Checked(1,2,4) w(1,2) p by blast
  qed
  ultimately show ?thesis by simp
qed auto

text \<open>A daemon that refuses the sixth call, which is the overwriting post.\<close>

definition refusing_app :: "(string, string, string) app_api" where
  "refusing_app = demo_app\<lparr>parse_json := (\<lambda>s. Inr (mk_obj [(''cert'', JStr s), (''owner_ref'', JStr s)])),
     send := (\<lambda>sent c. case c of
         PostWire u w \<Rightarrow> Replied (if length sent = 5 then 403 else 200) []
       | _ \<Rightarrow> Replied 200 ''collisiontesta@mingo.place'')\<rparr>"

lemma refusing_send:
  "send refusing_app sent (PostWire u w) = Replied (if length sent = 5 then 403 else 200) []"
  "send refusing_app sent (PostAdmin u t j) = Replied 200 ''collisiontesta@mingo.place''"
  "send refusing_app sent (HttpGet u) = Replied 200 ''collisiontesta@mingo.place''"
  by (simp_all add: refusing_app_def)

lemma refusing_checks:
  assumes "tm_email a = ''collisiontesta@mingo.place''" "length sent = 4"
  shows "\<exists>s. tw_checks refusing_app a b 9000 sent = (Inr [True, True, True, True], s)"
proof -
  have occ: "occupant refusing_app (Replied 200 ''collisiontesta@mingo.place'') = Some (tm_email a)"
    by (simp add: occupant_def error_status_def refusing_app_def str_field_def assms(1))
  have acc: "accepted (Replied 200 x)" "\<not> accepted (Replied 403 x)" for x
    by (simp_all add: accepted_def is_success_def)
  have "\<exists>w. post_wire refusing_app m p i b h c = Inr w" for m p i b h c
    by (simp add: post_wire_def assemble_write_def write_message_def refusing_app_def demo_app_def res_bind_def map_err_def)
  then have p: "post_wire refusing_app m p i b h c = Inr (projr (post_wire refusing_app m p i b h c))" for m p i b h c
    by (metis sum.sel(2))
  show ?thesis unfolding tw_checks_def Let_def
    by (subst p, subst p, subst p) (simp add: and_then_lift map_err_def and_then_def [of "tool_send _ _"]
        tool_send_def done_with_def refusing_send assms(2) occ acc tw_submit_call_def)
qed

lemma refusing_run: "\<exists>sent'. two_writer_main refusing_app demo_seed_lib (\<lambda>_. Some ''t'') 9000 [] = (Inr 0, sent')"
proof -
  have jw: "\<exists>w. join_wire refusing_app m n = Inr w" for m n
    by (simp add: join_wire_def assemble_write_def write_message_def refusing_app_def demo_app_def res_bind_def
        map_err_def Let_def)
  note send = refusing_send
  have prov: "\<exists>m. tw_provision refusing_app demo_seed_lib ''t'' h sent = (Inr m, sent @ [c]) \<and>
      tm_email m = h @ ''@mingo.place''" if "c = PostAdmin (IDP @ ''/admin/provision'') ''t''
         (mk_obj [(''external_email'', JStr (h @ ''.seed@sandmill.org'')), (''handle'', JStr h),
            (''pubkey'', pubkey_json demo_seed_lib (pair_generate demo_seed_lib sent))])" for h sent c
    using send(2) by (simp add: that tw_provision_def Let_def and_then_def tool_send_def lift_def is_success_def
        refusing_app_def res_bind_def ok_or_def str_field_def TEST_DOMAIN_def)
  have join: "\<exists>c. join_community refusing_app m n sent = (Inr (), sent @ [c])" if "length sent < 5" for m n sent
    using jw [of m n] that send(1)
    by (auto simp: join_community_def and_then_def lift_def tw_submit_eq submit_result_def tw_submit_def tool_send_def
        tw_submit_call_def is_success_def done_with_def)
  obtain a c1 where a: "tw_provision refusing_app demo_seed_lib ''t'' ''collisiontesta'' [] = (Inr a, [c1])"
    "tm_email a = ''collisiontesta@mingo.place''" using prov [of _ "''collisiontesta''" "[]"] by auto
  obtain b c2 where b: "tw_provision refusing_app demo_seed_lib ''t'' ''collisiontestb'' [c1] = (Inr b, [c1, c2])"
    using prov [of _ "''collisiontestb''" "[c1]"] by auto
  obtain c3 where c3: "join_community refusing_app a 9 [c1, c2] = (Inr (), [c1, c2, c3])"
    using join [of "[c1, c2]" a 9] by auto
  obtain c4 where c4: "join_community refusing_app b 9 [c1, c2, c3] = (Inr (), [c1, c2, c3, c4])"
    using join [of "[c1, c2, c3]" b 9] by auto
  have m: "members refusing_app demo_seed_lib ''t'' 9 [] = (Inr (a, b), [c1, c2, c3, c4])"
    by (simp add: members_def and_then_def a b c3 c4 done_with_def)
  have n: "new_client refusing_app = Inr ()" "i64_quot 9000 1000 = 9"
    by (simp_all add: refusing_app_def demo_app_def i64_quot_def wrap64_def)
  obtain s where "tw_checks refusing_app a b 9000 [c1, c2, c3, c4] = (Inr [True, True, True, True], s)"
    using refusing_checks [OF a(2), of "[c1, c2, c3, c4]" b] by auto
  then show ?thesis
    by (auto simp: two_writer_main_def client_built_def n map_err_def attempt_def m and_then_def lift_def done_with_def)
qed

lemma two_writer_verdict_witness:
  "\<exists>a b s wa wb wc. overwrite_tried refusing_app a b 9000 wa wb wc \<and>
     all_passed refusing_app ''collisiontesta@mingo.place'' 9000 s wa wb wc"
proof -
  obtain sent' where r: "two_writer_main refusing_app demo_seed_lib (\<lambda>_. Some ''t'') 9000 [] = (Inr 0, sent')"
    using refusing_run by blast
  from two_writer_verdict [OF r] show ?thesis by blast
qed

end
