(* ===== verification/Tools_And_Provider.thy ===== *)
theory Tools_And_Provider
  imports Idp_Router App_Appoint App_Two_Writer_Props
begin

text \<open>
  The tools against the identity provider of this repository: they provision identities with
  \<open>POST /admin/provision\<close>, which the provider's router does not have.
\<close>

text \<open>Paths without a query, an escape or a dot, which a client sends as they are.\<close>

definition plain_path :: "string \<Rightarrow> bool" where
  "plain_path path \<longleftrightarrow> take 1 path = ''/'' \<and> list_all (\<lambda>c. c \<in> set ''abcdefghijklmnopqrstuvwxyz_-/'') path"

text \<open>
  What a server with the provider's routes answers to a POST that none of them takes: the file
  service behind them knows 404 and 405 only.
\<close>

definition provider_at :: "('sk, 'pk, 'sig) app_api \<Rightarrow> string \<Rightarrow> bool" where
  "provider_at api idp \<longleftrightarrow>
     (\<forall>sent path tok j. plain_path path \<longrightarrow> (\<forall>e. route POST path \<noteq> Handler e) \<longrightarrow>
        (\<exists>st b. send api sent (PostAdmin (trim_end_matches CHR ''/'' idp @ path) tok j) = Replied st b \<and>
           (st = 404 \<or> st = 405)))"

lemma provision_unserved:
  assumes "provider_at api idp"
  obtains st b where "send api sent (PostAdmin (trim_end_matches CHR ''/'' idp @ ''/admin/provision'') tok j) = Replied st b"
    "\<not> is_success st"
proof -
  have r: "route POST ''/admin/provision'' = StaticFiles" "plain_path ''/admin/provision''" by code_simp+
  have "\<forall>e. route POST ''/admin/provision'' \<noteq> Handler e" by (simp add: r(1))
  then obtain st b where "send api sent (PostAdmin (trim_end_matches CHR ''/'' idp @ ''/admin/provision'') tok j) = Replied st b"
    "st = 404 \<or> st = 405" using assms r(2) unfolding provider_at_def by blast
  then show ?thesis using that by (auto simp: is_success_def)
qed

lemma cert_request_unserved:
  assumes "provider_at api idp" "call = PostAdmin (trim_end_matches CHR ''/'' idp @ ''/admin/provision'') tok j"
  shows "cert_request api lib call a b w p sent \<noteq> (Inr cert, sent')"
  using provision_unserved [OF assms(1), of sent tok j] assms(2)
  by (fastforce simp: cert_request_def and_then_Inr tool_send_def)

lemma appoint_unserved:
  assumes p: "provider_at api (am_idp args)" and x: "am_execute args"
  shows "appoint_run api lib rfc env args now now1 sent \<noteq> (Inr (), sent')"
proof
  assume "appoint_run api lib rfc env args now now1 sent = (Inr (), sent')"
  then obtain call tok j cert a b w q s1 s2 where
    "call = PostAdmin (trim_end_matches CHR ''/'' (am_idp args) @ ''/admin/provision'') tok j"
    "cert_request api lib call a b w q s1 = (Inr cert, s2)"
    using x by (fastforce simp: appoint_run_def appoint_execute_def Let_def and_then_Inr provision_issuer_def
        provision_issuer_call_def)
  then show False using cert_request_unserved [OF p] by blast
qed

lemma provision_all_unserved:
  assumes p: "provider_at api (sg_idp args)"
    and h: "h \<in> set hs" "map_of (pl_external_emails plan) h = None"
  shows "provision_all api lib env args plan tok dmn acc hs sent \<noteq> (Inr ps, sent')"
  using h
proof (induction hs arbitrary: acc sent)
  case (Cons x hs)
  have "provision_one api lib env args plan tok dmn h s \<noteq> (Inr q, s')" for q s s'
    using cert_request_unserved [OF p] Cons.prems(2)
    by (fastforce simp: provision_one_def provision_persona_def provision_call_def Let_def and_then_Inr)
  then show ?case using Cons by (auto simp: and_then_Inr)
qed simp

lemma IDP_trimmed: "trim_end_matches CHR ''/'' IDP = IDP" by code_simp

lemma tw_provision_unserved:
  assumes "provider_at api IDP"
  shows "tw_provision api lib t h s \<noteq> (Inr a, s')"
proof -
  let ?b = "mk_obj [(''external_email'', JStr (h @ ''.seed@sandmill.org'')), (''handle'', JStr h),
      (''pubkey'', pubkey_json lib (pair_generate lib s))]"
  obtain st b where "send api s (PostAdmin (IDP @ ''/admin/provision'') t ?b) = Replied st b" "\<not> is_success st"
    using provision_unserved [OF assms, of s t ?b] IDP_trimmed by metis
  then show ?thesis by (simp add: tw_provision_def Let_def and_then_def tool_send_def lift_def)
qed

lemma members_unserved:
  assumes "provider_at api IDP"
  shows "members api lib t n s \<noteq> (Inr ab, s')"
  using tw_provision_unserved [OF assms] by (simp add: members_def and_then_Inr)

lemma two_writer_unserved:
  assumes p: "provider_at api IDP" and r: "two_writer_main api lib env now_ms sent = (Inr code, sent')"
  shows "code \<noteq> 0"
  using members_unserved [OF p] by (rule_tac two_writer_cases [OF r]) (simp_all del: One_nat_def)

text \<open>A corpus with a persona of the provider's own domain.\<close>

lemma pair_kept: "p \<in> set (personas c) \<Longrightarrow> pe_external_email p = None \<Longrightarrow> distinct (map pe_handle (personas c)) \<Longrightarrow>
   pe_handle p \<notin> fst ` set (external_pairs c)"
  by (auto simp: external_pairs_def List.map_filter_def distinct_map inj_on_def split: if_splits)

lemma seed_unserved:
  assumes p: "provider_at api (sg_idp args)" and x: "sg_execute args"
    and c: "seed_corpus lib txl read args = Inr c" and h: "p \<in> set (personas c)" "pe_external_email p = None"
  shows "\<exists>e. fst (seed_run api lib txl env read args now sent) = Inl e"
proof -
  let ?dmn = "domain_of (sg_idp args)"
  have ok: "corpus_ok c" using c by (rule seed_corpus_ok)
  then have d: "distinct (map pe_handle (personas c))" by (simp add: corpus_ok_def Let_def)
  obtain plan where b: "build_plan api c ?dmn now (sg_sys_key args = None) = Inr plan"
    using build_plan_total [OF ok] by blast
  then have pl: "pl_external_emails plan = fold (\<lambda>(h, e). obj_insert h e) (external_pairs c) []"
    "pl_personas plan = map pe_handle (personas c)"
    by (auto simp: build_plan_def Let_def res_bind_Inr)
  have "map_of (rev (external_pairs c)) (pe_handle p) = None"
    using pair_kept [OF h d] by (simp add: map_of_eq_None_iff)
  then have m: "map_of (pl_external_emails plan) (pe_handle p) = None"
    by (simp add: pl mk_obj_get_fold)
  have a: "provision_all api lib env args plan tok ?dmn [] (pl_personas plan) s \<noteq> (Inr ps, s')" for tok s ps s'
    by (rule provision_all_unserved [OF assms(1), of "pe_handle p"]) (use h(1) pl(2) m in simp_all)
  have "seed_setup api lib env read args plan ?dmn now sent \<noteq> (Inr y, s1)" for y s1
    using a by (auto simp: seed_setup_def and_then_Inr)
  then obtain e s1 where "seed_setup api lib env read args plan ?dmn now sent = (Inl e, s1)"
    by (metis sum.exhaust surj_pair)
  then show ?thesis using c b x by (simp add: seed_run_cases seed_execute_cases)
qed

section \<open>The property\<close>

text \<open>C40: Against a server with the routes of this repository's provider no tool provisions an
  identity: an executed appointment fails, an executed seed run of a corpus with a persona of the
  provider's own domain fails, and the two-writer harness does not end with 0, whatever the other
  servers answer.\<close>
theorem provisioning_unserved:
  assumes "provider_at api idp"
  shows "(am_idp aargs = idp \<and> am_execute aargs \<longrightarrow>
           (\<exists>e. fst (appoint_run api lib rfc3339 env aargs now now1 sent) = Inl e)) \<and>
    (sg_idp sargs = idp \<and> sg_execute sargs \<and> seed_corpus lib txl read sargs = Inr c \<and>
       (\<exists>p\<in>set (personas c). pe_external_email p = None) \<longrightarrow>
           (\<exists>e. fst (seed_run api lib txl env read sargs now sent) = Inl e)) \<and>
    (idp = IDP \<longrightarrow> fst (two_writer_main api lib env now sent) \<noteq> Inr 0)"
proof (intro conjI impI)
  assume "am_idp aargs = idp \<and> am_execute aargs"
  then have "appoint_run api lib rfc3339 env aargs now now1 sent \<noteq> (Inr (), s')" for s'
    using appoint_unserved assms by blast
  then show "\<exists>e. fst (appoint_run api lib rfc3339 env aargs now now1 sent) = Inl e"
    by (metis (full_types) old.unit.exhaust prod.collapse sum.exhaust)
next
  assume "idp = IDP"
  then show "fst (two_writer_main api lib env now sent) \<noteq> Inr 0"
    using two_writer_unserved assms by (metis prod.collapse)
qed (use seed_unserved assms in blast)

definition routed_app :: "(string, string, string) app_api" where
  "routed_app = demo_app\<lparr>send := (\<lambda>sent c. Replied (case c of PostAdmin u t b \<Rightarrow> 405 | _ \<Rightarrow> 200) [])\<rparr>"

lemma provisioning_unserved_witness:
  "(\<exists>e. fst (appoint_run routed_app demo_seed_lib Inl (\<lambda>_. Some ''t'') demo_appoint 5 6 []) = Inl e) \<and>
   fst (two_writer_main routed_app demo_seed_lib (\<lambda>_. Some ''t'') 5 []) \<noteq> Inr 0"
proof -
  have p: "provider_at routed_app idp" for idp by (simp add: provider_at_def routed_app_def)
  have "am_execute demo_appoint" by (simp add: demo_appoint_def)
  then show ?thesis
    using provisioning_unserved [OF p, of demo_appoint "am_idp demo_appoint" demo_seed_lib Inl "\<lambda>_. Some ''t''" 5 6 "[]"]
      provisioning_unserved [OF p, of _ IDP demo_seed_lib Inl "\<lambda>_. Some ''t''" 5 6 "[]"] by blast
qed

end
