(* ===== verification/Spec2Isabelle.thy ===== *)
theory Spec2Isabelle
  imports Idp_Registry Idp_Start App_Cli_Dry Tools_And_Provider
begin

text \<open>
  A verification library for mingo: the identity provider of \<open>mingo.place\<close> (crate \<open>mingo-idp\<close>) and the
  command-line tools of its communities (crate \<open>mingo-app\<close>).

  The identity provider keeps accounts keyed by a verified external address, lets each claim one
  handle, signs certificates for \<open>handle@mingo.place\<close>, and posts for users who granted it a warrant.
  The tools build the genesis of the chain database, edit its root policy, create communities, appoint
  moderators, seed demo content, post as a user, and test the live chain.  They meet at the daemon
  that accepts signed writes, and at the provider's endpoints.

  Conventions.  The theories read like the sources: a struct is a record, an enum a datatype, a function
  one definition with the source's name where it can have it.  A fallible function returns a sum (\<open>Inl\<close>
  the error).  An effectful one is a \<open>run\<close>: it takes the state and returns a result and the state, which
  it keeps on an error; \<open>and_then\<close> is Rust's \<open>?\<close>, \<open>attempt\<close> a handled result, \<open>keeps\<close> the preservation of
  an invariant.  The log of the calls sent stands for the moment: replies, clocks, fresh keys are
  functions of it, so that a theorem holds whatever the servers answer.  Integers of 64 bits are
  integers with the wrap-around written out (\<open>i64_add\<close>), \<open>f64\<close> is rational arithmetic rounded to 53
  bits, strings are lists of bytes.  Libraries outside the repository are parameters, one record each:
  \<open>browserid_core\<close> (\<open>presentation_api\<close>, \<open>device_api\<close>), \<open>sbo_core\<close> with \<open>reqwest\<close> and \<open>serde_json\<close>
  (\<open>sbo_api\<close>, \<open>app_api\<close>, \<open>poster_api\<close>), the device agent and the system (\<open>login_lib\<close>, \<open>seed_lib\<close>,
  \<open>live_lib\<close>, \<open>cli_lib\<close>); what a theorem needs of them is a named hypothesis of documented behaviour
  (\<open>lowering\<close>, \<open>cert_laws\<close>, \<open>codec_ok\<close>, \<open>key_text_ok\<close>, \<open>encodings_ok\<close>) with a concrete instance in its
  witness.

  The shared theories.
  \<^item> \<open>Mingo_Prelude\<close>: characters, trimming and splitting, 64-bit arithmetic, results, runs, the
    locales of reachable states and of simulations.  \<open>Json_Value\<close>: \<open>serde_json::Value\<close>.  \<open>Float64\<close>.
    \<open>Sbo_Wire\<close>: messages, calls and replies, percent-encoding.

  The identity provider.
  \<^item> \<open>Idp_Store\<close> (\<open>store.rs\<close>): tables and one step for each operation; \<open>Idp_Store_Inv\<close> that every
    operation keeps the constraints, \<open>Idp_Store_Props\<close> what the operations do over any sequence.
    \<open>Idp_Registry\<close>: the store refines an abstract registry of people and names, operation by
    operation, and a name stays with its holder until the holder gives it up (\<open>names_kept\<close>).
  \<^item> \<open>Idp_Schema\<close>, \<open>Idp_Schema_Props\<close> (\<open>Store::open\<close>): schema and migrations of the database file, which
    lose nothing.  \<open>Idp_Start\<close> (\<open>main.rs\<close>): the start, which finds again what an earlier start left.
  \<^item> \<open>Idp_Names\<close> (\<open>error.rs\<close>, names in \<open>routes.rs\<close>), \<open>Idp_Config\<close> (\<open>config.rs\<close>), \<open>Idp_Verify\<close> (\<open>verify.rs\<close>).
  \<^item> \<open>Idp_Routes\<close>, \<open>Idp_Routes_Props\<close> (\<open>routes.rs\<close>): sign-in, claims, sign-out, administration.
    \<open>Idp_Device\<close>, \<open>Idp_Device_Props\<close> (\<open>device.rs\<close>): who gets which certificate.
    \<open>Idp_Poster\<close>, \<open>Idp_Poster_Props\<close> (\<open>poster.rs\<close>): grants, and posting on them.
  \<^item> \<open>Idp_Router\<close> (\<open>lib.rs\<close>): the endpoints, and the invariant of the store under all requests.

  The tools.
  \<^item> \<open>App_Write\<close>: key files and the assembly of one write.  \<open>App_Policy\<close>, \<open>App_Policy_Layer\<close>
    (\<open>add_policy_layer.rs\<close>), \<open>App_Root_Admin\<close> (\<open>set_root_admin.rs\<close>): edits of the root policy under one
    contract.  \<open>App_Genesis\<close> (\<open>genesis.rs\<close>), \<open>App_Community\<close> (\<open>community.rs\<close>, \<open>create_community.rs\<close>),
    \<open>App_Appoint\<close> (\<open>appoint.rs\<close>, \<open>dnssec-refresh.rs\<close>).
  \<^item> \<open>App_Corpus\<close>, \<open>App_Seed_Plan\<close>, \<open>App_Seed_Run\<close> with their \<open>_Props\<close> (\<open>seed.rs\<close>): validation, the plan
    and its ages, the run with its retries.
  \<^item> \<open>App_Login\<close>, \<open>App_Login_Props\<close>, \<open>App_Post_Props\<close> (\<open>login.rs\<close>, \<open>device_login.rs\<close>): the stored login and
    posts by it.
  \<^item> \<open>App_Livetest\<close>, \<open>App_Live_Scenarios\<close>, \<open>App_Live_Props\<close>, \<open>App_Live_Verdicts\<close> (\<open>livetest.rs\<close>): the
    scenarios, where they write, and what their verdicts rest on.
  \<^item> \<open>App_Cli\<close>, \<open>App_Cli_Props\<close>, \<open>App_Cli_Dry\<close> (\<open>bin/mingo.rs\<close>): arguments with defaults, the genesis
    files, what a command can touch.  \<open>App_Two_Writer\<close>, \<open>App_Two_Writer_Props\<close>
    (\<open>examples/two_writer_collision.rs\<close>).
  \<^item> \<open>Tools_And_Provider\<close>: the tools against the routes of the provider.
  \<^item> This theory: properties of both crates together.

  Libraries that are not in the repository are parameters.  The device agent and the provisioning client
  use the network themselves: a parameter gives, besides the result, the calls they make, and these go
  to the log of the command or handler (\<open>library\<close>, \<open>present\<close>), so what is stated of a log covers them.

  Interfaces.  Keyed tables of the store, the sessions the handlers rely on, the edits of a policy, the
  readers of database rows, reachability and simulation are locales, interpreted on the model where
  it is defined.

  Bounds.  A submission is posted at most 7 times, with 126 seconds of waiting
  (\<open>seed_submit_bounded\<close>); waiting for a deleted community makes at most 32 checks
  (\<open>create_community_correct\<close>); a post is read back at most 20 times (\<open>post_attribution\<close>); a poll of the
  live test looks at most 37 times, every 5 seconds for 180 seconds (\<open>live_verdicts_sound\<close>).  These are
  the sources' own bounds; no fuel is added to any definition.

  Not modelled: what is printed and logged; the splitting of a command line by \<open>clap\<close>, the keyring, and
  the decoders that \<open>serde\<close> derives (parameters); timeouts and failing disks of SQLite; directories; the
  static files that the router serves; the JavaScript of \<open>mingo-web\<close>; the tests.
\<close>

section \<open>Properties that span the parts\<close>

lemma handle_char_name: "handle_char c \<Longrightarrow> name_char False c \<and> \<not> is_ascii_uppercase c"
  by (auto simp: handle_char_def name_char_def char_class_defs)

lemma handle_ok_valid: "handle_ok h \<Longrightarrow> valid_name False h \<longleftrightarrow> \<not> handle_is_reserved h"
  by (auto simp: handle_ok_def valid_name_def name_max_def list_all_iff dest: handle_char_name)

text \<open>C27: A corpus passes validation exactly when its handles are well-formed, distinct and known
  wherever they are used, its external addresses are allowed and distinct, its communities are live
  ones, all ages are in range and every reply is younger than its post and by someone else.  Then
  each persona's handle is one the identity provider would accept as it is, unless the provider
  reserves it.\<close>
theorem corpus_valid_iff:
  "(validate lib c = Inr () \<longleftrightarrow> corpus_ok c) \<and>
   (validate lib c = Inr () \<longrightarrow> lowering U \<longrightarrow> (\<forall>p\<in>set (personas c).
      normalize_handle U (pe_handle p) = Inr (pe_handle p) \<longleftrightarrow> \<not> handle_is_reserved (pe_handle p)))"
proof (intro conjI impI ballI)
  show "validate lib c = Inr () \<longleftrightarrow> corpus_ok c" by (rule validate_Inr)
  fix p
  assume "validate lib c = Inr ()" and U: "lowering U" and p: "p \<in> set (personas c)"
  then have ok: "handle_ok (pe_handle p)" by (auto simp: validate_Inr corpus_ok_def persona_ok_def Let_def)
  show "normalize_handle U (pe_handle p) = Inr (pe_handle p) \<longleftrightarrow> \<not> handle_is_reserved (pe_handle p)"
  proof
    assume "normalize_handle U (pe_handle p) = Inr (pe_handle p)"
    then have "valid_name False (pe_handle p)"
      using normalize_name_Inr [OF U] by (auto simp: normalize_handle_def)
    then show "\<not> handle_is_reserved (pe_handle p)" using handle_ok_valid [OF ok] by simp
  next
    assume "\<not> handle_is_reserved (pe_handle p)"
    then have "valid_name False (pe_handle p)" using handle_ok_valid [OF ok] by simp
    then show "normalize_handle U (pe_handle p) = Inr (pe_handle p)"
      by (simp add: normalize_handle_def normalize_name_fixed)
  qed
qed

text \<open>The seeder accepts a persona \<open>abuse\<close>, whose handle the identity provider reserves.\<close>

definition abuse_corpus :: corpus where
  "abuse_corpus = \<lparr>personas = [\<lparr>pe_handle = ''asha'', pe_external_email = None\<rparr>,
     \<lparr>pe_handle = ''abuse'', pe_external_email = None\<rparr>], communities = [], vouches = [], badges = []\<rparr>"

lemma corpus_valid_iff_witness:
  "validate demo_text abuse_corpus = Inr () \<and>
   normalize_handle (map to_ascii_lowercase) ''asha'' = Inr ''asha'' \<and>
   normalize_handle (map to_ascii_lowercase) ''abuse'' \<noteq> Inr ''abuse''"
proof -
  have "corpus_ok abuse_corpus" by code_simp
  then have v: "validate demo_text abuse_corpus = Inr ()" using corpus_valid_iff by blast
  have r: "\<not> handle_is_reserved ''asha''" "handle_is_reserved ''abuse''" by code_simp+
  have "\<forall>p\<in>set (personas abuse_corpus).
      normalize_handle (map to_ascii_lowercase) (pe_handle p) = Inr (pe_handle p) \<longleftrightarrow>
      \<not> handle_is_reserved (pe_handle p)"
    using corpus_valid_iff [of demo_text abuse_corpus "map to_ascii_lowercase"] v lowering_ascii by simp
  then have "normalize_handle (map to_ascii_lowercase) ''asha'' = Inr ''asha'' \<longleftrightarrow> \<not> handle_is_reserved ''asha''"
    "normalize_handle (map to_ascii_lowercase) ''abuse'' = Inr ''abuse'' \<longleftrightarrow> \<not> handle_is_reserved ''abuse''"
    by (simp_all only: abuse_corpus_def list.set ball_simps insert_iff corpus.select_convs persona.select_convs simp_thms)
  then show ?thesis using v r by simp
qed

section \<open>Key files\<close>

text \<open>
  Both parts keep a key as \<open>{"secret_key": ...}\<close>, the identity provider in base64url and the
  command line in hex.  What the encodings are documented to do: 32 bytes are 43 digits of base64url
  without padding, 64 digits of it are 48 bytes, hex has two digits for each byte and nothing else is
  hex, neither has white space, and a key is 32 bytes.
\<close>

definition encodings_ok :: "('sk, 'pk, 'sig) app_api \<Rightarrow> ('sk, 'ag) cli_lib \<Rightarrow> 'k key_codec \<Rightarrow> bool" where
  "encodings_ok api lib cd \<longleftrightarrow>
     (\<forall>s. parse_json api (json_pretty cd (mk_obj [(''secret_key'', JStr s)])) = Inr (mk_obj [(''secret_key'', JStr s)])) \<and>
     (\<forall>s. json_parse cd (pretty_text lib (mk_obj [(''secret_key'', JStr s)])) = Inr (mk_obj [(''secret_key'', JStr s)])) \<and>
     (\<forall>k. length (b64_encode cd (key_secret cd k)) = 43 \<and>
        trim (b64_encode cd (key_secret cd k)) = b64_encode cd (key_secret cd k)) \<and>
     (\<forall>s b. length s = 64 \<and> b64_decode cd s = Inr b \<longrightarrow> length b = 48) \<and>
     (\<forall>b. length b \<noteq> 32 \<longrightarrow> (\<exists>e. key_from_seed cd b = Inl e)) \<and>
     (\<forall>s. odd (length s) \<longrightarrow> (\<exists>e. hex_decode api s = Inl e)) \<and>
     (\<forall>b. length (hex_encode api b) = 2 * length b)"

lemma provider_key_text:
  assumes "load_or_generate_named_keypair cd env fresh (Inr ()) se je path fs = (Inr k, fs')"
    "env se = None" "env je = None" "fs path = None"
  shows "fs' path = Some (json_pretty cd (mk_obj [(''secret_key'', JStr (b64_encode cd (key_secret cd fresh)))]))"
  using assms by (auto simp: load_or_generate_named_keypair_def)

text \<open>C38: A key file that the identity provider writes is never one that \<open>mingo genesis\<close> loads with
  \<open>--domain-key-file\<close>, though the provider's key is the one that option is meant for; and a key file
  that \<open>mingo genesis\<close> writes is never one that the provider loads.\<close>
theorem key_files_differ:
  assumes enc: "encodings_ok api lib cd"
  shows "(load_or_generate_named_keypair cd env fresh (Inr ()) se je path fs = (Inr k, fs') \<and>
      env se = None \<and> env je = None \<and> fs path = None \<longrightarrow>
      (\<exists>e. load_domain_key_file api (\<lambda>p. ok_or (fs' p) ''No such file or directory'') path = Inl e)) \<and>
    (length (key_bytes lib key) = 32 \<and> env se = None \<and> env je = None \<and>
      fs path = Some (pretty_text lib (key_file_json api lib key)) \<longrightarrow>
      (\<exists>e. load_or_generate_named_keypair cd env fresh (Inr ()) se je path fs = (Inl e, fs)))"
proof (intro conjI impI; elim conjE)
  assume "load_or_generate_named_keypair cd env fresh (Inr ()) se je path fs = (Inr k, fs')"
    "env se = None" "env je = None" "fs path = None"
  then have t: "fs' path = Some (json_pretty cd (mk_obj [(''secret_key'', JStr (b64_encode cd (key_secret cd fresh)))]))"
    by (rule provider_key_text)
  have l: "length (b64_encode cd (key_secret cd fresh)) = 43" and
    hex: "\<And>s. odd (length s) \<Longrightarrow> \<exists>e. hex_decode api s = Inl e"
    using enc unfolding encodings_ok_def by blast+
  have "odd (length (b64_encode cd (key_secret cd fresh)))" by (simp add: l)
  then obtain e where "hex_decode api (b64_encode cd (key_secret cd fresh)) = Inl e" using hex by blast
  then show "\<exists>e. load_domain_key_file api (\<lambda>p. ok_or (fs' p) ''No such file or directory'') path = Inl e"
    using enc by (simp add: load_domain_key_file_def t encodings_ok_def res_bind_def ok_or_def map_err_def str_field_def)
next
  assume l: "length (key_bytes lib key) = 32" and p: "env se = None" "env je = None"
    "fs path = Some (pretty_text lib (key_file_json api lib key))"
  let ?t = "hex_encode api (key_bytes lib key)"
  have "length ?t = 64" using enc l by (simp add: encodings_ok_def)
  moreover have "length s = 64 \<Longrightarrow> b64_decode cd s = Inr b \<Longrightarrow> length b = 48"
    and "length b \<noteq> 32 \<Longrightarrow> \<exists>e. key_from_seed cd b = Inl e" for s b
    using enc unfolding encodings_ok_def by blast+
  ultimately have "b64_decode cd ?t = Inr b \<Longrightarrow> \<exists>e. key_from_seed cd b = Inl e" for b
    by fastforce
  then have "\<exists>e. key_of_secret cd ?t = Inl e"
    by (cases "b64_decode cd ?t") (auto simp: key_of_secret_def res_bind_def map_err_def)
  then show "\<exists>e. load_or_generate_named_keypair cd env fresh (Inr ()) se je path fs = (Inl e, fs)"
    using enc p by (auto simp: load_or_generate_named_keypair_def key_of_json_def key_file_json_def encodings_ok_def
        res_bind_def ok_or_def str_field_def)
qed

definition demo_encodings :: "unit key_codec" where
  "demo_encodings = \<lparr>b64_decode = (\<lambda>s. Inr (take (if length s = 64 then 48 else length s - 11) s)),
     b64_encode = (\<lambda>s. s @ replicate 11 CHR ''x''),
     json_parse = (\<lambda>s. Inr (mk_obj [(''secret_key'', JStr s)])),
     json_pretty = (\<lambda>j. case str_field ''secret_key'' j of None \<Rightarrow> [] | Some s \<Rightarrow> s),
     key_from_seed = (\<lambda>b. if length b = 32 then Inr () else Inl ''length''), key_secret = (\<lambda>k. demo_key)\<rparr>"

definition demo_hex_app :: "(string, string, string) app_api" where
  "demo_hex_app = demo_cli_app\<lparr>hex_encode := (\<lambda>b. b @ b),
     hex_decode := (\<lambda>s. if odd (length s) then Inl ''odd'' else Inr (take (length s div 2) s))\<rparr>"

lemma key_files_differ_witness:
  "\<exists>e e'. load_domain_key_file demo_hex_app (\<lambda>p. ok_or (snd (load_or_generate_named_keypair demo_encodings
      Map.empty () (Inr ()) ''S'' ''J'' ''f'' Map.empty) p) ''No such file or directory'') ''f'' = Inl e \<and>
    load_or_generate_named_keypair demo_encodings Map.empty () (Inr ()) ''S'' ''J'' ''c''
      [''c'' \<mapsto> pretty_text demo_cli_lib (key_file_json demo_hex_app demo_cli_lib demo_key)] =
      (Inl e', [''c'' \<mapsto> pretty_text demo_cli_lib (key_file_json demo_hex_app demo_cli_lib demo_key)])"
proof -
  have d: "length demo_key = 32" "trim (demo_key @ replicate 11 CHR ''x'') = demo_key @ replicate 11 CHR ''x''"
    by code_simp+
  have enc: "encodings_ok demo_hex_app demo_cli_lib demo_encodings"
    using d by (auto simp: encodings_ok_def demo_hex_app_def demo_cli_app_def demo_cli_lib_def demo_encodings_def
        str_field_def)
  have k: "length (key_bytes demo_cli_lib demo_key) = 32" by (simp add: demo_cli_lib_def d)
  have r: "load_or_generate_named_keypair demo_encodings Map.empty () (Inr ()) ''S'' ''J'' ''f'' Map.empty =
      (Inr (), snd (load_or_generate_named_keypair demo_encodings Map.empty () (Inr ()) ''S'' ''J'' ''f'' Map.empty))"
    by (simp add: load_or_generate_named_keypair_def)
  show ?thesis
    using key_files_differ [OF enc, of Map.empty "()" "''S''" "''J''" "''f''" Map.empty "()"] r
      key_files_differ [OF enc, of Map.empty "()" "''S''" "''J''" "''c''" "[''c'' \<mapsto> pretty_text demo_cli_lib (key_file_json demo_hex_app demo_cli_lib demo_key)]" _ _ demo_key] k
    by auto
qed

end
